(* ===== verification/Prelude.thy ===== *)
theory Prelude
  imports Main "HOL-Library.Word" "HOL-Library.Monad_Syntax"
begin

text \<open>
  Shared vocabulary of the development: the machine integers and byte strings of the Rust
  sources, the little- and big-endian conversions of the Rust standard library
  (\<open>to_le_bytes\<close>, \<open>from_le_bytes\<close>, \<open>from_be_bytes\<close>), decimal formatting, and generic facts
  on lists, words and byte strings that the components share.
\<close>

unbundle bit_operations_syntax

type_synonym u8 = "8 word"
type_synonym u16 = "16 word"
type_synonym u32 = "32 word"
type_synonym u64 = "64 word"
type_synonym i64 = "64 word"  \<comment> \<open>two's complement: read with \<open>sint\<close>\<close>
type_synonym bytes = "u8 list"
type_synonym pubkey = bytes

named_theorems layout_simps \<open>fixed-size encodings: lengths and field offsets\<close>
named_theorems codec_simps \<open>serialisers and deserialisers: one step of a round trip\<close>
named_theorems result_simps \<open>when a fallible computation succeeds\<close>


section \<open>Byte strings of ASCII literals\<close>

definition ascii :: "string \<Rightarrow> bytes" where
  "ascii s = map of_char s"

lemma length_ascii [simp]: "length (ascii s) = length s"
  by (simp add: ascii_def)


section \<open>Little- and big-endian integers\<close>

fun le_bytes :: "nat \<Rightarrow> nat \<Rightarrow> bytes" where
  "le_bytes 0 k = []"
| "le_bytes (Suc n) k = of_nat (k mod 256) # le_bytes n (k div 256)"

fun le_nat :: "bytes \<Rightarrow> nat" where
  "le_nat [] = 0"
| "le_nat (b # bs) = unat b + 256 * le_nat bs"

definition be_nat :: "bytes \<Rightarrow> nat" where
  "be_nat bs = le_nat (rev bs)"

lemma length_le_bytes [simp, layout_simps]: "length (le_bytes n k) = n"
  by (induction n arbitrary: k) auto

lemma unat_lt_256: "unat (b :: u8) < 256"
  using unsigned_less [of b] by simp

lemma le_nat_less: "le_nat bs < 256 ^ length bs"
proof (induction bs)
  case (Cons b bs)
  then have "Suc (le_nat bs) * 256 \<le> 256 ^ length bs * 256"
    by (intro mult_right_mono) auto
  with unat_lt_256 [of b] show ?case by simp
qed simp

lemma le_nat_le_bytes: "k < 256 ^ n \<Longrightarrow> le_nat (le_bytes n k) = k"
proof (induction n arbitrary: k)
  case (Suc n)
  then have "k div 256 < 256 ^ n"
    by (simp add: less_mult_imp_div_less mult.commute)
  with Suc.IH have "le_nat (le_bytes n (k div 256)) = k div 256" by blast
  then show ?case by (simp add: unat_of_nat)
qed simp

lemma le_bytes_le_nat: "le_bytes (length bs) (le_nat bs) = bs"
proof (induction bs)
  case (Cons b bs)
  have "(unat b + 256 * le_nat bs) div 256 = le_nat bs"
    using unat_lt_256 [of b] by simp
  moreover have "of_nat ((unat b + 256 * le_nat bs) mod 256) = b"
    using unat_lt_256 [of b] by simp
  ultimately show ?case by (simp add: Cons.IH)
qed simp

lemma le_nat_append: "le_nat (xs @ ys) = le_nat xs + 256 ^ length xs * le_nat ys"
  by (induction xs) (simp_all add: algebra_simps)

lemma le_nat_zeros [simp]: "le_nat (replicate n 0) = 0"
  by (induction n) simp_all

text \<open>Leading zeros do not count in a big-endian number.\<close>

lemma be_nat_zeros [simp]: "be_nat (replicate n 0 @ bs) = be_nat bs"
  by (simp add: be_nat_def le_nat_append)

lemma be_nat_less: "be_nat bs < 256 ^ length bs"
  using le_nat_less [of "rev bs"] by (simp add: be_nat_def)

lemma be_nat_snoc: "be_nat (bs @ [b]) = 256 * be_nat bs + unat b"
  by (simp add: be_nat_def)

text \<open>The shortest big-endian form of a number, empty for zero.\<close>

fun be_minimal :: "nat \<Rightarrow> bytes" where
  "be_minimal n = (if n = 0 then [] else be_minimal (n div 256) @ [of_nat (n mod 256)])"

declare be_minimal.simps [simp del]

lemma be_nat_be_minimal: "be_nat (be_minimal n) = n"
proof (induction n rule: be_minimal.induct)
  case (1 n)
  show ?case
  proof (cases "n = 0")
    case True
    then show ?thesis by (simp add: be_minimal.simps be_nat_def)
  next
    case False
    have "be_nat (be_minimal n) = 256 * (n div 256) + unat (of_nat (n mod 256) :: u8)"
      using 1 False by (subst be_minimal.simps) (simp add: be_nat_snoc)
    then show ?thesis by (simp add: unat_of_nat)
  qed
qed

lemma length_be_minimal: "n < 256 ^ k \<Longrightarrow> length (be_minimal n) \<le> k"
proof (induction k arbitrary: n)
  case 0
  then show ?case by (simp add: be_minimal.simps)
next
  case (Suc k)
  then have "n div 256 < 256 ^ k" by (simp add: less_mult_imp_div_less mult.commute)
  with Suc.IH [of "n div 256"] show ?case by (subst be_minimal.simps) simp
qed

text \<open>The conversions at the widths the sources use.\<close>

definition u16_to_le :: "u16 \<Rightarrow> bytes" where
  "u16_to_le w = le_bytes 2 (unat w)"

definition u64_to_le :: "u64 \<Rightarrow> bytes" where
  "u64_to_le w = le_bytes 8 (unat w)"

definition u16_from_le :: "bytes \<Rightarrow> u16" where
  "u16_from_le bs = of_nat (le_nat bs)"

definition u64_from_le :: "bytes \<Rightarrow> u64" where
  "u64_from_le bs = of_nat (le_nat bs)"

definition u32_from_be :: "bytes \<Rightarrow> u32" where
  "u32_from_be bs = of_nat (be_nat bs)"

lemma length_u16_to_le [simp, layout_simps]: "length (u16_to_le w) = 2"
  by (simp add: u16_to_le_def)

lemma length_u64_to_le [simp, layout_simps]: "length (u64_to_le w) = 8"
  by (simp add: u64_to_le_def)

lemma u16_from_to_le [simp]: "u16_from_le (u16_to_le w) = w"
proof -
  have "unat w < 256 ^ 2" using unsigned_less [of w] by simp
  then show ?thesis by (simp add: u16_from_le_def u16_to_le_def le_nat_le_bytes)
qed

lemma u64_from_to_le [simp]: "u64_from_le (u64_to_le w) = w"
proof -
  have "unat w < 256 ^ 8" using unsigned_less [of w] by simp
  then show ?thesis by (simp add: u64_from_le_def u64_to_le_def le_nat_le_bytes)
qed

lemma u16_to_from_le [simp]: "length bs = 2 \<Longrightarrow> u16_to_le (u16_from_le bs) = bs"
  using le_nat_less [of bs] le_bytes_le_nat [of bs]
  by (simp add: u16_from_le_def u16_to_le_def unat_of_nat)

lemma u64_to_from_le [simp]: "length bs = 8 \<Longrightarrow> u64_to_le (u64_from_le bs) = bs"
  using le_nat_less [of bs] le_bytes_le_nat [of bs]
  by (simp add: u64_from_le_def u64_to_le_def unat_of_nat)

lemma u16_to_le_inj [simp]: "u16_to_le a = u16_to_le b \<longleftrightarrow> a = b"
  by (metis u16_from_to_le)

lemma u64_to_le_inj [simp]: "u64_to_le a = u64_to_le b \<longleftrightarrow> a = b"
  by (metis u64_from_to_le)


section \<open>Checked and saturating arithmetic\<close>

definition checked_sub :: "'a::len word \<Rightarrow> 'a word \<Rightarrow> 'a word option" where
  "checked_sub a b = (if b \<le> a then Some (a - b) else None)"

definition checked_add :: "'a::len word \<Rightarrow> 'a word \<Rightarrow> 'a word option" where
  "checked_add a b = (if unat a + unat b < 2 ^ LENGTH('a) then Some (a + b) else None)"

definition saturating_add :: "'a::len word \<Rightarrow> 'a word \<Rightarrow> 'a word" where
  "saturating_add a b = (if unat a + unat b < 2 ^ LENGTH('a) then a + b else - 1)"

lemma checked_sub_unat: "checked_sub a b = Some c \<longleftrightarrow> unat b \<le> unat a \<and> unat c = unat a - unat b"
  by (auto simp: checked_sub_def word_le_nat_alt unat_sub_if' word_unat_eq_iff)

lemma checked_add_unat: "checked_add a b = Some (c :: 'a::len word) \<longleftrightarrow> unat c = unat a + unat b"
proof
  assume "checked_add a b = Some c"
  then show "unat c = unat a + unat b"
    by (auto simp: checked_add_def unat_word_ariths split: if_splits)
next
  assume c: "unat c = unat a + unat b"
  moreover have "unat c < 2 ^ LENGTH('a)" by (rule unsigned_less)
  moreover have "a + b = c"
    using c by (simp add: word_unat_eq_iff unat_word_ariths) (metis mod_less unsigned_less)
  ultimately show "checked_add a b = Some c" by (simp add: checked_add_def)
qed

lemma circle_distance:
  assumes "a < 1000" and "b < (1000::nat)"
  shows "(a + 1000 - b) mod 1000 = (if b \<le> a then a - b else a + (1000 - b))"
proof (cases "b \<le> a")
  case True
  then have "(a + 1000 - b) mod 1000 = ((a - b) + 1000) mod 1000" by (simp only: diff_add_assoc2)
  also have "\<dots> = a - b" using assms by simp
  finally show ?thesis using True by simp
qed (use assms in simp)


section \<open>Decimal formatting of unsigned integers\<close>

text \<open>The digits \<open>format!("{}", n)\<close> prints for an unsigned integer.\<close>

fun decimal :: "nat \<Rightarrow> bytes" where
  "decimal n = (if n < 10 then [of_nat (48 + n)] else decimal (n div 10) @ [of_nat (48 + n mod 10)])"

declare decimal.simps [simp del]

fun decimal_value :: "bytes \<Rightarrow> nat \<Rightarrow> nat" where
  "decimal_value [] acc = acc"
| "decimal_value (d # ds) acc = decimal_value ds (10 * acc + (unat d - 48))"

lemma decimal_value_snoc: "decimal_value (ds @ [d]) acc = 10 * decimal_value ds acc + (unat d - 48)"
  by (induction ds arbitrary: acc) auto

lemma unat_digit: "d < 10 \<Longrightarrow> unat (of_nat (48 + d) :: u8) = 48 + d"
  by (subst unat_of_nat) simp

lemma decimal_value_decimal: "decimal_value (decimal n) 0 = n"
proof (induction n rule: decimal.induct)
  case (1 n)
  show ?case
  proof (cases "n < 10")
    case True
    then show ?thesis
      using unat_digit [of n] by (subst decimal.simps) simp
  next
    case False
    then show ?thesis
      using 1 unat_digit [of "n mod 10"] by (subst decimal.simps) (simp add: decimal_value_snoc)
  qed
qed

lemma decimal_inj: "decimal m = decimal n \<longleftrightarrow> m = n"
  by (metis decimal_value_decimal)

lemma decimal_digits: "d \<in> set (decimal n) \<Longrightarrow> 48 \<le> unat d \<and> unat d \<le> 57"
proof (induction n arbitrary: d rule: decimal.induct)
  case (1 n)
  show ?case
  proof (cases "n < 10")
    case True
    with 1(2) have "d = of_nat (48 + n)" by (subst (asm) decimal.simps) simp
    with True unat_digit [of n] show ?thesis by simp
  next
    case False
    with 1(2) have "d \<in> set (decimal (n div 10)) \<or> d = of_nat (48 + n mod 10)"
      by (subst (asm) decimal.simps) auto
    then show ?thesis
      using 1(1) [OF False] unat_digit [of "n mod 10"] by auto
  qed
qed


section \<open>Lists\<close>

text \<open>Two concatenations that agree, with first parts of equal length, agree part by part.\<close>

lemma append_eq_by_length:
  "length xs = length us \<Longrightarrow> xs @ ys = us @ vs \<longleftrightarrow> xs = us \<and> ys = vs"
  by simp

lemma take_drop_append_exact [simp]:
  "length xs = n \<Longrightarrow> take n (xs @ ys) = xs"
  "length xs = n \<Longrightarrow> drop n (xs @ ys) = ys"
  by auto

lemma concat_fixed_width:
  assumes "length xs = length ys" and "\<forall>x \<in> set xs. length (f x) = n" and "\<forall>y \<in> set ys. length (g y) = n"
    and "concat (map f xs) @ r = concat (map g ys) @ s"
  shows "map f xs = map g ys \<and> r = s"
  using assms by (induction xs ys rule: list_induct2) auto

lemma of_nat_u8_inj: "m < 256 \<Longrightarrow> n < 256 \<Longrightarrow> (of_nat m :: u8) = of_nat n \<longleftrightarrow> m = n"
  by (simp add: word_unat_eq_iff unat_of_nat)

lemma split_at_first_occurrence:
  assumes "xs @ c # ys = us @ c # vs" and "c \<notin> set xs" and "c \<notin> set us"
  shows "xs = us \<and> ys = vs"
  using assms
proof (induction xs arbitrary: us)
  case Nil
  then show ?case by (cases us) auto
next
  case (Cons x xs)
  then show ?case by (cases us) auto
qed

text \<open>
  A byte string overwritten in place at an offset: what a store through a pointer into the
  buffer leaves behind.
\<close>

definition overwrite :: "bytes \<Rightarrow> bytes \<Rightarrow> bytes" where
  "overwrite new buf = new @ drop (length new) buf"

lemma length_overwrite [simp]: "length new \<le> length buf \<Longrightarrow> length (overwrite new buf) = length buf"
  by (simp add: overwrite_def)

lemma take_overwrite [simp]: "take (length new) (overwrite new buf) = new"
  by (simp add: overwrite_def)

lemma overwrite_overwrite [simp]:
  "length a = length b \<Longrightarrow> overwrite a (overwrite b buf) = overwrite a buf"
  by (simp add: overwrite_def)

end
