(* ===== verification/Errors.thy ===== *)
theory Errors
  imports Prelude
begin

text \<open>
  The error type of the program (\<open>src/errors.rs\<close>), the \<open>ProgramError\<close> of the runtime library
  it is converted to, and the outcome type every fallible function of the model returns:
  \<open>Ok\<close>, \<open>Err\<close> (an error returned to the runtime) or \<open>Panic\<close> (\<open>assert!\<close>, \<open>unwrap\<close>, an index out of
  range).  The runtime discards every account change of a transaction whose program returns
  an error or panics, so neither carries a state.
\<close>

section \<open>Outcomes\<close>

text \<open>
  The variants of the runtime library's \<open>ProgramError\<close> that the sources name;
  \<open>LibraryError\<close> stands for the others, which only library calls return.
\<close>

datatype program_error =
    Custom u32
  | InvalidArgument
  | InvalidInstructionData
  | InvalidAccountData
  | InvalidAccountOwner
  | NotEnoughAccountKeys
  | UnsupportedSysvar
  | LibraryError nat

datatype 'a result = Ok (the_ok: 'a) | Err program_error | Panic

text \<open>Rust's \<open>?\<close>: continue with the value, or stop with the error.\<close>

fun and_then :: "'a result \<Rightarrow> ('a \<Rightarrow> 'b result) \<Rightarrow> 'b result" where
  "and_then (Ok x) f = f x"
| "and_then (Err e) f = Err e"
| "and_then Panic f = Panic"

text \<open>\<open>if !b { return Err(e) }\<close> and \<open>assert!(b)\<close>.\<close>

definition ensure :: "bool \<Rightarrow> program_error \<Rightarrow> unit result" where
  "ensure b e = (if b then Ok () else Err e)"

definition assert_that :: "bool \<Rightarrow> unit result" where
  "assert_that b = (if b then Ok () else Panic)"

text \<open>\<open>ok_or\<close> and \<open>unwrap\<close> on an \<open>Option\<close>; \<open>map_err\<close> on a \<open>Result\<close> (a panic stays a panic).\<close>

definition ok_or :: "'a option \<Rightarrow> program_error \<Rightarrow> 'a result" where
  "ok_or x e = (case x of Some v \<Rightarrow> Ok v | None \<Rightarrow> Err e)"

definition unwrap :: "'a option \<Rightarrow> 'a result" where
  "unwrap x = (case x of Some v \<Rightarrow> Ok v | None \<Rightarrow> Panic)"

fun map_err :: "'a result \<Rightarrow> program_error \<Rightarrow> 'a result" where
  "map_err (Ok x) e = Ok x"
| "map_err (Err _) e = Err e"
| "map_err Panic e = Panic"

text \<open>Slice indexing \<open>xs[i]\<close>, \<open>xs[a..b]\<close> and \<open>split_at\<close>, which panic out of range.\<close>

definition index :: "'a list \<Rightarrow> nat \<Rightarrow> 'a result" where
  "index xs i = (if i < length xs then Ok (xs ! i) else Panic)"

definition slice :: "'a list \<Rightarrow> nat \<Rightarrow> nat \<Rightarrow> 'a list result" where
  "slice xs a b = (if a \<le> b \<and> b \<le> length xs then Ok (take (b - a) (drop a xs)) else Panic)"

definition split_at :: "'a list \<Rightarrow> nat \<Rightarrow> ('a list \<times> 'a list) result" where
  "split_at xs n = (if n \<le> length xs then Ok (take n xs, drop n xs) else Panic)"

text \<open>A fallible function over every element in turn, stopping at the first failure.\<close>

fun map_result :: "('a \<Rightarrow> 'b result) \<Rightarrow> 'a list \<Rightarrow> 'b list result" where
  "map_result f [] = Ok []"
| "map_result f (x # xs) = and_then (f x) (\<lambda>y. and_then (map_result f xs) (\<lambda>ys. Ok (y # ys)))"

lemma and_then_eq_Ok [result_simps]: "and_then m f = Ok y \<longleftrightarrow> (\<exists>x. m = Ok x \<and> f x = Ok y)"
  by (cases m) auto

lemma and_then_eq_Err: "and_then m f = Err e \<longleftrightarrow> m = Err e \<or> (\<exists>x. m = Ok x \<and> f x = Err e)"
  by (cases m) auto

lemma and_then_assoc: "and_then (and_then m f) g = and_then m (\<lambda>x. and_then (f x) g)"
  by (cases m) auto

lemma ensure_eq_Ok [result_simps]: "ensure b e = Ok u \<longleftrightarrow> b"
  by (simp add: ensure_def)

lemma assert_that_eq_Ok [result_simps]: "assert_that b = Ok u \<longleftrightarrow> b"
  by (simp add: assert_that_def)

lemma ok_or_eq_Ok [result_simps]: "ok_or x e = Ok v \<longleftrightarrow> x = Some v"
  by (simp add: ok_or_def split: option.splits)

lemma unwrap_eq_Ok [result_simps]: "unwrap x = Ok v \<longleftrightarrow> x = Some v"
  by (simp add: unwrap_def split: option.splits)

lemma map_err_eq_Ok [result_simps]: "map_err x e = Ok v \<longleftrightarrow> x = Ok v"
  by (cases x) auto

lemma index_eq_Ok [result_simps]: "index xs i = Ok v \<longleftrightarrow> i < length xs \<and> xs ! i = v"
  by (simp add: index_def)

lemma slice_eq_Ok [result_simps]:
  "slice xs a b = Ok ys \<longleftrightarrow> a \<le> b \<and> b \<le> length xs \<and> take (b - a) (drop a xs) = ys"
  by (auto simp: slice_def)

lemma split_at_eq_Ok [result_simps]:
  "split_at xs n = Ok p \<longleftrightarrow> n \<le> length xs \<and> p = (take n xs, drop n xs)"
  by (auto simp: split_at_def)

lemma map_result_index [result_simps]:
  "map_result (\<lambda>i. index xs (f i)) is = Ok ys \<longleftrightarrow>
     (\<forall>i \<in> set is. f i < length xs) \<and> ys = map (\<lambda>i. xs ! f i) is"
  by (induction "is" arbitrary: ys) (auto simp: and_then_eq_Ok index_eq_Ok)

lemma ensure_simps [simp]: "ensure True e = Ok ()" "ensure False e = Err e"
  by (simp_all add: ensure_def)

lemma assert_that_simps [simp]: "assert_that True = Ok ()" "assert_that False = Panic"
  by (simp_all add: assert_that_def)

lemma ok_or_simps [simp]: "ok_or (Some v) e = Ok v" "ok_or None e = Err e"
  by (simp_all add: ok_or_def)

lemma unwrap_simps [simp]: "unwrap (Some v) = Ok v" "unwrap None = Panic"
  by (simp_all add: unwrap_def)

lemma length_slice: "slice xs a b = Ok ys \<Longrightarrow> length ys = b - a"
  by (auto simp: slice_eq_Ok)


section \<open>The program's own errors\<close>

datatype external_signature_program_error =
    InvalidSlothashIndex
  | InvalidTruncatedSlot
  | ExpiredSlothash
  | MissingNonceSignature
  | CPINotAllowed
  | InvalidInstructionSysvarAccount
  | InvalidPrecompileId
  | InvalidNumPrecompileSignatures
  | InvalidSignatureIndex
  | InvalidSignatureOffset
  | ErrorInitializingHeader
  | ErrorDeserializingHeader
  | ErrorInitializingAccountData
  | ErrorDeserializingAccountData
  | InvalidExtraVerificationDataArgs
  | InvalidExecutionArgs
  | SessionSignerNotASigner
  | InvalidSessionKey
  | SessionKeyExpired
  | InvalidSessionKeyExpiration
  | InvalidSignatureScheme
  | InvalidSignerExecutionScheme
  | SignerExecutionAccountNotASigner
  | P256RelyingPartTooLong
  | P256RelyingPartIncludeQuotes
  | P256RelyingPartyMismatch
  | P256ClientDataHashMismatch
  | P256AccountNotWritable
  | P256InvalidAlgorithm
  | P256InvalidPublicKeyEncoding
  | P256PublicKeyMismatch
  | P256UserNotVerified
  | P256UserNotPresent

text \<open>
  \<open>e as u32\<close> for a \<open>repr(u32)\<close> enum without explicit discriminants: the position of the
  variant in its declaration.
\<close>

fun error_code :: "external_signature_program_error \<Rightarrow> u32" where
  "error_code InvalidSlothashIndex = 0"
| "error_code InvalidTruncatedSlot = 1"
| "error_code ExpiredSlothash = 2"
| "error_code MissingNonceSignature = 3"
| "error_code CPINotAllowed = 4"
| "error_code InvalidInstructionSysvarAccount = 5"
| "error_code InvalidPrecompileId = 6"
| "error_code InvalidNumPrecompileSignatures = 7"
| "error_code InvalidSignatureIndex = 8"
| "error_code InvalidSignatureOffset = 9"
| "error_code ErrorInitializingHeader = 10"
| "error_code ErrorDeserializingHeader = 11"
| "error_code ErrorInitializingAccountData = 12"
| "error_code ErrorDeserializingAccountData = 13"
| "error_code InvalidExtraVerificationDataArgs = 14"
| "error_code InvalidExecutionArgs = 15"
| "error_code SessionSignerNotASigner = 16"
| "error_code InvalidSessionKey = 17"
| "error_code SessionKeyExpired = 18"
| "error_code InvalidSessionKeyExpiration = 19"
| "error_code InvalidSignatureScheme = 20"
| "error_code InvalidSignerExecutionScheme = 21"
| "error_code SignerExecutionAccountNotASigner = 22"
| "error_code P256RelyingPartTooLong = 23"
| "error_code P256RelyingPartIncludeQuotes = 24"
| "error_code P256RelyingPartyMismatch = 25"
| "error_code P256ClientDataHashMismatch = 26"
| "error_code P256AccountNotWritable = 27"
| "error_code P256InvalidAlgorithm = 28"
| "error_code P256InvalidPublicKeyEncoding = 29"
| "error_code P256PublicKeyMismatch = 30"
| "error_code P256UserNotVerified = 31"
| "error_code P256UserNotPresent = 32"

text \<open>\<open>impl From<ExternalSignatureProgramError> for ProgramError\<close>; the log line it prints is not modelled.\<close>

definition prog_err :: "external_signature_program_error \<Rightarrow> program_error" where
  "prog_err e = Custom (error_code e)"

text \<open>Distinct errors stay distinct for the client, which sees only the code.\<close>

lemma error_code_inj: "error_code a = error_code b \<longleftrightarrow> a = b"
  by (cases a; cases b) simp_all

lemma prog_err_inj [simp]: "prog_err a = prog_err b \<longleftrightarrow> a = b"
  by (simp add: prog_err_def error_code_inj)

lemma prog_err_distinct [simp]:
  "prog_err e \<noteq> InvalidArgument" "prog_err e \<noteq> InvalidInstructionData"
  "prog_err e \<noteq> InvalidAccountData" "prog_err e \<noteq> InvalidAccountOwner"
  "prog_err e \<noteq> NotEnoughAccountKeys" "prog_err e \<noteq> UnsupportedSysvar"
  by (simp_all add: prog_err_def)

end
