(* ===== verification/Borsh.thy ===== *)
theory Borsh
  imports Prelude
begin

text \<open>
  The interface of the \<open>borsh\<close> crate that the sources use, as a parameter: a record of the
  primitive readers and writers, and the locale \<open>borsh_format\<close> with the laws of the published
  wire format the code relies on.  On top of the primitives stand the pieces that
  \<open>#[derive(BorshSerialize, BorshDeserialize)]\<close> composes (one field after the other), and the
  locale \<open>codec\<close>: what a serialiser and its deserialiser promise to the code that exchanges
  bytes through them.
\<close>

section \<open>Readers and writers\<close>

text \<open>
  A reader consumes a prefix of its input.  All I/O errors are alike to the sources, which map
  every one of them to a single program error.
\<close>

type_synonym 'a reader = "bytes \<Rightarrow> ('a \<times> bytes) option"
type_synonym 'a writer = "'a \<Rightarrow> bytes option"

record borsh =
  read_u8 :: "u8 reader"
  read_u16 :: "u16 reader"
  read_u64 :: "u64 reader"
  read_array :: "nat \<Rightarrow> bytes reader"                       \<comment> \<open>\<open>[u8; N]\<close>\<close>
  read_option_tag :: "bool reader"                         \<comment> \<open>is an \<open>Option\<close> a \<open>Some\<close>?\<close>
  u8_vec_from_reader :: "nat \<Rightarrow> bytes \<Rightarrow> (bytes option \<times> bytes) option"
  write_u8 :: "u8 \<Rightarrow> bytes"
  write_u16 :: "u16 \<Rightarrow> bytes"
  write_u64 :: "u64 \<Rightarrow> bytes"
  write_array :: "bytes \<Rightarrow> bytes"
  write_option_tag :: "bool \<Rightarrow> bytes"
  u8_u8_slice :: "bytes \<Rightarrow> bytes option"

text \<open>\<open>Option<T>\<close>, \<open>BorshDeserialize::try_from_slice\<close> (which wants the whole input consumed).\<close>

definition read_option :: "borsh \<Rightarrow> 'a reader \<Rightarrow> 'a option reader" where
  "read_option B rd bs = do {
     (some, bs) \<leftarrow> read_option_tag B bs;
     if some then do { (x, bs) \<leftarrow> rd bs; Some (Some x, bs) } else Some (None, bs) }"

definition write_option :: "borsh \<Rightarrow> 'a writer \<Rightarrow> 'a option writer" where
  "write_option B wr x =
     (case x of
        None \<Rightarrow> Some (write_option_tag B False)
      | Some v \<Rightarrow> do { b \<leftarrow> wr v; Some (write_option_tag B True @ b) })"

definition try_from_slice :: "'a reader \<Rightarrow> bytes \<Rightarrow> 'a option" where
  "try_from_slice rd bs = (case rd bs of Some (x, []) \<Rightarrow> Some x | _ \<Rightarrow> None)"

lemma try_from_slice_eq_Some: "try_from_slice rd bs = Some x \<longleftrightarrow> rd bs = Some (x, [])"
  by (auto simp: try_from_slice_def split: option.splits prod.splits list.splits)

text \<open>The default hooks of a type that is not \<open>u8\<close>.\<close>

definition no_vec_from_reader :: "nat \<Rightarrow> bytes \<Rightarrow> ('a list option \<times> bytes) option" where
  "no_vec_from_reader n bs = Some (None, bs)"

definition no_u8_slice :: "'a list \<Rightarrow> bytes option" where
  "no_u8_slice xs = None"


section \<open>What a serialiser and its deserialiser promise\<close>

text \<open>
  \<open>read_write\<close>: what was written is read back, whatever follows it.  \<open>write_read\<close>: what was
  read is the one encoding of the value.  Clients get injectivity, prefix-freeness and the
  whole-slice forms from these two laws.
\<close>

locale codec =
  fixes wr :: "'a writer" and rd :: "'a reader"
  assumes read_write: "wr x = Some bs \<Longrightarrow> rd (bs @ rest) = Some (x, rest)"
    and write_read: "rd bs = Some (x, rest) \<Longrightarrow> \<exists>c. wr x = Some c \<and> bs = c @ rest"
begin

lemma prefix_free:
  assumes "wr x = Some a" and "wr y = Some b" and "a @ r = b @ s"
  shows "x = y \<and> a = b \<and> r = s"
  using assms read_write [of x a r] read_write [of y b s] by auto

lemma injective: "wr x = Some a \<Longrightarrow> wr y = Some a \<Longrightarrow> x = y"
  using prefix_free [of x a y a "[]" "[]"] by simp

lemma slice_round_trip: "wr x = Some bs \<Longrightarrow> try_from_slice rd bs = Some x"
  using read_write [of x bs "[]"] by (simp add: try_from_slice_eq_Some)

lemma slice_canonical: "try_from_slice rd bs = Some x \<longleftrightarrow> wr x = Some bs"
  using slice_round_trip write_read by (fastforce simp: try_from_slice_eq_Some)

lemma consumes_prefix: "rd bs = Some (x, rest) \<Longrightarrow> \<exists>c. bs = c @ rest \<and> rd c = Some (x, [])"
  using write_read [of bs x rest] read_write [of x _ "[]"] by fastforce

end


section \<open>The wire format\<close>

text \<open>
  Borsh's specification: integers little-endian at their width, arrays as their bytes, an
  option as a tag byte 0 or 1 and then the value; a reader that runs out of input fails.
\<close>

locale borsh_format =
  fixes B :: borsh
  assumes w_u8: "write_u8 B x = [x]"
    and w_u16: "write_u16 B y = u16_to_le y"
    and w_u64: "write_u64 B z = u64_to_le z"
    and w_array: "write_array B a = a"
    and w_tag: "write_option_tag B t = [if t then 1 else 0]"
    and w_slice: "u8_u8_slice B a = Some a"
    and r_u8: "read_u8 B bs = (case bs of [] \<Rightarrow> None | x # r \<Rightarrow> Some (x, r))"
    and r_u16: "read_u16 B bs =
          (if length bs < 2 then None else Some (u16_from_le (take 2 bs), drop 2 bs))"
    and r_u64: "read_u64 B bs =
          (if length bs < 8 then None else Some (u64_from_le (take 8 bs), drop 8 bs))"
    and r_array: "read_array B n bs = (if length bs < n then None else Some (take n bs, drop n bs))"
    and r_vec: "u8_vec_from_reader B n bs =
          (if length bs < n then None else Some (Some (take n bs), drop n bs))"
    and r_tag: "read_option_tag B bs =
          (case bs of [] \<Rightarrow> None
           | x # r \<Rightarrow> if x = 0 then Some (False, r) else if x = 1 then Some (True, r) else None)"

text \<open>Reading back each primitive, in the form the field-by-field proofs use.\<close>

context borsh_format
begin

lemma read_u8_write [codec_simps]: "read_u8 B (write_u8 B x @ r) = Some (x, r)"
  by (simp add: w_u8 r_u8)

lemma read_u16_write [codec_simps]: "read_u16 B (write_u16 B x @ r) = Some (x, r)"
  by (simp add: w_u16 r_u16)

lemma read_u64_write [codec_simps]: "read_u64 B (write_u64 B x @ r) = Some (x, r)"
  by (simp add: w_u64 r_u64)

lemma read_array_write [codec_simps]:
  "length a = n \<Longrightarrow> read_array B n (write_array B a @ r) = Some (a, r)"
  by (simp add: w_array r_array)

lemma write_read_u8: "read_u8 B bs = Some (x, r) \<longleftrightarrow> bs = write_u8 B x @ r"
  by (auto simp: w_u8 r_u8 split: list.splits)

lemma write_read_u16: "read_u16 B bs = Some (x, r) \<longleftrightarrow> bs = write_u16 B x @ r"
proof
  assume "read_u16 B bs = Some (x, r)"
  then have "2 \<le> length bs" "x = u16_from_le (take 2 bs)" "r = drop 2 bs"
    by (auto simp: r_u16 split: if_splits)
  then show "bs = write_u16 B x @ r" by (simp add: w_u16)
qed (simp add: read_u16_write)

lemma write_read_u64: "read_u64 B bs = Some (x, r) \<longleftrightarrow> bs = write_u64 B x @ r"
proof
  assume "read_u64 B bs = Some (x, r)"
  then have "8 \<le> length bs" "x = u64_from_le (take 8 bs)" "r = drop 8 bs"
    by (auto simp: r_u64 split: if_splits)
  then show "bs = write_u64 B x @ r" by (simp add: w_u64)
qed (simp add: read_u64_write)

lemma write_read_array:
  "read_array B n bs = Some (a, r) \<longleftrightarrow> length a = n \<and> bs = write_array B a @ r"
  by (auto simp: w_array r_array)

lemma write_read_tag:
  "read_option_tag B bs = Some (t, r) \<longleftrightarrow> bs = write_option_tag B t @ r"
  by (auto simp: w_tag r_tag split: list.splits if_splits)

lemmas primitive_reads = write_read_u8 write_read_u16 write_read_u64 write_read_array write_read_tag

text \<open>\<open>Option<T>\<close> keeps the promise of \<open>T\<close>.\<close>

lemma option_codec:
  assumes inner: "codec wr rd"
  shows "codec (write_option B wr) (read_option B rd)"
proof
  fix x :: "'a option" and bs rest
  assume "write_option B wr x = Some bs"
  then show "read_option B rd (bs @ rest) = Some (x, rest)"
    using codec.read_write [OF inner]
    by (cases x) (auto simp: write_option_def read_option_def w_tag r_tag bind_eq_Some_conv)
next
  fix bs rest and x :: "'a option"
  assume "read_option B rd bs = Some (x, rest)"
  then show "\<exists>c. write_option B wr x = Some c \<and> bs = c @ rest"
    using codec.write_read [OF inner]
    by (fastforce simp: write_option_def read_option_def primitive_reads bind_eq_Some_conv
        split: if_splits)
qed

text \<open>Codecs of the primitives themselves.\<close>

lemma u16_codec: "codec (\<lambda>x. Some (write_u16 B x)) (read_u16 B)"
  by unfold_locales (auto simp: primitive_reads read_u16_write)

end


section \<open>The reference implementation of the format\<close>

text \<open>The format, as executable primitives: the instance the concrete examples run on.\<close>

definition borsh_le :: borsh where
  "borsh_le = \<lparr>
     read_u8 = (\<lambda>bs. case bs of [] \<Rightarrow> None | x # r \<Rightarrow> Some (x, r)),
     read_u16 = (\<lambda>bs. if length bs < 2 then None else Some (u16_from_le (take 2 bs), drop 2 bs)),
     read_u64 = (\<lambda>bs. if length bs < 8 then None else Some (u64_from_le (take 8 bs), drop 8 bs)),
     read_array = (\<lambda>n bs. if length bs < n then None else Some (take n bs, drop n bs)),
     read_option_tag = (\<lambda>bs. case bs of [] \<Rightarrow> None
        | x # r \<Rightarrow> if x = 0 then Some (False, r) else if x = 1 then Some (True, r) else None),
     u8_vec_from_reader = (\<lambda>n bs. if length bs < n then None else Some (Some (take n bs), drop n bs)),
     write_u8 = (\<lambda>x. [x]), write_u16 = u16_to_le, write_u64 = u64_to_le,
     write_array = (\<lambda>a. a), write_option_tag = (\<lambda>t. [if t then 1 else 0]),
     u8_u8_slice = Some \<rparr>"

interpretation ref: borsh_format borsh_le
  by unfold_locales (simp_all add: borsh_le_def)

end
