(* ===== verification/Runtime.thy ===== *)
theory Runtime
  imports Errors Borsh
begin

text \<open>
  What the program runs on.  The accounts of the transaction are a store from addresses to
  accounts, so two \<open>AccountInfo\<close>s for the same address are the same account, as the loader makes
  them.  Everything that is not in the repository (system calls, the runtime library's sysvar
  and CPI calls, the system program, base64, borsh) is a field of the record \<open>runtime\<close>, a
  parameter of every definition that uses it.
\<close>

section \<open>Accounts\<close>

record account =
  acc_owner :: pubkey
  acc_lamports :: u64
  acc_data :: bytes
  acc_is_signer :: bool
  acc_is_writable :: bool
  acc_data_aligned :: bool   \<comment> \<open>the data pointer is aligned for the account structs\<close>

type_synonym store = "pubkey \<Rightarrow> account"

text \<open>An \<open>AccountInfo\<close> is a pointer to an account: here the account's address.\<close>

type_synonym account_info = pubkey

section \<open>Instructions\<close>

record account_meta =
  meta_pubkey :: pubkey
  meta_is_writable :: bool
  meta_is_signer :: bool

text \<open>An instruction to invoke: the arguments of one \<open>slice_invoke_signed\<close> call.\<close>

record invocation =
  inv_program_id :: pubkey
  inv_accounts :: "account_meta list"
  inv_data :: bytes
  inv_account_infos :: "account_info list"
  inv_signers_seeds :: "bytes list list"

text \<open>
  An instruction of the current transaction read through the instructions sysvar;
  \<open>iix_even\<close>: its data starts at an even address.
\<close>

record introspected_instruction =
  iix_program_id :: pubkey
  iix_data :: bytes
  iix_even :: bool

section \<open>The parameter\<close>

record runtime =
  sol_sha256 :: "bytes list \<Rightarrow> bytes"
  try_find_program_address :: "bytes list \<Rightarrow> pubkey \<Rightarrow> (pubkey \<times> u8) option"
  sol_get_stack_height :: u64
  clock_unix_timestamp :: "i64 result"                       \<comment> \<open>\<open>Clock::get()?.unix_timestamp\<close>\<close>
  rent_minimum_balance :: "nat \<Rightarrow> u64 result"                \<comment> \<open>\<open>Rent::get()?.minimum_balance(n)\<close>\<close>
  system_program_id :: pubkey                                \<comment> \<open>\<open>pinocchio_system::ID\<close>\<close>
  borrow_data :: "account \<Rightarrow> bytes result"                   \<comment> \<open>\<open>try_borrow_data\<close>\<close>
  borrow_mut_data :: "account \<Rightarrow> bytes result"               \<comment> \<open>\<open>try_borrow_mut_data\<close>\<close>
  instructions_try_from :: "pubkey \<Rightarrow> account \<Rightarrow> bytes result"
  instruction_at :: "bytes \<Rightarrow> nat \<Rightarrow> introspected_instruction result"
  memory_beyond :: "bytes \<Rightarrow> nat \<Rightarrow> u8"                      \<comment> \<open>memory after the end of a buffer\<close>
  system_transfer :: "pubkey \<Rightarrow> pubkey \<Rightarrow> u64 \<Rightarrow> store \<Rightarrow> store result"
  system_allocate :: "pubkey \<Rightarrow> u64 \<Rightarrow> bytes list list \<Rightarrow> store \<Rightarrow> store result"
  system_assign :: "pubkey \<Rightarrow> pubkey \<Rightarrow> bytes list list \<Rightarrow> store \<Rightarrow> store result"
  invoke_signed :: "invocation \<Rightarrow> store \<Rightarrow> store result"     \<comment> \<open>\<open>slice_invoke_signed\<close>\<close>
  base64_url_no_pad :: "bytes \<Rightarrow> bytes"
  rt_borsh :: borsh

text \<open>
  \<open>declare_id!\<close> in \<open>src/lib.rs\<close>: the bytes of the base58 string
  \<open>ExtSgUPtP3JyKUysFw2S5fpL5fWfUPzGUQLd2bTwftXN\<close>.
\<close>

definition crate_ID :: pubkey where
  "crate_ID =
     [207, 121, 10, 131, 63, 109, 98, 242, 85, 52, 127, 12, 217, 90, 108, 251,
      122, 41, 239, 24, 142, 108, 75, 243, 254, 4, 3, 141, 189, 93, 175, 157]"

section \<open>Small wrappers (\<open>utils/sha256.rs\<close>, \<open>utils/stack_height.rs\<close>, \<open>utils/checks.rs\<close>)\<close>

definition hashv :: "runtime \<Rightarrow> bytes list \<Rightarrow> bytes" where
  "hashv rt data = sol_sha256 rt data"

definition hash :: "runtime \<Rightarrow> bytes \<Rightarrow> bytes" where
  "hash rt data = hashv rt [data]"

definition get_stack_height :: "runtime \<Rightarrow> u64" where
  "get_stack_height rt = sol_get_stack_height rt"

definition check_account_uninitialized :: "runtime \<Rightarrow> store \<Rightarrow> account_info \<Rightarrow> unit result" where
  "check_account_uninitialized rt st account =
     and_then (ensure (acc_owner (st account) = system_program_id rt) InvalidAccountOwner) (\<lambda>_.
     and_then (ensure (acc_data (st account) = []) InvalidAccountData) (\<lambda>_.
     Ok ()))"

lemma check_account_uninitialized_Ok [result_simps]:
  "check_account_uninitialized rt st a = Ok () \<longleftrightarrow>
     acc_owner (st a) = system_program_id rt \<and> acc_data (st a) = []"
  by (auto simp: check_account_uninitialized_def result_simps)

section \<open>Reads through raw pointers\<close>

text \<open>
  \<open>slice::from_raw_parts(ptr.add(offset), len)\<close> on a buffer: no bounds check, so past the
  buffer's end it reads whatever memory holds there.
\<close>

definition raw_bytes :: "runtime \<Rightarrow> bytes \<Rightarrow> nat \<Rightarrow> nat \<Rightarrow> bytes" where
  "raw_bytes rt data offset len =
     map (\<lambda>i. if i < length data then data ! i else memory_beyond rt data i) [offset ..< offset + len]"

lemma length_raw_bytes [simp, layout_simps]: "length (raw_bytes rt data off n) = n"
  by (simp add: raw_bytes_def)

lemma raw_bytes_inside:
  "off + n \<le> length data \<Longrightarrow> raw_bytes rt data off n = take n (drop off data)"
  by (rule nth_equalityI) (auto simp: raw_bytes_def)

section \<open>Documented behaviour of the runtime that theorems name as hypotheses\<close>

definition sha256_length :: "runtime \<Rightarrow> bool" where
  "sha256_length rt \<longleftrightarrow> (\<forall>ds. length (sol_sha256 rt ds) = 32)"

lemma length_hash: "sha256_length rt \<Longrightarrow> length (hash rt d) = 32"
  by (simp add: sha256_length_def hash_def hashv_def)

text \<open>
  Two messages with the same digest are equal, or they are a collision of the hash function.
\<close>

definition sha256_collision :: "runtime \<Rightarrow> bytes \<Rightarrow> bytes \<Rightarrow> bool" where
  "sha256_collision rt a b \<longleftrightarrow> a \<noteq> b \<and> sol_sha256 rt [a] = sol_sha256 rt [b]"

lemma hash_eq_cases: "hash rt a = hash rt b \<Longrightarrow> a = b \<or> sha256_collision rt a b"
  by (auto simp: sha256_collision_def hash_def hashv_def)

end
