(* ===== verification/Pod.thy ===== *)
theory Pod
  imports Errors
begin

text \<open>
  Plain-old-data structs: \<open>repr(C)\<close> types that the sources read and write in place through
  \<open>bytemuck\<close> casts.  The locale \<open>pod\<close> states what such a layout promises; each struct of the
  program is an interpretation of it, in the theory that models the struct.
\<close>

locale pod =
  fixes wf :: "'a \<Rightarrow> bool"      \<comment> \<open>the array fields have their lengths\<close>
    and width :: nat
    and enc :: "'a \<Rightarrow> bytes"
    and dec :: "bytes \<Rightarrow> 'a"
  assumes enc_length: "wf x \<Longrightarrow> length (enc x) = width"
    and dec_enc: "wf x \<Longrightarrow> dec (enc x) = x"
    and enc_dec: "length bs = width \<Longrightarrow> enc (dec bs) = bs"
    and wf_dec: "length bs = width \<Longrightarrow> wf (dec bs)"
begin

lemma enc_inj: "wf x \<Longrightarrow> wf y \<Longrightarrow> enc x = enc y \<Longrightarrow> x = y"
  by (metis dec_enc)

lemma dec_inj: "length a = width \<Longrightarrow> length b = width \<Longrightarrow> dec a = dec b \<Longrightarrow> a = b"
  by (metis enc_dec)

text \<open>A struct stored at the start of a buffer is read back, and what follows it stays.\<close>

lemma read_stored: "wf x \<Longrightarrow> dec (take width (overwrite (enc x) buf)) = x"
  using enc_length [of x] dec_enc [of x] by (metis take_overwrite)

lemma stored_tail: "wf x \<Longrightarrow> drop width (overwrite (enc x) buf) = drop width buf"
  using enc_length [of x] by (simp add: overwrite_def)

lemma stored_length: "wf x \<Longrightarrow> width \<le> length buf \<Longrightarrow> length (overwrite (enc x) buf) = length buf"
  by (simp add: enc_length)

lemma store_read: "width \<le> length buf \<Longrightarrow> overwrite (enc (dec (take width buf))) buf = buf"
  by (simp add: enc_dec overwrite_def min_def)

lemma last_store_wins: "wf x \<Longrightarrow> wf y \<Longrightarrow> overwrite (enc x) (overwrite (enc y) buf) = overwrite (enc x) buf"
  by (simp add: enc_length)

text \<open>A field before the rest of a larger struct: the pieces of a layout compose.\<close>

lemma split_field: "wf x \<Longrightarrow> dec (take width (enc x @ r)) = x \<and> drop width (enc x @ r) = r"
  by (simp add: enc_length dec_enc)

end

text \<open>
  \<open>bytemuck::try_from_bytes\<close> (and \<open>_mut\<close>): the bytes as the struct, if the pointer is aligned
  for it and the slice has its size; \<open>from_bytes\<close> panics instead.
\<close>

definition pod_try_from_bytes :: "nat \<Rightarrow> (bytes \<Rightarrow> 'a) \<Rightarrow> bool \<Rightarrow> bytes \<Rightarrow> 'a option" where
  "pod_try_from_bytes width dec aligned bs =
     (if aligned \<and> length bs = width then Some (dec bs) else None)"

lemma pod_try_from_bytes_eq_Some [result_simps]:
  "pod_try_from_bytes w dec al bs = Some x \<longleftrightarrow> al \<and> length bs = w \<and> dec bs = x"
  by (auto simp: pod_try_from_bytes_def)

end
