(* ===== verification/Schemes.thy ===== *)
theory Schemes
  imports Runtime Pod
begin

text \<open>
  \<open>src/state/externally_signed_account/\<close> \<open>schemes.rs\<close>, \<open>session_key.rs\<close> and
  \<open>execution_account.rs\<close>: the selectors an instruction carries as a byte, the session key
  stored in an account, and the address that signs the inner instructions.
\<close>

section \<open>Schemes\<close>

datatype signature_scheme = P256Webauthn

datatype signer_execution_scheme = ExecutionAccount | ExternalAccount

fun signature_scheme_u8 :: "signature_scheme \<Rightarrow> u8" where
  "signature_scheme_u8 P256Webauthn = 0"

fun signer_execution_scheme_u8 :: "signer_execution_scheme \<Rightarrow> u8" where
  "signer_execution_scheme_u8 ExecutionAccount = 0"
| "signer_execution_scheme_u8 ExternalAccount = 1"

text \<open>The derived \<open>try_from_primitive\<close>: the variant with that discriminant.\<close>

definition signature_scheme_try_from_primitive :: "u8 \<Rightarrow> signature_scheme option" where
  "signature_scheme_try_from_primitive b = (if b = 0 then Some P256Webauthn else None)"

definition signer_execution_scheme_try_from_primitive :: "u8 \<Rightarrow> signer_execution_scheme option" where
  "signer_execution_scheme_try_from_primitive b =
     (if b = 0 then Some ExecutionAccount else if b = 1 then Some ExternalAccount else None)"

lemma signature_scheme_primitive [simp]:
  "signature_scheme_try_from_primitive b = Some s \<longleftrightarrow> b = signature_scheme_u8 s"
  by (cases s) (simp add: signature_scheme_try_from_primitive_def)

lemma signer_execution_scheme_primitive [simp]:
  "signer_execution_scheme_try_from_primitive b = Some s \<longleftrightarrow> b = signer_execution_scheme_u8 s"
  by (cases s) (auto simp: signer_execution_scheme_try_from_primitive_def)

lemma signature_scheme_u8_0 [simp]: "signature_scheme_u8 s = 0"
  by (cases s) simp

lemma case_signature_scheme [simp]: "(case s of P256Webauthn \<Rightarrow> x) = x"
  by (cases s) simp

lemma signature_scheme_only [simp]: "s = P256Webauthn"
  by (cases s)

section \<open>Session keys\<close>

text \<open>Three months of thirty days, in seconds.\<close>

definition SESSION_KEY_EXPIRATION_LIMIT :: u64 where
  "SESSION_KEY_EXPIRATION_LIMIT = 3 * 30 * 24 * 60 * 60"

record session_key =
  session_key_key :: bytes
  expiration :: u64

definition session_key_wf :: "session_key \<Rightarrow> bool" where
  "session_key_wf k \<longleftrightarrow> length (session_key_key k) = 32"

definition session_key_to_bytes :: "session_key \<Rightarrow> bytes" where
  "session_key_to_bytes k = session_key_key k @ u64_to_le (expiration k)"

definition session_key_from_bytes :: "bytes \<Rightarrow> session_key" where
  "session_key_from_bytes bs =
     \<lparr>session_key_key = take 32 bs, expiration = u64_from_le (take 8 (drop 32 bs))\<rparr>"

interpretation session_key_pod: pod session_key_wf 40 session_key_to_bytes session_key_from_bytes
  by unfold_locales
     (auto simp: session_key_wf_def session_key_to_bytes_def session_key_from_bytes_def
       intro: nth_equalityI)

text \<open>Its derived borsh operations.\<close>

definition session_key_serialize :: "borsh \<Rightarrow> session_key writer" where
  "session_key_serialize B k =
     Some (write_array B (session_key_key k) @ write_u64 B (expiration k))"

definition session_key_deserialize :: "borsh \<Rightarrow> session_key reader" where
  "session_key_deserialize B bs = do {
     (k, bs) \<leftarrow> read_array B 32 bs;
     (e, bs) \<leftarrow> read_u64 B bs;
     Some (\<lparr>session_key_key = k, expiration = e\<rparr>, bs) }"

text \<open>
  In Rust the key is an array of 32 bytes; a list of another length has no serialisation.
\<close>

definition session_key_writer :: "borsh \<Rightarrow> session_key writer" where
  "session_key_writer B k = (if session_key_wf k then session_key_serialize B k else None)"

section \<open>The signing account of the inner instructions\<close>

record execution_account =
  execution_key :: pubkey
  execution_bump :: u8
  execution_seeds :: "bytes list"      \<comment> \<open>two of them\<close>

definition to_signer_seeds :: "execution_account \<Rightarrow> bytes list result" where
  "to_signer_seeds a =
     and_then (index (execution_seeds a) 0) (\<lambda>s0.
     and_then (index (execution_seeds a) 1) (\<lambda>s1.
     Ok [s0, s1, [execution_bump a]]))"

context borsh_format
begin

lemma session_key_codec: "codec (session_key_writer B) (session_key_deserialize B)"
proof
  show "session_key_deserialize B (bs @ rest) = Some (x, rest)"
    if "session_key_writer B x = Some bs" for x bs rest
    using that
    by (auto simp: session_key_writer_def session_key_serialize_def session_key_deserialize_def
        session_key_wf_def read_array_write read_u64_write split: if_splits)
  show "\<exists>c. session_key_writer B x = Some c \<and> bs = c @ rest"
    if "session_key_deserialize B bs = Some (x, rest)" for x bs rest
    using that
    by (auto simp: session_key_writer_def session_key_serialize_def session_key_deserialize_def
        session_key_wf_def primitive_reads bind_eq_Some_conv)
qed

end

end
