(* ===== verification/AccountLayout.thy ===== *)
theory AccountLayout
  imports Schemes
begin

text \<open>
  The account structs that live in account data: \<open>AccountHeader\<close>
  (\<open>src/state/externally_signed_account/account.rs\<close>) and the P-256 account with its parts
  (\<open>src/state/p256_webauthn/account_data.rs\<close>), with the byte layout \<open>repr(C)\<close> gives them.
  Byte-array fields are lists; the \<open>_wf\<close> predicates carry the array lengths.
\<close>

section \<open>The header\<close>

record account_header =
  header_version :: u8
  header_scheme :: u8
  header_reserved :: bytes

definition account_header_size :: nat where
  "account_header_size = 4"

definition account_header_wf :: "account_header \<Rightarrow> bool" where
  "account_header_wf h \<longleftrightarrow> length (header_reserved h) = 2"

definition account_header_to_bytes :: "account_header \<Rightarrow> bytes" where
  "account_header_to_bytes h = header_version h # header_scheme h # header_reserved h"

definition account_header_from_bytes :: "bytes \<Rightarrow> account_header" where
  "account_header_from_bytes bs =
     \<lparr>header_version = bs ! 0, header_scheme = bs ! 1, header_reserved = drop 2 bs\<rparr>"

interpretation header_pod: pod account_header_wf 4 account_header_to_bytes account_header_from_bytes
proof
  fix bs :: bytes assume "length bs = 4"
  then obtain a b c d where "bs = [a, b, c, d]" by (auto simp: length_Suc_conv numeral_eq_Suc)
  then show "account_header_to_bytes (account_header_from_bytes bs) = bs"
    by (simp add: account_header_to_bytes_def account_header_from_bytes_def)
qed (auto simp: account_header_wf_def account_header_to_bytes_def account_header_from_bytes_def)

section \<open>Relying party and public key\<close>

record rp_id_information =
  rp_id_len :: u8
  rp_id :: bytes
  rp_id_hash :: bytes

definition rp_id_information_wf :: "rp_id_information \<Rightarrow> bool" where
  "rp_id_information_wf r \<longleftrightarrow> length (rp_id r) = 32 \<and> length (rp_id_hash r) = 32"

definition rp_id_information_to_bytes :: "rp_id_information \<Rightarrow> bytes" where
  "rp_id_information_to_bytes r = rp_id_len r # rp_id r @ rp_id_hash r"

definition rp_id_information_from_bytes :: "bytes \<Rightarrow> rp_id_information" where
  "rp_id_information_from_bytes bs =
     \<lparr>rp_id_len = bs ! 0, rp_id = take 32 (drop 1 bs), rp_id_hash = drop 33 bs\<rparr>"

text \<open>\<open>RpIdInformation::new\<close>: the copy into the 32-byte field panics for a longer id.\<close>

definition rp_id_information_new :: "bytes \<Rightarrow> bytes \<Rightarrow> rp_id_information result" where
  "rp_id_information_new rp h =
     (if length rp \<le> 32 then
        Ok \<lparr>rp_id_len = of_nat (length rp), rp_id = overwrite rp (replicate 32 0), rp_id_hash = h\<rparr>
      else Panic)"

interpretation rp_pod: pod rp_id_information_wf 65 rp_id_information_to_bytes rp_id_information_from_bytes
proof
  fix bs :: bytes assume l: "length bs = 65"
  then obtain b r where bs: "bs = b # r" "length r = 64" by (cases bs) auto
  then have "take 32 r @ drop 32 r = r" by simp
  with bs show "rp_id_information_to_bytes (rp_id_information_from_bytes bs) = bs"
    by (simp add: rp_id_information_to_bytes_def rp_id_information_from_bytes_def)
qed (auto simp: rp_id_information_wf_def rp_id_information_to_bytes_def rp_id_information_from_bytes_def)

record compressed_p256_public_key =
  pk_x :: bytes
  y_parity :: u8

definition public_key_wf :: "compressed_p256_public_key \<Rightarrow> bool" where
  "public_key_wf k \<longleftrightarrow> length (pk_x k) = 32"

definition public_key_to_bytes :: "compressed_p256_public_key \<Rightarrow> bytes" where
  "public_key_to_bytes k = pk_x k @ [y_parity k]"

definition public_key_from_bytes :: "bytes \<Rightarrow> compressed_p256_public_key" where
  "public_key_from_bytes bs = \<lparr>pk_x = take 32 bs, y_parity = bs ! 32\<rparr>"

interpretation key_pod: pod public_key_wf 33 public_key_to_bytes public_key_from_bytes
proof
  fix bs :: bytes assume "length bs = 33"
  then show "public_key_to_bytes (public_key_from_bytes bs) = bs"
    using take_Suc_conv_app_nth [of 32 bs] by (simp add: public_key_to_bytes_def public_key_from_bytes_def)
qed (auto simp: public_key_wf_def public_key_to_bytes_def public_key_from_bytes_def nth_append)

text \<open>\<open>CompressedP256PublicKey::new\<close> and \<open>to_bytes\<close>: the SEC1 form, parity byte first.\<close>

definition compressed_p256_public_key_new :: "bytes \<Rightarrow> compressed_p256_public_key result" where
  "compressed_p256_public_key_new pk =
     and_then (slice pk 1 33) (\<lambda>x.
     and_then (index pk 0) (\<lambda>p. Ok \<lparr>pk_x = x, y_parity = p\<rparr>))"

definition sec1_bytes :: "compressed_p256_public_key \<Rightarrow> bytes" where
  "sec1_bytes k = y_parity k # pk_x k"

lemma compressed_p256_public_key_new_33:
  assumes "length pk = 33"
  shows "\<exists>k. compressed_p256_public_key_new pk = Ok k \<and> public_key_wf k \<and> sec1_bytes k = pk"
proof -
  obtain p x where "pk = p # x" "length x = 32" using assms by (cases pk) auto
  then show ?thesis
    by (simp add: compressed_p256_public_key_new_def slice_def index_def public_key_wf_def sec1_bytes_def)
qed

lemma compressed_p256_public_key_new_Ok:
  assumes "compressed_p256_public_key_new pk = Ok k"
  shows "public_key_wf k \<and> sec1_bytes k = take 33 pk"
proof -
  from assms have "33 \<le> length pk" "k = \<lparr>pk_x = take 32 (drop 1 pk), y_parity = pk ! 0\<rparr>"
    by (auto simp: compressed_p256_public_key_new_def result_simps)
  then show ?thesis
    by (cases pk) (simp_all add: public_key_wf_def sec1_bytes_def)
qed

lemma sec1_bytes_inj: "sec1_bytes a = sec1_bytes b \<longleftrightarrow> a = b"
  by (cases a; cases b) (auto simp: sec1_bytes_def)

section \<open>The account\<close>

record p256_account_data =
  p256_header :: account_header
  rp_id_info :: rp_id_information
  public_key :: compressed_p256_public_key
  padding :: bytes
  p256_session_key :: session_key
  counter :: u64

definition p256_account_size :: nat where
  "p256_account_size = 152"

definition p256_account_wf :: "p256_account_data \<Rightarrow> bool" where
  "p256_account_wf a \<longleftrightarrow> account_header_wf (p256_header a) \<and> rp_id_information_wf (rp_id_info a) \<and>
     public_key_wf (public_key a) \<and> length (padding a) = 2 \<and> session_key_wf (p256_session_key a)"

definition p256_account_to_bytes :: "p256_account_data \<Rightarrow> bytes" where
  "p256_account_to_bytes a =
     account_header_to_bytes (p256_header a) @ rp_id_information_to_bytes (rp_id_info a) @
     public_key_to_bytes (public_key a) @ padding a @
     session_key_to_bytes (p256_session_key a) @ u64_to_le (counter a)"

definition p256_account_from_bytes :: "bytes \<Rightarrow> p256_account_data" where
  "p256_account_from_bytes bs = \<lparr>
     p256_header = account_header_from_bytes (take 4 bs),
     rp_id_info = rp_id_information_from_bytes (take 65 (drop 4 bs)),
     public_key = public_key_from_bytes (take 33 (drop 69 bs)),
     padding = take 2 (drop 102 bs),
     p256_session_key = session_key_from_bytes (take 40 (drop 104 bs)),
     counter = u64_from_le (take 8 (drop 144 bs)) \<rparr>"

lemma split_152:
  assumes "length (bs :: bytes) = 152"
  shows "take 4 bs @ take 65 (drop 4 bs) @ take 33 (drop 69 bs) @ take 2 (drop 102 bs) @
    take 40 (drop 104 bs) @ take 8 (drop 144 bs) = bs"
proof -
  have step: "take n (drop m bs) @ drop (m + n) bs = drop m bs" for n m
    by (metis append_take_drop_id drop_drop add.commute)
  have "take 8 (drop 144 bs) = drop 144 bs" using assms by simp
  with step [where m = 0 and n = 4] step [where m = 4 and n = 65] step [where m = 69 and n = 33]
    step [where m = 102 and n = 2] step [where m = 104 and n = 40]
  show ?thesis by simp
qed

interpretation p256_pod: pod p256_account_wf 152 p256_account_to_bytes p256_account_from_bytes
proof
  fix x assume wf: "p256_account_wf x"
  note lens = header_pod.enc_length rp_pod.enc_length key_pod.enc_length session_key_pod.enc_length
  note decs = header_pod.dec_enc rp_pod.dec_enc key_pod.dec_enc session_key_pod.dec_enc
  show "length (p256_account_to_bytes x) = 152"
    using wf lens by (simp add: p256_account_to_bytes_def p256_account_wf_def)
  show "p256_account_from_bytes (p256_account_to_bytes x) = x"
    using wf lens decs
    by (simp add: p256_account_to_bytes_def p256_account_from_bytes_def p256_account_wf_def)
next
  fix bs :: bytes assume l: "length bs = 152"
  then show "p256_account_to_bytes (p256_account_from_bytes bs) = bs"
    using split_152 [OF l]
    by (simp add: p256_account_to_bytes_def p256_account_from_bytes_def header_pod.enc_dec
        rp_pod.enc_dec key_pod.enc_dec session_key_pod.enc_dec)
  show "p256_account_wf (p256_account_from_bytes bs)"
    using l by (simp add: p256_account_from_bytes_def p256_account_wf_def header_pod.wf_dec
        rp_pod.wf_dec key_pod.wf_dec session_key_pod.wf_dec)
qed

text \<open>
  The header of a stored account is its first four bytes, which is where the generic code reads
  and writes it.
\<close>

lemma p256_header_bytes:
  assumes "p256_account_wf a"
  shows "take 4 (p256_account_to_bytes a) = account_header_to_bytes (p256_header a)"
  using assms header_pod.enc_length by (simp add: p256_account_to_bytes_def p256_account_wf_def)

text \<open>
  The account struct and its bytes are in one-to-one correspondence: 152 bytes, with the
  header in the first four, the public key at 69, the session key at 104 and the counter at 144.
\<close>

theorem account_layout:
  assumes "p256_account_wf a"
  shows "length (p256_account_to_bytes a) = 152 \<and> p256_account_from_bytes (p256_account_to_bytes a) = a \<and>
    take 4 (p256_account_to_bytes a) = account_header_to_bytes (p256_header a) \<and>
    take 33 (drop 69 (p256_account_to_bytes a)) = public_key_to_bytes (public_key a) \<and>
    take 40 (drop 104 (p256_account_to_bytes a)) = session_key_to_bytes (p256_session_key a) \<and>
    drop 144 (p256_account_to_bytes a) = u64_to_le (counter a) \<and>
    (\<forall>bs. length bs = 152 \<longrightarrow> p256_account_wf (p256_account_from_bytes bs) \<and>
       p256_account_to_bytes (p256_account_from_bytes bs) = bs)"
proof -
  have lens: "length (account_header_to_bytes (p256_header a)) = 4"
    "length (rp_id_information_to_bytes (rp_id_info a)) = 65" "length (public_key_to_bytes (public_key a)) = 33"
    "length (padding a) = 2" "length (session_key_to_bytes (p256_session_key a)) = 40"
    using assms by (simp_all add: p256_account_wf_def header_pod.enc_length rp_pod.enc_length
        key_pod.enc_length session_key_pod.enc_length)
  then show ?thesis
    using p256_pod.enc_length [OF assms] p256_pod.dec_enc [OF assms] p256_header_bytes [OF assms]
      p256_pod.wf_dec p256_pod.enc_dec
    by (simp add: p256_account_to_bytes_def)
qed

theorem account_layout_witness:
  "drop 144 (p256_account_to_bytes (p256_account_from_bytes (replicate 144 0 @ [1, 2, 0, 0, 0, 0, 0, 0]))) =
     u64_to_le (counter (p256_account_from_bytes (replicate 144 0 @ [1, 2, 0, 0, 0, 0, 0, 0])))"
proof -
  have "length (replicate 144 (0::8 word) @ [1, 2, 0, 0, 0, 0, 0, 0]) = 152" by simp
  from account_layout [OF p256_pod.wf_dec [OF this]] show ?thesis by (elim conjE)
qed

end
