(* ===== verification/ExternallySigned.thy ===== *)
theory ExternallySigned
  imports AccountLayout
begin

text \<open>
  \<open>src/state/externally_signed_account/\<close> \<open>traits.rs\<close> and \<open>account.rs\<close>: the trait a signature
  scheme implements, and the generic wrapper that gives typed access to account data.  A trait
  implementation is a record of its functions (\<open>esa_trait\<close>); the wrapper's operations take it as
  an argument.  What the wrapper relies on is the locale \<open>scheme_contract\<close>.
\<close>

section \<open>The trait \<open>ExternallySignedAccountData\<close>\<close>

text \<open>
  Type parameters: the account struct \<open>'d\<close>, \<open>AccountSeeds\<close> \<open>'s\<close>, \<open>DeriveAccountArgs\<close> \<open>'a\<close>, the
  raw and the parsed initialization data \<open>'ri\<close>, \<open>'pi\<close>, the raw and the parsed verification data
  \<open>'rv\<close>, \<open>'pv\<close>.  A function with \<open>&mut self\<close> returns the struct it leaves.
\<close>

record ('d, 's, 'a, 'ri, 'rv, 'pi, 'pv) esa_trait =
  t_version :: u8
  t_scheme :: u8
  t_size :: nat
  t_to_bytes :: "'d \<Rightarrow> bytes"                       \<comment> \<open>the \<open>Pod\<close> supertrait\<close>
  t_from_bytes :: "bytes \<Rightarrow> 'd"
  t_read_raw_init :: "'ri reader"
  t_read_raw_verif :: "'rv reader"
  t_parse_init :: "'ri \<Rightarrow> 'pi result"
  t_parse_verif :: "'rv \<Rightarrow> 'pv result"
  t_args_of_init :: "'pi \<Rightarrow> 'a"
  t_args_of_verif :: "'pv \<Rightarrow> 'a"
  t_seeds_key :: "'s \<Rightarrow> pubkey"                     \<comment> \<open>\<open>AccountSeedsTrait\<close>\<close>
  t_seeds_bump :: "'s \<Rightarrow> u8"
  t_seeds :: "'s \<Rightarrow> bytes list"
  t_seeds_owned :: "'s \<Rightarrow> bytes list"
  t_get_initialization_payload :: bytes
  t_initialize_account :: "'pi \<Rightarrow> session_key option \<Rightarrow> 'd \<Rightarrow> 'd result"
  t_check_account :: "store \<Rightarrow> 'd \<Rightarrow> account_info \<Rightarrow> 'pv \<Rightarrow> 's result"
  t_derive_account :: "'a \<Rightarrow> 's result"
  t_derive_existing_account :: "'d \<Rightarrow> 's result"
  t_verify_initialization_payload :: "bytes \<Rightarrow> 'pi \<Rightarrow> bytes \<Rightarrow> 'd \<Rightarrow> 'd result"
  t_verify_payload :: "bytes \<Rightarrow> 'pv \<Rightarrow> bytes \<Rightarrow> 'd \<Rightarrow> 'd result"
  t_is_valid_session_key :: "store \<Rightarrow> account_info \<Rightarrow> 'd \<Rightarrow> unit result"
  t_update_session_key :: "session_key \<Rightarrow> 'd \<Rightarrow> 'd result"

section \<open>The wrapper \<open>ExternallySignedAccount\<close>\<close>

text \<open>
  The wrapper keeps the account and a raw slice into its data: the pointer is the account's, the
  length the one at loading time.  Account data only grows between the load and the next
  \<open>reload\<close> (the allocation in \<open>initialize_external_account.rs\<close>), so the slice is a prefix.
\<close>

record externally_signed_account =
  esa_info :: account_info
  esa_data_len :: nat

definition esa_key :: "externally_signed_account \<Rightarrow> pubkey" where
  "esa_key a = esa_info a"

definition esa_slice :: "store \<Rightarrow> externally_signed_account \<Rightarrow> bytes" where
  "esa_slice st a = take (esa_data_len a) (acc_data (st (esa_info a)))"

definition esa_load :: "runtime \<Rightarrow> store \<Rightarrow> account_info \<Rightarrow> externally_signed_account result" where
  "esa_load rt st info =
     and_then (borrow_mut_data rt (st info)) (\<lambda>data.
     and_then (if acc_data (st info) = []
               then assert_that (acc_owner (st info) = system_program_id rt)
               else assert_that (acc_owner (st info) = crate_ID)) (\<lambda>_.
     Ok \<lparr>esa_info = info, esa_data_len = length data\<rparr>))"

definition esa_reload ::
  "runtime \<Rightarrow> store \<Rightarrow> externally_signed_account \<Rightarrow> externally_signed_account result" where
  "esa_reload rt st a =
     and_then (borrow_mut_data rt (st (esa_info a))) (\<lambda>reloaded_data.
     Ok (a\<lparr>esa_data_len := length reloaded_data\<rparr>))"

text \<open>\<open>header\<close> and \<open>header_ref\<close> read the same bytes; the slice panics on a shorter account.\<close>

definition esa_header :: "store \<Rightarrow> externally_signed_account \<Rightarrow> account_header result" where
  "esa_header st a =
     and_then (slice (esa_slice st a) 0 account_header_size) (\<lambda>bs.
     Ok (account_header_from_bytes bs))"

text \<open>
  \<open>data\<close> and \<open>data_ref\<close>: the same checks and the same view of the bytes, the one mutable and the
  other not.
\<close>

definition esa_data ::
  "('d, 's, 'a, 'ri, 'rv, 'pi, 'pv) esa_trait \<Rightarrow> store \<Rightarrow> externally_signed_account \<Rightarrow> 'd result" where
  "esa_data T st a =
     and_then (esa_header st a) (\<lambda>header.
     and_then (ensure (\<not> (header_version header \<noteq> t_version T \<or> header_scheme header \<noteq> t_scheme T))
                 (prog_err ErrorDeserializingHeader)) (\<lambda>_.
     and_then (ensure (\<not> length (esa_slice st a) < t_size T)
                 (prog_err ErrorDeserializingAccountData)) (\<lambda>_.
     and_then (slice (esa_slice st a) 0 (t_size T)) (\<lambda>bs.
     ok_or (pod_try_from_bytes (t_size T) (t_from_bytes T) (acc_data_aligned (st (esa_info a))) bs)
       (prog_err ErrorDeserializingAccountData)))))"

text \<open>A store through the mutable reference \<open>data\<close> returned, or through the header's.\<close>

definition esa_write :: "store \<Rightarrow> externally_signed_account \<Rightarrow> bytes \<Rightarrow> store" where
  "esa_write st a bs =
     st(esa_info a := (st (esa_info a))\<lparr>acc_data := overwrite bs (acc_data (st (esa_info a)))\<rparr>)"

definition esa_store ::
  "('d, 's, 'a, 'ri, 'rv, 'pi, 'pv) esa_trait \<Rightarrow> store \<Rightarrow> externally_signed_account \<Rightarrow> 'd \<Rightarrow> store" where
  "esa_store T st a d = esa_write st a (t_to_bytes T d)"

definition header_set ::
  "('d, 's, 'a, 'ri, 'rv, 'pi, 'pv) esa_trait \<Rightarrow> account_header \<Rightarrow> account_header" where
  "header_set T h = h\<lparr>header_version := t_version T, header_scheme := t_scheme T\<rparr>"

definition esa_initialize_header ::
  "('d, 's, 'a, 'ri, 'rv, 'pi, 'pv) esa_trait \<Rightarrow> store \<Rightarrow> externally_signed_account \<Rightarrow> store result" where
  "esa_initialize_header T st a =
     and_then (esa_header st a) (\<lambda>header.
     Ok (esa_write st a (account_header_to_bytes (header_set T header))))"

section \<open>Operations that go through the trait\<close>

definition esa_check_account ::
  "('d, 's, 'a, 'ri, 'rv, 'pi, 'pv) esa_trait \<Rightarrow> store \<Rightarrow> externally_signed_account \<Rightarrow> 'pv \<Rightarrow> 's result" where
  "esa_check_account T st a args =
     and_then (esa_data T st a) (\<lambda>data. t_check_account T st data (esa_info a) args)"

definition esa_derive_existing_account ::
  "('d, 's, 'a, 'ri, 'rv, 'pi, 'pv) esa_trait \<Rightarrow> store \<Rightarrow> externally_signed_account \<Rightarrow> 's result" where
  "esa_derive_existing_account T st a =
     and_then (esa_data T st a) (\<lambda>data. t_derive_existing_account T data)"

definition esa_initialize_account ::
  "('d, 's, 'a, 'ri, 'rv, 'pi, 'pv) esa_trait \<Rightarrow> store \<Rightarrow> externally_signed_account \<Rightarrow> 'pi
     \<Rightarrow> session_key option \<Rightarrow> store result" where
  "esa_initialize_account T st a args session_key =
     and_then (esa_initialize_header T st a) (\<lambda>st.
     and_then (esa_data T st a) (\<lambda>data.
     and_then (t_initialize_account T args session_key data) (\<lambda>data.
     Ok (esa_store T st a data))))"

definition esa_verify_initialization_payload ::
  "('d, 's, 'a, 'ri, 'rv, 'pi, 'pv) esa_trait \<Rightarrow> store \<Rightarrow> externally_signed_account \<Rightarrow> bytes \<Rightarrow> 'pi
     \<Rightarrow> bytes \<Rightarrow> store result" where
  "esa_verify_initialization_payload T st a sysvar initialization_data payload =
     and_then (esa_data T st a) (\<lambda>data.
     and_then (t_verify_initialization_payload T sysvar initialization_data payload data) (\<lambda>data.
     Ok (esa_store T st a data)))"

definition esa_verify_payload ::
  "('d, 's, 'a, 'ri, 'rv, 'pi, 'pv) esa_trait \<Rightarrow> store \<Rightarrow> externally_signed_account \<Rightarrow> bytes \<Rightarrow> 'pv
     \<Rightarrow> bytes \<Rightarrow> store result" where
  "esa_verify_payload T st a sysvar extra_verification_data payload =
     and_then (esa_data T st a) (\<lambda>data.
     and_then (t_verify_payload T sysvar extra_verification_data payload data) (\<lambda>data.
     Ok (esa_store T st a data)))"

definition esa_is_valid_session_key ::
  "('d, 's, 'a, 'ri, 'rv, 'pi, 'pv) esa_trait \<Rightarrow> store \<Rightarrow> externally_signed_account \<Rightarrow> account_info
     \<Rightarrow> unit result" where
  "esa_is_valid_session_key T st a signer =
     and_then (esa_data T st a) (\<lambda>data. t_is_valid_session_key T st signer data)"

definition esa_update_session_key ::
  "('d, 's, 'a, 'ri, 'rv, 'pi, 'pv) esa_trait \<Rightarrow> store \<Rightarrow> externally_signed_account \<Rightarrow> session_key
     \<Rightarrow> store result" where
  "esa_update_session_key T st a session_key =
     and_then (esa_data T st a) (\<lambda>data.
     and_then (t_update_session_key T session_key data) (\<lambda>data.
     Ok (esa_store T st a data)))"

text \<open>The account that signs the inner instructions, by the scheme the transaction asks for.\<close>

definition get_execution_account ::
  "runtime \<Rightarrow> ('d, 's, 'a, 'ri, 'rv, 'pi, 'pv) esa_trait \<Rightarrow> store \<Rightarrow> externally_signed_account
     \<Rightarrow> signer_execution_scheme \<Rightarrow> execution_account result" where
  "get_execution_account rt T st a scheme =
     (case scheme of
        ExecutionAccount \<Rightarrow>
          (let seeds = [esa_key a, ascii ''execution_account'']
           in and_then (unwrap (try_find_program_address rt seeds crate_ID)) (\<lambda>(execution_account, bump).
              Ok \<lparr>execution_key = execution_account, execution_bump = bump, execution_seeds = seeds\<rparr>))
      | ExternalAccount \<Rightarrow>
          and_then (esa_derive_existing_account T st a) (\<lambda>external_account_seeds.
          Ok \<lparr>execution_key = t_seeds_key T external_account_seeds,
              execution_bump = t_seeds_bump T external_account_seeds,
              execution_seeds = t_seeds_owned T external_account_seeds\<rparr>))"

section \<open>What a write through the wrapper leaves alone\<close>

text \<open>
  \<open>data_frame k st st'\<close>: the stores differ in the data of the account \<open>k\<close> at most, and its
  length is the same.
\<close>

definition data_frame :: "pubkey \<Rightarrow> store \<Rightarrow> store \<Rightarrow> bool" where
  "data_frame k st st' \<longleftrightarrow>
     (\<forall>j. j \<noteq> k \<longrightarrow> st' j = st j) \<and> length (acc_data (st' k)) = length (acc_data (st k)) \<and>
     st' k = (st k)\<lparr>acc_data := acc_data (st' k)\<rparr>"

lemma data_frame_refl [simp, intro]: "data_frame k st st"
  by (simp add: data_frame_def)

lemma data_frame_trans: "data_frame k a b \<Longrightarrow> data_frame k b c \<Longrightarrow> data_frame k a c"
  unfolding data_frame_def by (metis account.surjective account.update_convs(3))

lemma data_frame_fields:
  assumes "data_frame k st st'"
  shows "acc_owner (st' j) = acc_owner (st j)" "acc_lamports (st' j) = acc_lamports (st j)"
    "acc_is_signer (st' j) = acc_is_signer (st j)" "acc_is_writable (st' j) = acc_is_writable (st j)"
    "acc_data_aligned (st' j) = acc_data_aligned (st j)"
    "length (acc_data (st' j)) = length (acc_data (st j))"
proof -
  have "st' j = (st j)\<lparr>acc_data := acc_data (st' j)\<rparr>"
    using assms by (cases "j = k") (auto simp: data_frame_def)
  from this [THEN arg_cong, of acc_owner] this [THEN arg_cong, of acc_lamports]
    this [THEN arg_cong, of acc_is_signer] this [THEN arg_cong, of acc_is_writable]
    this [THEN arg_cong, of acc_data_aligned]
  show "acc_owner (st' j) = acc_owner (st j)" "acc_lamports (st' j) = acc_lamports (st j)"
    "acc_is_signer (st' j) = acc_is_signer (st j)" "acc_is_writable (st' j) = acc_is_writable (st j)"
    "acc_data_aligned (st' j) = acc_data_aligned (st j)" by simp_all
  show "length (acc_data (st' j)) = length (acc_data (st j))"
    using assms by (cases "j = k") (auto simp: data_frame_def)
qed

lemma esa_write_frame:
  "length bs \<le> length (acc_data (st (esa_info a))) \<Longrightarrow> data_frame (esa_info a) st (esa_write st a bs)"
  by (simp add: data_frame_def esa_write_def)

lemma acc_data_esa_write [simp]:
  "acc_data (esa_write st a bs (esa_info a)) = overwrite bs (acc_data (st (esa_info a)))"
  by (simp add: esa_write_def)

lemma esa_load_Ok [result_simps]:
  "esa_load rt st info = Ok a \<longleftrightarrow>
     (\<exists>d. borrow_mut_data rt (st info) = Ok d \<and> a = \<lparr>esa_info = info, esa_data_len = length d\<rparr>) \<and>
     acc_owner (st info) = (if acc_data (st info) = [] then system_program_id rt else crate_ID)"
  by (auto simp: esa_load_def result_simps)

lemma length_esa_slice:
  "length (esa_slice st a) = min (esa_data_len a) (length (acc_data (st (esa_info a))))"
  by (simp add: esa_slice_def)

text \<open>
  Each operation that changes the account: the struct before and after, and the frame around it.
\<close>

definition esa_kept ::
  "('d, 's, 'a, 'ri, 'rv, 'pi, 'pv) esa_trait \<Rightarrow> store \<Rightarrow> externally_signed_account \<Rightarrow> 'd \<Rightarrow> store \<Rightarrow> 'd
     \<Rightarrow> bool" where
  "esa_kept T st a d st' d' \<longleftrightarrow>
     esa_data T st a = Ok d \<and> esa_data T st' a = Ok d' \<and> data_frame (esa_info a) st st' \<and>
     t_derive_existing_account T d' = t_derive_existing_account T d"


section \<open>The contract of a signature scheme\<close>

text \<open>
  What the wrapper and the instruction handlers rely on: the account struct is plain data that
  starts with the header; verifying a payload and changing the session key keep the struct well
  formed, its header and the address it belongs to; a checked account is the derived one.
\<close>

locale scheme_contract = pod wf "t_size T" "t_to_bytes T" "t_from_bytes T"
  for T :: "('d, 's, 'a, 'ri, 'rv, 'pi, 'pv) esa_trait" and wf :: "'d \<Rightarrow> bool" +
  fixes hdr :: "'d \<Rightarrow> account_header" and pi_wf :: "'pi \<Rightarrow> bool"
  assumes size_header: "4 \<le> t_size T"
    and header_front: "wf d \<Longrightarrow> take 4 (t_to_bytes T d) = account_header_to_bytes (hdr d)"
    and header_wf: "wf d \<Longrightarrow> account_header_wf (hdr d)"
    and check_account_key: "t_check_account T st d info pv = Ok s \<Longrightarrow> t_seeds_key T s = info"
    and verify_keeps: "wf d \<Longrightarrow> t_verify_payload T sysvar pv payload d = Ok d' \<Longrightarrow>
       wf d' \<and> hdr d' = hdr d \<and> t_derive_existing_account T d' = t_derive_existing_account T d"
    and verify_init_keeps: "wf d \<Longrightarrow> t_verify_initialization_payload T sysvar pi payload d = Ok d' \<Longrightarrow>
       wf d' \<and> hdr d' = hdr d \<and> t_derive_existing_account T d' = t_derive_existing_account T d"
    and update_keeps: "wf d \<Longrightarrow> session_key_wf k \<Longrightarrow> t_update_session_key T k d = Ok d' \<Longrightarrow>
       wf d' \<and> hdr d' = hdr d \<and> t_derive_existing_account T d' = t_derive_existing_account T d"
    and init_keeps: "wf d \<Longrightarrow> pi_wf pi \<Longrightarrow> pred_option session_key_wf sk \<Longrightarrow>
       t_initialize_account T pi sk d = Ok d' \<Longrightarrow> wf d' \<and> hdr d' = hdr d"
    and init_identity: "pi_wf pi \<Longrightarrow> t_initialize_account T pi sk d = Ok d' \<Longrightarrow>
       t_derive_existing_account T d' = t_derive_account T (t_args_of_init T pi)"
begin

lemma esa_data_Ok:
  "esa_data T st a = Ok d \<longleftrightarrow>
     t_size T \<le> length (esa_slice st a) \<and> acc_data_aligned (st (esa_info a)) \<and>
     esa_slice st a ! 0 = t_version T \<and> esa_slice st a ! 1 = t_scheme T \<and>
     d = t_from_bytes T (take (t_size T) (esa_slice st a))"
  using size_header
  by (auto simp: esa_data_def esa_header_def account_header_size_def account_header_from_bytes_def
      result_simps)

lemma esa_data_wf: "esa_data T st a = Ok d \<Longrightarrow> wf d"
  by (simp add: esa_data_Ok wf_dec)

lemma header_bytes:
  assumes "wf d"
  shows "t_to_bytes T d ! 0 = header_version (hdr d)" "t_to_bytes T d ! 1 = header_scheme (hdr d)"
proof -
  have "take 4 (t_to_bytes T d) ! i = account_header_to_bytes (hdr d) ! i" for i
    using header_front [OF assms] by simp
  from this [of 0] this [of 1]
  show "t_to_bytes T d ! 0 = header_version (hdr d)" "t_to_bytes T d ! 1 = header_scheme (hdr d)"
    by (simp_all add: account_header_to_bytes_def)
qed

lemma esa_data_header:
  assumes "esa_data T st a = Ok d"
  shows "header_version (hdr d) = t_version T" "header_scheme (hdr d) = t_scheme T"
proof -
  let ?b = "take (t_size T) (esa_slice st a)"
  have d: "d = t_from_bytes T ?b" and len: "length ?b = t_size T"
    and v: "?b ! 0 = t_version T" "?b ! 1 = t_scheme T"
    using assms size_header by (auto simp: esa_data_Ok)
  have "t_to_bytes T d = ?b" using enc_dec [OF len] d by simp
  with header_bytes [OF esa_data_wf [OF assms]] v
  show "header_version (hdr d) = t_version T" "header_scheme (hdr d) = t_scheme T" by simp_all
qed

lemma esa_data_fits:
  "esa_data T st a = Ok d \<Longrightarrow> t_size T \<le> length (acc_data (st (esa_info a)))"
  by (simp add: esa_data_Ok length_esa_slice)

text \<open>What is stored through the wrapper is what the wrapper then reads.\<close>

lemma esa_data_store:
  assumes "esa_data T st a = Ok d" and "wf d'" and "hdr d' = hdr d"
  shows "esa_data T (esa_store T st a d') a = Ok d'"
proof -
  have len: "length (t_to_bytes T d') = t_size T" by (rule enc_length [OF assms(2)])
  have fits: "t_size T \<le> esa_data_len a" "t_size T \<le> length (acc_data (st (esa_info a)))"
    using assms(1) by (simp_all add: esa_data_Ok length_esa_slice)
  have slice: "esa_slice (esa_store T st a d') a =
      t_to_bytes T d' @ take (esa_data_len a - t_size T) (drop (t_size T) (acc_data (st (esa_info a))))"
    using len fits by (simp add: esa_slice_def esa_store_def overwrite_def)
  have "t_to_bytes T d' ! 0 = t_version T" "t_to_bytes T d' ! 1 = t_scheme T"
    using header_bytes [OF assms(2)] esa_data_header [OF assms(1)] assms(3) by simp_all
  moreover have "acc_data_aligned (esa_store T st a d' (esa_info a))"
    using assms(1) by (simp add: esa_data_Ok esa_store_def esa_write_def)
  ultimately show ?thesis
    using len size_header dec_enc [OF assms(2)] by (simp add: esa_data_Ok slice nth_append)
qed

lemma esa_store_frame:
  assumes "esa_data T st a = Ok d" and "wf d'"
  shows "data_frame (esa_info a) st (esa_store T st a d')"
  using enc_length [OF assms(2)] esa_data_fits [OF assms(1)]
  by (simp add: esa_store_def esa_write_frame)

text \<open>The operations that change the account, on the struct and on the store.\<close>

lemma esa_verify_payload_Ok:
  assumes "esa_verify_payload T st a sysvar pv payload = Ok st'"
  shows "\<exists>d d'. t_verify_payload T sysvar pv payload d = Ok d' \<and> esa_kept T st a d st' d'"
proof -
  obtain d d' where d: "esa_data T st a = Ok d" "t_verify_payload T sysvar pv payload d = Ok d'"
    and st': "st' = esa_store T st a d'"
    using assms by (auto simp: esa_verify_payload_def result_simps)
  note k = verify_keeps [OF esa_data_wf [OF d(1)] d(2)]
  with d st' esa_data_store [OF d(1)] esa_store_frame [OF d(1)]
  show ?thesis by (auto simp: esa_kept_def)
qed

lemma esa_verify_initialization_payload_Ok:
  assumes "esa_verify_initialization_payload T st a sysvar pi payload = Ok st'"
  shows "\<exists>d d'. t_verify_initialization_payload T sysvar pi payload d = Ok d' \<and> esa_kept T st a d st' d'"
proof -
  obtain d d' where d: "esa_data T st a = Ok d" "t_verify_initialization_payload T sysvar pi payload d = Ok d'"
    and st': "st' = esa_store T st a d'"
    using assms by (auto simp: esa_verify_initialization_payload_def result_simps)
  note k = verify_init_keeps [OF esa_data_wf [OF d(1)] d(2)]
  with d st' esa_data_store [OF d(1)] esa_store_frame [OF d(1)]
  show ?thesis by (auto simp: esa_kept_def)
qed

lemma esa_update_session_key_Ok:
  assumes "esa_update_session_key T st a k = Ok st'" and "session_key_wf k"
  shows "\<exists>d d'. t_update_session_key T k d = Ok d' \<and> esa_kept T st a d st' d'"
proof -
  obtain d d' where d: "esa_data T st a = Ok d" "t_update_session_key T k d = Ok d'"
    and st': "st' = esa_store T st a d'"
    using assms(1) by (auto simp: esa_update_session_key_def result_simps)
  note k = update_keeps [OF esa_data_wf [OF d(1)] assms(2) d(2)]
  with d st' esa_data_store [OF d(1)] esa_store_frame [OF d(1)]
  show ?thesis by (auto simp: esa_kept_def)
qed

text \<open>Initialization sets the header first, so it works on an account of zero bytes too.\<close>

lemma esa_initialize_header_Ok:
  assumes "esa_initialize_header T st a = Ok st'" and "esa_data T st' a = Ok d"
  shows "data_frame (esa_info a) st st'"
proof -
  obtain h where h: "esa_header st a = Ok h"
    and st': "st' = esa_write st a (account_header_to_bytes (header_set T h))"
    using assms(1) by (auto simp: esa_initialize_header_def result_simps)
  then have "length (account_header_to_bytes (header_set T h)) \<le> length (acc_data (st (esa_info a)))"
    by (auto simp: esa_header_def result_simps account_header_size_def header_set_def esa_slice_def
        account_header_to_bytes_def account_header_from_bytes_def)
  then show ?thesis by (simp add: st' esa_write_frame)
qed

lemma esa_initialize_account_Ok:
  assumes "esa_initialize_account T st a pi sk = Ok st'"
    and "pi_wf pi" and "pred_option session_key_wf sk"
  shows "\<exists>d d'. t_initialize_account T pi sk d = Ok d' \<and> wf d \<and> esa_data T st' a = Ok d' \<and>
    data_frame (esa_info a) st st' \<and>
    t_derive_existing_account T d' = t_derive_account T (t_args_of_init T pi)"
proof -
  obtain st1 d d' where st1: "esa_initialize_header T st a = Ok st1"
    and d: "esa_data T st1 a = Ok d" "t_initialize_account T pi sk d = Ok d'"
    and st': "st' = esa_store T st1 a d'"
    using assms(1) by (auto simp: esa_initialize_account_def result_simps)
  note k = init_keeps [OF esa_data_wf [OF d(1)] assms(2,3) d(2)]
  have "data_frame (esa_info a) st st'"
    using data_frame_trans [OF esa_initialize_header_Ok [OF st1 d(1)] esa_store_frame [OF d(1)]] k st'
    by simp
  with d st' k esa_data_store [OF d(1)] esa_data_wf [OF d(1)] init_identity [OF assms(2) d(2)]
  show ?thesis by auto
qed

end

end
