(* ===== verification/Sample.thy ===== *)
theory Sample
  imports Runtime
begin

text \<open>
  A concrete runtime, for the examples that show a theorem's hypotheses can hold.  Borsh and
  base64 are their published formats; the hash and address functions are simple stand-ins of
  the right lengths, the system program moves lamports and sizes and assigns accounts, and the
  instructions sysvar holds one instruction: its program id and then its data.
\<close>

section \<open>base64url without padding (RFC 4648, section 5)\<close>

definition b64_alphabet :: bytes where
  "b64_alphabet = ascii ''ABCDEFGHIJKLMNOPQRSTUVWXYZabcdefghijklmnopqrstuvwxyz0123456789-_''"

definition b64_char :: "nat \<Rightarrow> u8" where
  "b64_char n = b64_alphabet ! n"

fun b64url :: "bytes \<Rightarrow> bytes" where
  "b64url [] = []"
| "b64url [a] = [b64_char (unat a div 4), b64_char (unat a mod 4 * 16)]"
| "b64url [a, b] =
     [b64_char (unat a div 4), b64_char (unat a mod 4 * 16 + unat b div 16),
      b64_char (unat b mod 16 * 4)]"
| "b64url (a # b # c # r) =
     [b64_char (unat a div 4), b64_char (unat a mod 4 * 16 + unat b div 16),
      b64_char (unat b mod 16 * 4 + unat c div 64), b64_char (unat c mod 64)] @ b64url r"

lemma b64_alphabet_distinct: "distinct b64_alphabet"
  by (simp add: b64_alphabet_def ascii_def)

lemma b64_alphabet_length: "length b64_alphabet = 64"
  by (simp add: b64_alphabet_def)

lemma b64_char_inj: "m < 64 \<Longrightarrow> n < 64 \<Longrightarrow> b64_char m = b64_char n \<longleftrightarrow> m = n"
  using b64_alphabet_distinct b64_alphabet_length by (simp add: b64_char_def nth_eq_iff_index_eq)

lemma b64_char_not_quote: "n < 64 \<Longrightarrow> b64_char n \<noteq> 34"
proof -
  assume "n < 64"
  then have "b64_char n \<in> set b64_alphabet" by (simp add: b64_char_def b64_alphabet_length)
  moreover have "34 \<notin> set b64_alphabet" by (simp add: b64_alphabet_def ascii_def)
  ultimately show ?thesis by metis
qed

lemma sextet_bounds:
  "unat (a :: u8) div 4 < 64" "unat a mod 4 * 16 < 64" "unat a mod 4 * 16 + unat (b :: u8) div 16 < 64"
  "unat b mod 16 * 4 < 64" "unat b mod 16 * 4 + unat (c :: u8) div 64 < 64" "unat c mod 64 < 64"
  using unat_lt_256 [of a] unat_lt_256 [of b] unat_lt_256 [of c] by linarith+

lemma u8_eq_of_parts: "unat (a :: u8) div m = unat b div m \<Longrightarrow> unat a mod m = unat b mod m \<Longrightarrow> a = b"
  by (metis mult_div_mod_eq word_unat_eq_iff)

lemma sextet_split:
  fixes p q :: nat
  assumes "p * k + q = p' * k + q'" and "q < k" and "q' < k"
  shows "p = p' \<and> q = q'"
proof -
  have "(p * k + q) div k = (p' * k + q') div k" using assms(1) by simp
  then have "p = p'" using assms(2,3) by simp
  with assms(1) show ?thesis by simp
qed

lemma b64url_not_quote: "c \<in> set (b64url bs) \<Longrightarrow> c \<noteq> 34"
  by (induction bs rule: b64url.induct) (auto simp: sextet_bounds b64_char_not_quote)

lemma b64url_inj: "b64url xs = b64url ys \<Longrightarrow> xs = ys"
proof (induction xs arbitrary: ys rule: b64url.induct)
  case 1
  then show ?case by (cases ys rule: b64url.cases) auto
next
  case (2 a)
  then show ?case
    by (cases ys rule: b64url.cases) (auto simp: b64_char_inj sextet_bounds intro: u8_eq_of_parts)
next
  case (3 a b)
  show ?case
  proof (cases ys rule: b64url.cases)
    case (3 a' b')
    with "3.prems" have e: "unat a div 4 = unat a' div 4"
      "unat a mod 4 * 16 + unat b div 16 = unat a' mod 4 * 16 + unat b' div 16"
      "unat b mod 16 = unat b' mod 16"
      by (simp_all add: b64_char_inj sextet_bounds)
    have "unat b div 16 < 16" "unat b' div 16 < 16" using unat_lt_256 [of b] unat_lt_256 [of b'] by linarith+
    from sextet_split [OF e(2) this] e 3 show ?thesis by (auto intro: u8_eq_of_parts)
  qed (use "3.prems" in auto)
next
  case (4 a b c r)
  show ?case
  proof (cases ys rule: b64url.cases)
    case (4 a' b' c' r')
    with "4.prems" have e: "unat a div 4 = unat a' div 4"
      "unat a mod 4 * 16 + unat b div 16 = unat a' mod 4 * 16 + unat b' div 16"
      "unat b mod 16 * 4 + unat c div 64 = unat b' mod 16 * 4 + unat c' div 64"
      "unat c mod 64 = unat c' mod 64" and r: "b64url r = b64url r'"
      by (simp_all add: b64_char_inj sextet_bounds)
    have "unat b div 16 < 16" "unat b' div 16 < 16" "unat c div 64 < 4" "unat c' div 64 < 4"
      using unat_lt_256 [of b] unat_lt_256 [of b'] unat_lt_256 [of c] unat_lt_256 [of c'] by linarith+
    with sextet_split [OF e(2)] sextet_split [OF e(3)] e 4 "4.IH" [OF r] show ?thesis
      by (auto intro: u8_eq_of_parts)
  qed (use "4.prems" in auto)
qed


section \<open>The runtime\<close>

definition pad32 :: "bytes \<Rightarrow> bytes" where
  "pad32 bs = take 32 (bs @ replicate 32 0)"

definition INSTRUCTIONS_ID :: pubkey where
  "INSTRUCTIONS_ID =
     [6, 167, 213, 23, 24, 123, 209, 102, 53, 218, 212, 4, 85, 253, 194, 192,
      193, 36, 198, 143, 33, 86, 117, 165, 219, 186, 203, 95, 8, 0, 0, 0]"

definition sample_runtime :: runtime where
  "sample_runtime = \<lparr>
     sol_sha256 = (\<lambda>ds. pad32 (concat ds)),
     try_find_program_address = (\<lambda>seeds program. Some (pad32 (concat seeds), 255)),
     sol_get_stack_height = 1,
     clock_unix_timestamp = Ok 1000,
     rent_minimum_balance = (\<lambda>n. Ok (of_nat (6960 * (n + 128)))),
     system_program_id = replicate 32 0,
     borrow_data = (\<lambda>a. Ok (acc_data a)),
     borrow_mut_data = (\<lambda>a. Ok (acc_data a)),
     instructions_try_from = (\<lambda>k a. if k = INSTRUCTIONS_ID then Ok (acc_data a) else Err UnsupportedSysvar),
     instruction_at = (\<lambda>d n. if n = 0
        then Ok \<lparr>iix_program_id = take 32 d, iix_data = drop 32 d, iix_even = True\<rparr>
        else Err InvalidArgument),
     memory_beyond = (\<lambda>_ _. 0),
     system_transfer = (\<lambda>f t l st.
        let paid = st(f := (st f)\<lparr>acc_lamports := acc_lamports (st f) - l\<rparr>)
        in Ok (paid(t := (paid t)\<lparr>acc_lamports := acc_lamports (paid t) + l\<rparr>))),
     system_allocate = (\<lambda>k n seeds st. Ok (st(k := (st k)\<lparr>acc_data := replicate (unat n) 0\<rparr>))),
     system_assign = (\<lambda>k owner seeds st. Ok (st(k := (st k)\<lparr>acc_owner := owner\<rparr>))),
     invoke_signed = (\<lambda>_ st. Ok st),
     base64_url_no_pad = b64url,
     rt_borsh = borsh_le \<rparr>"

lemma length_pad32 [simp]: "length (pad32 bs) = 32"
  by (simp add: pad32_def)

lemma sample_sha256_length: "sha256_length sample_runtime"
  by (simp add: sha256_length_def sample_runtime_def)

lemma sample_borsh [simp]: "rt_borsh sample_runtime = borsh_le"
  by (simp add: sample_runtime_def)

text \<open>An account with the flags of a plain wallet: signer, writable, no data.\<close>

definition sample_wallet :: account where
  "sample_wallet = \<lparr>acc_owner = replicate 32 0, acc_lamports = 1000000000, acc_data = [],
     acc_is_signer = True, acc_is_writable = True, acc_data_aligned = True\<rparr>"

end
