(* ===== verification/Precompiles.thy ===== *)
theory Precompiles
  imports Runtime Pod Sample
begin

text \<open>
  \<open>src/utils/precompiles.rs\<close>: reading a signature, its public key and its message out of an
  instruction to a signature-verification precompile, through the offsets in its data.
\<close>

section \<open>Signature offsets\<close>

record signature_offsets =
  signature_offset :: u16
  signature_instruction_index :: u16
  public_key_offset :: u16
  public_key_instruction_index :: u16
  message_data_offset :: u16
  message_data_size :: u16
  message_instruction_index :: u16

definition signature_offsets_to_bytes :: "signature_offsets \<Rightarrow> bytes" where
  "signature_offsets_to_bytes s =
     u16_to_le (signature_offset s) @ u16_to_le (signature_instruction_index s) @
     u16_to_le (public_key_offset s) @ u16_to_le (public_key_instruction_index s) @
     u16_to_le (message_data_offset s) @ u16_to_le (message_data_size s) @
     u16_to_le (message_instruction_index s)"

definition signature_offsets_from_bytes :: "bytes \<Rightarrow> signature_offsets" where
  "signature_offsets_from_bytes bs = \<lparr>
     signature_offset = u16_from_le (take 2 bs),
     signature_instruction_index = u16_from_le (take 2 (drop 2 bs)),
     public_key_offset = u16_from_le (take 2 (drop 4 bs)),
     public_key_instruction_index = u16_from_le (take 2 (drop 6 bs)),
     message_data_offset = u16_from_le (take 2 (drop 8 bs)),
     message_data_size = u16_from_le (take 2 (drop 10 bs)),
     message_instruction_index = u16_from_le (take 2 (drop 12 bs)) \<rparr>"

text \<open>The legacy secp256k1 precompile's offsets, with one-byte instruction indices.\<close>

record legacy_secp256k1_signature_offsets =
  legacy_signature_offset :: u16
  legacy_signature_instruction_index :: u8
  legacy_public_key_offset :: u16
  legacy_public_key_instruction_index :: u8
  legacy_message_data_offset :: u16
  legacy_message_data_size :: u16
  legacy_message_instruction_index :: u8

definition legacy_into_signature_offsets :: "legacy_secp256k1_signature_offsets \<Rightarrow> signature_offsets" where
  "legacy_into_signature_offsets l = \<lparr>
     signature_offset = legacy_signature_offset l,
     signature_instruction_index = ucast (legacy_signature_instruction_index l),
     public_key_offset = legacy_public_key_offset l,
     public_key_instruction_index = ucast (legacy_public_key_instruction_index l),
     message_data_offset = legacy_message_data_offset l,
     message_data_size = legacy_message_data_size l,
     message_instruction_index = ucast (legacy_message_instruction_index l) \<rparr>"

section \<open>The precompiles\<close>

text \<open>Base58 \<open>KeccakSecp256k11111111111111111111111111111\<close> and \<open>Secp256r1SigVerify1111111111111111111111111\<close>.\<close>

definition LEGACY_SECP256K1_PRECOMPILE_ID :: pubkey where
  "LEGACY_SECP256K1_PRECOMPILE_ID =
     [4, 198, 252, 32, 240, 80, 204, 240, 85, 132, 215, 33, 28, 159, 140, 245,
      158, 193, 71, 133, 187, 22, 106, 30, 40, 48, 232, 18, 32, 0, 0, 0]"

definition SECP256R1_PRECOMPILE_ID :: pubkey where
  "SECP256R1_PRECOMPILE_ID =
     [6, 146, 13, 236, 47, 234, 113, 181, 183, 35, 129, 77, 116, 45, 169, 3,
      28, 131, 231, 95, 219, 121, 93, 86, 142, 117, 71, 128, 32, 0, 0, 0]"

text \<open>The trait \<open>PrecompileInfo\<close>: what a parser needs to know of its precompile.\<close>

record precompile_info =
  get_precompile_id :: pubkey
  get_signature_size :: nat
  get_public_key_size :: nat
  get_signature_offsets_size :: nat
  get_data_start_offset :: nat

definition Secp256r1Precompile :: precompile_info where
  "Secp256r1Precompile = \<lparr>
     get_precompile_id = SECP256R1_PRECOMPILE_ID,
     get_signature_size = 64,
     get_public_key_size = 33,
     get_signature_offsets_size = 14,
     get_data_start_offset = 2 \<rparr>"

section \<open>The parser\<close>

record signature_payload =
  payload_signature :: bytes
  payload_public_key :: bytes
  payload_message :: bytes

text \<open>\<open>ix_data_even\<close> is the alignment of the borrowed data, which the offset cast depends on.\<close>

record precompile_parser =
  precompile_ix_data :: bytes
  ix_data_even :: bool
  instructions_sysvar :: bytes

definition get_data_slice :: "bytes \<Rightarrow> nat \<Rightarrow> nat \<Rightarrow> bytes result" where
  "get_data_slice data offset sz = slice data offset (offset + sz)"

definition get_data_slice_raw :: "runtime \<Rightarrow> bytes \<Rightarrow> nat \<Rightarrow> nat \<Rightarrow> bytes" where
  "get_data_slice_raw rt data offset sz = raw_bytes rt data offset sz"

definition precompile_parser_new ::
  "precompile_info \<Rightarrow> introspected_instruction \<Rightarrow> bytes \<Rightarrow> precompile_parser result" where
  "precompile_parser_new T precompile_ix sysvar =
     and_then (ensure (iix_program_id precompile_ix = get_precompile_id T) (prog_err InvalidPrecompileId)) (\<lambda>_.
     Ok \<lparr>precompile_ix_data = iix_data precompile_ix, ix_data_even = iix_even precompile_ix,
         instructions_sysvar = sysvar\<rparr>)"

definition num_signatures :: "precompile_parser \<Rightarrow> nat result" where
  "num_signatures p = and_then (index (precompile_ix_data p) 0) (\<lambda>b. Ok (unat b))"

text \<open>
  One \<open>match\<close> on an instruction index: \<open>u16::MAX\<close> is the precompile instruction itself, read
  with bounds checks; any other instruction's data is read through a raw pointer.
\<close>

definition data_at_offset :: "runtime \<Rightarrow> precompile_parser \<Rightarrow> u16 \<Rightarrow> u16 \<Rightarrow> nat \<Rightarrow> bytes result" where
  "data_at_offset rt p instruction_index offset sz =
     (if instruction_index = 65535 then get_data_slice (precompile_ix_data p) (unat offset) sz
      else
        and_then (map_err (instruction_at rt (instructions_sysvar p) (unat instruction_index))
                     (prog_err InvalidSignatureOffset)) (\<lambda>instruction.
        Ok (get_data_slice_raw rt (iix_data instruction) (unat offset) sz)))"

definition get_signature_payload ::
  "runtime \<Rightarrow> precompile_info \<Rightarrow> precompile_parser \<Rightarrow> nat \<Rightarrow> signature_payload result" where
  "get_signature_payload rt T p i =
     and_then (num_signatures p) (\<lambda>n.
     and_then (ensure (\<not> n \<le> i) (prog_err InvalidSignatureIndex)) (\<lambda>_.
     let data_start_offset = get_data_start_offset T;
         signature_offsets_size = get_signature_offsets_size T;
         offset_start = data_start_offset + signature_offsets_size * i
     in if get_precompile_id T = LEGACY_SECP256K1_PRECOMPILE_ID then Panic
        else if get_precompile_id T = SECP256R1_PRECOMPILE_ID then
          and_then (slice (precompile_ix_data p) offset_start (offset_start + signature_offsets_size)) (\<lambda>raw.
          and_then (ok_or (pod_try_from_bytes 14 signature_offsets_from_bytes (ix_data_even p) raw)
                      (prog_err InvalidSignatureOffset)) (\<lambda>offset.
          and_then (data_at_offset rt p (signature_instruction_index offset)
                      (signature_offset offset) (get_signature_size T)) (\<lambda>signature.
          and_then (data_at_offset rt p (public_key_instruction_index offset)
                      (public_key_offset offset) (get_public_key_size T)) (\<lambda>public_key.
          and_then (data_at_offset rt p (message_instruction_index offset)
                      (message_data_offset offset) (unat (message_data_size offset))) (\<lambda>message.
          Ok \<lparr>payload_signature = signature, payload_public_key = public_key,
              payload_message = message\<rparr>)))))
        else Panic))"

section \<open>Layout\<close>

lemma length_signature_offsets [simp, layout_simps]: "length (signature_offsets_to_bytes s) = 14"
  by (simp add: signature_offsets_to_bytes_def)

lemma u16_append_fields:
  "take 2 (u16_to_le a @ r) = u16_to_le a" "drop 2 (u16_to_le a @ r) = r"
  by simp_all

interpretation offsets: pod "\<lambda>_. True" 14 signature_offsets_to_bytes signature_offsets_from_bytes
proof
  fix x :: signature_offsets
  show "signature_offsets_from_bytes (signature_offsets_to_bytes x) = x"
    by (simp add: signature_offsets_to_bytes_def signature_offsets_from_bytes_def)
next
  fix bs :: bytes assume l: "length bs = 14"
  then obtain a b c d e f g h i j k m n p where "bs = [a, b, c, d, e, f, g, h, i, j, k, m, n, p]"
    by (auto simp: length_Suc_conv numeral_eq_Suc)
  then show "signature_offsets_to_bytes (signature_offsets_from_bytes bs) = bs"
    by (simp add: signature_offsets_to_bytes_def signature_offsets_from_bytes_def)
qed simp_all


section \<open>What the precompile itself verified\<close>

text \<open>
  Before the program runs, the runtime has executed every precompile instruction of the
  transaction, and a transaction with a bad one is rejected.  For secp256r1 this means: for each
  of the declared signatures the offsets resolve, inside the data they point into, to a
  signature, a public key and a message, and the signature verifies (\<open>ecdsa\<close>, the curve's
  verification, stays abstract).
\<close>

definition verified_bytes :: "runtime \<Rightarrow> bytes \<Rightarrow> bytes \<Rightarrow> u16 \<Rightarrow> u16 \<Rightarrow> nat \<Rightarrow> bytes option" where
  "verified_bytes rt sysvar own_data instruction_index offset sz =
     (case (if instruction_index = 65535 then Ok own_data
            else and_then (instruction_at rt sysvar (unat instruction_index)) (\<lambda>ix. Ok (iix_data ix))) of
        Ok d \<Rightarrow> if unat offset + sz \<le> length d then Some (take sz (drop (unat offset) d)) else None
      | _ \<Rightarrow> None)"

definition verified_payload :: "runtime \<Rightarrow> bytes \<Rightarrow> bytes \<Rightarrow> nat \<Rightarrow> signature_payload option" where
  "verified_payload rt sysvar own_data i =
     (if 2 + 14 * i + 14 \<le> length own_data then
        let offs = signature_offsets_from_bytes (take 14 (drop (2 + 14 * i) own_data))
        in do {
          s \<leftarrow> verified_bytes rt sysvar own_data (signature_instruction_index offs) (signature_offset offs) 64;
          k \<leftarrow> verified_bytes rt sysvar own_data (public_key_instruction_index offs) (public_key_offset offs) 33;
          m \<leftarrow> verified_bytes rt sysvar own_data (message_instruction_index offs)
                 (message_data_offset offs) (unat (message_data_size offs));
          Some \<lparr>payload_signature = s, payload_public_key = k, payload_message = m\<rparr> }
      else None)"

definition secp256r1_verified ::
  "runtime \<Rightarrow> (bytes \<Rightarrow> bytes \<Rightarrow> bytes \<Rightarrow> bool) \<Rightarrow> bytes \<Rightarrow> bool" where
  "secp256r1_verified rt ecdsa sysvar \<longleftrightarrow>
     (\<forall>ix. instruction_at rt sysvar 0 = Ok ix \<and> iix_program_id ix = SECP256R1_PRECOMPILE_ID \<longrightarrow>
        iix_data ix \<noteq> [] \<and>
        (\<forall>i < unat (iix_data ix ! 0). \<exists>p. verified_payload rt sysvar (iix_data ix) i = Some p \<and>
           ecdsa (payload_public_key p) (payload_message p) (payload_signature p)))"

section \<open>The parser reads exactly what was verified\<close>

lemma data_at_offset_verified:
  assumes "verified_bytes rt (instructions_sysvar p) (precompile_ix_data p) idx off sz = Some b"
  shows "data_at_offset rt p idx off sz = Ok b"
proof (cases "idx = 65535")
  case True
  with assms show ?thesis
    by (auto simp: verified_bytes_def data_at_offset_def get_data_slice_def slice_eq_Ok split: if_splits)
next
  case False
  with assms obtain ix where "instruction_at rt (instructions_sysvar p) (unat idx) = Ok ix"
    and "unat off + sz \<le> length (iix_data ix)" and "b = take sz (drop (unat off) (iix_data ix))"
    by (auto simp: verified_bytes_def result_simps split: result.splits if_splits)
  with False show ?thesis
    by (simp add: data_at_offset_def get_data_slice_raw_def raw_bytes_inside)
qed

lemma length_verified_bytes: "verified_bytes rt sysvar d idx off sz = Some b \<Longrightarrow> length b = sz"
  by (auto simp: verified_bytes_def split: result.splits if_splits)

lemma length_verified_payload:
  "verified_payload rt sysvar d i = Some p
     \<Longrightarrow> length (payload_signature p) = 64 \<and> length (payload_public_key p) = 33"
  by (auto simp: verified_payload_def Let_def bind_eq_Some_conv dest!: length_verified_bytes
      split: if_splits)

lemma get_signature_payload_verified:
  assumes v: "verified_payload rt (instructions_sysvar p) (precompile_ix_data p) i = Some pl"
    and n: "num_signatures p = Ok n" "i < n"
  shows "get_signature_payload rt Secp256r1Precompile p i =
     (if ix_data_even p then Ok pl else Err (prog_err InvalidSignatureOffset))"
proof -
  let ?d = "precompile_ix_data p"
  define raw where "raw = take 14 (drop (2 + 14 * i) ?d)"
  define offs where "offs = signature_offsets_from_bytes raw"
  from v have long: "2 + 14 * i + 14 \<le> length ?d"
    by (auto simp: verified_payload_def split: if_splits)
  then have cut: "slice ?d (2 + 14 * i) (2 + 14 * i + 14) = Ok raw" "length raw = 14"
    by (simp_all add: slice_def raw_def)
  from v long obtain s k m where
    "verified_bytes rt (instructions_sysvar p) ?d (signature_instruction_index offs) (signature_offset offs) 64 = Some s"
    "verified_bytes rt (instructions_sysvar p) ?d (public_key_instruction_index offs) (public_key_offset offs) 33 = Some k"
    "verified_bytes rt (instructions_sysvar p) ?d (message_instruction_index offs)
       (message_data_offset offs) (unat (message_data_size offs)) = Some m"
    and pl: "pl = \<lparr>payload_signature = s, payload_public_key = k, payload_message = m\<rparr>"
    by (auto simp: verified_payload_def Let_def bind_eq_Some_conv offs_def raw_def)
  note reads = this(1-3) [THEN data_at_offset_verified]
  have ids: "SECP256R1_PRECOMPILE_ID \<noteq> LEGACY_SECP256K1_PRECOMPILE_ID"
    by (simp add: SECP256R1_PRECOMPILE_ID_def LEGACY_SECP256K1_PRECOMPILE_ID_def)
  show ?thesis
    using n ids cut(2)
    by (simp add: get_signature_payload_def Secp256r1Precompile_def cut(1) [simplified]
        pod_try_from_bytes_def reads pl flip: offs_def)
qed

lemma parser_verified:
  assumes "secp256r1_verified rt ecdsa sysvar"
    and "instruction_at rt sysvar 0 = Ok ix"
    and "precompile_parser_new Secp256r1Precompile ix sysvar = Ok p"
    and "num_signatures p = Ok n" and "i < n"
  shows "\<exists>pl. get_signature_payload rt Secp256r1Precompile p i =
        (if iix_even ix then Ok pl else Err (prog_err InvalidSignatureOffset)) \<and>
      verified_payload rt sysvar (iix_data ix) i = Some pl \<and>
      ecdsa (payload_public_key pl) (payload_message pl) (payload_signature pl) \<and>
      length (payload_public_key pl) = 33 \<and> length (payload_signature pl) = 64"
proof -
  have p: "p = \<lparr>precompile_ix_data = iix_data ix, ix_data_even = iix_even ix, instructions_sysvar = sysvar\<rparr>"
    and id: "iix_program_id ix = SECP256R1_PRECOMPILE_ID"
    using assms(3) by (auto simp: precompile_parser_new_def Secp256r1Precompile_def result_simps)
  have "n = unat (iix_data ix ! 0)" "iix_data ix \<noteq> []"
    using assms(4) p by (auto simp: num_signatures_def result_simps)
  with assms(1,2,5) id obtain pl where pl: "verified_payload rt sysvar (iix_data ix) i = Some pl"
    "ecdsa (payload_public_key pl) (payload_message pl) (payload_signature pl)"
    unfolding secp256r1_verified_def by blast
  from get_signature_payload_verified [of rt p i pl n] pl(1) assms(4,5)
  have "get_signature_payload rt Secp256r1Precompile p i =
      (if iix_even ix then Ok pl else Err (prog_err InvalidSignatureOffset))"
    by (simp add: p)
  with pl length_verified_payload [OF pl(1)] show ?thesis by blast
qed

text \<open>
  C24. The parser hands on exactly the signature, key and message the precompile verified, for
  every declared signature, without a panic and without reading past any buffer; only a
  misaligned instruction is turned down.
\<close>

theorem parser_reads_verified_payload:
  assumes "secp256r1_verified rt ecdsa sysvar"
    and "instruction_at rt sysvar 0 = Ok ix"
    and "precompile_parser_new Secp256r1Precompile ix sysvar = Ok p"
    and "num_signatures p = Ok n" and "i < n"
  shows "\<exists>pl. get_signature_payload rt Secp256r1Precompile p i =
        (if iix_even ix then Ok pl else Err (prog_err InvalidSignatureOffset)) \<and>
      verified_payload rt sysvar (iix_data ix) i = Some pl \<and>
      ecdsa (payload_public_key pl) (payload_message pl) (payload_signature pl) \<and>
      length (payload_public_key pl) = 33 \<and> length (payload_signature pl) = 64"
  using assms by (rule parser_verified)

text \<open>A precompile instruction with one signature; key, signature and message \<open>m\<close> in its own data.\<close>

definition sample_offsets :: "bytes \<Rightarrow> signature_offsets" where
  "sample_offsets m = \<lparr>signature_offset = 49, signature_instruction_index = 65535,
     public_key_offset = 16, public_key_instruction_index = 65535,
     message_data_offset = 113, message_data_size = of_nat (length m), message_instruction_index = 65535\<rparr>"

definition sample_precompile_data :: "bytes \<Rightarrow> bytes" where
  "sample_precompile_data m =
     [1, 0] @ signature_offsets_to_bytes (sample_offsets m) @ replicate 33 2 @ replicate 64 5 @ m"

definition sample_precompile_ix :: "bytes \<Rightarrow> introspected_instruction" where
  "sample_precompile_ix m = \<lparr>iix_program_id = SECP256R1_PRECOMPILE_ID,
     iix_data = sample_precompile_data m, iix_even = True\<rparr>"

definition sample_sysvar :: "bytes \<Rightarrow> bytes" where
  "sample_sysvar m = SECP256R1_PRECOMPILE_ID @ sample_precompile_data m"

definition sample_ecdsa :: "bytes \<Rightarrow> bytes \<Rightarrow> bytes \<Rightarrow> bool" where
  "sample_ecdsa pk m s \<longleftrightarrow> pk = replicate 33 2 \<and> s = replicate 64 5"

abbreviation sample_payload :: "bytes \<Rightarrow> signature_payload" where
  "sample_payload m \<equiv>
     \<lparr>payload_signature = replicate 64 5, payload_public_key = replicate 33 2, payload_message = m\<rparr>"

abbreviation sample_parser :: "bytes \<Rightarrow> precompile_parser" where
  "sample_parser m \<equiv> \<lparr>precompile_ix_data = sample_precompile_data m, ix_data_even = True,
     instructions_sysvar = sample_sysvar m\<rparr>"

lemma sample_instruction_at:
  "instruction_at sample_runtime (sample_sysvar m) 0 = Ok (sample_precompile_ix m)"
  by (simp add: sample_runtime_def sample_sysvar_def sample_precompile_ix_def SECP256R1_PRECOMPILE_ID_def)

lemma sample_verified_payload:
  assumes "length m < 65536"
  shows "verified_payload rt sysvar (sample_precompile_data m) 0 = Some (sample_payload m)"
proof -
  have "signature_offsets_from_bytes (take 14 (drop 2 (sample_precompile_data m))) = sample_offsets m"
    using offsets.dec_enc [of "sample_offsets m"] by (simp add: sample_precompile_data_def)
  moreover have "length (sample_precompile_data m) = 113 + length m"
    by (simp add: sample_precompile_data_def)
  moreover have "take 64 (drop 49 (sample_precompile_data m)) = replicate 64 5"
    "take 33 (drop 16 (sample_precompile_data m)) = replicate 33 2"
    "take (length m) (drop 113 (sample_precompile_data m)) = m"
    by (simp_all add: sample_precompile_data_def)
  moreover have "unat (of_nat (length m) :: u16) = length m"
    using assms by (simp add: unat_of_nat)
  ultimately show ?thesis
    by (simp add: verified_payload_def verified_bytes_def sample_offsets_def)
qed

lemma sample_parser_new:
  "precompile_parser_new Secp256r1Precompile (sample_precompile_ix m) (sample_sysvar m) = Ok (sample_parser m)"
  by (simp add: precompile_parser_new_def Secp256r1Precompile_def sample_precompile_ix_def)

lemma sample_num_signatures: "num_signatures (sample_parser m) = Ok 1"
  by (simp add: num_signatures_def index_def sample_precompile_data_def)

lemma sample_get_payload:
  "length m < 65536 \<Longrightarrow>
     get_signature_payload sample_runtime Secp256r1Precompile (sample_parser m) 0 = Ok (sample_payload m)"
  using get_signature_payload_verified [of sample_runtime "sample_parser m" 0 "sample_payload m" 1]
  by (simp add: sample_verified_payload sample_num_signatures)

lemma sample_secp256r1_verified:
  assumes "length m < 65536"
  shows "secp256r1_verified sample_runtime sample_ecdsa (sample_sysvar m)"
proof -
  have "sample_precompile_data m ! 0 = 1" "sample_precompile_data m \<noteq> []"
    by (simp_all add: sample_precompile_data_def)
  then show ?thesis
    using assms by (auto simp: secp256r1_verified_def sample_instruction_at sample_verified_payload
        sample_ecdsa_def sample_precompile_ix_def)
qed

theorem parser_reads_verified_payload_witness:
  "get_signature_payload sample_runtime Secp256r1Precompile (sample_parser [7, 8, 9]) 0 =
     Ok (sample_payload [7, 8, 9])"
  using parser_reads_verified_payload [OF sample_secp256r1_verified sample_instruction_at sample_parser_new
      sample_num_signatures, of "[7, 8, 9]" 0]
  by (simp add: sample_precompile_ix_def sample_verified_payload)

end
