(* ===== verification/AuthenticatorData.thy ===== *)
theory AuthenticatorData
  imports Errors
begin

text \<open>
  \<open>src/utils/signatures/p256_webauthn/authenticator_data.rs\<close>: the fixed head of WebAuthn
  authenticator data: 32 bytes of RP id hash, a flags byte, a big-endian signature counter.  Too
  short an input panics, as the slice accesses of the source do.
\<close>

record auth_data_parser =
  auth_data :: bytes

definition auth_data_parser_new :: "bytes \<Rightarrow> auth_data_parser" where
  "auth_data_parser_new bs = \<lparr>auth_data = bs\<rparr>"

definition auth_rp_id_hash :: "auth_data_parser \<Rightarrow> bytes result" where
  "auth_rp_id_hash p = slice (auth_data p) 0 32"

definition is_user_present :: "auth_data_parser \<Rightarrow> bool result" where
  "is_user_present p = and_then (index (auth_data p) 32) (\<lambda>flags. Ok (flags AND 0x01 \<noteq> 0))"

definition is_user_verified :: "auth_data_parser \<Rightarrow> bool result" where
  "is_user_verified p = and_then (index (auth_data p) 32) (\<lambda>flags. Ok (flags AND 0x04 \<noteq> 0))"

definition get_counter :: "auth_data_parser \<Rightarrow> u32 result" where
  "get_counter p = and_then (slice (auth_data p) 33 37) (\<lambda>bs. Ok (u32_from_be bs))"

text \<open>The layout the WebAuthn specification gives (flags: bit 0 user present, bit 2 user verified).\<close>

definition encode_auth_data :: "bytes \<Rightarrow> bool \<Rightarrow> bool \<Rightarrow> u32 \<Rightarrow> bytes \<Rightarrow> bytes" where
  "encode_auth_data rp_hash up uv counter rest =
     rp_hash @ [(if up then 1 else 0) OR (if uv then 4 else 0)] @ rev (le_bytes 4 (unat counter)) @ rest"

lemma u32_from_be_rev: "u32_from_be (rev (le_bytes 4 (unat c))) = c"
proof -
  have "unat c < 256 ^ 4" using unsigned_less [of c] by simp
  then show ?thesis by (simp add: u32_from_be_def be_nat_def le_nat_le_bytes)
qed

lemma auth_data_parsed:
  assumes "length rp_hash = 32"
    and d: "p = auth_data_parser_new (encode_auth_data rp_hash up uv counter rest)"
  shows "auth_rp_id_hash p = Ok rp_hash \<and> is_user_present p = Ok up \<and>
    is_user_verified p = Ok uv \<and> get_counter p = Ok counter"
proof -
  let ?flag = "(if up then 1 else 0) OR (if uv then 4 else 0) :: u8"
  have d: "auth_data p = rp_hash @ [?flag] @ rev (le_bytes 4 (unat counter)) @ rest"
    by (simp add: d auth_data_parser_new_def encode_auth_data_def)
  have "auth_data p ! 32 = ?flag" using assms(1) by (simp add: d nth_append)
  moreover have "take 4 (drop 33 (auth_data p)) = rev (le_bytes 4 (unat counter))"
    using assms(1) by (simp add: d)
  moreover have "(?flag AND 1 \<noteq> 0) = up" "(?flag AND 4 \<noteq> 0) = uv" by simp_all
  ultimately show ?thesis
    using assms(1)
    by (simp add: auth_rp_id_hash_def is_user_present_def is_user_verified_def get_counter_def
        slice_def index_def d u32_from_be_rev)
qed

text \<open>
  On authenticator data laid out as WebAuthn says, the parser returns the RP id hash, the
  two flags and the counter that were put in.
\<close>

theorem auth_data_round_trip:
  assumes "length rp_hash = 32"
    and d: "p = auth_data_parser_new (encode_auth_data rp_hash up uv counter rest)"
  shows "auth_rp_id_hash p = Ok rp_hash \<and> is_user_present p = Ok up \<and>
    is_user_verified p = Ok uv \<and> get_counter p = Ok counter"
  using assms by (rule auth_data_parsed)

theorem auth_data_round_trip_witness:
  "get_counter (auth_data_parser_new (encode_auth_data (replicate 32 9) True False 258 [])) = Ok 258"
  using auth_data_round_trip [of "replicate 32 9" _ True False 258 "[]"] by simp

end
