(* ===== verification/SmallVec.thy ===== *)
theory SmallVec
  imports Borsh
begin

text \<open>
  \<open>src/utils/small_vec.rs\<close>: vectors whose serialised length is a \<open>u8\<close> or a \<open>u16\<close>.  A
  \<open>SmallVec<L, T>\<close> is the list of its elements (the length type \<open>L\<close> is phantom) and \<open>L\<close> an
  argument of the operations; the element's \<open>BorshSerialize\<close>/\<open>BorshDeserialize\<close> operations,
  the hooks for byte vectors included, are arguments, as they are in the generic source.
\<close>

section \<open>Length types\<close>

datatype len_type = L_u8 | L_u16

type_synonym 'a small_vec = "'a list"

text \<open>\<open>L::try_from(usize)\<close>, \<open>to_le_bytes\<close>, and \<open>L::deserialize_reader(reader)?.into()\<close>.\<close>

fun len_max :: "len_type \<Rightarrow> nat" where
  "len_max L_u8 = 255"
| "len_max L_u16 = 65535"

fun len_to_le_bytes :: "len_type \<Rightarrow> nat \<Rightarrow> bytes" where
  "len_to_le_bytes L_u8 n = le_bytes 1 n"
| "len_to_le_bytes L_u16 n = le_bytes 2 n"

fun len_deserialize :: "borsh \<Rightarrow> len_type \<Rightarrow> nat reader" where
  "len_deserialize B L_u8 bs = do { (l, bs) \<leftarrow> read_u8 B bs; Some (unat l, bs) }"
| "len_deserialize B L_u16 bs = do { (l, bs) \<leftarrow> read_u16 B bs; Some (unat l, bs) }"


section \<open>Operations\<close>

text \<open>\<open>TryFrom<Vec<T>>\<close>.\<close>

definition small_vec_try_from :: "len_type \<Rightarrow> 'a list \<Rightarrow> string + 'a small_vec" where
  "small_vec_try_from L val =
     (if len_max L < length val then Inl ''Vector length exceeds SmallVec capacity'' else Inr val)"

text \<open>\<open>serialize_slice\<close>: a byte slice in one piece, anything else item by item.\<close>

fun serialize_items :: "'a writer \<Rightarrow> 'a list \<Rightarrow> bytes option" where
  "serialize_items wr [] = Some []"
| "serialize_items wr (x # xs) =
     do { b \<leftarrow> wr x; bs \<leftarrow> serialize_items wr xs; Some (b @ bs) }"

definition serialize_slice :: "('a list \<Rightarrow> bytes option) \<Rightarrow> 'a writer \<Rightarrow> 'a list \<Rightarrow> bytes option" where
  "serialize_slice u8_slice wr data =
     (case u8_slice data of Some s \<Rightarrow> Some s | None \<Rightarrow> serialize_items wr data)"

text \<open>\<open>BorshSerialize for SmallVec<u8, T>\<close> and \<open>for SmallVec<u16, T>\<close>, which differ in \<open>L\<close> only.\<close>

definition small_vec_serialize ::
  "len_type \<Rightarrow> ('a list \<Rightarrow> bytes option) \<Rightarrow> 'a writer \<Rightarrow> 'a small_vec writer" where
  "small_vec_serialize L u8_slice wr v =
     (if len_max L < length v then None
      else do { s \<leftarrow> serialize_slice u8_slice wr v; Some (len_to_le_bytes L (length v) @ s) })"

text \<open>\<open>BorshDeserialize for SmallVec<L, T>\<close>; \<open>vec_from_reader\<close> is the element type's hook.\<close>

fun deserialize_items :: "'a reader \<Rightarrow> nat \<Rightarrow> 'a list reader" where
  "deserialize_items rd 0 bs = Some ([], bs)"
| "deserialize_items rd (Suc n) bs =
     do { (x, bs) \<leftarrow> rd bs; (xs, bs) \<leftarrow> deserialize_items rd n bs; Some (x # xs, bs) }"

definition small_vec_deserialize ::
  "borsh \<Rightarrow> len_type \<Rightarrow> (nat \<Rightarrow> bytes \<Rightarrow> ('a list option \<times> bytes) option) \<Rightarrow> 'a reader
     \<Rightarrow> 'a small_vec reader" where
  "small_vec_deserialize B L vec_from_reader rd bs = do {
     (len, bs) \<leftarrow> len_deserialize B L bs;
     if len = 0 then Some ([], bs)
     else do {
       (hook, bs) \<leftarrow> vec_from_reader len bs;
       case hook of
         Some vec_bytes \<Rightarrow> Some (vec_bytes, bs)
       | None \<Rightarrow> deserialize_items rd len bs } }"

text \<open>Vectors of bytes.\<close>

abbreviation byte_vec_writer :: "borsh \<Rightarrow> len_type \<Rightarrow> u8 small_vec writer" where
  "byte_vec_writer B L \<equiv> small_vec_serialize L (u8_u8_slice B) (\<lambda>b. Some (write_u8 B b))"

abbreviation byte_vec_reader :: "borsh \<Rightarrow> len_type \<Rightarrow> u8 small_vec reader" where
  "byte_vec_reader B L \<equiv> small_vec_deserialize B L (u8_vec_from_reader B) (read_u8 B)"

text \<open>
  \<open>hint::cautious\<close>: how many elements to reserve up front for a claimed length (\<open>u32\<close>
  arithmetic; a zero-sized element type would divide by zero and panic, \<open>None\<close> here).
\<close>

definition cautious :: "u32 \<Rightarrow> u32 \<Rightarrow> nat option" where
  "cautious el_size hint =
     (if el_size = 0 then None else Some (unat (max (min hint (4096 div el_size)) 1)))"


section \<open>Laws\<close>

lemma small_vec_try_from_Inr: "small_vec_try_from L v = Inr w \<longleftrightarrow> w = v \<and> length v \<le> len_max L"
  by (auto simp: small_vec_try_from_def)

lemma deserialize_items_length:
  "deserialize_items rd n bs = Some (xs, r) \<Longrightarrow> length xs = n"
  by (induction n arbitrary: bs xs r) (auto simp: bind_eq_Some_conv)

text \<open>The elements, one after the other, with any codec.\<close>

context codec
begin

lemma items_read_write:
  "serialize_items wr xs = Some bs \<Longrightarrow> deserialize_items rd (length xs) (bs @ r) = Some (xs, r)"
  by (induction xs arbitrary: bs) (auto simp: bind_eq_Some_conv read_write)

lemma items_write_read:
  "deserialize_items rd n bs = Some (xs, r) \<Longrightarrow> \<exists>c. serialize_items wr xs = Some c \<and> bs = c @ r"
proof (induction n arbitrary: bs xs r)
  case (Suc n)
  then obtain x ys b1 where x: "rd bs = Some (x, b1)" and ys: "deserialize_items rd n b1 = Some (ys, r)"
    and xs: "xs = x # ys"
    by (auto simp: bind_eq_Some_conv)
  from write_read [OF x] Suc.IH [OF ys] xs show ?case by auto
qed simp

end

context codec
begin

lemma items_injective:
  assumes "serialize_items wr xs = Some a" and "serialize_items wr ys = Some b"
    and "length xs = length ys" and "a @ r = b @ s"
  shows "xs = ys \<and> r = s"
  using trans [OF items_read_write [OF assms(1), of r, unfolded assms(3,4), symmetric]
      items_read_write [OF assms(2), of s]]
  by simp

end

text \<open>The two instances the program uses: vectors of bytes, and vectors of other elements.\<close>

context borsh_format
begin

lemma len_read_write:
  "n \<le> len_max L \<Longrightarrow> len_deserialize B L (len_to_le_bytes L n @ r) = Some (n, r)"
  by (cases L)
     (simp_all add: r_u8 r_u16 u16_from_le_def le_nat_le_bytes unat_of_nat)

lemma len_write_read:
  assumes "len_deserialize B L bs = Some (n, r)"
  shows "n \<le> len_max L \<and> bs = len_to_le_bytes L n @ r"
proof (cases L)
  case L_u8
  with assms obtain l where l: "read_u8 B bs = Some (l, r)" and n: "n = unat l"
    by (auto simp: bind_eq_Some_conv)
  from l have "bs = l # r" by (simp add: write_read_u8 w_u8)
  with L_u8 n unat_lt_256 [of l] show ?thesis by simp
next
  case L_u16
  with assms obtain l where l: "read_u16 B bs = Some (l, r)" and n: "n = unat l"
    by (auto simp: bind_eq_Some_conv)
  from l have "bs = u16_to_le l @ r" by (simp add: write_read_u16 w_u16)
  moreover have "unat l < 65536" using unsigned_less [of l] by simp
  ultimately show ?thesis using L_u16 n by (simp add: u16_to_le_def)
qed

lemma small_vec_bytes_codec:
  "codec (small_vec_serialize L (u8_u8_slice B) wr)
         (small_vec_deserialize B L (u8_vec_from_reader B) rd)"
proof
  fix x bs rest
  assume "small_vec_serialize L (u8_u8_slice B) wr x = Some bs"
  then have "length x \<le> len_max L" "bs = len_to_le_bytes L (length x) @ x"
    by (auto simp: small_vec_serialize_def serialize_slice_def w_slice split: if_splits)
  then show "small_vec_deserialize B L (u8_vec_from_reader B) rd (bs @ rest) = Some (x, rest)"
    by (simp add: small_vec_deserialize_def len_read_write r_vec)
next
  fix x bs rest
  assume "small_vec_deserialize B L (u8_vec_from_reader B) rd bs = Some (x, rest)"
  then obtain n b1 where n: "len_deserialize B L bs = Some (n, b1)"
    and x: "x = take n b1" "rest = drop n b1" "n \<le> length b1"
    by (fastforce simp: small_vec_deserialize_def bind_eq_Some_conv r_vec split: if_splits)
  from len_write_read [OF n] x
  show "\<exists>c. small_vec_serialize L (u8_u8_slice B) wr x = Some c \<and> bs = c @ rest"
    by (auto simp: small_vec_serialize_def serialize_slice_def w_slice)
qed

lemma small_vec_codec:
  assumes elem: "codec wr rd"
  shows "codec (small_vec_serialize L no_u8_slice wr) (small_vec_deserialize B L no_vec_from_reader rd)"
proof
  fix x bs rest
  assume "small_vec_serialize L no_u8_slice wr x = Some bs"
  then obtain s where "length x \<le> len_max L" "bs = len_to_le_bytes L (length x) @ s"
    and "serialize_items wr x = Some s"
    by (auto simp: small_vec_serialize_def serialize_slice_def no_u8_slice_def bind_eq_Some_conv
        split: if_splits)
  then show "small_vec_deserialize B L no_vec_from_reader rd (bs @ rest) = Some (x, rest)"
    using codec.items_read_write [OF elem, of x s rest]
    by (auto simp: small_vec_deserialize_def no_vec_from_reader_def len_read_write)
next
  fix x bs rest
  assume "small_vec_deserialize B L no_vec_from_reader rd bs = Some (x, rest)"
  then obtain n b1 where n: "len_deserialize B L bs = Some (n, b1)"
    and x: "deserialize_items rd n b1 = Some (x, rest)"
    by (fastforce simp: small_vec_deserialize_def no_vec_from_reader_def bind_eq_Some_conv
        split: if_splits)
  from codec.items_write_read [OF elem x] deserialize_items_length [OF x] len_write_read [OF n]
  show "\<exists>c. small_vec_serialize L no_u8_slice wr x = Some c \<and> bs = c @ rest"
    by (auto simp: small_vec_serialize_def serialize_slice_def no_u8_slice_def)
qed

end

text \<open>A claimed length never makes the reader reserve more than 4096 bytes for small elements.\<close>

lemma cautious_bound:
  assumes "cautious el_size hint = Some n" and "el_size \<le> 4096"
  shows "n * unat el_size \<le> 4096"
proof -
  have el: "0 < el_size" using assms(1) by (auto simp: cautious_def word_neq_0_conv split: if_splits)
  have q: "unat (4096 div el_size) * unat el_size \<le> 4096"
    by (simp add: unat_div div_times_less_eq_dividend)
  have one: "1 \<le> 4096 div el_size"
    using assms(2) el by (simp add: word_le_nat_alt unat_div word_less_nat_alt div_greater_zero_iff Suc_leI)
  have "max (min hint (4096 div el_size)) 1 \<le> 4096 div el_size"
    using one by simp
  then have "n \<le> unat (4096 div el_size)"
    using assms(1) by (auto simp: cautious_def word_le_nat_alt split: if_splits)
  then show ?thesis using q by (meson mult_le_mono1 order_trans)
qed

text \<open>
  Byte vectors with a \<open>u8\<close> or \<open>u16\<close> length: serialising fails exactly beyond the length
  type's capacity, what is written is the length and the bytes, and it is read back exactly,
  leaving the rest of the input.
\<close>

theorem small_vec_bytes_round_trip:
  assumes "borsh_format B"
  shows "(byte_vec_writer B L v = None \<longleftrightarrow> len_max L < length v) \<and>
    (\<forall>bs. byte_vec_writer B L v = Some bs \<longrightarrow>
       bs = len_to_le_bytes L (length v) @ v \<and> byte_vec_reader B L (bs @ rest) = Some (v, rest))"
proof -
  note c = borsh_format.small_vec_bytes_codec [OF assms, of L "\<lambda>b. Some (write_u8 B b)" "read_u8 B"]
  show ?thesis
    using codec.read_write [OF c, of v _ rest] borsh_format.w_slice [OF assms]
    by (auto simp: small_vec_serialize_def serialize_slice_def)
qed

theorem small_vec_bytes_round_trip_witness:
  "byte_vec_reader borsh_le L_u16 ([2, 0, 7, 8] @ [9]) = Some ([7, 8], [9])"
  using small_vec_bytes_round_trip [OF ref.borsh_format_axioms, of L_u16 "[7, 8]" "[9]"]
  by (simp add: small_vec_serialize_def serialize_slice_def borsh_le_def numeral_2_eq_2)

end
