(* ===== verification/ClientDataJson.thy ===== *)
theory ClientDataJson
  imports Runtime SmallVec Sample
begin

text \<open>
  \<open>src/utils/signatures/p256_webauthn/client_data_json.rs\<close>: the bytes of the browser's
  clientDataJSON, rebuilt from one byte of flags, an optional port, the RP id and the challenge.
\<close>

section \<open>Reconstruction parameters\<close>

record client_data_json_params =
  type_and_flags :: u8
  port :: "u16 option"

datatype auth_type = Create | Get

definition TYPE_CREATE :: u8 where "TYPE_CREATE = 0x00"
definition TYPE_GET :: u8 where "TYPE_GET = 0x10"
definition FLAG_CROSS_ORIGIN :: u8 where "FLAG_CROSS_ORIGIN = 0x01"
definition FLAG_HTTP_ORIGIN :: u8 where "FLAG_HTTP_ORIGIN = 0x02"
definition FLAG_GOOGLE_EXTRA :: u8 where "FLAG_GOOGLE_EXTRA = 0x04"
definition FLAG_OMIT_CROSS_ORIGIN :: u8 where "FLAG_OMIT_CROSS_ORIGIN = 0x08"

lemmas flag_defs = TYPE_CREATE_def TYPE_GET_def FLAG_CROSS_ORIGIN_def FLAG_HTTP_ORIGIN_def
  FLAG_GOOGLE_EXTRA_def FLAG_OMIT_CROSS_ORIGIN_def

definition new_with_optional_cross_origin ::
  "auth_type \<Rightarrow> bool \<Rightarrow> bool \<Rightarrow> bool \<Rightarrow> bool \<Rightarrow> u16 option \<Rightarrow> client_data_json_params" where
  "new_with_optional_cross_origin ty cross_origin has_cross_origin is_http has_google_extra p =
     (let value = (case ty of Create \<Rightarrow> TYPE_CREATE | Get \<Rightarrow> TYPE_GET);
          value = (if cross_origin then value OR FLAG_CROSS_ORIGIN else value);
          value = (if is_http then value OR FLAG_HTTP_ORIGIN else value);
          value = (if has_google_extra then value OR FLAG_GOOGLE_EXTRA else value);
          value = (if \<not> has_cross_origin then value OR FLAG_OMIT_CROSS_ORIGIN else value)
      in \<lparr>type_and_flags = value, port = p\<rparr>)"

definition client_data_json_params_new ::
  "auth_type \<Rightarrow> bool \<Rightarrow> bool \<Rightarrow> bool \<Rightarrow> u16 option \<Rightarrow> client_data_json_params" where
  "client_data_json_params_new ty cross_origin is_http has_google_extra p =
     new_with_optional_cross_origin ty cross_origin True is_http has_google_extra p"

definition auth_type_of :: "client_data_json_params \<Rightarrow> auth_type" where
  "auth_type_of p = (if type_and_flags p AND 0xF0 = TYPE_GET then Get else Create)"

definition is_cross_origin :: "client_data_json_params \<Rightarrow> bool" where
  "is_cross_origin p \<longleftrightarrow> type_and_flags p AND FLAG_CROSS_ORIGIN \<noteq> 0"

definition is_http :: "client_data_json_params \<Rightarrow> bool" where
  "is_http p \<longleftrightarrow> type_and_flags p AND FLAG_HTTP_ORIGIN \<noteq> 0"

definition has_google_extra :: "client_data_json_params \<Rightarrow> bool" where
  "has_google_extra p \<longleftrightarrow> type_and_flags p AND FLAG_GOOGLE_EXTRA \<noteq> 0"

definition omits_cross_origin :: "client_data_json_params \<Rightarrow> bool" where
  "omits_cross_origin p \<longleftrightarrow> type_and_flags p AND FLAG_OMIT_CROSS_ORIGIN \<noteq> 0"

text \<open>The derived borsh operations: the fields in order.\<close>

definition client_data_json_params_serialize :: "borsh \<Rightarrow> client_data_json_params writer" where
  "client_data_json_params_serialize B p = do {
     po \<leftarrow> write_option B (\<lambda>x. Some (write_u16 B x)) (port p);
     Some (write_u8 B (type_and_flags p) @ po) }"

definition client_data_json_params_deserialize :: "borsh \<Rightarrow> client_data_json_params reader" where
  "client_data_json_params_deserialize B bs = do {
     (t, bs) \<leftarrow> read_u8 B bs;
     (p, bs) \<leftarrow> read_option B (read_u16 B) bs;
     Some (\<lparr>type_and_flags = t, port = p\<rparr>, bs) }"

section \<open>UTF-8\<close>

text \<open>
  \<open>std::str::from_utf8\<close> accepts exactly the well-formed byte sequences of the Unicode standard
  (table 3-7): no overlong forms, no surrogates, nothing above U+10FFFF.
\<close>

definition utf8_cont :: "u8 \<Rightarrow> bool" where
  "utf8_cont b \<longleftrightarrow> 0x80 \<le> b \<and> b \<le> 0xBF"

fun utf8_valid :: "bytes \<Rightarrow> bool" where
  "utf8_valid [] = True"
| "utf8_valid (a # r) =
     (if a < 0x80 then utf8_valid r
      else if 0xC2 \<le> a \<and> a \<le> 0xDF then
        (case r of b # r \<Rightarrow> utf8_cont b \<and> utf8_valid r | _ \<Rightarrow> False)
      else if 0xE0 \<le> a \<and> a \<le> 0xEF then
        (case r of b # c # r \<Rightarrow>
           (if a = 0xE0 then 0xA0 \<le> b \<and> b \<le> 0xBF
            else if a = 0xED then 0x80 \<le> b \<and> b \<le> 0x9F else utf8_cont b)
           \<and> utf8_cont c \<and> utf8_valid r
         | _ \<Rightarrow> False)
      else if 0xF0 \<le> a \<and> a \<le> 0xF4 then
        (case r of b # c # d # r \<Rightarrow>
           (if a = 0xF0 then 0x90 \<le> b \<and> b \<le> 0xBF
            else if a = 0xF4 then 0x80 \<le> b \<and> b \<le> 0x8F else utf8_cont b)
           \<and> utf8_cont c \<and> utf8_cont d \<and> utf8_valid r
         | _ \<Rightarrow> False)
      else False)"

definition from_utf8 :: "bytes \<Rightarrow> bytes option" where
  "from_utf8 bs = (if utf8_valid bs then Some bs else None)"

section \<open>Reconstruction\<close>

definition quote :: bytes where "quote = [0x22]"

definition quoted :: "string \<Rightarrow> bytes" where
  "quoted s = quote @ ascii s @ quote"

text \<open>The literal pieces of the JSON text.\<close>

definition json_type :: bytes where
  "json_type = ascii ''{'' @ quoted ''type'' @ ascii '':'' @ quote"

definition json_challenge :: bytes where
  "json_challenge = quote @ ascii '','' @ quoted ''challenge'' @ ascii '':'' @ quote"

definition json_origin :: bytes where
  "json_origin = quote @ ascii '','' @ quoted ''origin'' @ ascii '':'' @ quote"

definition json_cross_origin :: bytes where
  "json_cross_origin = ascii '','' @ quoted ''crossOrigin'' @ ascii '':''"

definition json_google_extra :: bytes where
  "json_google_extra = ascii '','' @ quoted ''other_keys_can_be_added_here'' @ ascii '':'' @
     quoted ''do not compare clientDataJSON against a template. See https://goo.gl/yabPex''"

definition type_str :: "auth_type \<Rightarrow> bytes" where
  "type_str ty = (case ty of Create \<Rightarrow> ascii ''webauthn.create'' | Get \<Rightarrow> ascii ''webauthn.get'')"

definition origin_of :: "client_data_json_params \<Rightarrow> bytes \<Rightarrow> bytes result" where
  "origin_of params rp_id =
     (let prefix = (if is_http params then ascii ''http://'' else ascii ''https://'')
      in and_then (unwrap (from_utf8 rp_id)) (\<lambda>rp.
         case port params of
           Some p \<Rightarrow> Ok (prefix @ rp @ ascii '':'' @ decimal (unat p))
         | None \<Rightarrow> Ok (prefix @ rp)))"

definition reconstruct_client_data_json ::
  "runtime \<Rightarrow> client_data_json_params \<Rightarrow> bytes \<Rightarrow> bytes \<Rightarrow> bytes result" where
  "reconstruct_client_data_json rt params rp_id challenge =
     (let challenge_b64url = base64_url_no_pad rt challenge
      in and_then (origin_of params rp_id) (\<lambda>origin.
         Ok (json_type @ type_str (auth_type_of params) @
             json_challenge @ challenge_b64url @
             json_origin @ origin @ quote @
             (if \<not> omits_cross_origin params
              then json_cross_origin @ (if is_cross_origin params then ascii ''true'' else ascii ''false'')
              else []) @
             (if has_google_extra params then json_google_extra else []) @
             ascii ''}'')))"

section \<open>Properties of the parameters\<close>

lemma params_accessors:
  assumes "p = new_with_optional_cross_origin ty co has_co http extra po"
  shows "auth_type_of p = ty" "is_cross_origin p = co" "omits_cross_origin p = (\<not> has_co)"
    "is_http p = http" "has_google_extra p = extra" "port p = po"
  unfolding assms
  by (cases ty; cases co; cases has_co; cases http; cases extra;
      simp add: new_with_optional_cross_origin_def auth_type_of_def is_cross_origin_def
        omits_cross_origin_def is_http_def has_google_extra_def flag_defs)+

text \<open>
  The packed byte keeps every choice: type, cross-origin value and presence, scheme and
  Chrome's extra field are read back as they were given.
\<close>

theorem params_round_trip:
  "let p = new_with_optional_cross_origin ty co has_co http extra po in
     auth_type_of p = ty \<and> is_cross_origin p = co \<and> omits_cross_origin p = (\<not> has_co) \<and>
     is_http p = http \<and> has_google_extra p = extra \<and> port p = po"
  by (simp add: params_accessors [OF refl] Let_def)

context borsh_format
begin

lemma client_data_json_params_codec:
  "codec (client_data_json_params_serialize B) (client_data_json_params_deserialize B)"
proof
  note opt = option_codec [OF u16_codec]
  show "client_data_json_params_deserialize B (bs @ rest) = Some (x, rest)"
    if "client_data_json_params_serialize B x = Some bs" for x bs rest
    using that codec.read_write [OF opt]
    by (auto simp: client_data_json_params_serialize_def client_data_json_params_deserialize_def
        bind_eq_Some_conv read_u8_write)
  show "\<exists>c. client_data_json_params_serialize B x = Some c \<and> bs = c @ rest"
    if "client_data_json_params_deserialize B bs = Some (x, rest)" for x bs rest
    using that codec.write_read [OF opt]
    by (fastforce simp: client_data_json_params_serialize_def client_data_json_params_deserialize_def
        bind_eq_Some_conv primitive_reads)
qed

end


section \<open>The reconstruction is unambiguous\<close>

text \<open>What the code relies on of base64url: different inputs encode differently, without quotes.\<close>

definition base64_url_laws :: "runtime \<Rightarrow> bool" where
  "base64_url_laws rt \<longleftrightarrow>
     (\<forall>a b. base64_url_no_pad rt a = base64_url_no_pad rt b \<longrightarrow> a = b) \<and>
     (\<forall>a. 0x22 \<notin> set (base64_url_no_pad rt a))"

lemma sample_base64_url_laws: "base64_url_laws sample_runtime"
  using b64url_inj b64url_not_quote by (auto simp: base64_url_laws_def sample_runtime_def)

lemma type_str_not_quote: "0x22 \<notin> set (type_str ty)"
  by (cases ty) (simp_all add: type_str_def ascii_def)

lemma type_str_inj: "type_str a = type_str b \<longleftrightarrow> a = b"
  by (cases a; cases b) (simp_all add: type_str_def ascii_def)

lemma decimal_not_quote: "0x22 \<notin> set (decimal n)"
  using decimal_digits [of "0x22" n] by auto

lemma origin_not_quote: "origin_of p rp = Ok o1 \<Longrightarrow> 0x22 \<notin> set rp \<Longrightarrow> 0x22 \<notin> set o1"
  using decimal_not_quote
  by (auto simp: origin_of_def Let_def result_simps from_utf8_def ascii_def
      split: option.splits if_splits)

text \<open>One quoted value after a common prefix determines the value and what follows.\<close>

lemma quoted_value:
  assumes "x @ quote @ r = y @ quote @ s" and "0x22 \<notin> set x" and "0x22 \<notin> set y"
  shows "x = y \<and> r = s"
  using split_at_first_occurrence [of x "0x22" r y s] assms by (simp add: quote_def)

lemma prefixed_quoted_value:
  assumes "k @ (x @ quote @ r) = k @ (y @ quote @ s)" and "0x22 \<notin> set x" and "0x22 \<notin> set y"
  shows "x = y \<and> r = s"
proof (rule quoted_value [OF _ assms(2,3)])
  show "x @ quote @ r = y @ quote @ s" using assms(1) by (simp only: same_append_eq)
qed

lemma reconstruct_parts:
  assumes "reconstruct_client_data_json rt p rp c = Ok j"
  shows "\<exists>orig tail. origin_of p rp = Ok orig \<and>
    j = json_type @ (type_str (auth_type_of p) @ quote @
        (ascii '','' @ quoted ''challenge'' @ ascii '':'' @ quote) @
        (base64_url_no_pad rt c @ quote @
         (ascii '','' @ quoted ''origin'' @ ascii '':'' @ quote) @
         (orig @ quote @ tail)))"
  using assms
  by (auto simp: reconstruct_client_data_json_def result_simps json_challenge_def json_origin_def)

lemma reconstruct_binds:
  assumes "base64_url_laws rt"
    and "reconstruct_client_data_json rt p rp c = Ok j"
    and "reconstruct_client_data_json rt p' rp' c' = Ok j"
    and "0x22 \<notin> set rp" and "0x22 \<notin> set rp'"
  shows "c = c' \<and> auth_type_of p = auth_type_of p' \<and> origin_of p rp = origin_of p' rp'"
proof -
  let ?q = "\<lambda>s. ascii '','' @ quoted s @ ascii '':'' @ quote"
  obtain o1 t1 where o1: "origin_of p rp = Ok o1"
    and j1: "j = json_type @ (type_str (auth_type_of p) @ quote @ ?q ''challenge'' @
      (base64_url_no_pad rt c @ quote @ ?q ''origin'' @ (o1 @ quote @ t1)))"
    using reconstruct_parts [OF assms(2)] by blast
  obtain o2 t2 where o2: "origin_of p' rp' = Ok o2"
    and j2: "j = json_type @ (type_str (auth_type_of p') @ quote @ ?q ''challenge'' @
      (base64_url_no_pad rt c' @ quote @ ?q ''origin'' @ (o2 @ quote @ t2)))"
    using reconstruct_parts [OF assms(3)] by blast
  note quotes = assms(1) [unfolded base64_url_laws_def, THEN conjunct2, rule_format]
  note first = prefixed_quoted_value [OF trans [OF j1 [symmetric] j2] type_str_not_quote type_str_not_quote]
  note second = prefixed_quoted_value [OF first [THEN conjunct2] quotes quotes]
  note third = prefixed_quoted_value [OF second [THEN conjunct2]
      origin_not_quote [OF o1 assms(4)] origin_not_quote [OF o2 assms(5)]]
  have ty: "type_str (auth_type_of p) = type_str (auth_type_of p')" using first by blast
  have b64: "base64_url_no_pad rt c = base64_url_no_pad rt c'" using second by blast
  have "o1 = o2" using third by blast
  moreover have "c = c'"
    using assms(1) [unfolded base64_url_laws_def, THEN conjunct1, rule_format, OF b64] .
  moreover have "auth_type_of p = auth_type_of p'" using ty type_str_inj by simp
  ultimately show ?thesis using o1 o2 by simp
qed

text \<open>
  The JSON text binds the challenge: two reconstructions that agree byte for byte have the
  same challenge, the same ceremony type and the same origin, whatever parameters and RP ids
  (without quotes) they came from.
\<close>

theorem client_data_json_binds_challenge:
  assumes "base64_url_laws rt"
    and "reconstruct_client_data_json rt p rp c = Ok j"
    and "reconstruct_client_data_json rt p' rp' c' = Ok j"
    and "0x22 \<notin> set rp" and "0x22 \<notin> set rp'"
  shows "c = c' \<and> auth_type_of p = auth_type_of p' \<and> origin_of p rp = origin_of p' rp'"
  using assms by (rule reconstruct_binds)

text \<open>The repository's own test vector: \<open>test_reconstruct_client_data_json_with_port\<close>.\<close>

definition sample_params :: client_data_json_params where
  "sample_params = client_data_json_params_new Get False True False (Some 3000)"

definition sample_json :: "bytes \<Rightarrow> bytes" where
  "sample_json challenge_b64url =
     ascii ''{'' @ quoted ''type'' @ ascii '':'' @ quoted ''webauthn.get'' @
     ascii '','' @ quoted ''challenge'' @ ascii '':'' @ quote @ challenge_b64url @ quote @
     ascii '','' @ quoted ''origin'' @ ascii '':'' @ quoted ''http://localhost:3000'' @
     ascii '','' @ quoted ''crossOrigin'' @ ascii '':false}''"

lemma b64url_hello_world: "b64url (ascii ''hello_world'') = ascii ''aGVsbG9fd29ybGQ''"
  by (simp add: ascii_def b64_char_def b64_alphabet_def)

lemma decimal_3000: "decimal 3000 = ascii ''3000''"
  by (simp add: decimal.simps ascii_def)

lemma utf8_localhost: "utf8_valid (ascii ''localhost'')"
  by (simp add: ascii_def)

lemma localhost_not_quote: "0x22 \<notin> set (ascii ''localhost'')"
  by (simp add: ascii_def)

lemma sample_reconstruct:
  "reconstruct_client_data_json sample_runtime sample_params (ascii ''localhost'') c = Ok (sample_json (b64url c))"
proof -
  have "auth_type_of sample_params = Get" "\<not> is_cross_origin sample_params"
    "\<not> omits_cross_origin sample_params" "is_http sample_params"
    "\<not> has_google_extra sample_params" "port sample_params = Some 3000"
    by (simp_all add: sample_params_def client_data_json_params_new_def params_accessors [OF refl])
  then show ?thesis
    by (simp add: reconstruct_client_data_json_def origin_of_def from_utf8_def utf8_localhost
        sample_runtime_def decimal_3000 type_str_def json_type_def sample_json_def
        json_challenge_def json_origin_def json_cross_origin_def quoted_def)
       (simp add: ascii_def quote_def)
qed

lemma reconstruct_test_with_port:
  "reconstruct_client_data_json sample_runtime sample_params (ascii ''localhost'') (ascii ''hello_world'') =
     Ok (sample_json (ascii ''aGVsbG9fd29ybGQ''))"
  by (simp add: sample_reconstruct b64url_hello_world)

theorem client_data_json_binds_challenge_witness:
  "reconstruct_client_data_json sample_runtime sample_params (ascii ''localhost'') (ascii ''hello_world'')
     = Ok (sample_json (ascii ''aGVsbG9fd29ybGQ'')) \<and>
   reconstruct_client_data_json sample_runtime sample_params (ascii ''localhost'') (ascii ''hello_w0rld'')
     \<noteq> Ok (sample_json (ascii ''aGVsbG9fd29ybGQ''))"
proof -
  have "ascii ''hello_world'' \<noteq> ascii ''hello_w0rld''" by (simp add: ascii_def)
  then show ?thesis
    using client_data_json_binds_challenge [OF sample_base64_url_laws reconstruct_test_with_port _
        localhost_not_quote localhost_not_quote, of sample_params "ascii ''hello_w0rld''"]
      reconstruct_test_with_port by blast
qed

end
