(* ===== verification/P256Webauthn.thy ===== *)
theory P256Webauthn
  imports ExternallySigned Precompiles AuthenticatorData ClientDataJson
begin

text \<open>
  \<open>src/state/p256_webauthn/\<close>: the P-256 passkey scheme.  Its raw and parsed arguments, the seeds
  of its accounts and the functions of its trait implementation (\<open>trait_impl.rs\<close>) on the account
  struct of \<open>AccountLayout\<close>; \<open>p256_trait\<close> collects them.
\<close>

section \<open>Arguments\<close>

record p256_raw_initialization_data =
  raw_rp_id :: "u8 small_vec"
  raw_init_public_key :: bytes
  raw_init_params :: client_data_json_params

record p256_parsed_initialization_data =
  parsed_rp_id_info :: rp_id_information
  parsed_init_public_key :: compressed_p256_public_key
  parsed_counter :: u64
  parsed_init_params :: client_data_json_params

record p256_raw_verification_data =
  raw_verif_public_key :: bytes
  raw_verif_params :: client_data_json_params

record p256_parsed_verification_data =
  parsed_verif_public_key :: compressed_p256_public_key
  parsed_verif_params :: client_data_json_params

text \<open>The derived borsh operations: the fields in order.\<close>

definition p256_raw_initialization_data_deserialize :: "borsh \<Rightarrow> p256_raw_initialization_data reader" where
  "p256_raw_initialization_data_deserialize B bs = do {
     (rp, bs) \<leftarrow> small_vec_deserialize B L_u8 (u8_vec_from_reader B) (read_u8 B) bs;
     (pk, bs) \<leftarrow> read_array B 33 bs;
     (params, bs) \<leftarrow> client_data_json_params_deserialize B bs;
     Some (\<lparr>raw_rp_id = rp, raw_init_public_key = pk, raw_init_params = params\<rparr>, bs) }"

definition p256_raw_initialization_data_serialize :: "borsh \<Rightarrow> p256_raw_initialization_data writer" where
  "p256_raw_initialization_data_serialize B d = do {
     rp \<leftarrow> small_vec_serialize L_u8 (u8_u8_slice B) (\<lambda>b. Some (write_u8 B b)) (raw_rp_id d);
     params \<leftarrow> client_data_json_params_serialize B (raw_init_params d);
     Some (rp @ write_array B (raw_init_public_key d) @ params) }"

definition p256_raw_verification_data_deserialize :: "borsh \<Rightarrow> p256_raw_verification_data reader" where
  "p256_raw_verification_data_deserialize B bs = do {
     (pk, bs) \<leftarrow> read_array B 33 bs;
     (params, bs) \<leftarrow> client_data_json_params_deserialize B bs;
     Some (\<lparr>raw_verif_public_key = pk, raw_verif_params = params\<rparr>, bs) }"

definition p256_raw_verification_data_serialize :: "borsh \<Rightarrow> p256_raw_verification_data writer" where
  "p256_raw_verification_data_serialize B d = do {
     params \<leftarrow> client_data_json_params_serialize B (raw_verif_params d);
     Some (write_array B (raw_verif_public_key d) @ params) }"

definition p256_parse_initialization_data ::
  "runtime \<Rightarrow> p256_raw_initialization_data \<Rightarrow> p256_parsed_initialization_data result" where
  "p256_parse_initialization_data rt data =
     and_then (ensure (\<not> 32 < length (raw_rp_id data)) (prog_err P256RelyingPartTooLong)) (\<lambda>_.
     and_then (ensure (0x22 \<notin> set (raw_rp_id data)) (prog_err P256RelyingPartIncludeQuotes)) (\<lambda>_.
     and_then (rp_id_information_new (raw_rp_id data) (hash rt (raw_rp_id data))) (\<lambda>info.
     and_then (compressed_p256_public_key_new (raw_init_public_key data)) (\<lambda>pk.
     Ok \<lparr>parsed_rp_id_info = info, parsed_init_public_key = pk, parsed_counter = 0,
         parsed_init_params = raw_init_params data\<rparr>))))"

definition p256_parse_verification_data ::
  "p256_raw_verification_data \<Rightarrow> p256_parsed_verification_data result" where
  "p256_parse_verification_data data =
     and_then (compressed_p256_public_key_new (raw_verif_public_key data)) (\<lambda>pk.
     Ok \<lparr>parsed_verif_public_key = pk, parsed_verif_params = raw_verif_params data\<rparr>)"

record p256_derive_account_args =
  derive_public_key :: bytes

definition p256_args_of_init :: "p256_parsed_initialization_data \<Rightarrow> p256_derive_account_args" where
  "p256_args_of_init d = \<lparr>derive_public_key = sec1_bytes (parsed_init_public_key d)\<rparr>"

definition p256_args_of_verif :: "p256_parsed_verification_data \<Rightarrow> p256_derive_account_args" where
  "p256_args_of_verif d = \<lparr>derive_public_key = sec1_bytes (parsed_verif_public_key d)\<rparr>"

section \<open>Seeds\<close>

record account_seeds =
  seeds_key :: pubkey
  seeds_bump :: u8
  seed_passkey :: bytes
  seed_public_key_hash :: bytes

definition account_seeds_seeds :: "account_seeds \<Rightarrow> bytes list" where
  "account_seeds_seeds s = [seed_passkey s, seed_public_key_hash s, [seeds_bump s]]"

definition account_seeds_owned :: "account_seeds \<Rightarrow> bytes list" where
  "account_seeds_owned s = [seed_passkey s, seed_public_key_hash s]"

definition p256_derive_account :: "runtime \<Rightarrow> p256_derive_account_args \<Rightarrow> account_seeds result" where
  "p256_derive_account rt args =
     (let public_key_hash = hash rt (derive_public_key args)
      in and_then (unwrap (try_find_program_address rt [ascii ''passkey'', public_key_hash] crate_ID))
           (\<lambda>(derived_key, bump).
         Ok \<lparr>seeds_key = derived_key, seeds_bump = bump, seed_passkey = ascii ''passkey'',
             seed_public_key_hash = public_key_hash\<rparr>))"

definition p256_derive_existing_account :: "runtime \<Rightarrow> p256_account_data \<Rightarrow> account_seeds result" where
  "p256_derive_existing_account rt self =
     p256_derive_account rt \<lparr>derive_public_key = sec1_bytes (public_key self)\<rparr>"

section \<open>Account operations\<close>

text \<open>
  The bound on a session key's expiration: \<open>unix_timestamp as u64 + LIMIT\<close>, in the wrapping
  arithmetic of a release build.
\<close>

definition session_expiration_bound :: "i64 \<Rightarrow> u64" where
  "session_expiration_bound unix_timestamp = unix_timestamp + SESSION_KEY_EXPIRATION_LIMIT"

definition p256_initialize_account ::
  "runtime \<Rightarrow> p256_parsed_initialization_data \<Rightarrow> session_key option \<Rightarrow> p256_account_data
     \<Rightarrow> p256_account_data result" where
  "p256_initialize_account rt args session_key self =
     (let self = self\<lparr>rp_id_info := parsed_rp_id_info args, public_key := parsed_init_public_key args,
                      counter := parsed_counter args\<rparr>
      in case session_key of
           None \<Rightarrow> Ok self
         | Some session_key \<Rightarrow>
             and_then (clock_unix_timestamp rt) (\<lambda>unix_timestamp.
             and_then (ensure (\<not> session_expiration_bound unix_timestamp < expiration session_key)
                         (prog_err InvalidSessionKeyExpiration)) (\<lambda>_.
             Ok (self\<lparr>p256_session_key := session_key\<rparr>))))"

definition p256_check_account ::
  "runtime \<Rightarrow> store \<Rightarrow> p256_account_data \<Rightarrow> account_info \<Rightarrow> p256_parsed_verification_data
     \<Rightarrow> account_seeds result" where
  "p256_check_account rt st self account_info args =
     and_then (ensure (acc_is_writable (st account_info)) (prog_err P256AccountNotWritable)) (\<lambda>_.
     and_then (p256_derive_account rt (p256_args_of_verif args)) (\<lambda>account_seeds.
     and_then (ensure (seeds_key account_seeds = account_info) InvalidAccountOwner) (\<lambda>_.
     Ok account_seeds)))"

text \<open>\<open>split_at(message.len() - 32)\<close>: on a shorter message the difference wraps and the split panics.\<close>

definition split_message :: "bytes \<Rightarrow> (bytes \<times> bytes) result" where
  "split_message message =
     (if 32 \<le> length message then split_at message (length message - 32) else Panic)"

definition p256_verify_payload ::
  "runtime \<Rightarrow> bytes \<Rightarrow> p256_parsed_verification_data \<Rightarrow> bytes \<Rightarrow> p256_account_data
     \<Rightarrow> p256_account_data result" where
  "p256_verify_payload rt instructions_sysvar_account extra_verification_data payload self =
     and_then (instruction_at rt instructions_sysvar_account 0) (\<lambda>precompile_instruction.
     and_then (precompile_parser_new Secp256r1Precompile precompile_instruction instructions_sysvar_account) (\<lambda>parser.
     and_then (num_signatures parser) (\<lambda>n.
     and_then (ensure (n = 1) (prog_err InvalidNumPrecompileSignatures)) (\<lambda>_.
     and_then (get_signature_payload rt Secp256r1Precompile parser 0) (\<lambda>signature_payload.
     and_then (ensure (payload_public_key signature_payload = sec1_bytes (public_key self))
                 (prog_err P256PublicKeyMismatch)) (\<lambda>_.
     and_then (split_message (payload_message signature_payload)) (\<lambda>(auth_data, client_data_hash).
     let auth_data_parser = auth_data_parser_new auth_data in
     and_then (is_user_present auth_data_parser) (\<lambda>present.
     and_then (ensure present (prog_err P256UserNotPresent)) (\<lambda>_.
     and_then (auth_rp_id_hash auth_data_parser) (\<lambda>auth_hash.
     and_then (slice (rp_id (rp_id_info self)) 0 (unat (rp_id_len (rp_id_info self)))) (\<lambda>rp.
     and_then (ensure (rp_id_hash (rp_id_info self) = auth_hash) (prog_err P256RelyingPartyMismatch)) (\<lambda>_.
     and_then (reconstruct_client_data_json rt (parsed_verif_params extra_verification_data) rp payload)
       (\<lambda>reconstructed_client_data.
     and_then (ensure (hash rt reconstructed_client_data = client_data_hash)
                 (prog_err P256ClientDataHashMismatch)) (\<lambda>_.
     and_then (AuthenticatorData.get_counter auth_data_parser) (\<lambda>c.
     if c \<noteq> 0 then
       and_then (assert_that (counter self < ucast c)) (\<lambda>_. Ok (self\<lparr>counter := ucast c\<rparr>))
     else Ok self)))))))))))))))"

definition p256_verify_initialization_payload ::
  "runtime \<Rightarrow> bytes \<Rightarrow> p256_parsed_initialization_data \<Rightarrow> bytes \<Rightarrow> p256_account_data
     \<Rightarrow> p256_account_data result" where
  "p256_verify_initialization_payload rt instructions_sysvar_account initialization_data payload self =
     (let verification_args = \<lparr>parsed_verif_public_key = parsed_init_public_key initialization_data,
                               parsed_verif_params = parsed_init_params initialization_data\<rparr>
      in p256_verify_payload rt instructions_sysvar_account verification_args payload self)"

definition p256_is_valid_session_key ::
  "runtime \<Rightarrow> store \<Rightarrow> account_info \<Rightarrow> p256_account_data \<Rightarrow> unit result" where
  "p256_is_valid_session_key rt st signer self =
     and_then (clock_unix_timestamp rt) (\<lambda>unix_timestamp.
     and_then (ensure (acc_is_signer (st signer)) (prog_err SessionSignerNotASigner)) (\<lambda>_.
     and_then (ensure (session_key_key (p256_session_key self) = signer) (prog_err InvalidSessionKey)) (\<lambda>_.
     and_then (ensure (\<not> expiration (p256_session_key self) < unix_timestamp) (prog_err SessionKeyExpired)) (\<lambda>_.
     Ok ()))))"

definition p256_update_session_key ::
  "runtime \<Rightarrow> session_key \<Rightarrow> p256_account_data \<Rightarrow> p256_account_data result" where
  "p256_update_session_key rt session_key self =
     and_then (clock_unix_timestamp rt) (\<lambda>unix_timestamp.
     and_then (ensure (\<not> session_expiration_bound unix_timestamp < expiration session_key)
                 (prog_err InvalidSessionKeyExpiration)) (\<lambda>_.
     Ok (self\<lparr>p256_session_key := session_key\<rparr>)))"

section \<open>The implementation\<close>

definition p256_initialization_payload :: bytes where
  "p256_initialization_payload = ascii ''initialize_passkey''"

definition p256_trait ::
  "runtime \<Rightarrow> (p256_account_data, account_seeds, p256_derive_account_args, p256_raw_initialization_data,
     p256_raw_verification_data, p256_parsed_initialization_data, p256_parsed_verification_data) esa_trait" where
  "p256_trait rt = \<lparr>
     t_version = 1,
     t_scheme = signature_scheme_u8 P256Webauthn,
     t_size = p256_account_size,
     t_to_bytes = p256_account_to_bytes,
     t_from_bytes = p256_account_from_bytes,
     t_read_raw_init = p256_raw_initialization_data_deserialize (rt_borsh rt),
     t_read_raw_verif = p256_raw_verification_data_deserialize (rt_borsh rt),
     t_parse_init = p256_parse_initialization_data rt,
     t_parse_verif = p256_parse_verification_data,
     t_args_of_init = p256_args_of_init,
     t_args_of_verif = p256_args_of_verif,
     t_seeds_key = seeds_key,
     t_seeds_bump = seeds_bump,
     t_seeds = account_seeds_seeds,
     t_seeds_owned = account_seeds_owned,
     t_get_initialization_payload = p256_initialization_payload,
     t_initialize_account = p256_initialize_account rt,
     t_check_account = p256_check_account rt,
     t_derive_account = p256_derive_account rt,
     t_derive_existing_account = p256_derive_existing_account rt,
     t_verify_initialization_payload = p256_verify_initialization_payload rt,
     t_verify_payload = p256_verify_payload rt,
     t_is_valid_session_key = p256_is_valid_session_key rt,
     t_update_session_key = p256_update_session_key rt \<rparr>"

section \<open>The arguments' codecs\<close>

text \<open>In Rust the key is an array of 33 bytes; a list of another length has no serialisation.\<close>

definition raw_init_writer :: "borsh \<Rightarrow> p256_raw_initialization_data writer" where
  "raw_init_writer B d =
     (if length (raw_init_public_key d) = 33 then p256_raw_initialization_data_serialize B d else None)"

definition raw_verif_writer :: "borsh \<Rightarrow> p256_raw_verification_data writer" where
  "raw_verif_writer B d =
     (if length (raw_verif_public_key d) = 33 then p256_raw_verification_data_serialize B d else None)"

context borsh_format
begin

lemma raw_init_codec: "codec (raw_init_writer B) (p256_raw_initialization_data_deserialize B)"
proof
  note vec = small_vec_bytes_codec [of L_u8 "\<lambda>b. Some (write_u8 B b)" "read_u8 B"]
  note params = client_data_json_params_codec
  show "p256_raw_initialization_data_deserialize B (bs @ rest) = Some (x, rest)"
    if w: "raw_init_writer B x = Some bs" for x bs rest
  proof -
    obtain v p where "length (raw_init_public_key x) = 33"
      and v: "small_vec_serialize L_u8 (u8_u8_slice B) (\<lambda>b. Some (write_u8 B b)) (raw_rp_id x) = Some v"
      and p: "client_data_json_params_serialize B (raw_init_params x) = Some p"
      and "bs = v @ write_array B (raw_init_public_key x) @ p"
      using w by (auto simp: raw_init_writer_def p256_raw_initialization_data_serialize_def
          bind_eq_Some_conv split: if_splits)
    then show ?thesis
      using codec.read_write [OF vec v] codec.read_write [OF params p]
      by (simp add: p256_raw_initialization_data_deserialize_def read_array_write)
  qed
  show "\<exists>c. raw_init_writer B x = Some c \<and> bs = c @ rest"
    if r: "p256_raw_initialization_data_deserialize B bs = Some (x, rest)" for x bs rest
  proof -
    obtain b1 b2 where v: "small_vec_deserialize B L_u8 (u8_vec_from_reader B) (read_u8 B) bs = Some (raw_rp_id x, b1)"
      and k: "read_array B 33 b1 = Some (raw_init_public_key x, b2)"
      and p: "client_data_json_params_deserialize B b2 = Some (raw_init_params x, rest)"
      using r by (auto simp: p256_raw_initialization_data_deserialize_def bind_eq_Some_conv)
    from codec.write_read [OF vec v] codec.write_read [OF params p] k show ?thesis
      by (auto simp: raw_init_writer_def p256_raw_initialization_data_serialize_def write_read_array)
  qed
qed

lemma raw_verif_codec: "codec (raw_verif_writer B) (p256_raw_verification_data_deserialize B)"
proof
  note params = client_data_json_params_codec
  show "p256_raw_verification_data_deserialize B (bs @ rest) = Some (x, rest)"
    if "raw_verif_writer B x = Some bs" for x bs rest
    using that codec.read_write [OF params]
    by (auto simp: raw_verif_writer_def p256_raw_verification_data_serialize_def
        p256_raw_verification_data_deserialize_def bind_eq_Some_conv read_array_write split: if_splits)
  show "\<exists>c. raw_verif_writer B x = Some c \<and> bs = c @ rest"
    if "p256_raw_verification_data_deserialize B bs = Some (x, rest)" for x bs rest
    using that codec.write_read [OF params]
    by (fastforce simp: raw_verif_writer_def p256_raw_verification_data_serialize_def
        p256_raw_verification_data_deserialize_def bind_eq_Some_conv write_read_array)
qed

end

interpretation raw_init: codec "raw_init_writer borsh_le" "p256_raw_initialization_data_deserialize borsh_le"
  by (rule ref.raw_init_codec)

interpretation raw_verif: codec "raw_verif_writer borsh_le" "p256_raw_verification_data_deserialize borsh_le"
  by (rule ref.raw_verif_codec)


section \<open>The operations, by their results\<close>

definition parsed_init_wf :: "p256_parsed_initialization_data \<Rightarrow> bool" where
  "parsed_init_wf pi \<longleftrightarrow>
     rp_id_information_wf (parsed_rp_id_info pi) \<and> public_key_wf (parsed_init_public_key pi)"

text \<open>The relying party id stored in an account: the first \<open>rp_id_len\<close> bytes of the field.\<close>

definition stored_rp_id :: "rp_id_information \<Rightarrow> bytes" where
  "stored_rp_id r = take (unat (rp_id_len r)) (rp_id r)"

definition rp_id_consistent :: "runtime \<Rightarrow> rp_id_information \<Rightarrow> bool" where
  "rp_id_consistent rt r \<longleftrightarrow>
     unat (rp_id_len r) \<le> 32 \<and> 0x22 \<notin> set (stored_rp_id r) \<and> rp_id_hash r = hash rt (stored_rp_id r)"

lemma rp_id_information_new_Ok:
  assumes "rp_id_information_new rp h = Ok r"
  shows "stored_rp_id r = rp \<and> length rp \<le> 32 \<and> unat (rp_id_len r) = length rp \<and>
    length (rp_id r) = 32 \<and> rp_id_hash r = h"
proof -
  have l: "length rp \<le> 32"
    and r: "r = \<lparr>rp_id_len = of_nat (length rp), rp_id = overwrite rp (replicate 32 0), rp_id_hash = h\<rparr>"
    using assms by (auto simp: rp_id_information_new_def split: if_splits)
  have "unat (of_nat (length rp) :: u8) = length rp" using l by (simp add: unat_of_nat)
  with l show ?thesis by (simp add: r stored_rp_id_def)
qed

lemma p256_parse_initialization_data_Ok:
  assumes "p256_parse_initialization_data rt raw = Ok pi" and "sha256_length rt"
  shows "parsed_init_wf pi \<and> rp_id_consistent rt (parsed_rp_id_info pi) \<and>
    stored_rp_id (parsed_rp_id_info pi) = raw_rp_id raw \<and> parsed_counter pi = 0 \<and>
    sec1_bytes (parsed_init_public_key pi) = take 33 (raw_init_public_key raw) \<and>
    parsed_init_params pi = raw_init_params raw"
proof -
  obtain info pk where "rp_id_information_new (raw_rp_id raw) (hash rt (raw_rp_id raw)) = Ok info"
    and "compressed_p256_public_key_new (raw_init_public_key raw) = Ok pk"
    and "0x22 \<notin> set (raw_rp_id raw)"
    and "pi = \<lparr>parsed_rp_id_info = info, parsed_init_public_key = pk, parsed_counter = 0,
         parsed_init_params = raw_init_params raw\<rparr>"
    using assms(1) by (auto simp: p256_parse_initialization_data_def result_simps)
  with rp_id_information_new_Ok [of "raw_rp_id raw" _ info] compressed_p256_public_key_new_Ok [of _ pk]
    length_hash [OF assms(2)]
  show ?thesis by (simp add: parsed_init_wf_def rp_id_consistent_def rp_id_information_wf_def)
qed

lemma p256_derive_account_Ok:
  "p256_derive_account rt args = Ok s \<longleftrightarrow>
     (\<exists>k b. try_find_program_address rt [ascii ''passkey'', hash rt (derive_public_key args)] crate_ID
              = Some (k, b) \<and>
        s = \<lparr>seeds_key = k, seeds_bump = b, seed_passkey = ascii ''passkey'',
             seed_public_key_hash = hash rt (derive_public_key args)\<rparr>)"
  by (auto simp: p256_derive_account_def Let_def result_simps split: prod.splits)

lemma split_message_Ok [result_simps]:
  "split_message m = Ok p \<longleftrightarrow> 32 \<le> length m \<and> p = (take (length m - 32) m, drop (length m - 32) m)"
  by (auto simp: split_message_def split_at_def)

text \<open>
  What an accepted payload went through, in one predicate: the parser's payload \<open>pl\<close>, the
  authenticator data \<open>ad\<close>, the clientDataJSON text \<open>j\<close> and the counter \<open>c\<close>.
\<close>

definition payload_accepted ::
  "runtime \<Rightarrow> bytes \<Rightarrow> client_data_json_params \<Rightarrow> bytes \<Rightarrow> p256_account_data
     \<Rightarrow> signature_payload \<Rightarrow> bytes \<Rightarrow> bytes \<Rightarrow> u32 \<Rightarrow> bool" where
  "payload_accepted rt sysvar params payload d pl ad j c \<longleftrightarrow>
     (\<exists>ix p. instruction_at rt sysvar 0 = Ok ix \<and>
        precompile_parser_new Secp256r1Precompile ix sysvar = Ok p \<and> num_signatures p = Ok 1 \<and>
        get_signature_payload rt Secp256r1Precompile p 0 = Ok pl) \<and>
     payload_public_key pl = sec1_bytes (public_key d) \<and>
     payload_message pl = ad @ hash rt j \<and>
     reconstruct_client_data_json rt params (stored_rp_id (rp_id_info d)) payload = Ok j \<and>
     is_user_present (auth_data_parser_new ad) = Ok True \<and>
     auth_rp_id_hash (auth_data_parser_new ad) = Ok (rp_id_hash (rp_id_info d)) \<and>
     unat (rp_id_len (rp_id_info d)) \<le> length (rp_id (rp_id_info d)) \<and>
     AuthenticatorData.get_counter (auth_data_parser_new ad) = Ok c"

lemma p256_verify_payload_Ok:
  assumes "p256_verify_payload rt sysvar pv payload d = Ok d'" and "sha256_length rt"
  shows "\<exists>pl ad j c. payload_accepted rt sysvar (parsed_verif_params pv) payload d pl ad j c \<and>
    (c = 0 \<longrightarrow> d' = d) \<and> (c \<noteq> 0 \<longrightarrow> counter d < ucast c \<and> d' = d\<lparr>counter := ucast c\<rparr>)"
proof -
  let ?split = "\<lambda>m :: bytes. (take (length m - 32) m, drop (length m - 32) m)"
  obtain ix p pl rp j c where
    acc: "instruction_at rt sysvar 0 = Ok ix" "precompile_parser_new Secp256r1Precompile ix sysvar = Ok p"
      "num_signatures p = Ok 1" "get_signature_payload rt Secp256r1Precompile p 0 = Ok pl"
    and m: "32 \<le> length (payload_message pl)"
    and rest: "payload_public_key pl = sec1_bytes (public_key d)"
      "is_user_present (auth_data_parser_new (fst (?split (payload_message pl)))) = Ok True"
      "auth_rp_id_hash (auth_data_parser_new (fst (?split (payload_message pl)))) = Ok (rp_id_hash (rp_id_info d))"
      "unat (rp_id_len (rp_id_info d)) \<le> length (rp_id (rp_id_info d))"
      "rp = stored_rp_id (rp_id_info d)"
      "reconstruct_client_data_json rt (parsed_verif_params pv) rp payload = Ok j"
      "hash rt j = snd (?split (payload_message pl))"
      "AuthenticatorData.get_counter (auth_data_parser_new (fst (?split (payload_message pl)))) = Ok c"
    and fin: "(if c \<noteq> 0 then and_then (assert_that (counter d < ucast c)) (\<lambda>_. Ok (d\<lparr>counter := ucast c\<rparr>))
           else Ok d) = Ok d'"
    using assms(1)
    by (auto simp: p256_verify_payload_def Let_def result_simps stored_rp_id_def split: prod.splits)
  have "payload_accepted rt sysvar (parsed_verif_params pv) payload d pl (fst (?split (payload_message pl))) j c"
    using acc rest by (auto simp: payload_accepted_def)
  moreover have "(c = 0 \<longrightarrow> d' = d) \<and> (c \<noteq> 0 \<longrightarrow> counter d < ucast c \<and> d' = d\<lparr>counter := ucast c\<rparr>)"
    using fin by (auto simp: result_simps split: if_splits)
  ultimately show ?thesis by blast
qed

lemma p256_update_session_key_Ok [result_simps]:
  "p256_update_session_key rt k d = Ok d' \<longleftrightarrow>
     (\<exists>now. clock_unix_timestamp rt = Ok now \<and> expiration k \<le> session_expiration_bound now) \<and>
     d' = d\<lparr>p256_session_key := k\<rparr>"
  by (auto simp: p256_update_session_key_def result_simps not_less)

lemma p256_is_valid_session_key_Ok [result_simps]:
  "p256_is_valid_session_key rt st signer d = Ok () \<longleftrightarrow>
     acc_is_signer (st signer) \<and> session_key_key (p256_session_key d) = signer \<and>
     (\<exists>now. clock_unix_timestamp rt = Ok now \<and> now \<le> expiration (p256_session_key d))"
  by (auto simp: p256_is_valid_session_key_def result_simps not_less)

lemma p256_initialize_account_Ok [result_simps]:
  "p256_initialize_account rt pi sk d = Ok d' \<longleftrightarrow>
     (case sk of None \<Rightarrow> True
      | Some k \<Rightarrow> \<exists>now. clock_unix_timestamp rt = Ok now \<and> expiration k \<le> session_expiration_bound now) \<and>
     d' = d\<lparr>rp_id_info := parsed_rp_id_info pi, public_key := parsed_init_public_key pi,
            counter := parsed_counter pi,
            p256_session_key := (case sk of None \<Rightarrow> p256_session_key d | Some k \<Rightarrow> k)\<rparr>"
  by (auto simp: p256_initialize_account_def Let_def result_simps not_less split: option.splits)

lemma p256_check_account_Ok [result_simps]:
  "p256_check_account rt st d info pv = Ok s \<longleftrightarrow>
     acc_is_writable (st info) \<and> p256_derive_account rt (p256_args_of_verif pv) = Ok s \<and> seeds_key s = info"
  by (auto simp: p256_check_account_def result_simps)

text \<open>Verification changes at most the counter, whatever the hash function is.\<close>

lemma p256_verify_payload_counter:
  assumes "p256_verify_payload rt sysvar pv payload d = Ok d'"
  shows "d' = d\<lparr>counter := counter d'\<rparr> \<and> counter d \<le> counter d'"
  using assms
  by (auto simp: p256_verify_payload_def Let_def result_simps split: prod.splits if_splits)

lemma p256_verify_initialization_payload_eq:
  "p256_verify_initialization_payload rt sysvar pi payload d =
     p256_verify_payload rt sysvar
       \<lparr>parsed_verif_public_key = parsed_init_public_key pi, parsed_verif_params = parsed_init_params pi\<rparr>
       payload d"
  by (simp add: p256_verify_initialization_payload_def)

lemma verify_keeps_struct:
  assumes "p256_account_wf d" and "p256_verify_payload rt sysvar pv payload d = Ok d'"
  shows "p256_account_wf d' \<and> p256_header d' = p256_header d \<and>
    p256_derive_existing_account rt d' = p256_derive_existing_account rt d"
proof -
  obtain c where d': "d' = d\<lparr>counter := c\<rparr>"
    using p256_verify_payload_counter [OF assms(2)] by blast
  with assms(1) show ?thesis by (simp add: p256_account_wf_def p256_derive_existing_account_def)
qed


section \<open>The scheme satisfies the contract\<close>

lemma p256_trait_simps [simp]:
  "t_version (p256_trait rt) = 1" "t_scheme (p256_trait rt) = 0" "t_size (p256_trait rt) = 152"
  "t_to_bytes (p256_trait rt) = p256_account_to_bytes"
  "t_from_bytes (p256_trait rt) = p256_account_from_bytes"
  "t_read_raw_init (p256_trait rt) = p256_raw_initialization_data_deserialize (rt_borsh rt)"
  "t_read_raw_verif (p256_trait rt) = p256_raw_verification_data_deserialize (rt_borsh rt)"
  "t_parse_init (p256_trait rt) = p256_parse_initialization_data rt"
  "t_parse_verif (p256_trait rt) = p256_parse_verification_data"
  "t_args_of_init (p256_trait rt) = p256_args_of_init"
  "t_args_of_verif (p256_trait rt) = p256_args_of_verif"
  "t_seeds_key (p256_trait rt) = seeds_key" "t_seeds_bump (p256_trait rt) = seeds_bump"
  "t_seeds (p256_trait rt) = account_seeds_seeds" "t_seeds_owned (p256_trait rt) = account_seeds_owned"
  "t_get_initialization_payload (p256_trait rt) = p256_initialization_payload"
  "t_initialize_account (p256_trait rt) = p256_initialize_account rt"
  "t_check_account (p256_trait rt) = p256_check_account rt"
  "t_derive_account (p256_trait rt) = p256_derive_account rt"
  "t_derive_existing_account (p256_trait rt) = p256_derive_existing_account rt"
  "t_verify_initialization_payload (p256_trait rt) = p256_verify_initialization_payload rt"
  "t_verify_payload (p256_trait rt) = p256_verify_payload rt"
  "t_is_valid_session_key (p256_trait rt) = p256_is_valid_session_key rt"
  "t_update_session_key (p256_trait rt) = p256_update_session_key rt"
  by (simp_all add: p256_trait_def p256_account_size_def)

interpretation p256: scheme_contract "p256_trait rt" p256_account_wf p256_header parsed_init_wf for rt
proof (unfold_locales, simp_all)
  fix d d' :: p256_account_data
  show "length (p256_account_to_bytes d) = 152" if "p256_account_wf d"
    using that by (rule p256_pod.enc_length)
  show "p256_account_from_bytes (p256_account_to_bytes d) = d" if "p256_account_wf d"
    using that by (rule p256_pod.dec_enc)
  show "p256_account_to_bytes (p256_account_from_bytes bs) = bs" if "length bs = 152" for bs
    using that by (rule p256_pod.enc_dec)
  show "p256_account_wf (p256_account_from_bytes bs)" if "length bs = 152" for bs
    using that by (rule p256_pod.wf_dec)
  show "take 4 (p256_account_to_bytes d) = account_header_to_bytes (p256_header d)" if "p256_account_wf d"
    using that by (rule p256_header_bytes)
  show "account_header_wf (p256_header d)" if "p256_account_wf d"
    using that by (simp add: p256_account_wf_def)
  show "seeds_key s = info" if "p256_check_account rt st d info pv = Ok s" for st info pv s
    using that by (simp add: result_simps)
  show "p256_account_wf d' \<and> p256_header d' = p256_header d \<and>
      p256_derive_existing_account rt d' = p256_derive_existing_account rt d"
    if "p256_account_wf d" "p256_verify_payload rt sysvar pv payload d = Ok d'" for sysvar pv payload
    using that by (rule verify_keeps_struct)
  then show "p256_account_wf d' \<and> p256_header d' = p256_header d \<and>
      p256_derive_existing_account rt d' = p256_derive_existing_account rt d"
    if "p256_account_wf d" "p256_verify_initialization_payload rt sysvar pi payload d = Ok d'"
    for sysvar pi payload
    using that by (simp add: p256_verify_initialization_payload_eq)
  show "p256_account_wf d' \<and> p256_header d' = p256_header d \<and>
      p256_derive_existing_account rt d' = p256_derive_existing_account rt d"
    if "p256_account_wf d" "session_key_wf k" "p256_update_session_key rt k d = Ok d'" for k
    using that by (auto simp: result_simps p256_account_wf_def p256_derive_existing_account_def)
  show "p256_account_wf d' \<and> p256_header d' = p256_header d"
    if "p256_account_wf d" "parsed_init_wf pi" "pred_option session_key_wf sk"
      "p256_initialize_account rt pi sk d = Ok d'" for pi sk
    using that by (auto simp: result_simps p256_account_wf_def parsed_init_wf_def split: option.splits)
  show "p256_derive_existing_account rt d' = p256_derive_account rt (p256_args_of_init pi)"
    if "parsed_init_wf pi" "p256_initialize_account rt pi sk d = Ok d'" for pi sk
    using that by (auto simp: result_simps p256_derive_existing_account_def p256_args_of_init_def)
qed

section \<open>What an accepted payload means\<close>

lemma accepted_is_signed:
  assumes "secp256r1_verified rt ecdsa sysvar" and "payload_accepted rt sysvar params payload d pl ad j c"
  shows "ecdsa (sec1_bytes (public_key d)) (ad @ hash rt j) (payload_signature pl)"
proof -
  obtain ix p where p: "instruction_at rt sysvar 0 = Ok ix"
    "precompile_parser_new Secp256r1Precompile ix sysvar = Ok p" "num_signatures p = Ok 1"
    "get_signature_payload rt Secp256r1Precompile p 0 = Ok pl"
    using assms(2) by (auto simp: payload_accepted_def)
  from parser_verified [OF assms(1) p(1-3), of 0] p(4)
  have "ecdsa (payload_public_key pl) (payload_message pl) (payload_signature pl)"
    by (auto split: if_splits)
  with assms(2) show ?thesis by (simp add: payload_accepted_def)
qed

lemma accepted_auth_data:
  assumes "payload_accepted rt sysvar params payload d pl ad j c"
  shows "37 \<le> length ad \<and> take 32 ad = rp_id_hash (rp_id_info d) \<and> ad ! 32 AND 1 \<noteq> 0 \<and>
    c = u32_from_be (take 4 (drop 33 ad))"
  using assms
  by (auto simp: payload_accepted_def auth_rp_id_hash_def is_user_present_def
      AuthenticatorData.get_counter_def auth_data_parser_new_def result_simps)

text \<open>
  \<open>passkey_signed\<close>: the account's passkey has signed authenticator data for its relying party,
  with the user present, and a clientDataJSON whose challenge is \<open>payload\<close>.
\<close>

definition passkey_signed ::
  "runtime \<Rightarrow> (bytes \<Rightarrow> bytes \<Rightarrow> bytes \<Rightarrow> bool) \<Rightarrow> p256_account_data \<Rightarrow> client_data_json_params \<Rightarrow> bytes
     \<Rightarrow> u32 \<Rightarrow> bool" where
  "passkey_signed rt ecdsa d params payload c \<longleftrightarrow>
     (\<exists>ad j sig. ecdsa (sec1_bytes (public_key d)) (ad @ hash rt j) sig \<and>
        reconstruct_client_data_json rt params (stored_rp_id (rp_id_info d)) payload = Ok j \<and>
        37 \<le> length ad \<and> take 32 ad = rp_id_hash (rp_id_info d) \<and> ad ! 32 AND 1 \<noteq> 0 \<and>
        c = u32_from_be (take 4 (drop 33 ad)))"

text \<open>The counter rule: zero leaves the account as it is, anything else must be above the stored one.\<close>

definition counter_step :: "u32 \<Rightarrow> p256_account_data \<Rightarrow> p256_account_data \<Rightarrow> bool" where
  "counter_step c d d' \<longleftrightarrow>
     (if c = 0 then d' = d else counter d < ucast c \<and> d' = d\<lparr>counter := ucast c\<rparr>)"

lemma verify_payload_signed:
  assumes "secp256r1_verified rt ecdsa sysvar" and "sha256_length rt"
    and "p256_verify_payload rt sysvar pv payload d = Ok d'"
  shows "\<exists>c. passkey_signed rt ecdsa d (parsed_verif_params pv) payload c \<and> counter_step c d d'"
proof -
  obtain pl ad j c where acc: "payload_accepted rt sysvar (parsed_verif_params pv) payload d pl ad j c"
    and c: "(c = 0 \<longrightarrow> d' = d) \<and> (c \<noteq> 0 \<longrightarrow> counter d < ucast c \<and> d' = d\<lparr>counter := ucast c\<rparr>)"
    using p256_verify_payload_Ok [OF assms(3,2)] by blast
  have "reconstruct_client_data_json rt (parsed_verif_params pv) (stored_rp_id (rp_id_info d)) payload = Ok j"
    using acc by (simp add: payload_accepted_def)
  with accepted_is_signed [OF assms(1) acc] accepted_auth_data [OF acc] c show ?thesis
    by (auto simp: passkey_signed_def counter_step_def)
qed

text \<open>
  C5. A payload is accepted only under a signature of the account's passkey that the runtime has
  verified: over authenticator data for the account's relying party with the user-present flag,
  and over a clientDataJSON whose challenge is the payload.  A non-zero signature counter is
  above the stored one and replaces it, and nothing else in the account changes.
\<close>

theorem accepted_payload_is_signed:
  assumes "secp256r1_verified rt ecdsa sysvar" and "sha256_length rt"
    and "p256_verify_payload rt sysvar pv payload d = Ok d'"
  shows "\<exists>ad j sig c. ecdsa (sec1_bytes (public_key d)) (ad @ hash rt j) sig \<and>
    reconstruct_client_data_json rt (parsed_verif_params pv) (stored_rp_id (rp_id_info d)) payload = Ok j \<and>
    37 \<le> length ad \<and> take 32 ad = rp_id_hash (rp_id_info d) \<and> ad ! 32 AND 1 \<noteq> 0 \<and>
    c = u32_from_be (take 4 (drop 33 ad)) \<and>
    (if c = 0 then d' = d else counter d < ucast c \<and> d' = d\<lparr>counter := ucast c\<rparr>)"
  using verify_payload_signed [OF assms] unfolding passkey_signed_def counter_step_def by blast

text \<open>The message the precompile instruction at index 0 carries, as the parser reads it.\<close>

definition precompile_message :: "runtime \<Rightarrow> bytes \<Rightarrow> bytes result" where
  "precompile_message rt sysvar =
     and_then (instruction_at rt sysvar 0) (\<lambda>ix.
     and_then (precompile_parser_new Secp256r1Precompile ix sysvar) (\<lambda>p.
     and_then (get_signature_payload rt Secp256r1Precompile p 0) (\<lambda>pl.
     Ok (payload_message pl))))"

lemma accepted_message:
  "payload_accepted rt sysvar params payload d pl ad j c \<Longrightarrow> precompile_message rt sysvar = Ok (ad @ hash rt j)"
  by (auto simp: payload_accepted_def precompile_message_def)

lemma stored_rp_id_no_quote: "rp_id_consistent rt r \<Longrightarrow> 0x22 \<notin> set (stored_rp_id r)"
  by (simp add: rp_id_consistent_def)

lemma accepted_same_message:
  assumes "sha256_length rt" and "base64_url_laws rt"
    and a: "payload_accepted rt sysvar params payload d pl ad j c"
    and b: "payload_accepted rt sysvar' params' payload' d' pl' ad' j' c'"
    and m: "precompile_message rt sysvar = precompile_message rt sysvar'"
    and rp: "rp_id_consistent rt (rp_id_info d)" "rp_id_consistent rt (rp_id_info d')"
  shows "payload = payload' \<or> sha256_collision rt j j'"
proof -
  have "ad @ hash rt j = ad' @ hash rt j'"
    using accepted_message [OF a] accepted_message [OF b] m by simp
  then have "hash rt j = hash rt j'"
    using length_hash [OF assms(1)] by (simp add: append_eq_append_conv)
  then have "j = j' \<or> sha256_collision rt j j'" by (rule hash_eq_cases)
  moreover have "payload = payload'" if "j = j'"
  proof -
    have "reconstruct_client_data_json rt params (stored_rp_id (rp_id_info d)) payload = Ok j"
      "reconstruct_client_data_json rt params' (stored_rp_id (rp_id_info d')) payload' = Ok j"
      using a b that by (simp_all add: payload_accepted_def)
    from reconstruct_binds [OF assms(2) this rp [THEN stored_rp_id_no_quote]] show ?thesis by blast
  qed
  ultimately show ?thesis by blast
qed

text \<open>
  C26. One signed message authorises one payload: if two verifications, on whatever accounts and
  with whatever reconstruction parameters, accept the same signed message, then their payloads
  are equal, or the two clientDataJSON texts are a collision of the hash function.
\<close>

theorem signature_authorises_one_payload:
  assumes "sha256_length rt" and "base64_url_laws rt"
    and "p256_verify_payload rt sysvar pv payload d = Ok e"
    and "p256_verify_payload rt sysvar' pv' payload' d' = Ok e'"
    and "precompile_message rt sysvar = precompile_message rt sysvar'"
    and "rp_id_consistent rt (rp_id_info d)" and "rp_id_consistent rt (rp_id_info d')"
  shows "\<exists>j j'. reconstruct_client_data_json rt (parsed_verif_params pv) (stored_rp_id (rp_id_info d)) payload = Ok j \<and>
    reconstruct_client_data_json rt (parsed_verif_params pv') (stored_rp_id (rp_id_info d')) payload' = Ok j' \<and>
    (payload = payload' \<or> sha256_collision rt j j')"
proof -
  obtain pl ad j c where a: "payload_accepted rt sysvar (parsed_verif_params pv) payload d pl ad j c"
    using p256_verify_payload_Ok [OF assms(3,1)] by blast
  obtain pl' ad' j' c' where b: "payload_accepted rt sysvar' (parsed_verif_params pv') payload' d' pl' ad' j' c'"
    using p256_verify_payload_Ok [OF assms(4,1)] by blast
  from accepted_same_message [OF assms(1,2) a b assms(5-7)] a b
  show ?thesis by (auto simp: payload_accepted_def)
qed

section \<open>Accounts in the store\<close>

text \<open>
  The transaction's precompile instructions have been executed by the runtime: whatever account
  passes for the instructions sysvar holds verified instructions.
\<close>

definition precompiles_verified :: "runtime \<Rightarrow> (bytes \<Rightarrow> bytes \<Rightarrow> bytes \<Rightarrow> bool) \<Rightarrow> store \<Rightarrow> bool" where
  "precompiles_verified rt ecdsa st \<longleftrightarrow>
     (\<forall>k sysvar. instructions_try_from rt k (st k) = Ok sysvar \<longrightarrow> secp256r1_verified rt ecdsa sysvar)"

text \<open>A borrow of account data, when it succeeds, is a view of the account's data.\<close>

definition borrow_faithful :: "runtime \<Rightarrow> bool" where
  "borrow_faithful rt \<longleftrightarrow>
     (\<forall>a d. borrow_mut_data rt a = Ok d \<longrightarrow> d = acc_data a) \<and>
     (\<forall>a d. borrow_data rt a = Ok d \<longrightarrow> d = acc_data a)"

definition account_of :: "store \<Rightarrow> pubkey \<Rightarrow> externally_signed_account" where
  "account_of st k = \<lparr>esa_info = k, esa_data_len = length (acc_data (st k))\<rparr>"

text \<open>The program's account at \<open>k\<close> holds the P-256 struct \<open>d\<close>.\<close>

definition p256_at :: "runtime \<Rightarrow> store \<Rightarrow> pubkey \<Rightarrow> p256_account_data \<Rightarrow> bool" where
  "p256_at rt st k d \<longleftrightarrow>
     acc_owner (st k) = crate_ID \<and> esa_data (p256_trait rt) st (account_of st k) = Ok d"

lemma esa_info_account_of [simp]: "esa_info (account_of st k) = k"
  by (simp add: account_of_def)

lemma p256_at_unique: "p256_at rt st k d \<Longrightarrow> p256_at rt st k d' \<Longrightarrow> d = d'"
  by (simp add: p256_at_def)

lemma load_account_of:
  "borrow_faithful rt \<Longrightarrow> esa_load rt st k = Ok a \<Longrightarrow> a = account_of st k"
  by (auto simp: borrow_faithful_def account_of_def result_simps)

lemma loaded_p256_at:
  assumes "borrow_faithful rt" and "esa_load rt st k = Ok a" and "esa_data (p256_trait rt) st a = Ok d"
  shows "p256_at rt st k d"
proof -
  have a: "a = account_of st k" by (rule load_account_of [OF assms(1,2)])
  then have "152 \<le> length (acc_data (st k))" using p256.esa_data_fits [OF assms(3)] by simp
  then have "acc_owner (st k) = crate_ID" using assms(2) by (auto simp: esa_load_Ok split: if_splits)
  with a assms(3) show ?thesis by (simp add: p256_at_def)
qed

lemma data_frame_account_of: "data_frame k st st' \<Longrightarrow> account_of st' j = account_of st j"
  using data_frame_fields(6) by (simp add: account_of_def)

lemma kept_p256_at:
  assumes "esa_kept (p256_trait rt) st (account_of st k) d st' d'" and "p256_at rt st k d"
  shows "p256_at rt st' k d'"
  using assms data_frame_fields(1) [of k st st' k] data_frame_account_of [of k st st' k]
  by (auto simp: esa_kept_def p256_at_def)

text \<open>Verifying through the wrapper, on a loaded account.\<close>

lemma verify_loaded:
  assumes bf: "borrow_faithful rt" and load: "esa_load rt st k = Ok a"
    and v: "esa_verify_payload (p256_trait rt) st a sysvar pv payload = Ok st'"
  shows "\<exists>d d'. p256_at rt st k d \<and> p256_verify_payload rt sysvar pv payload d = Ok d' \<and>
    p256_at rt st' k d' \<and> data_frame k st st'"
proof -
  have a: "a = account_of st k" by (rule load_account_of [OF bf load])
  obtain d d' where d: "p256_verify_payload rt sysvar pv payload d = Ok d'"
    and kept: "esa_kept (p256_trait rt) st a d st' d'"
    using p256.esa_verify_payload_Ok [OF v] by auto
  have at: "p256_at rt st k d"
    using kept loaded_p256_at [OF bf load] by (simp add: esa_kept_def)
  with d kept kept_p256_at [of rt st k d st' d'] a show ?thesis
    by (auto simp: esa_kept_def)
qed

text \<open>The same for an update of the session key.\<close>

lemma update_loaded:
  assumes at: "p256_at rt st k d" and wf: "session_key_wf sk"
    and u: "esa_update_session_key (p256_trait rt) st (account_of st k) sk = Ok st'"
  shows "\<exists>now. clock_unix_timestamp rt = Ok now \<and> expiration sk \<le> session_expiration_bound now \<and>
    p256_at rt st' k (d\<lparr>p256_session_key := sk\<rparr>) \<and> data_frame k st st'"
proof -
  obtain d0 d' where d0: "p256_update_session_key rt sk d0 = Ok d'"
    and kept: "esa_kept (p256_trait rt) st (account_of st k) d0 st' d'"
    using p256.esa_update_session_key_Ok [OF u wf] by auto
  have "d0 = d" using kept at by (simp add: esa_kept_def p256_at_def)
  with d0 kept kept_p256_at [OF kept] at show ?thesis by (auto simp: esa_kept_def result_simps)
qed

section \<open>A concrete passkey\<close>

definition sample_rp :: rp_id_information where
  "sample_rp = \<lparr>rp_id_len = 9, rp_id = ascii ''localhost'' @ replicate 23 0,
     rp_id_hash = hash sample_runtime (ascii ''localhost'')\<rparr>"

definition sample_public_key :: compressed_p256_public_key where
  "sample_public_key = \<lparr>pk_x = replicate 32 2, y_parity = 2\<rparr>"

definition sample_session_key :: session_key where
  "sample_session_key = \<lparr>session_key_key = replicate 32 3, expiration = 5000\<rparr>"

definition sample_p256 :: p256_account_data where
  "sample_p256 = \<lparr>p256_header = \<lparr>header_version = 1, header_scheme = 0, header_reserved = [0, 0]\<rparr>,
     rp_id_info = sample_rp, public_key = sample_public_key, padding = [0, 0],
     p256_session_key = sample_session_key, counter = 6\<rparr>"

definition sample_verification_data :: p256_parsed_verification_data where
  "sample_verification_data =
     \<lparr>parsed_verif_public_key = sample_public_key, parsed_verif_params = sample_params\<rparr>"

definition sample_auth_data :: bytes where
  "sample_auth_data = encode_auth_data (hash sample_runtime (ascii ''localhost'')) True True 7 []"

text \<open>The message the passkey signs for a payload: authenticator data and clientDataJSON hash.\<close>

definition sample_message :: "bytes \<Rightarrow> bytes" where
  "sample_message payload = sample_auth_data @ hash sample_runtime (sample_json (b64url payload))"

lemma length_sample_hash [simp]: "length (hash sample_runtime x) = 32"
  by (rule length_hash [OF sample_sha256_length])

lemma length_sample_message [simp]: "length (sample_message payload) = 69"
  by (simp add: sample_message_def sample_auth_data_def encode_auth_data_def)

lemma sample_stored_rp_id: "stored_rp_id sample_rp = ascii ''localhost''"
  by (simp add: stored_rp_id_def sample_rp_def)

lemma sample_rp_consistent: "rp_id_consistent sample_runtime sample_rp"
  using localhost_not_quote by (simp add: rp_id_consistent_def sample_stored_rp_id) (simp add: sample_rp_def)

lemma sample_p256_wf: "p256_account_wf sample_p256"
  by (simp add: p256_account_wf_def sample_p256_def sample_rp_def sample_public_key_def
      sample_session_key_def account_header_wf_def rp_id_information_wf_def public_key_wf_def session_key_wf_def)

lemma sample_sec1: "sec1_bytes sample_public_key = replicate 33 2"
  by (simp add: sec1_bytes_def sample_public_key_def flip: replicate_Suc)

lemma sample_verify:
  assumes "rp_id_info d = sample_rp" and "public_key d = sample_public_key" and "counter d < 7"
    and "parsed_verif_params pv = sample_params"
  shows "p256_verify_payload sample_runtime (sample_sysvar (sample_message payload)) pv payload d =
     Ok (d\<lparr>counter := 7\<rparr>)"
proof -
  let ?ad = "auth_data_parser_new sample_auth_data"
  have ad: "auth_rp_id_hash ?ad = Ok (hash sample_runtime (ascii ''localhost''))"
    "is_user_present ?ad = Ok True" "AuthenticatorData.get_counter ?ad = Ok 7"
    using auth_data_parsed [of "hash sample_runtime (ascii ''localhost'')" ?ad True True 7 "[]"]
    by (simp_all add: sample_auth_data_def)
  have len: "length sample_auth_data = 37"
    by (simp add: sample_auth_data_def encode_auth_data_def)
  have split: "split_message (sample_message payload) =
      Ok (sample_auth_data, hash sample_runtime (sample_json (b64url payload)))"
    using len by (simp add: result_simps) (simp add: sample_message_def)
  have rp: "slice (rp_id (rp_id_info d)) 0 (unat (rp_id_len (rp_id_info d))) = Ok (ascii ''localhost'')"
    by (simp add: assms(1) sample_rp_def slice_def)
  have hash: "rp_id_hash (rp_id_info d) = hash sample_runtime (ascii ''localhost'')"
    by (simp add: assms(1) sample_rp_def)
  show ?thesis
    using ad split rp assms(3)
    by (simp add: p256_verify_payload_def sample_instruction_at sample_parser_new sample_num_signatures
        sample_get_payload assms(2) sample_sec1 hash sample_reconstruct assms(4))
qed

lemma sample_verified:
  "p256_verify_payload sample_runtime (sample_sysvar (sample_message payload)) sample_verification_data
     payload sample_p256 = Ok (sample_p256\<lparr>counter := 7\<rparr>)"
  by (rule sample_verify) (simp_all add: sample_p256_def sample_verification_data_def)

theorem accepted_payload_is_signed_witness:
  "\<exists>ad j sig. sample_ecdsa (replicate 33 2) (ad @ hash sample_runtime j) sig \<and>
     reconstruct_client_data_json sample_runtime sample_params (ascii ''localhost'') [1, 2, 3] = Ok j"
proof -
  have "secp256r1_verified sample_runtime sample_ecdsa (sample_sysvar (sample_message [1, 2, 3]))"
    by (rule sample_secp256r1_verified) simp
  from accepted_payload_is_signed [OF this sample_sha256_length sample_verified]
  show ?thesis
    by (auto simp: sample_p256_def sample_sec1 sample_stored_rp_id sample_verification_data_def)
qed

theorem signature_authorises_one_payload_witness:
  "\<exists>j j'. reconstruct_client_data_json sample_runtime sample_params (ascii ''localhost'') [1, 2, 3] = Ok j \<and>
     reconstruct_client_data_json sample_runtime sample_params (ascii ''localhost'') [1, 2, 3] = Ok j' \<and>
     ([1, 2, 3] = [1, 2, 3 :: u8] \<or> sha256_collision sample_runtime j j')"
  using signature_authorises_one_payload [OF sample_sha256_length sample_base64_url_laws
      sample_verified [of "[1, 2, 3]"] sample_verified [of "[1, 2, 3]"] refl]
  by (simp add: sample_p256_def sample_rp_consistent sample_stored_rp_id sample_verification_data_def)

text \<open>
  Nothing correct is turned down: when the runtime's instruction 0 is an aligned secp256r1
  instruction with one signature by the account's key, over well-formed authenticator data for
  the account's relying party with the user present and over the clientDataJSON of the payload,
  and its counter is zero or above the stored one, verification succeeds.
\<close>

theorem correct_assertion_accepted:
  assumes "sha256_length rt"
    and "instruction_at rt sysvar 0 = Ok ix" and "iix_program_id ix = SECP256R1_PRECOMPILE_ID"
    and "iix_even ix" and "iix_data ix ! 0 = 1"
    and "verified_payload rt sysvar (iix_data ix) 0 = Some pl"
    and "payload_public_key pl = sec1_bytes (public_key d)" and "payload_message pl = ad @ hash rt j"
    and "37 \<le> length ad" and "take 32 ad = rp_id_hash (rp_id_info d)" and "ad ! 32 AND 1 \<noteq> 0"
    and "unat (rp_id_len (rp_id_info d)) \<le> length (rp_id (rp_id_info d))"
    and "reconstruct_client_data_json rt (parsed_verif_params pv) (stored_rp_id (rp_id_info d)) payload = Ok j"
    and "c = u32_from_be (take 4 (drop 33 ad))" and "c = 0 \<or> counter d < ucast c"
  shows "p256_verify_payload rt sysvar pv payload d = Ok (if c = 0 then d else d\<lparr>counter := ucast c\<rparr>)"
proof -
  let ?p = "\<lparr>precompile_ix_data = iix_data ix, ix_data_even = iix_even ix, instructions_sysvar = sysvar\<rparr>"
  let ?ad = "auth_data_parser_new ad"
  have new: "precompile_parser_new Secp256r1Precompile ix sysvar = Ok ?p"
    using assms(3) by (simp add: precompile_parser_new_def Secp256r1Precompile_def)
  have "iix_data ix \<noteq> []" using assms(6) by (auto simp: verified_payload_def split: if_splits)
  then have n: "num_signatures ?p = Ok 1" using assms(5) by (simp add: num_signatures_def index_def)
  have pl: "get_signature_payload rt Secp256r1Precompile ?p 0 = Ok pl"
    using get_signature_payload_verified [of rt ?p 0 pl 1] assms(4,6) n by simp
  have sp: "split_message (payload_message pl) = Ok (ad, hash rt j)"
    using length_hash [OF assms(1), of j] by (simp add: result_simps assms(8))
  have ad: "is_user_present ?ad = Ok True" "auth_rp_id_hash ?ad = Ok (rp_id_hash (rp_id_info d))"
    "AuthenticatorData.get_counter ?ad = Ok c"
    using assms(9-11,14)
    by (simp_all add: is_user_present_def auth_rp_id_hash_def AuthenticatorData.get_counter_def
        auth_data_parser_new_def index_def slice_def)
  have rp: "slice (rp_id (rp_id_info d)) 0 (unat (rp_id_len (rp_id_info d))) = Ok (stored_rp_id (rp_id_info d))"
    using assms(12) by (simp add: slice_def stored_rp_id_def)
  show ?thesis
    using assms(15) by (auto simp: p256_verify_payload_def assms(2,7,13) new n pl sp ad rp assert_that_def)
qed

theorem correct_assertion_accepted_witness:
  "p256_verify_payload sample_runtime (sample_sysvar (sample_message [1, 2, 3])) sample_verification_data
     [1, 2, 3] sample_p256 = Ok (sample_p256\<lparr>counter := 7\<rparr>)"
proof -
  let ?m = "sample_message [1, 2, 3]" and ?ix = "sample_precompile_ix (sample_message [1, 2, 3])"
  have ix: "iix_program_id ?ix = SECP256R1_PRECOMPILE_ID" "iix_even ?ix" "iix_data ?ix ! 0 = 1"
    "verified_payload sample_runtime (sample_sysvar ?m) (iix_data ?ix) 0 = Some (sample_payload ?m)"
    by (simp_all add: sample_precompile_ix_def sample_verified_payload)
       (simp add: sample_precompile_data_def)
  have ad: "37 \<le> length sample_auth_data"
    "take 32 sample_auth_data = rp_id_hash (rp_id_info sample_p256)" "sample_auth_data ! 32 AND 1 \<noteq> 0"
    "7 = u32_from_be (take 4 (drop 33 sample_auth_data))"
    using u32_from_be_rev [of 7]
    by (simp_all add: sample_auth_data_def encode_auth_data_def sample_p256_def sample_rp_def nth_append)
  have pl: "payload_public_key (sample_payload ?m) = sec1_bytes (public_key sample_p256)"
    "payload_message (sample_payload ?m) = sample_auth_data @ hash sample_runtime (sample_json (b64url [1, 2, 3]))"
    by (simp add: sample_p256_def sample_sec1) (simp add: sample_message_def)
  have rp: "unat (rp_id_len (rp_id_info sample_p256)) \<le> length (rp_id (rp_id_info sample_p256))"
    by (simp add: sample_p256_def sample_rp_def)
  have json: "reconstruct_client_data_json sample_runtime (parsed_verif_params sample_verification_data)
      (stored_rp_id (rp_id_info sample_p256)) [1, 2, 3] = Ok (sample_json (b64url [1, 2, 3]))"
    by (simp add: sample_verification_data_def sample_p256_def sample_stored_rp_id sample_reconstruct)
  from correct_assertion_accepted [OF sample_sha256_length sample_instruction_at ix pl(1) pl(2) ad(1-3) rp json ad(4)]
  show ?thesis by (simp add: sample_p256_def)
qed

section \<open>The arguments, branch by branch\<close>

text \<open>
  Parsing initialization data, every branch: ids longer than 32 bytes and ids with a quote
  are refused, in that order; any other id is stored with its length and hash, the key in its
  compressed form, the counter at zero.
\<close>

theorem parse_initialization_data_cases:
  assumes "length (raw_init_public_key raw) = 33"
  shows "case p256_parse_initialization_data rt raw of
      Err e \<Rightarrow> (32 < length (raw_rp_id raw) \<and> e = prog_err P256RelyingPartTooLong) \<or>
        (length (raw_rp_id raw) \<le> 32 \<and> 0x22 \<in> set (raw_rp_id raw) \<and> e = prog_err P256RelyingPartIncludeQuotes)
    | Panic \<Rightarrow> False
    | Ok pi \<Rightarrow> length (raw_rp_id raw) \<le> 32 \<and> 0x22 \<notin> set (raw_rp_id raw) \<and>
        stored_rp_id (parsed_rp_id_info pi) = raw_rp_id raw \<and>
        rp_id_hash (parsed_rp_id_info pi) = hash rt (raw_rp_id raw) \<and>
        sec1_bytes (parsed_init_public_key pi) = raw_init_public_key raw \<and>
        parsed_counter pi = 0 \<and> parsed_init_params pi = raw_init_params raw"
proof -
  obtain k where k: "compressed_p256_public_key_new (raw_init_public_key raw) = Ok k"
    "sec1_bytes k = raw_init_public_key raw"
    using compressed_p256_public_key_new_33 [OF assms] by blast
  show ?thesis
  proof (cases "length (raw_rp_id raw) \<le> 32 \<and> 0x22 \<notin> set (raw_rp_id raw)")
    case True
    then obtain info where info: "rp_id_information_new (raw_rp_id raw) (hash rt (raw_rp_id raw)) = Ok info"
      by (simp add: rp_id_information_new_def)
    from rp_id_information_new_Ok [OF info] True k show ?thesis
      by (simp add: p256_parse_initialization_data_def info)
  next
    case False
    then show ?thesis by (auto simp: p256_parse_initialization_data_def ensure_def)
  qed
qed

theorem parse_initialization_data_cases_witness:
  "\<exists>pi. p256_parse_initialization_data sample_runtime \<lparr>raw_rp_id = ascii ''localhost'',
      raw_init_public_key = replicate 33 2, raw_init_params = sample_params\<rparr> = Ok pi \<and>
     stored_rp_id (parsed_rp_id_info pi) = ascii ''localhost''"
proof -
  define raw where "raw = \<lparr>raw_rp_id = ascii ''localhost'', raw_init_public_key = replicate 33 2,
    raw_init_params = sample_params\<rparr>"
  have "length (raw_init_public_key raw) = 33" by (simp add: raw_def)
  from parse_initialization_data_cases [OF this, of sample_runtime] localhost_not_quote
  have "\<exists>pi. p256_parse_initialization_data sample_runtime raw = Ok pi \<and>
      stored_rp_id (parsed_rp_id_info pi) = raw_rp_id raw"
    by (cases "p256_parse_initialization_data sample_runtime raw") (auto simp: raw_def)
  then show ?thesis by (simp add: raw_def)
qed

end
