(* ===== verification/CompiledInstructions.thy ===== *)
theory CompiledInstructions
  imports P256Webauthn
begin

text \<open>
  \<open>src/utils/instructions.rs\<close> and the invocation loop that \<open>execute_instructions.rs\<close> and
  \<open>execute_instructions_sessioned.rs\<close> share word for word: instructions compressed to indices
  into the accounts of the call, the account metas they are given, and the loop that expands
  each one and invokes it with the execution account's seeds.
\<close>

section \<open>Compiled instructions\<close>

record compiled_instruction =
  program_id_index :: u8
  accounts_indices :: "u8 small_vec"
  ci_data :: "u8 small_vec"

definition compiled_instruction_serialize :: "borsh \<Rightarrow> compiled_instruction writer" where
  "compiled_instruction_serialize B i = do {
     accs \<leftarrow> small_vec_serialize L_u8 (u8_u8_slice B) (\<lambda>b. Some (write_u8 B b)) (accounts_indices i);
     d \<leftarrow> small_vec_serialize L_u16 (u8_u8_slice B) (\<lambda>b. Some (write_u8 B b)) (ci_data i);
     Some (write_u8 B (program_id_index i) @ accs @ d) }"

definition compiled_instruction_deserialize :: "borsh \<Rightarrow> compiled_instruction reader" where
  "compiled_instruction_deserialize B bs = do {
     (pid, bs) \<leftarrow> read_u8 B bs;
     (accs, bs) \<leftarrow> small_vec_deserialize B L_u8 (u8_vec_from_reader B) (read_u8 B) bs;
     (d, bs) \<leftarrow> small_vec_deserialize B L_u16 (u8_vec_from_reader B) (read_u8 B) bs;
     Some (\<lparr>program_id_index = pid, accounts_indices = accs, ci_data = d\<rparr>, bs) }"

text \<open>Vectors of instructions.\<close>

abbreviation instructions_writer :: "borsh \<Rightarrow> compiled_instruction small_vec writer" where
  "instructions_writer B \<equiv> small_vec_serialize L_u8 no_u8_slice (compiled_instruction_serialize B)"

abbreviation instructions_reader :: "borsh \<Rightarrow> compiled_instruction small_vec reader" where
  "instructions_reader B \<equiv>
     small_vec_deserialize B L_u8 no_vec_from_reader (compiled_instruction_deserialize B)"

context borsh_format
begin

lemma compiled_instruction_codec:
  "codec (compiled_instruction_serialize B) (compiled_instruction_deserialize B)"
proof
  note vec = small_vec_bytes_codec [of _ "\<lambda>b. Some (write_u8 B b)" "read_u8 B"]
  show "compiled_instruction_deserialize B (bs @ rest) = Some (x, rest)"
    if "compiled_instruction_serialize B x = Some bs" for x bs rest
    using that codec.read_write [OF vec]
    by (auto simp: compiled_instruction_serialize_def compiled_instruction_deserialize_def
        bind_eq_Some_conv read_u8_write)
  show "\<exists>c. compiled_instruction_serialize B x = Some c \<and> bs = c @ rest"
    if r: "compiled_instruction_deserialize B bs = Some (x, rest)" for x bs rest
  proof -
    obtain b1 b2 where p: "read_u8 B bs = Some (program_id_index x, b1)"
      and a: "small_vec_deserialize B L_u8 (u8_vec_from_reader B) (read_u8 B) b1 = Some (accounts_indices x, b2)"
      and d: "small_vec_deserialize B L_u16 (u8_vec_from_reader B) (read_u8 B) b2 = Some (ci_data x, rest)"
      using r by (auto simp: compiled_instruction_deserialize_def bind_eq_Some_conv)
    from codec.write_read [OF vec a] codec.write_read [OF vec d] p show ?thesis
      by (auto simp: compiled_instruction_serialize_def write_read_u8)
  qed
qed

lemma compiled_instructions_codec:
  "codec (small_vec_serialize L_u8 no_u8_slice (compiled_instruction_serialize B))
         (small_vec_deserialize B L_u8 no_vec_from_reader (compiled_instruction_deserialize B))"
  by (rule small_vec_codec [OF compiled_instruction_codec])

end

interpretation compiled_instruction:
  codec "compiled_instruction_serialize borsh_le" "compiled_instruction_deserialize borsh_le"
  by (rule ref.compiled_instruction_codec)

section \<open>Account metas\<close>

definition account_meta_new :: "pubkey \<Rightarrow> bool \<Rightarrow> bool \<Rightarrow> account_meta" where
  "account_meta_new k writable signer =
     \<lparr>meta_pubkey = k, meta_is_writable = writable, meta_is_signer = signer\<rparr>"

definition execution_account_meta ::
  "store \<Rightarrow> execution_account \<Rightarrow> signer_execution_scheme \<Rightarrow> account_info \<Rightarrow> account_meta" where
  "execution_account_meta st execution_account scheme account =
     (if account = execution_key execution_account then
        (case scheme of
           ExternalAccount \<Rightarrow> account_meta_new account False True
         | ExecutionAccount \<Rightarrow> account_meta_new account (acc_is_writable (st account)) True)
      else account_meta_new account (acc_is_writable (st account)) (acc_is_signer (st account)))"

definition create_instruction_execution_account_metas ::
  "store \<Rightarrow> account_info list \<Rightarrow> execution_account \<Rightarrow> signer_execution_scheme \<Rightarrow> account_meta list" where
  "create_instruction_execution_account_metas st instruction_execution_accounts execution_account scheme =
     map (execution_account_meta st execution_account scheme) instruction_execution_accounts"

section \<open>The invocation loop\<close>

text \<open>The state of a call: the accounts, and the inner instructions invoked so far.\<close>

record world =
  w_store :: store
  w_invoked :: "invocation list"

text \<open>
  The inner loop over one instruction's account indices, with its three containers: the metas
  (with repetitions), the distinct indices, and the 64 flags that tell them apart.
\<close>

fun collect_accounts ::
  "account_meta list \<Rightarrow> u8 list \<Rightarrow> account_meta list \<Rightarrow> u8 list \<Rightarrow> bool list
     \<Rightarrow> (account_meta list \<times> u8 list) result" where
  "collect_accounts metas [] account_metas account_info_indices seen_indices =
     Ok (account_metas, account_info_indices)"
| "collect_accounts metas (i # is) account_metas account_info_indices seen_indices =
     and_then (index metas (unat i)) (\<lambda>m.
     and_then (index seen_indices (unat i)) (\<lambda>seen.
     if \<not> seen then
       collect_accounts metas is (account_metas @ [m]) (account_info_indices @ [i])
         (seen_indices[unat i := True])
     else
       collect_accounts metas is (account_metas @ [m]) account_info_indices seen_indices))"

text \<open>
  One round: collect, look the accounts up, refuse to call this program, invoke, and clear the
  containers, which the next round starts with.
\<close>

definition invoke_instruction ::
  "runtime \<Rightarrow> account_info list \<Rightarrow> account_meta list \<Rightarrow> execution_account \<Rightarrow> compiled_instruction
     \<Rightarrow> account_meta list \<Rightarrow> u8 list \<Rightarrow> world \<Rightarrow> (account_meta list \<times> u8 list \<times> world) result" where
  "invoke_instruction rt accounts metas execution_account instruction account_metas account_info_indices w =
     and_then (collect_accounts metas (accounts_indices instruction) account_metas account_info_indices
                 (replicate 64 False)) (\<lambda>(account_metas, account_info_indices).
     and_then (map_result (\<lambda>i. index accounts (unat i)) account_info_indices) (\<lambda>filtered_account_infos.
     and_then (index accounts (unat (program_id_index instruction))) (\<lambda>program_id.
     and_then (assert_that (program_id \<noteq> crate_ID)) (\<lambda>_.
     and_then (to_signer_seeds execution_account) (\<lambda>seeds.
     let inv = \<lparr>inv_program_id = program_id, inv_accounts = account_metas,
                inv_data = ci_data instruction, inv_account_infos = filtered_account_infos,
                inv_signers_seeds = [seeds]\<rparr>
     in and_then (invoke_signed rt inv (w_store w)) (\<lambda>st.
        Ok ([], [], w\<lparr>w_store := st, w_invoked := w_invoked w @ [inv]\<rparr>)))))))"

fun invoke_instructions ::
  "runtime \<Rightarrow> account_info list \<Rightarrow> account_meta list \<Rightarrow> execution_account \<Rightarrow> compiled_instruction list
     \<Rightarrow> account_meta list \<Rightarrow> u8 list \<Rightarrow> world \<Rightarrow> world result" where
  "invoke_instructions rt accounts metas ea [] account_metas account_info_indices w = Ok w"
| "invoke_instructions rt accounts metas ea (i # is) account_metas account_info_indices w =
     and_then (invoke_instruction rt accounts metas ea i account_metas account_info_indices w)
       (\<lambda>(account_metas, account_info_indices, w).
     invoke_instructions rt accounts metas ea is account_metas account_info_indices w)"

section \<open>What one round does\<close>

text \<open>The distinct elements of a list, in the order of their first occurrence.\<close>

fun first_occurrences :: "'a list \<Rightarrow> 'a list" where
  "first_occurrences [] = []"
| "first_occurrences (x # xs) = x # filter (\<lambda>y. y \<noteq> x) (first_occurrences xs)"

lemma set_first_occurrences [simp]: "set (first_occurrences xs) = set xs"
  by (induction xs) auto

lemma distinct_first_occurrences [simp]: "distinct (first_occurrences xs)"
  by (induction xs) auto

lemma collect_accounts_Ok:
  assumes "length seen = 64" and "\<And>i. unat i < 64 \<Longrightarrow> seen ! unat i \<longleftrightarrow> i \<in> set ai"
  shows "collect_accounts metas is am ai seen = Ok r \<longleftrightarrow>
    (\<forall>i \<in> set is. unat i < length metas \<and> unat i < 64) \<and>
    r = (am @ map (\<lambda>i. metas ! unat i) is, ai @ filter (\<lambda>i. i \<notin> set ai) (first_occurrences is))"
  using assms
proof (induction "is" arbitrary: am ai seen)
  case Nil
  then show ?case by auto
next
  case (Cons i "is")
  show ?case
  proof (cases "unat i < length metas \<and> unat i < 64")
    case False
    then show ?thesis using Cons.prems(1) by (auto simp: result_simps)
  next
    case inside: True
    show ?thesis
    proof (cases "i \<in> set ai")
      case True
      have same: "filter (\<lambda>x. x \<noteq> i \<and> x \<notin> set ai) (first_occurrences is) =
          filter (\<lambda>j. j \<notin> set ai) (first_occurrences is)"
        using True by (auto intro: filter_cong)
      show ?thesis
        using inside True Cons.prems Cons.IH [of seen ai "am @ [metas ! unat i]"]
        by (simp add: index_def same)
    next
      case False
      have seen': "\<And>j. unat j < 64 \<Longrightarrow> seen[unat i := True] ! unat j \<longleftrightarrow> j \<in> set (ai @ [i])"
        using Cons.prems inside by (auto simp: nth_list_update word_unat_eq_iff)
      have filt: "filter (\<lambda>j. j \<notin> set (ai @ [i])) (first_occurrences is) =
          filter (\<lambda>j. j \<notin> set ai) (filter (\<lambda>y. y \<noteq> i) (first_occurrences is))"
        by (auto simp: filter_filter intro: filter_cong)
      show ?thesis
        using inside False Cons.prems Cons.IH [of "seen[unat i := True]" "ai @ [i]" "am @ [metas ! unat i]", OF _ seen']
        by (simp add: index_def filt)
    qed
  qed
qed

lemma collect_accounts_fresh:
  "collect_accounts metas is [] [] (replicate 64 False) = Ok r \<longleftrightarrow>
    (\<forall>i \<in> set is. unat i < length metas \<and> unat i < 64) \<and>
    r = (map (\<lambda>i. metas ! unat i) is, first_occurrences is)"
  by (subst collect_accounts_Ok) auto

text \<open>The invocation an instruction stands for, and when its indices are in range.\<close>

definition expanded_invocation ::
  "account_info list \<Rightarrow> account_meta list \<Rightarrow> bytes list \<Rightarrow> compiled_instruction \<Rightarrow> invocation" where
  "expanded_invocation accounts metas seeds ci = \<lparr>
     inv_program_id = accounts ! unat (program_id_index ci),
     inv_accounts = map (\<lambda>i. metas ! unat i) (accounts_indices ci),
     inv_data = ci_data ci,
     inv_account_infos = map (\<lambda>i. accounts ! unat i) (first_occurrences (accounts_indices ci)),
     inv_signers_seeds = [seeds] \<rparr>"

definition instruction_in_range :: "nat \<Rightarrow> compiled_instruction \<Rightarrow> bool" where
  "instruction_in_range n ci \<longleftrightarrow> unat (program_id_index ci) < n \<and>
     (\<forall>i \<in> set (accounts_indices ci). unat i < n \<and> unat i < 64)"

lemma invoke_instruction_Ok:
  assumes "length metas = length accounts"
  shows "invoke_instruction rt accounts metas ea ci [] [] w = Ok r \<longleftrightarrow>
    instruction_in_range (length accounts) ci \<and> accounts ! unat (program_id_index ci) \<noteq> crate_ID \<and>
    (\<exists>seeds st. to_signer_seeds ea = Ok seeds \<and>
       invoke_signed rt (expanded_invocation accounts metas seeds ci) (w_store w) = Ok st \<and>
       r = ([], [], w\<lparr>w_store := st,
                      w_invoked := w_invoked w @ [expanded_invocation accounts metas seeds ci]\<rparr>))"
  using assms
  by (auto simp: invoke_instruction_def result_simps collect_accounts_fresh instruction_in_range_def
      expanded_invocation_def Let_def split: prod.splits)

text \<open>
  The loop as a whole.  \<open>run_invocations\<close>: the reference, each invocation in turn on the store
  the previous one left.
\<close>

fun run_invocations :: "runtime \<Rightarrow> invocation list \<Rightarrow> store \<Rightarrow> store result" where
  "run_invocations rt [] st = Ok st"
| "run_invocations rt (iv # ivs) st = and_then (invoke_signed rt iv st) (run_invocations rt ivs)"

lemma invoke_instructions_Ok:
  assumes "length metas = length accounts" and "to_signer_seeds ea = Ok seeds"
  shows "invoke_instructions rt accounts metas ea cis [] [] w = Ok w' \<longleftrightarrow>
    (\<forall>ci \<in> set cis. instruction_in_range (length accounts) ci \<and>
        accounts ! unat (program_id_index ci) \<noteq> crate_ID) \<and>
    (\<exists>st. run_invocations rt (map (expanded_invocation accounts metas seeds) cis) (w_store w) = Ok st \<and>
       w' = w\<lparr>w_store := st,
              w_invoked := w_invoked w @ map (expanded_invocation accounts metas seeds) cis\<rparr>)"
proof (induction cis arbitrary: w)
  case Nil
  then show ?case by (auto simp: world.defs)
next
  case (Cons ci cis)
  then show ?case
    using assms(2)
    by (auto simp: result_simps invoke_instruction_Ok [OF assms(1)] split: prod.splits)
qed

text \<open>
  The same with the refusals: the reference for the whole loop, each instruction expanded on its own
  and run, an index out of range or a call into this program ending in a panic.
\<close>

fun run_compiled ::
  "runtime \<Rightarrow> account_info list \<Rightarrow> account_meta list \<Rightarrow> bytes list \<Rightarrow> compiled_instruction list \<Rightarrow> world
     \<Rightarrow> world result" where
  "run_compiled rt accounts metas seeds [] w = Ok w"
| "run_compiled rt accounts metas seeds (ci # cis) w =
     (if instruction_in_range (length accounts) ci \<and> accounts ! unat (program_id_index ci) \<noteq> crate_ID then
        let iv = expanded_invocation accounts metas seeds ci
        in and_then (invoke_signed rt iv (w_store w)) (\<lambda>st.
           run_compiled rt accounts metas seeds cis (w\<lparr>w_store := st, w_invoked := w_invoked w @ [iv]\<rparr>))
      else Panic)"

lemma collect_accounts_no_Err: "collect_accounts metas is am ai seen \<noteq> Err e"
  by (induction "is" arbitrary: am ai seen) (auto simp: index_def)

lemma collect_accounts_cases:
  "collect_accounts metas is [] [] (replicate 64 False) =
     (if \<forall>i \<in> set is. unat i < length metas \<and> unat i < 64
      then Ok (map (\<lambda>i. metas ! unat i) is, first_occurrences is) else Panic)"
  using collect_accounts_no_Err [of metas "is" "[]" "[]" "replicate 64 False"]
    collect_accounts_fresh [of metas "is"]
  by (cases "collect_accounts metas is [] [] (replicate 64 False)") auto

lemma invoke_instruction_cases:
  assumes "length metas = length accounts" and "to_signer_seeds ea = Ok seeds"
  shows "invoke_instruction rt accounts metas ea ci [] [] w =
    (if instruction_in_range (length accounts) ci \<and> accounts ! unat (program_id_index ci) \<noteq> crate_ID then
       and_then (invoke_signed rt (expanded_invocation accounts metas seeds ci) (w_store w)) (\<lambda>st.
       Ok ([], [], w\<lparr>w_store := st, w_invoked := w_invoked w @ [expanded_invocation accounts metas seeds ci]\<rparr>))
     else Panic)"
proof (cases "\<forall>i \<in> set (accounts_indices ci). unat i < length metas \<and> unat i < 64")
  case True
  then have "map_result (\<lambda>i. index accounts (unat i)) (first_occurrences (accounts_indices ci)) =
      Ok (map (\<lambda>i. accounts ! unat i) (first_occurrences (accounts_indices ci)))"
    using assms(1) by (simp add: map_result_index)
  with True assms show ?thesis
    by (simp add: invoke_instruction_def collect_accounts_cases index_def assert_that_def
        instruction_in_range_def expanded_invocation_def Let_def)
next
  case False
  then show ?thesis
    using assms(1) by (auto simp: invoke_instruction_def collect_accounts_cases instruction_in_range_def)
qed

lemma length_create_metas [simp]:
  "length (create_instruction_execution_account_metas st accounts ea scheme) = length accounts"
  by (simp add: create_instruction_execution_account_metas_def)

text \<open>
  No meta asks for more than the transaction gave, except that the execution account signs; and
  as a signing external account it is not writable.
\<close>

lemma created_meta:
  assumes "m \<in> set (create_instruction_execution_account_metas st accounts ea scheme)"
  shows "meta_pubkey m \<in> set accounts" "meta_is_writable m \<Longrightarrow> acc_is_writable (st (meta_pubkey m))"
    "meta_is_signer m \<longleftrightarrow> acc_is_signer (st (meta_pubkey m)) \<or> meta_pubkey m = execution_key ea"
    "scheme = ExternalAccount \<Longrightarrow> meta_pubkey m = execution_key ea \<Longrightarrow> \<not> meta_is_writable m"
  using assms
  by (auto simp: create_instruction_execution_account_metas_def execution_account_meta_def
      account_meta_new_def split: signer_execution_scheme.splits if_splits)

lemma get_execution_account_seeds:
  assumes "get_execution_account rt (p256_trait rt) st a scheme = Ok ea"
  shows "\<exists>seeds. to_signer_seeds ea = Ok seeds"
  using assms
  by (auto simp: get_execution_account_def esa_derive_existing_account_def to_signer_seeds_def index_def
      account_seeds_owned_def Let_def result_simps split: signer_execution_scheme.splits prod.splits)

section \<open>Privileges of the inner instructions\<close>

text \<open>
  A well-behaved inner instruction: it does not call this program, its accounts are accounts of
  the call with the flags the transaction gave them at most, except for the signature of the
  execution account \<open>ek\<close>, and the account infos it is passed are exactly its accounts.
\<close>

definition unescalated :: "store \<Rightarrow> account_info list \<Rightarrow> pubkey \<Rightarrow> invocation \<Rightarrow> bool" where
  "unescalated st accounts ek iv \<longleftrightarrow>
     inv_program_id iv \<noteq> crate_ID \<and> inv_program_id iv \<in> set accounts \<and>
     set (inv_account_infos iv) = meta_pubkey ` set (inv_accounts iv) \<and>
     (\<forall>m \<in> set (inv_accounts iv). meta_pubkey m \<in> set accounts \<and>
        (meta_is_writable m \<longrightarrow> acc_is_writable (st (meta_pubkey m))) \<and>
        (meta_is_signer m \<longrightarrow> acc_is_signer (st (meta_pubkey m)) \<or> meta_pubkey m = ek))"

lemma meta_pubkey_nth:
  "i < length accounts \<Longrightarrow>
     meta_pubkey (create_instruction_execution_account_metas st accounts ea scheme ! i) = accounts ! i"
  by (simp add: create_instruction_execution_account_metas_def execution_account_meta_def
      account_meta_new_def split: signer_execution_scheme.splits)

lemma expanded_unescalated:
  assumes r: "instruction_in_range (length accounts) ci"
    and "accounts ! unat (program_id_index ci) \<noteq> crate_ID"
  shows "unescalated st accounts (execution_key ea)
    (expanded_invocation accounts (create_instruction_execution_account_metas st accounts ea scheme) seeds ci)"
proof -
  let ?metas = "create_instruction_execution_account_metas st accounts ea scheme"
  have idx: "unat i < length accounts" if "i \<in> set (accounts_indices ci)" for i
    using r that by (simp add: instruction_in_range_def)
  then have mem: "?metas ! unat i \<in> set ?metas" if "i \<in> set (accounts_indices ci)" for i
    using that by simp
  have "(\<lambda>i. accounts ! unat i) ` set (accounts_indices ci) =
      (\<lambda>i. meta_pubkey (?metas ! unat i)) ` set (accounts_indices ci)"
    using idx by (auto simp: meta_pubkey_nth intro!: image_cong)
  with assms mem created_meta [of _ st accounts ea scheme] show ?thesis
    by (auto simp: unescalated_def expanded_invocation_def instruction_in_range_def image_image)
qed

lemma invoked_unescalated:
  assumes "to_signer_seeds ea = Ok seeds"
    and "invoke_instructions rt accounts (create_instruction_execution_account_metas st accounts ea scheme)
           ea cis [] [] w = Ok w'"
  shows "\<exists>ivs. w_invoked w' = w_invoked w @ ivs \<and> length ivs = length cis \<and>
    (\<forall>iv \<in> set ivs. unescalated st accounts (execution_key ea) iv \<and> inv_signers_seeds iv = [seeds])"
  using assms(2) expanded_unescalated [of accounts _ st ea scheme seeds]
  by (auto simp: invoke_instructions_Ok [OF _ assms(1)] expanded_invocation_def)

section \<open>Properties\<close>

text \<open>
  C20. The loop that shares its containers and its table of 64 flags between instructions does what
  expanding each instruction on its own and running it does, results, errors and panics alike.
\<close>

theorem invocation_loop_reference:
  assumes "length metas = length accounts" and "to_signer_seeds ea = Ok seeds"
  shows "invoke_instructions rt accounts metas ea cis [] [] w = run_compiled rt accounts metas seeds cis w"
proof (induction cis arbitrary: w)
  case (Cons ci cis)
  show ?case
    by (cases "invoke_signed rt (expanded_invocation accounts metas seeds ci) (w_store w)")
       (simp_all add: invoke_instruction_cases [OF assms] Cons.IH Let_def)
qed simp

end
