(* ===== verification/SlotHashes.thy ===== *)
theory SlotHashes
  imports Runtime
begin

text \<open>
  \<open>src/utils/slothashes.rs\<close>: zero-copy access to the SlotHashes sysvar, a little-endian count
  and then 40-byte entries (slot height and hash), newest first.
\<close>

definition SLOT_HASHES_ID :: pubkey where
  "SLOT_HASHES_ID =
     [0x06, 0xa7, 0xd5, 0x17, 0x19, 0x2f, 0x0a, 0xaf, 0xc6, 0xf2, 0x65, 0xe3, 0xfb, 0x77, 0xcc, 0x7a,
      0xda, 0x82, 0xc5, 0x29, 0xd0, 0xbe, 0x3b, 0x13, 0x6e, 0x2d, 0x00, 0x55, 0x20, 0x00, 0x00, 0x00]"

record slot_hash =
  height :: u64
  slot_hash_hash :: bytes

record slot_hashes =
  slot_hashes_data :: bytes

definition slot_hash_size :: nat where
  "slot_hash_size = 40"

definition slot_hashes_new_unchecked :: "bytes \<Rightarrow> slot_hashes" where
  "slot_hashes_new_unchecked data = \<lparr>slot_hashes_data = data\<rparr>"

definition get_slothashes_len :: "runtime \<Rightarrow> slot_hashes \<Rightarrow> u64" where
  "get_slothashes_len rt sh = u64_from_le (raw_bytes rt (slot_hashes_data sh) 0 8)"

definition get_slot_hash_unchecked :: "runtime \<Rightarrow> slot_hashes \<Rightarrow> nat \<Rightarrow> slot_hash" where
  "get_slot_hash_unchecked rt sh i =
     (let offset = 8 + i * slot_hash_size
      in \<lparr>height = u64_from_le (raw_bytes rt (slot_hashes_data sh) offset 8),
          slot_hash_hash = raw_bytes rt (slot_hashes_data sh) (offset + 8) 32\<rparr>)"

definition get_slot_hash :: "runtime \<Rightarrow> slot_hashes \<Rightarrow> nat \<Rightarrow> slot_hash result" where
  "get_slot_hash rt sh i =
     (if unat (get_slothashes_len rt sh) \<le> i then Err (prog_err InvalidSlothashIndex)
      else Ok (get_slot_hash_unchecked rt sh i))"

definition slot_hashes_try_from :: "runtime \<Rightarrow> store \<Rightarrow> account_info \<Rightarrow> slot_hashes result" where
  "slot_hashes_try_from rt st account =
     (if account \<noteq> SLOT_HASHES_ID then Err UnsupportedSysvar
      else and_then (borrow_data rt (st account)) (\<lambda>data. Ok \<lparr>slot_hashes_data = data\<rparr>))"

section \<open>The table the buffer holds\<close>

definition slot_table :: "runtime \<Rightarrow> slot_hashes \<Rightarrow> slot_hash list" where
  "slot_table rt sh =
     map (get_slot_hash_unchecked rt sh) [0 ..< unat (get_slothashes_len rt sh)]"

lemma length_slot_table: "length (slot_table rt sh) = unat (get_slothashes_len rt sh)"
  by (simp add: slot_table_def)

lemma get_slot_hash_table:
  "get_slot_hash rt sh i =
     (if i < length (slot_table rt sh) then Ok (slot_table rt sh ! i)
      else Err (prog_err InvalidSlothashIndex))"
  by (auto simp: get_slot_hash_def slot_table_def)

text \<open>The encoding of a table, as the runtime writes the sysvar (spare capacity may follow).\<close>

fun encode_slot_entries :: "slot_hash list \<Rightarrow> bytes" where
  "encode_slot_entries [] = []"
| "encode_slot_entries (e # es) = u64_to_le (height e) @ slot_hash_hash e @ encode_slot_entries es"

definition encode_slot_hashes :: "slot_hash list \<Rightarrow> bytes" where
  "encode_slot_hashes es = u64_to_le (of_nat (length es)) @ encode_slot_entries es"

lemma length_encode_slot_entries:
  "\<forall>e \<in> set es. length (slot_hash_hash e) = 32 \<Longrightarrow> length (encode_slot_entries es) = 40 * length es"
  by (induction es) auto

lemma encode_slot_entries_drop:
  assumes "\<forall>e \<in> set es. length (slot_hash_hash e) = 32" and "i \<le> length es"
  shows "drop (40 * i) (encode_slot_entries es @ rest) = encode_slot_entries (drop i es) @ rest"
  using assms
proof (induction es arbitrary: i)
  case (Cons e es)
  show ?case
  proof (cases i)
    case (Suc j)
    then show ?thesis using Cons.IH [of j] Cons.prems by simp
  qed simp
qed simp

text \<open>
  Reading the sysvar back gives the table the runtime wrote: count and every entry.
\<close>

lemma slot_table_encode:
  assumes hashes: "\<forall>e \<in> set es. length (slot_hash_hash e) = 32" and small: "length es < 2 ^ 64"
  shows "slot_table rt \<lparr>slot_hashes_data = encode_slot_hashes es @ rest\<rparr> = es"
proof -
  let ?d = "encode_slot_hashes es @ rest"
  let ?sh = "\<lparr>slot_hashes_data = ?d\<rparr>"
  have len_d: "length ?d = 8 + 40 * length es + length rest"
    by (simp add: encode_slot_hashes_def length_encode_slot_entries [OF hashes])
  have count: "unat (get_slothashes_len rt ?sh) = length es"
    using small by (simp add: get_slothashes_len_def raw_bytes_inside len_d encode_slot_hashes_def unat_of_nat)
  have "get_slot_hash_unchecked rt ?sh i = es ! i" if i: "i < length es" for i
  proof -
    obtain e where e: "drop i es = e # drop (Suc i) es" "e = es ! i"
      using i by (simp add: Cons_nth_drop_Suc)
    have h32: "length (slot_hash_hash e) = 32" using hashes i e by simp
    have at: "drop (8 + i * 40) ?d = encode_slot_entries (drop i es) @ rest"
      using encode_slot_entries_drop [OF hashes, of i rest] i
      by (simp add: encode_slot_hashes_def mult.commute)
    have at_e: "drop (8 + i * 40) ?d =
        u64_to_le (height e) @ slot_hash_hash e @ encode_slot_entries (drop (Suc i) es) @ rest"
      using at e(1) by simp
    have "take 8 (drop (8 + i * 40) ?d) = u64_to_le (height e)"
      unfolding at_e by simp
    moreover have "drop (8 + i * 40 + 8) ?d = drop 8 (drop (8 + i * 40) ?d)"
      by (simp only: drop_drop add.commute)
    then have "take 32 (drop (8 + i * 40 + 8) ?d) = slot_hash_hash e"
      unfolding at_e using h32 by simp
    ultimately show ?thesis
      using i e(2) len_d by (simp add: get_slot_hash_unchecked_def slot_hash_size_def raw_bytes_inside)
  qed
  then show ?thesis
    by (auto simp: slot_table_def count intro: nth_equalityI)
qed

end
