(* ===== verification/Nonce.thy ===== *)
theory Nonce
  imports SlotHashes Sample
begin

text \<open>
  \<open>src/utils/nonce.rs\<close>: a nonce is a slot hash named by the last three decimal digits of its
  slot, together with a transaction signer.  The search for the slot's entry tries the index the
  slot would have if no slot had been skipped and falls back to the newer entries.
\<close>

datatype truncated_slot = TruncatedSlot (slot_number: u16)

record nonce_data =
  signer_key :: pubkey
  nonce_slothash :: bytes

section \<open>Truncated slots\<close>

text \<open>The derived borsh operations: the one field.\<close>

definition truncated_slot_serialize :: "borsh \<Rightarrow> truncated_slot writer" where
  "truncated_slot_serialize B s = Some (write_u16 B (slot_number s))"

definition truncated_slot_deserialize :: "borsh \<Rightarrow> truncated_slot reader" where
  "truncated_slot_deserialize B bs = do { (s, bs) \<leftarrow> read_u16 B bs; Some (TruncatedSlot s, bs) }"

context borsh_format
begin

lemma truncated_slot_codec: "codec (truncated_slot_serialize B) (truncated_slot_deserialize B)"
proof
  show "truncated_slot_deserialize B (bs @ rest) = Some (x, rest)"
    if "truncated_slot_serialize B x = Some bs" for x bs rest
    using that by (cases x) (auto simp: truncated_slot_serialize_def truncated_slot_deserialize_def read_u16_write)
  show "\<exists>c. truncated_slot_serialize B x = Some c \<and> bs = c @ rest"
    if "truncated_slot_deserialize B bs = Some (x, rest)" for x bs rest
    using that by (auto simp: truncated_slot_serialize_def truncated_slot_deserialize_def
        write_read_u16 bind_eq_Some_conv)
qed

end

definition truncated_slot_new :: "u64 \<Rightarrow> truncated_slot result" where
  "truncated_slot_new untruncated_slot =
     (let slot = untruncated_slot mod 1000 in Ok (TruncatedSlot (ucast slot)))"

definition get_index_difference :: "truncated_slot \<Rightarrow> truncated_slot \<Rightarrow> u16 result" where
  "get_index_difference self other =
     (if slot_number other \<le> slot_number self then
        ok_or (checked_sub (slot_number self) (slot_number other)) (prog_err InvalidTruncatedSlot)
      else
        and_then (ok_or (checked_sub 1000 (slot_number other)) (prog_err InvalidTruncatedSlot))
          (\<lambda>wraparound_distance.
             ok_or (checked_add (slot_number self) wraparound_distance) (prog_err InvalidTruncatedSlot)))"

section \<open>Finding the slot's hash\<close>

text \<open>\<open>for index in (0..search_end).rev()\<close>: from \<open>search_end - 1\<close> down to 0.\<close>

fun reverse_linear_search_slot_hash ::
  "runtime \<Rightarrow> slot_hashes \<Rightarrow> u64 \<Rightarrow> nat \<Rightarrow> slot_hash result" where
  "reverse_linear_search_slot_hash rt sh expected_slot 0 = Err (prog_err InvalidSlothashIndex)"
| "reverse_linear_search_slot_hash rt sh expected_slot (Suc i) =
     and_then (get_slot_hash rt sh i) (\<lambda>candidate.
     if height candidate = expected_slot then Ok candidate
     else reverse_linear_search_slot_hash rt sh expected_slot i)"

definition find_slot_hash_with_fallback ::
  "runtime \<Rightarrow> slot_hashes \<Rightarrow> u64 \<Rightarrow> nat \<Rightarrow> slot_hash result" where
  "find_slot_hash_with_fallback rt sh expected_slot expected_index =
     (let slothashes_len = unat (get_slothashes_len rt sh);
          fallback =
            (let search_end = min expected_index slothashes_len
             in if search_end = 0 then Err (prog_err InvalidSlothashIndex)
                else reverse_linear_search_slot_hash rt sh expected_slot search_end)
      in if expected_index < slothashes_len then
           and_then (get_slot_hash rt sh expected_index) (\<lambda>candidate.
           if height candidate = expected_slot then Ok candidate else fallback)
         else fallback)"

section \<open>Validating a nonce\<close>

definition validate_nonce ::
  "runtime \<Rightarrow> store \<Rightarrow> slot_hashes \<Rightarrow> truncated_slot \<Rightarrow> account_info \<Rightarrow> nonce_data result" where
  "validate_nonce rt st slothashes_sysvar slot nonce_signer =
     and_then (ensure (slot_number slot < 1000) (prog_err InvalidTruncatedSlot)) (\<lambda>_.
     and_then (ensure (\<not> 1 < get_stack_height rt) (prog_err CPINotAllowed)) (\<lambda>_.
     and_then (ensure (acc_is_signer (st nonce_signer)) (prog_err MissingNonceSignature)) (\<lambda>_.
     and_then (get_slot_hash rt slothashes_sysvar 0) (\<lambda>most_recent_slot_hash.
     and_then (truncated_slot_new (height most_recent_slot_hash)) (\<lambda>truncated_most_recent_slot.
     and_then (get_index_difference truncated_most_recent_slot slot) (\<lambda>index_difference.
     and_then (ensure (\<not> 150 \<le> index_difference) (prog_err ExpiredSlothash)) (\<lambda>_.
     and_then (ok_or (checked_sub (height most_recent_slot_hash) (ucast index_difference))
                 (prog_err InvalidTruncatedSlot)) (\<lambda>expected_slot.
     and_then (find_slot_hash_with_fallback rt slothashes_sysvar expected_slot (unat index_difference))
       (\<lambda>slot_hash.
     Ok \<lparr>signer_key = nonce_signer, nonce_slothash = slot_hash_hash slot_hash\<rparr>)))))))))"

section \<open>Truncated slots: arithmetic modulo 1000\<close>

lemma truncated_slot_new_Ok: "truncated_slot_new s = Ok (TruncatedSlot (of_nat (unat s mod 1000)))"
proof -
  have "ucast (s mod 1000) = (of_nat (unat (s mod 1000)) :: u16)" by simp
  then show ?thesis by (simp add: truncated_slot_new_def unat_mod)
qed

lemma slot_number_new:
  "truncated_slot_new s = Ok t \<Longrightarrow> unat (slot_number t) = unat s mod 1000"
proof -
  assume "truncated_slot_new s = Ok t"
  then have "slot_number t = of_nat (unat s mod 1000)" by (auto simp: truncated_slot_new_Ok)
  moreover have "unat s mod 1000 < 65536" by (rule less_trans [of _ 1000]) simp_all
  ultimately show ?thesis by (simp add: unat_of_nat)
qed

text \<open>
  On slots below 1000 the difference never fails and is the distance going backwards round a
  circle of 1000 slots.
\<close>

lemma get_index_difference_mod:
  assumes "unat (slot_number self) < 1000" and "unat (slot_number other) < 1000"
  shows "\<exists>d. get_index_difference self other = Ok d \<and>
    unat d = (unat (slot_number self) + 1000 - unat (slot_number other)) mod 1000"
proof -
  define a b where ab: "a = unat (slot_number self)" "b = unat (slot_number other)"
  note circle = circle_distance [OF assms [folded ab]]
  show ?thesis
  proof (cases "slot_number other \<le> slot_number self")
    case True
    then obtain d where d: "checked_sub (slot_number self) (slot_number other) = Some d"
      by (simp add: checked_sub_def)
    then have "unat d = a - b" and "b \<le> a" by (simp_all add: checked_sub_unat ab)
    with circle have "unat d = (a + 1000 - b) mod 1000" by simp
    with True d show ?thesis by (simp add: get_index_difference_def ab)
  next
    case False
    then have lt: "a < b" by (simp add: ab not_le word_less_nat_alt)
    obtain w where w: "checked_sub 1000 (slot_number other) = Some w"
      using assms(2) by (simp add: checked_sub_def word_le_nat_alt)
    then have uw: "unat w = 1000 - b" by (simp add: checked_sub_unat ab)
    have "a + unat w < 2 ^ 16" using uw assms(1) by (simp add: ab)
    then obtain d where d: "checked_add (slot_number self) w = Some d"
      by (simp add: checked_add_def ab)
    then have "unat d = a + (1000 - b)" by (simp add: checked_add_unat uw ab)
    with circle lt have "unat d = (a + 1000 - b) mod 1000" by simp
    with False w d show ?thesis by (simp add: get_index_difference_def ab)
  qed
qed


section \<open>The search: what it returns\<close>

text \<open>The runtime keeps the sysvar sorted: newest slot first, no slot twice.\<close>

definition slots_descending :: "slot_hash list \<Rightarrow> bool" where
  "slots_descending es \<longleftrightarrow> sorted_wrt (\<lambda>x y. height y < height x) es"

lemma descending_heights:
  assumes "slots_descending es" and "i < length es"
  shows "unat (height (es ! i)) + i \<le> unat (height (es ! 0))"
  using assms(2)
proof (induction i)
  case (Suc i)
  have "height (es ! Suc i) < height (es ! i)"
    using assms(1) Suc.prems by (auto simp: slots_descending_def intro: sorted_wrt_nth_less)
  with Suc show ?case by (simp add: word_less_nat_alt)
qed simp

lemma descending_unique:
  assumes "slots_descending es" "x \<in> set es" "y \<in> set es" "height x = height y"
  shows "x = y"
proof -
  obtain i j where ij: "i < length es" "x = es ! i" "j < length es" "y = es ! j"
    using assms(2,3) by (metis in_set_conv_nth)
  have "\<not> i < j" "\<not> j < i"
    using assms(1,4) ij by (auto simp: slots_descending_def dest: sorted_wrt_nth_less)
  then show ?thesis using ij by (metis linorder_neqE_nat)
qed

lemma search_sound:
  "reverse_linear_search_slot_hash rt sh slot n = Ok e
     \<Longrightarrow> e \<in> set (slot_table rt sh) \<and> height e = slot"
  by (induction n) (auto simp: result_simps get_slot_hash_table split: if_splits)

lemma search_complete:
  assumes "n \<le> length (slot_table rt sh)" and "i < n"
    and "slots_descending (slot_table rt sh)" and "height (slot_table rt sh ! i) = slot"
  shows "reverse_linear_search_slot_hash rt sh slot n = Ok (slot_table rt sh ! i)"
  using assms(1,2)
proof (induction n)
  case (Suc n)
  then have n: "get_slot_hash rt sh n = Ok (slot_table rt sh ! n)"
    by (simp add: get_slot_hash_table)
  show ?case
  proof (cases "i = n")
    case False
    have "height (slot_table rt sh ! n) \<noteq> slot"
    proof
      assume "height (slot_table rt sh ! n) = slot"
      moreover have "height (slot_table rt sh ! n) < height (slot_table rt sh ! i)"
        using assms(3) False Suc.prems by (auto simp: slots_descending_def intro: sorted_wrt_nth_less)
      ultimately show False using assms(4) by simp
    qed
    with Suc n False show ?thesis by simp
  qed (use n assms(4) in simp)
qed simp

lemma find_sound:
  "find_slot_hash_with_fallback rt sh slot idx = Ok e
     \<Longrightarrow> e \<in> set (slot_table rt sh) \<and> height e = slot"
  by (auto simp: find_slot_hash_with_fallback_def Let_def result_simps get_slot_hash_table
      split: if_splits dest: search_sound)

text \<open>
  Complete: an entry for the slot is found whenever there is one, although only the index
  the slot would have with no slot skipped, and the newer entries, are looked at.
\<close>

lemma find_complete:
  assumes desc: "slots_descending (slot_table rt sh)"
    and e: "e \<in> set (slot_table rt sh)"
    and idx: "unat (height e) + idx = unat (height (slot_table rt sh ! 0))"
  shows "find_slot_hash_with_fallback rt sh (height e) idx = Ok e"
proof -
  let ?t = "slot_table rt sh"
  obtain i where i: "i < length ?t" "e = ?t ! i" using e by (metis in_set_conv_nth)
  have ile: "i \<le> idx" using descending_heights [OF desc i(1)] idx i(2) by simp
  show ?thesis
  proof (cases "idx < length ?t \<and> height (?t ! idx) = height e")
    case True
    then have "?t ! idx = e" using descending_unique [OF desc _ e, of "?t ! idx"] by simp
    with True show ?thesis
      by (simp add: find_slot_hash_with_fallback_def get_slot_hash_table flip: length_slot_table)
  next
    case False
    then have "i < min idx (length ?t)" using i ile by (metis le_neq_implies_less min_less_iff_conj)
    then have "reverse_linear_search_slot_hash rt sh (height e) (min idx (length ?t)) = Ok e"
      using search_complete [of "min idx (length ?t)" rt sh i] desc i by simp
    with False \<open>i < min idx (length ?t)\<close> show ?thesis
      by (auto simp: find_slot_hash_with_fallback_def get_slot_hash_table Let_def
          simp flip: length_slot_table)
  qed
qed

section \<open>Which nonces are valid\<close>

text \<open>
  The specification: the named slot is one of the table's, it is less than 150 slots older than
  the newest one, and its last three digits are the submitted number.
\<close>

definition nonce_entry :: "slot_hash list \<Rightarrow> u16 \<Rightarrow> slot_hash \<Rightarrow> bool" where
  "nonce_entry es n e \<longleftrightarrow>
     e \<in> set es \<and> unat (height e) mod 1000 = unat n \<and>
     unat (height e) \<le> unat (height (es ! 0)) \<and> unat (height (es ! 0)) < unat (height e) + 150"

lemma residue_window:
  fixes x y :: nat
  assumes "x mod m = y mod m" and "y \<le> x" and "x < y + m"
  shows "x = y"
proof -
  have "m dvd x - y" using assms by (simp add: mod_eq_dvd_iff_nat)
  moreover have "x - y < m" using assms by simp
  ultimately have "x - y = 0" by (meson nat_dvd_not_less neq0_conv)
  with assms(2) show ?thesis by simp
qed

lemma nonce_entryD:
  assumes "nonce_entry es n e" "nonce_entry es n e'" and "unat (height e') \<le> unat (height e)"
  shows "unat (height e) = unat (height e')"
proof (rule residue_window)
  show "unat (height e) mod 1000 = unat (height e') mod 1000"
    using assms(1,2) unfolding nonce_entry_def by metis
  show "unat (height e) < unat (height e') + 1000"
    using assms(1,2) unfolding nonce_entry_def by linarith
qed (rule assms(3))

lemma nonce_entry_unique:
  assumes "slots_descending es" "nonce_entry es n e" "nonce_entry es n e'"
  shows "e = e'"
proof -
  have "unat (height e) = unat (height e')"
    using nonce_entryD [OF assms(2,3)] nonce_entryD [OF assms(3,2)] by linarith
  then have "height e = height e'" by (simp only: word_unat_eq_iff)
  moreover have "e \<in> set es" "e' \<in> set es" using assms(2,3) by (simp_all add: nonce_entry_def)
  ultimately show ?thesis using descending_unique [OF assms(1)] by blast
qed

lemma index_difference_age:
  assumes "truncated_slot_new newest = Ok t" and "slot_number s < 1000"
  shows "\<exists>d. get_index_difference t s = Ok d \<and>
    unat d = (unat newest mod 1000 + 1000 - unat (slot_number s)) mod 1000 \<and> unat d < 1000"
  using get_index_difference_mod [of t s] slot_number_new [OF assms(1)] assms(2)
  by (auto simp: word_less_nat_alt)

lemma age_arith:
  fixes h n s :: nat
  assumes s: "s < 1000"
  defines "D \<equiv> (n mod 1000 + 1000 - s) mod 1000"
  shows "h \<le> n \<and> n < h + 150 \<and> h mod 1000 = s \<longleftrightarrow> D < 150 \<and> h + D = n"
proof -
  define m q where mq: "m = n mod 1000" "q = n div 1000"
  have n: "n = 1000 * q + m" and m: "m < 1000" by (simp_all add: mq)
  have D: "D = (if s \<le> m then m - s else m + (1000 - s))"
    using circle_distance [OF m s] by (simp add: D_def mq)
  show ?thesis
  proof
    assume h: "h \<le> n \<and> n < h + 150 \<and> h mod 1000 = s"
    define p where "p = h div 1000"
    have "h = 1000 * p + s" using mult_div_mod_eq [of 1000 h] h by (simp add: p_def)
    with h n m s have "q = p \<or> q = p + 1" by linarith
    with h n m s \<open>h = 1000 * p + s\<close> D show "D < 150 \<and> h + D = n" by auto
  next
    assume d: "D < 150 \<and> h + D = n"
    have "h + (if s \<le> m then 0 else 1000) = 1000 * q + s"
      using d D n s by (auto split: if_splits)
    then have "(h + (if s \<le> m then 0 else 1000)) mod 1000 = s" using s by simp
    then have "h mod 1000 = s" by (simp split: if_splits)
    with d show "h \<le> n \<and> n < h + 150 \<and> h mod 1000 = s" by auto
  qed
qed

lemma index_difference_of_entry:
  assumes t: "truncated_slot_new newest = Ok t" and s: "slot_number s < 1000"
    and d: "get_index_difference t s = Ok d"
  shows "unat h \<le> unat newest \<and> unat newest < unat h + 150 \<and> unat h mod 1000 = unat (slot_number s)
    \<longleftrightarrow> unat d < 150 \<and> unat h + unat d = unat newest"
proof -
  have "unat (slot_number s) < 1000" using s by (simp add: word_less_nat_alt)
  note age_arith [OF this, of "unat h" "unat newest"]
  moreover have "unat d = (unat newest mod 1000 + 1000 - unat (slot_number s)) mod 1000"
    using index_difference_age [OF t s] d by auto
  ultimately show ?thesis by simp
qed

lemma unat_ucast_u16_u64: "unat (ucast (d :: u16) :: u64) = unat d"
proof -
  have "unat d < 65536" using unsigned_less [of d] by simp
  then have "unat d < 2 ^ 64" by simp
  then show ?thesis by (simp add: unsigned_ucast_eq take_bit_nat_eq_self_iff)
qed

text \<open>The search part of \<open>validate_nonce\<close>, once the newest entry is known.\<close>

lemma nonce_search_iff:
  assumes desc: "slots_descending (slot_table rt sh)" and ne: "0 < length (slot_table rt sh)"
    and t: "truncated_slot_new (height (slot_table rt sh ! 0)) = Ok t"
    and s: "slot_number s < 1000" and d: "get_index_difference t s = Ok d"
  shows "\<not> 150 \<le> d \<and>
      (\<exists>x. checked_sub (height (slot_table rt sh ! 0)) (ucast d) = Some x \<and>
           find_slot_hash_with_fallback rt sh x (unat d) = Ok e)
    \<longleftrightarrow> nonce_entry (slot_table rt sh) (slot_number s) e"
proof -
  let ?new = "height (slot_table rt sh ! 0)"
  note entry = index_difference_of_entry [OF t s d, of "height e"]
  have small: "\<not> 150 \<le> d \<longleftrightarrow> unat d < 150" by (simp add: word_le_nat_alt not_le)
  have sub: "checked_sub ?new (ucast d) = Some x \<longleftrightarrow> unat x + unat d = unat ?new" for x
    by (auto simp: checked_sub_unat unat_ucast_u16_u64)
  show ?thesis
  proof
    assume "\<not> 150 \<le> d \<and> (\<exists>x. checked_sub ?new (ucast d) = Some x \<and>
           find_slot_hash_with_fallback rt sh x (unat d) = Ok e)"
    then obtain x where x: "unat d < 150" "unat x + unat d = unat ?new"
      "find_slot_hash_with_fallback rt sh x (unat d) = Ok e"
      by (auto simp: small sub)
    from find_sound [OF x(3)] have "e \<in> set (slot_table rt sh)" "height e = x" by auto
    with x entry show "nonce_entry (slot_table rt sh) (slot_number s) e"
      by (simp add: nonce_entry_def)
  next
    assume n: "nonce_entry (slot_table rt sh) (slot_number s) e"
    then have "unat d < 150 \<and> unat (height e) + unat d = unat ?new" and "e \<in> set (slot_table rt sh)"
      using entry by (auto simp: nonce_entry_def)
    with find_complete [OF desc] show "\<not> 150 \<le> d \<and> (\<exists>x. checked_sub ?new (ucast d) = Some x \<and>
           find_slot_hash_with_fallback rt sh x (unat d) = Ok e)"
      by (auto simp: small sub)
  qed
qed

lemma validate_nonce_unfold:
  assumes "slot_table rt sh \<noteq> []"
    and "truncated_slot_new (height (slot_table rt sh ! 0)) = Ok t"
    and "get_index_difference t slot = Ok d"
  shows "validate_nonce rt st sh slot signer = Ok nd \<longleftrightarrow>
     slot_number slot < 1000 \<and> get_stack_height rt \<le> 1 \<and> acc_is_signer (st signer) \<and>
     (\<exists>e. (\<not> 150 \<le> d \<and>
        (\<exists>x. checked_sub (height (slot_table rt sh ! 0)) (ucast d) = Some x \<and>
             find_slot_hash_with_fallback rt sh x (unat d) = Ok e)) \<and>
        nd = \<lparr>signer_key = signer, nonce_slothash = slot_hash_hash e\<rparr>)"
  using assms by (auto simp: validate_nonce_def result_simps get_slot_hash_table)

text \<open>What an accepted nonce gives the handlers, whatever the sysvar holds.\<close>

lemma search_slot_hash_length:
  "reverse_linear_search_slot_hash rt sh slot n = Ok e \<Longrightarrow> length (slot_hash_hash e) = 32"
  by (induction n) (auto simp: result_simps get_slot_hash_def get_slot_hash_unchecked_def split: if_splits)

lemma validate_nonce_facts:
  assumes "validate_nonce rt st sh slot signer = Ok nd"
  shows "acc_is_signer (st signer) \<and> get_stack_height rt \<le> 1 \<and> signer_key nd = signer \<and>
    length (nonce_slothash nd) = 32"
proof -
  obtain x i e where "find_slot_hash_with_fallback rt sh x i = Ok e"
    and nd: "nd = \<lparr>signer_key = signer, nonce_slothash = slot_hash_hash e\<rparr>"
    and "acc_is_signer (st signer)" "get_stack_height rt \<le> 1"
    using assms by (auto simp: validate_nonce_def result_simps)
  moreover from this(1) have "length (slot_hash_hash e) = 32"
    by (auto simp: find_slot_hash_with_fallback_def Let_def result_simps get_slot_hash_def
        get_slot_hash_unchecked_def dest: search_slot_hash_length split: if_splits)
  ultimately show ?thesis by simp
qed

text \<open>The search fails in one way only.\<close>

lemma search_fails:
  "reverse_linear_search_slot_hash rt sh slot n = Err (prog_err InvalidSlothashIndex) \<or>
   (\<exists>e. reverse_linear_search_slot_hash rt sh slot n = Ok e)"
  by (induction n) (auto simp: get_slot_hash_table)

lemma find_fails:
  "find_slot_hash_with_fallback rt sh slot idx = Err (prog_err InvalidSlothashIndex) \<or>
   (\<exists>e. find_slot_hash_with_fallback rt sh slot idx = Ok e)"
  using search_fails [of rt sh slot "min idx (unat (get_slothashes_len rt sh))"]
  by (auto simp: find_slot_hash_with_fallback_def Let_def get_slot_hash_table)

text \<open>The reference for the search: look through the whole table.\<close>

lemma find_reference:
  assumes desc: "slots_descending (slot_table rt sh)" and idx: "unat x + idx = unat (height (slot_table rt sh ! 0))"
  shows "find_slot_hash_with_fallback rt sh x idx =
    (case find (\<lambda>e. height e = x) (slot_table rt sh) of
       None \<Rightarrow> Err (prog_err InvalidSlothashIndex) | Some e \<Rightarrow> Ok e)"
proof (cases "find (\<lambda>e. height e = x) (slot_table rt sh)")
  case None
  then have "\<not> (\<exists>e. find_slot_hash_with_fallback rt sh x idx = Ok e)"
    using find_sound [of rt sh x idx] by (auto simp: find_None_iff)
  with None find_fails [of rt sh x idx] show ?thesis by auto
next
  case (Some e)
  then have "e \<in> set (slot_table rt sh)" "height e = x" by (auto simp: find_Some_iff)
  with find_complete [OF desc, of e idx] idx Some show ?thesis by simp
qed

text \<open>
  \<open>nonce_checked\<close>: account \<open>k\<close> is the slot-hashes sysvar and \<open>nonce\<close> is what the validation
  returned for the submitted slot on it, for the nonce's own signer.
\<close>

definition nonce_checked ::
  "runtime \<Rightarrow> store \<Rightarrow> account_info \<Rightarrow> truncated_slot \<Rightarrow> nonce_data \<Rightarrow> bool" where
  "nonce_checked rt st k slot nonce \<longleftrightarrow>
     (\<exists>sh. slot_hashes_try_from rt st k = Ok sh \<and>
           validate_nonce rt st sh slot (signer_key nonce) = Ok nonce)"

lemma nonce_checkedI:
  "slot_hashes_try_from rt st k = Ok sh \<Longrightarrow> validate_nonce rt st sh slot signer = Ok nonce
     \<Longrightarrow> nonce_checked rt st k slot nonce"
  using validate_nonce_facts [of rt st sh slot signer nonce] by (auto simp: nonce_checked_def)

lemma validate_nonce_cases:
  fixes slot :: truncated_slot
  assumes desc: "slots_descending (slot_table rt sh)"
  defines "es \<equiv> slot_table rt sh"
  defines "newest \<equiv> unat (height (es ! 0))"
  defines "age \<equiv> (newest mod 1000 + 1000 - unat (slot_number slot)) mod 1000"
  shows "validate_nonce rt st sh slot signer =
    (if 1000 \<le> slot_number slot then Err (prog_err InvalidTruncatedSlot)
     else if 1 < get_stack_height rt then Err (prog_err CPINotAllowed)
     else if \<not> acc_is_signer (st signer) then Err (prog_err MissingNonceSignature)
     else if es = [] then Err (prog_err InvalidSlothashIndex)
     else if 150 \<le> age then Err (prog_err ExpiredSlothash)
     else if newest < age then Err (prog_err InvalidTruncatedSlot)
     else case find (\<lambda>e. unat (height e) + age = newest) es of
            None \<Rightarrow> Err (prog_err InvalidSlothashIndex)
          | Some e \<Rightarrow> Ok \<lparr>signer_key = signer, nonce_slothash = slot_hash_hash e\<rparr>)"
proof (cases "1000 \<le> slot_number slot \<or> 1 < get_stack_height rt \<or> \<not> acc_is_signer (st signer) \<or> es = []")
  case True
  then show ?thesis
    by (auto simp: validate_nonce_def ensure_def get_slot_hash_table es_def not_less)
next
  case False
  let ?new = "height (es ! 0)"
  have slot: "slot_number slot < 1000" using False by (simp add: not_le)
  obtain t where t: "truncated_slot_new ?new = Ok t" by (simp add: truncated_slot_new_Ok)
  obtain d where d: "get_index_difference t slot = Ok d" "unat d = age"
    using index_difference_age [OF t slot] by (auto simp: age_def newest_def)
  have first: "get_slot_hash rt sh 0 = Ok (es ! 0)" using False by (simp add: get_slot_hash_table es_def)
  have small: "150 \<le> d \<longleftrightarrow> 150 \<le> age" "d < 150 \<longleftrightarrow> age < 150"
    by (simp_all add: word_le_nat_alt word_less_nat_alt d)
  have run: "validate_nonce rt st sh slot signer =
    (if 150 \<le> age then Err (prog_err ExpiredSlothash)
     else and_then (ok_or (checked_sub ?new (ucast d)) (prog_err InvalidTruncatedSlot)) (\<lambda>x.
       and_then (find_slot_hash_with_fallback rt sh x (unat d)) (\<lambda>e.
       Ok \<lparr>signer_key = signer, nonce_slothash = slot_hash_hash e\<rparr>)))"
    using False slot by (simp add: validate_nonce_def first t d(1) ensure_def small not_le)
  show ?thesis
  proof (cases "newest < age")
    case True
    then have "checked_sub ?new (ucast d) = None"
      by (simp add: checked_sub_def word_le_nat_alt unat_ucast_u16_u64 d(2) newest_def)
    with False True run show ?thesis by (simp add: not_le)
  next
    case in_range: False
    then obtain x where x: "checked_sub ?new (ucast d) = Some x"
      by (simp add: checked_sub_def word_le_nat_alt unat_ucast_u16_u64 d(2) newest_def)
    then have ux: "unat x + age = newest"
      by (simp add: checked_sub_unat unat_ucast_u16_u64 d(2) newest_def)
    then have same: "(\<lambda>e. height e = x) = (\<lambda>e. unat (height e) + age = newest)"
      by (auto simp: fun_eq_iff word_unat_eq_iff)
    have "find_slot_hash_with_fallback rt sh x (unat d) =
      (case find (\<lambda>e. unat (height e) + age = newest) es of
         None \<Rightarrow> Err (prog_err InvalidSlothashIndex) | Some e \<Rightarrow> Ok e)"
      using find_reference [OF desc, of x "unat d"] ux unfolding same by (simp add: d(2) newest_def es_def)
    with False in_range run x show ?thesis by (simp add: not_le split: option.splits)
  qed
qed

section \<open>Properties\<close>

lemma validate_nonce_spec:
  assumes "slots_descending (slot_table rt sh)"
  shows "validate_nonce rt st sh slot signer = Ok nd \<longleftrightarrow>
      slot_number slot < 1000 \<and> get_stack_height rt \<le> 1 \<and> acc_is_signer (st signer) \<and>
      (\<exists>!e. nonce_entry (slot_table rt sh) (slot_number slot) e) \<and>
      (\<exists>e. nonce_entry (slot_table rt sh) (slot_number slot) e \<and>
           nd = \<lparr>signer_key = signer, nonce_slothash = slot_hash_hash e\<rparr>)"
proof (cases "slot_number slot < 1000 \<and> slot_table rt sh \<noteq> []")
  case True
  obtain t where t: "truncated_slot_new (height (slot_table rt sh ! 0)) = Ok t"
    by (simp add: truncated_slot_new_Ok)
  obtain d where d: "get_index_difference t slot = Ok d"
    using index_difference_age [OF t] True by blast
  have ne: "0 < length (slot_table rt sh)" using True by simp
  have slot: "slot_number slot < 1000" using True by blast
  have unique: "(\<exists>!e. nonce_entry (slot_table rt sh) (slot_number slot) e) \<longleftrightarrow>
      (\<exists>e. nonce_entry (slot_table rt sh) (slot_number slot) e)"
    using nonce_entry_unique [OF assms] by blast
  show ?thesis
    unfolding validate_nonce_unfold [OF conjunct2 [OF True] t d] unique
      nonce_search_iff [OF assms ne t slot d]
    by blast
next
  case False
  then have "validate_nonce rt st sh slot signer \<noteq> Ok nd"
    by (auto simp: validate_nonce_def result_simps get_slot_hash_table)
  moreover have "\<not> nonce_entry (slot_table rt sh) (slot_number slot) e" if "slot_number slot < 1000" for e
    using False that by (auto simp: nonce_entry_def)
  ultimately show ?thesis by blast
qed

text \<open>
  C19. A nonce is accepted exactly when the program was not called by another program, the nonce
  signer signed the transaction, and the sysvar has an entry less than 150 slots older than the
  newest whose last three digits are the submitted ones; the result is that entry's hash, and
  there is only one such entry.
\<close>

theorem validate_nonce_iff:
  assumes "slots_descending (slot_table rt sh)"
  shows "validate_nonce rt st sh slot signer = Ok nd \<longleftrightarrow>
      slot_number slot < 1000 \<and> get_stack_height rt \<le> 1 \<and> acc_is_signer (st signer) \<and>
      (\<exists>!e. nonce_entry (slot_table rt sh) (slot_number slot) e) \<and>
      (\<exists>e. nonce_entry (slot_table rt sh) (slot_number slot) e \<and>
           nd = \<lparr>signer_key = signer, nonce_slothash = slot_hash_hash e\<rparr>)"
  using assms by (rule validate_nonce_spec)

definition sample_slots :: "slot_hash list" where
  "sample_slots =
     [\<lparr>height = 1001, slot_hash_hash = replicate 32 1\<rparr>, \<lparr>height = 999, slot_hash_hash = replicate 32 2\<rparr>]"

definition sample_slot_hashes :: slot_hashes where
  "sample_slot_hashes = \<lparr>slot_hashes_data = encode_slot_hashes sample_slots\<rparr>"

lemma sample_slot_table: "slot_table rt sample_slot_hashes = sample_slots"
  using slot_table_encode [of sample_slots rt "[]"]
  by (simp add: sample_slot_hashes_def sample_slots_def)

lemma sample_slots_descending: "slots_descending sample_slots"
  by (simp add: slots_descending_def sample_slots_def)

lemma sample_nonce_entry:
  "nonce_entry sample_slots 999 e \<longleftrightarrow> e = \<lparr>height = 999, slot_hash_hash = replicate 32 2\<rparr>"
  by (auto simp: nonce_entry_def sample_slots_def)

theorem validate_nonce_iff_witness:
  "validate_nonce sample_runtime (\<lambda>_. sample_wallet) sample_slot_hashes (TruncatedSlot 999) []
     = Ok \<lparr>signer_key = [], nonce_slothash = replicate 32 2\<rparr>"
  using validate_nonce_iff [of sample_runtime sample_slot_hashes "\<lambda>_. sample_wallet" "TruncatedSlot 999" "[]"]
  by (simp add: sample_slot_table sample_slots_descending sample_nonce_entry
      get_stack_height_def sample_runtime_def sample_wallet_def)

text \<open>
  C21. What the validation answers in every case: which error, in which order, for a number that is
  no truncated slot, a call by another program, a missing signature, an empty sysvar, a slot 150 or
  more behind on the circle of 1000, and a slot before the first one; otherwise what looking through
  the whole table would find.
\<close>

theorem validate_nonce_outcome:
  assumes "slots_descending (slot_table rt sh)"
  shows "validate_nonce rt st sh slot signer =
    (let es = slot_table rt sh; newest = unat (height (es ! 0));
         age = (newest mod 1000 + 1000 - unat (slot_number slot)) mod 1000
     in if 1000 \<le> slot_number slot then Err (prog_err InvalidTruncatedSlot)
        else if 1 < get_stack_height rt then Err (prog_err CPINotAllowed)
        else if \<not> acc_is_signer (st signer) then Err (prog_err MissingNonceSignature)
        else if es = [] then Err (prog_err InvalidSlothashIndex)
        else if 150 \<le> age then Err (prog_err ExpiredSlothash)
        else if newest < age then Err (prog_err InvalidTruncatedSlot)
        else case find (\<lambda>e. unat (height e) + age = newest) es of
               None \<Rightarrow> Err (prog_err InvalidSlothashIndex)
             | Some e \<Rightarrow> Ok \<lparr>signer_key = signer, nonce_slothash = slot_hash_hash e\<rparr>)"
  unfolding Let_def by (rule validate_nonce_cases [OF assms])

theorem validate_nonce_outcome_witness:
  "validate_nonce sample_runtime (\<lambda>_. sample_wallet) sample_slot_hashes (TruncatedSlot 0) []
     = Err (prog_err InvalidSlothashIndex) \<and>
   validate_nonce sample_runtime (\<lambda>_. sample_wallet) sample_slot_hashes (TruncatedSlot 500) []
     = Err (prog_err ExpiredSlothash)"
proof -
  have desc: "slots_descending (slot_table sample_runtime sample_slot_hashes)"
    by (simp add: sample_slot_table sample_slots_descending)
  have top: "get_stack_height sample_runtime = 1" by (simp add: get_stack_height_def sample_runtime_def)
  show ?thesis
    unfolding validate_nonce_outcome [OF desc] sample_slot_table top Let_def
    by (simp add: sample_slots_def) (simp add: sample_wallet_def)
qed

text \<open>
  Truncated slots: on the slots the program accepts the difference never fails and is the distance
  back round a circle of 1000, wrap-around included.
\<close>

theorem index_difference_is_circular:
  "\<exists>t. truncated_slot_new current = Ok t \<and>
     (\<forall>s. slot_number s < 1000 \<longrightarrow>
        (\<exists>d. get_index_difference t s = Ok d \<and> d < 1000 \<and>
             (unat (slot_number s) + unat d) mod 1000 = unat current mod 1000))"
proof -
  obtain t where t: "truncated_slot_new current = Ok t" by (simp add: truncated_slot_new_Ok)
  have "\<exists>d. get_index_difference t s = Ok d \<and> d < 1000 \<and>
      (unat (slot_number s) + unat d) mod 1000 = unat current mod 1000"
    if s: "slot_number s < 1000" for s
  proof -
    obtain d where d: "get_index_difference t s = Ok d" "unat d < 1000"
      "unat d = (unat current mod 1000 + 1000 - unat (slot_number s)) mod 1000"
      using index_difference_age [OF t s] by auto
    have b: "unat (slot_number s) < 1000" using s by (simp add: word_less_nat_alt)
    have "(unat (slot_number s) + unat d) mod 1000 = unat current mod 1000"
      unfolding d(3) mod_add_right_eq using b by simp
    with d show ?thesis by (auto simp: word_less_nat_alt)
  qed
  with t show ?thesis by blast
qed

theorem index_difference_is_circular_witness:
  "\<exists>d. get_index_difference (TruncatedSlot 1) (TruncatedSlot 998) = Ok d \<and> (998 + unat d) mod 1000 = 1"
proof -
  obtain t where t: "truncated_slot_new 5001 = Ok t"
    and all: "\<And>s. slot_number s < 1000 \<Longrightarrow> \<exists>d. get_index_difference t s = Ok d \<and> d < 1000 \<and>
      (unat (slot_number s) + unat d) mod 1000 = unat (5001 :: u64) mod 1000"
    using index_difference_is_circular [of 5001] by blast
  have "t = TruncatedSlot 1" using t by (simp add: truncated_slot_new_Ok)
  with all [of "TruncatedSlot 998"] show ?thesis by auto
qed

end
