(* ===== verification/InitializeExternalAccount.thy ===== *)
theory InitializeExternalAccount
  imports CompiledInstructions Nonce
begin

text \<open>
  \<open>src/instructions/initialize_external_account.rs\<close> and \<open>src/utils/initialize_account.rs\<close>: a new
  account at the address derived from a passkey, paid for by the rent payer, with an optional
  session key, under a signature of that passkey.
\<close>

section \<open>Arguments\<close>

record initialize_account_args =
  init_slothash :: truncated_slot
  init_signature_scheme :: u8
  init_initialization_data :: "u8 small_vec"
  init_session_key :: "session_key option"

definition initialize_account_args_serialize :: "borsh \<Rightarrow> initialize_account_args writer" where
  "initialize_account_args_serialize B a = do {
     slot \<leftarrow> truncated_slot_serialize B (init_slothash a);
     d \<leftarrow> byte_vec_writer B L_u8 (init_initialization_data a);
     k \<leftarrow> write_option B (session_key_writer B) (init_session_key a);
     Some (slot @ write_u8 B (init_signature_scheme a) @ d @ k) }"

definition initialize_account_args_deserialize :: "borsh \<Rightarrow> initialize_account_args reader" where
  "initialize_account_args_deserialize B bs = do {
     (slot, bs) \<leftarrow> truncated_slot_deserialize B bs;
     (scheme, bs) \<leftarrow> read_u8 B bs;
     (d, bs) \<leftarrow> byte_vec_reader B L_u8 bs;
     (k, bs) \<leftarrow> read_option B (session_key_deserialize B) bs;
     Some (\<lparr>init_slothash = slot, init_signature_scheme = scheme, init_initialization_data = d,
            init_session_key = k\<rparr>, bs) }"

section \<open>The context\<close>

record ('s, 'pi) initialize_external_account_context =
  ic_slothash :: bytes
  ic_account :: externally_signed_account
  ic_rent_payer :: account_info
  ic_instructions_sysvar :: bytes
  ic_system_program :: account_info
  ic_seeds :: 's
  ic_initialization_data :: 'pi
  ic_session_key :: "session_key option"

fun initialize_external_account_load ::
  "runtime \<Rightarrow> ('d, 's, 'a, 'ri, 'rv, 'pi, 'pv) esa_trait \<Rightarrow> store \<Rightarrow> account_info list
     \<Rightarrow> initialize_account_args \<Rightarrow> ('s, 'pi) initialize_external_account_context result" where
  "initialize_external_account_load rt T st
     (external_account # rent_payer # instructions_acc # slothashes_acc # system_program # remaining) args =
     and_then (check_account_uninitialized rt st external_account) (\<lambda>_.
     and_then (esa_load rt st external_account) (\<lambda>externally_signed_account.
     and_then (instructions_try_from rt instructions_acc (st instructions_acc)) (\<lambda>sysvar.
     and_then (slot_hashes_try_from rt st slothashes_acc) (\<lambda>slothashes.
     and_then (assert_that (system_program = system_program_id rt)) (\<lambda>_.
     and_then (validate_nonce rt st slothashes (init_slothash args) rent_payer) (\<lambda>nonce_data.
     and_then (ok_or (try_from_slice (t_read_raw_init T) (init_initialization_data args))
                 InvalidArgument) (\<lambda>raw.
     and_then (t_parse_init T raw) (\<lambda>parsed_initialization_data.
     and_then (t_derive_account T (t_args_of_init T parsed_initialization_data)) (\<lambda>seeds.
     and_then (ensure (\<not> esa_key externally_signed_account \<noteq> t_seeds_key T seeds) InvalidAccountOwner) (\<lambda>_.
     Ok \<lparr>ic_slothash = nonce_slothash nonce_data, ic_account = externally_signed_account,
         ic_rent_payer = rent_payer, ic_instructions_sysvar = sysvar, ic_system_program = system_program,
         ic_seeds = seeds, ic_initialization_data = parsed_initialization_data,
         ic_session_key = init_session_key args\<rparr>))))))))))"
| "initialize_external_account_load rt T st _ args = Err NotEnoughAccountKeys"

section \<open>Creating the account\<close>

text \<open>
  \<open>utils::initialize_account\<close>: pay, allocate, assign.  The system program's three instructions
  are the runtime's.
\<close>

definition utils_initialize_account ::
  "runtime \<Rightarrow> account_info \<Rightarrow> account_info \<Rightarrow> nat \<Rightarrow> bytes list \<Rightarrow> store \<Rightarrow> store result" where
  "utils_initialize_account rt account_to_initialize rent_payer space seeds st =
     and_then (rent_minimum_balance rt space) (\<lambda>required_lamports.
     and_then (system_transfer rt rent_payer account_to_initialize required_lamports st) (\<lambda>st.
     and_then (system_allocate rt account_to_initialize (of_nat space) [seeds] st) (\<lambda>st.
     system_assign rt account_to_initialize crate_ID [seeds] st)))"

definition create_and_allocate_externally_signed_account ::
  "runtime \<Rightarrow> ('d, 's, 'a, 'ri, 'rv, 'pi, 'pv) esa_trait \<Rightarrow> ('s, 'pi) initialize_external_account_context
     \<Rightarrow> store \<Rightarrow> (('s, 'pi) initialize_external_account_context \<times> store) result" where
  "create_and_allocate_externally_signed_account rt T ctx st =
     (let space = t_size T in
     and_then (rent_minimum_balance rt space) (\<lambda>required_lamports.
     let seeds = t_seeds T (ic_seeds ctx);
         info = esa_info (ic_account ctx) in
     and_then (system_transfer rt (ic_rent_payer ctx) info required_lamports st) (\<lambda>st.
     and_then (system_allocate rt info (of_nat space) [seeds] st) (\<lambda>st.
     and_then (system_assign rt info crate_ID [seeds] st) (\<lambda>st.
     and_then (esa_reload rt st (ic_account ctx)) (\<lambda>reloaded.
     Ok (ctx\<lparr>ic_account := reloaded\<rparr>, st)))))))"

section \<open>The payload\<close>

definition initialization_payload ::
  "bytes \<Rightarrow> pubkey \<Rightarrow> bytes \<Rightarrow> session_key option \<Rightarrow> bytes" where
  "initialization_payload slothash rent_payer signature_specific session_key =
     slothash @ rent_payer @ signature_specific @
     (case session_key of
        Some k \<Rightarrow> session_key_key k @ u64_to_le (expiration k)
      | None \<Rightarrow> [])"

definition get_initialization_payload_hash ::
  "runtime \<Rightarrow> ('s, 'pi) initialize_external_account_context \<Rightarrow> bytes \<Rightarrow> session_key option \<Rightarrow> bytes" where
  "get_initialization_payload_hash rt ctx signature_specific session_key =
     hash rt (initialization_payload (ic_slothash ctx) (ic_rent_payer ctx) signature_specific session_key)"

section \<open>The handler\<close>

definition process_initialize_external_account ::
  "runtime \<Rightarrow> account_info list \<Rightarrow> bytes \<Rightarrow> world \<Rightarrow> world result" where
  "process_initialize_external_account rt accounts data w =
     and_then (ok_or (try_from_slice (initialize_account_args_deserialize (rt_borsh rt)) data)
                 InvalidArgument) (\<lambda>args.
     and_then (ok_or (signature_scheme_try_from_primitive (init_signature_scheme args))
                 (prog_err InvalidSignatureScheme)) (\<lambda>signature_scheme.
     and_then (case signature_scheme of
                 P256Webauthn \<Rightarrow>
                   initialize_external_account_load rt (p256_trait rt) (w_store w) accounts args) (\<lambda>ctx.
     let payload_hash = get_initialization_payload_hash rt ctx
                          (t_get_initialization_payload (p256_trait rt)) (ic_session_key ctx) in
     and_then (create_and_allocate_externally_signed_account rt (p256_trait rt) ctx (w_store w)) (\<lambda>(ctx, st).
     and_then (esa_initialize_account (p256_trait rt) st (ic_account ctx) (ic_initialization_data ctx)
                 (ic_session_key ctx)) (\<lambda>st.
     and_then (esa_verify_initialization_payload (p256_trait rt) st (ic_account ctx)
                 (ic_instructions_sysvar ctx) (ic_initialization_data ctx) payload_hash) (\<lambda>st.
     Ok (w\<lparr>w_store := st\<rparr>)))))))"

section \<open>The arguments' codec\<close>

context borsh_format
begin

lemma initialize_account_args_codec:
  "codec (initialize_account_args_serialize B) (initialize_account_args_deserialize B)"
proof
  note vec = small_vec_bytes_codec [of L_u8 "\<lambda>b. Some (write_u8 B b)" "read_u8 B"]
  note slot = truncated_slot_codec
  note key = option_codec [OF session_key_codec]
  show "initialize_account_args_deserialize B (bs @ rest) = Some (x, rest)"
    if "initialize_account_args_serialize B x = Some bs" for x bs rest
    using that codec.read_write [OF vec] codec.read_write [OF slot] codec.read_write [OF key]
    by (auto simp: initialize_account_args_serialize_def initialize_account_args_deserialize_def
        bind_eq_Some_conv read_u8_write)
  show "\<exists>c. initialize_account_args_serialize B x = Some c \<and> bs = c @ rest"
    if r: "initialize_account_args_deserialize B bs = Some (x, rest)" for x bs rest
  proof -
    obtain b1 b2 b3 where s: "truncated_slot_deserialize B bs = Some (init_slothash x, b1)"
      and a: "read_u8 B b1 = Some (init_signature_scheme x, b2)"
      and v: "byte_vec_reader B L_u8 b2 = Some (init_initialization_data x, b3)"
      and k: "read_option B (session_key_deserialize B) b3 = Some (init_session_key x, rest)"
      using r by (auto simp: initialize_account_args_deserialize_def bind_eq_Some_conv)
    from codec.write_read [OF slot s] codec.write_read [OF vec v] codec.write_read [OF key k] a
    show ?thesis by (auto simp: initialize_account_args_serialize_def write_read_u8)
  qed
qed

lemma initialize_args_key_wf:
  "try_from_slice (initialize_account_args_deserialize B) bs = Some args \<Longrightarrow>
     pred_option session_key_wf (init_session_key args)"
  using codec.slice_canonical [OF initialize_account_args_codec, of bs args]
  by (cases "init_session_key args")
     (auto simp: initialize_account_args_serialize_def session_key_writer_def write_option_def
       bind_eq_Some_conv split: if_splits)

end

interpretation initialize_args:
  codec "initialize_account_args_serialize borsh_le" "initialize_account_args_deserialize borsh_le"
  by (rule ref.initialize_account_args_codec)

section \<open>The system program\<close>

text \<open>
  What the system program's three instructions do: a transfer changes lamports only, an
  allocation gives the account that many zero bytes, an assignment changes the owner.
\<close>

definition system_program_laws :: "runtime \<Rightarrow> bool" where
  "system_program_laws rt \<longleftrightarrow>
     (\<forall>f t l st st'. system_transfer rt f t l st = Ok st' \<longrightarrow>
        (\<forall>k. st' k = (st k)\<lparr>acc_lamports := acc_lamports (st' k)\<rparr>)) \<and>
     (\<forall>k n seeds st st'. system_allocate rt k n seeds st = Ok st' \<longrightarrow>
        st' = st(k := (st k)\<lparr>acc_data := replicate (unat n) 0\<rparr>)) \<and>
     (\<forall>k owner seeds st st'. system_assign rt k owner seeds st = Ok st' \<longrightarrow>
        st' = st(k := (st k)\<lparr>acc_owner := owner\<rparr>))"

lemma created_account:
  assumes laws: "system_program_laws rt" and bf: "borrow_faithful rt"
    and c: "create_and_allocate_externally_signed_account rt (p256_trait rt) ctx st = Ok (ctx', st')"
  shows "(\<forall>k. k \<noteq> esa_info (ic_account ctx) \<longrightarrow> (\<exists>l. st' k = (st k)\<lparr>acc_lamports := l\<rparr>)) \<and>
    (\<exists>l. st' (esa_info (ic_account ctx)) = (st (esa_info (ic_account ctx)))
       \<lparr>acc_lamports := l, acc_data := replicate 152 0, acc_owner := crate_ID\<rparr>) \<and>
    ctx' = ctx\<lparr>ic_account := account_of st' (esa_info (ic_account ctx))\<rparr>"
proof -
  let ?k = "esa_info (ic_account ctx)"
  obtain lam st1 st2 a where t: "system_transfer rt (ic_rent_payer ctx) ?k lam st = Ok st1"
    and al: "system_allocate rt ?k (of_nat 152) [t_seeds (p256_trait rt) (ic_seeds ctx)] st1 = Ok st2"
    and as: "system_assign rt ?k crate_ID [t_seeds (p256_trait rt) (ic_seeds ctx)] st2 = Ok st'"
    and r: "esa_reload rt st' (ic_account ctx) = Ok a" and ctx': "ctx' = ctx\<lparr>ic_account := a\<rparr>"
    using c by (auto simp: create_and_allocate_externally_signed_account_def Let_def result_simps)
  have t': "\<forall>k. st1 k = (st k)\<lparr>acc_lamports := acc_lamports (st1 k)\<rparr>"
    using laws t unfolding system_program_laws_def by blast
  have al': "st2 = st1(?k := (st1 ?k)\<lparr>acc_data := replicate 152 0\<rparr>)"
    using laws al unfolding system_program_laws_def by fastforce
  have as': "st' = st2(?k := (st2 ?k)\<lparr>acc_owner := crate_ID\<rparr>)"
    using laws as unfolding system_program_laws_def by blast
  have "st' k = (st k)\<lparr>acc_lamports := acc_lamports (st1 k)\<rparr>" if "k \<noteq> ?k" for k
    using t' [rule_format, of k] that by (simp add: as' al')
  moreover have "st' ?k = (st1 ?k)\<lparr>acc_data := replicate 152 0, acc_owner := crate_ID\<rparr>"
    by (simp add: as' al')
  then have "st' ?k = (st ?k)\<lparr>acc_lamports := acc_lamports (st1 ?k), acc_data := replicate 152 0,
      acc_owner := crate_ID\<rparr>"
    using t' [rule_format, of ?k] by (metis account.update_convs(2,3) account.surjective account.simps)
  moreover have "a = account_of st' ?k"
    using r bf by (auto simp: esa_reload_def borrow_faithful_def account_of_def result_simps)
  ultimately show ?thesis using ctx' by blast
qed

section \<open>A freshly allocated account\<close>

definition zero_p256 :: p256_account_data where
  "zero_p256 = \<lparr>p256_header = \<lparr>header_version = 1, header_scheme = 0, header_reserved = [0, 0]\<rparr>,
     rp_id_info = \<lparr>rp_id_len = 0, rp_id = replicate 32 0, rp_id_hash = replicate 32 0\<rparr>,
     public_key = \<lparr>pk_x = replicate 32 0, y_parity = 0\<rparr>, padding = [0, 0],
     p256_session_key = \<lparr>session_key_key = replicate 32 0, expiration = 0\<rparr>, counter = 0\<rparr>"

text \<open>The account an initialization leaves, before the signature's counter is stored.\<close>

definition initialized_p256 ::
  "p256_parsed_initialization_data \<Rightarrow> session_key option \<Rightarrow> p256_account_data" where
  "initialized_p256 pi sk = zero_p256\<lparr>rp_id_info := parsed_rp_id_info pi,
     public_key := parsed_init_public_key pi, counter := parsed_counter pi,
     p256_session_key := (case sk of None \<Rightarrow> p256_session_key zero_p256 | Some k \<Rightarrow> k)\<rparr>"

lemma u64_from_le_zeros [simp]: "u64_from_le (replicate 8 0) = 0"
  by (simp add: u64_from_le_def numeral_eq_Suc)

lemma zero_p256_bytes: "p256_account_from_bytes ([1, 0, 0, 0] @ replicate 148 0) = zero_p256"
proof -
  have drop: "drop (4 + n) ([1, 0, 0, 0] @ replicate 148 0 :: bytes) = replicate (148 - n) 0" for n
    by (simp only: drop_append) simp
  have parts: "take 4 ([1, 0, 0, 0] @ replicate 148 0 :: bytes) = [1, 0, 0, 0]"
    "take 65 (drop 4 ([1, 0, 0, 0] @ replicate 148 0 :: bytes)) = replicate 65 0"
    "take 33 (drop 69 ([1, 0, 0, 0] @ replicate 148 0 :: bytes)) = replicate 33 0"
    "take 2 (drop 102 ([1, 0, 0, 0] @ replicate 148 0 :: bytes)) = replicate 2 0"
    "take 40 (drop 104 ([1, 0, 0, 0] @ replicate 148 0 :: bytes)) = replicate 40 0"
    "take 8 (drop 144 ([1, 0, 0, 0] @ replicate 148 0 :: bytes)) = replicate 8 0"
    using drop [of 0] drop [of 65] drop [of 98] drop [of 100] drop [of 140] by simp_all
  show ?thesis
    unfolding p256_account_from_bytes_def parts
    by (simp add: zero_p256_def account_header_from_bytes_def rp_id_information_from_bytes_def
        public_key_from_bytes_def session_key_from_bytes_def numeral_2_eq_2)
qed

lemma initialize_fresh:
  assumes data: "acc_data (st k) = replicate 152 0" and owner: "acc_owner (st k) = crate_ID"
    and pi: "parsed_init_wf pi" and sk: "pred_option session_key_wf sk"
    and run: "esa_initialize_account (p256_trait rt) st (account_of st k) pi sk = Ok st'"
  shows "p256_at rt st' k (initialized_p256 pi sk) \<and> data_frame k st st' \<and>
    (\<forall>s. sk = Some s \<longrightarrow> (\<exists>now. clock_unix_timestamp rt = Ok now \<and> expiration s \<le> session_expiration_bound now))"
proof -
  obtain st1 d d' where st1: "esa_initialize_header (p256_trait rt) st (account_of st k) = Ok st1"
    and d: "esa_data (p256_trait rt) st1 (account_of st k) = Ok d"
    and d': "p256_initialize_account rt pi sk d = Ok d'"
    and st': "st' = esa_store (p256_trait rt) st1 (account_of st k) d'"
    using run by (auto simp: esa_initialize_account_def result_simps)
  have slice: "esa_slice st (account_of st k) = replicate 152 0"
    by (simp add: esa_slice_def account_of_def data)
  have two: "replicate 2 0 = [0, 0 :: u8]"
    by (simp add: numeral_2_eq_2)
  have st1': "st1 = esa_write st (account_of st k) [1, 0, 0, 0]"
    using st1 two
    by (auto simp: esa_initialize_header_def esa_header_def slice result_simps account_header_size_def
        header_set_def account_header_from_bytes_def account_header_to_bytes_def)
  have slice1: "esa_slice st1 (account_of st k) = [1, 0, 0, 0] @ replicate 148 0"
    by (simp add: st1' esa_slice_def account_of_def esa_write_def data overwrite_def)
  have dz: "d = zero_p256"
    using d unfolding p256.esa_data_Ok slice1 zero_p256_bytes [symmetric] by simp
  have d'': "d' = initialized_p256 pi sk"
    using d' by (auto simp: result_simps dz initialized_p256_def)
  have wf: "p256_account_wf d'" "p256_header d' = p256_header d"
    using p256.init_keeps [of d pi sk rt d'] p256.esa_data_wf [OF d] pi sk d' by auto
  have frame1: "data_frame k st st1"
    using esa_write_frame [of "[1, 0, 0, 0]" st "account_of st k"] by (simp add: st1' data)
  have frame2: "data_frame k st1 st'"
    using p256.esa_store_frame [OF d wf(1)] by (simp add: st')
  note frame = data_frame_trans [OF frame1 frame2]
  have "p256_at rt st' k d'"
    using p256.esa_data_store [OF d wf] owner data_frame_fields(1) [OF frame, of k]
      data_frame_account_of [OF frame, of k]
    by (simp add: p256_at_def st')
  moreover have "\<forall>s. sk = Some s \<longrightarrow>
      (\<exists>now. clock_unix_timestamp rt = Ok now \<and> expiration s \<le> session_expiration_bound now)"
    using d' by (auto simp: result_simps)
  ultimately show ?thesis using frame d'' by simp
qed

section \<open>What a successful call went through\<close>

fun_cases initialize_load_cases: "initialize_external_account_load rt T st accounts args = Ok ctx"

lemma initialize_load_Ok:
  assumes "initialize_external_account_load rt T st accounts args = Ok ctx"
  shows "\<exists>external payer ixs shs sys rest sh nonce raw.
    accounts = external # payer # ixs # shs # sys # rest \<and>
    acc_owner (st external) = system_program_id rt \<and> acc_data (st external) = [] \<and>
    esa_load rt st external = Ok (ic_account ctx) \<and>
    instructions_try_from rt ixs (st ixs) = Ok (ic_instructions_sysvar ctx) \<and>
    slot_hashes_try_from rt st shs = Ok sh \<and>
    sys = system_program_id rt \<and>
    validate_nonce rt st sh (init_slothash args) payer = Ok nonce \<and>
    ic_slothash ctx = nonce_slothash nonce \<and> ic_rent_payer ctx = payer \<and>
    try_from_slice (t_read_raw_init T) (init_initialization_data args) = Some raw \<and>
    t_parse_init T raw = Ok (ic_initialization_data ctx) \<and>
    t_derive_account T (t_args_of_init T (ic_initialization_data ctx)) = Ok (ic_seeds ctx) \<and>
    esa_key (ic_account ctx) = t_seeds_key T (ic_seeds ctx) \<and>
    ic_session_key ctx = init_session_key args"
  using assms by (rule initialize_load_cases) (auto simp: eq_commute [of "Ok ctx"] result_simps)

lemma process_initialize_Ok:
  assumes "process_initialize_external_account rt accounts data w = Ok w'"
  shows "\<exists>args ctx ctx' st st1 st2.
    try_from_slice (initialize_account_args_deserialize (rt_borsh rt)) data = Some args \<and>
    initialize_external_account_load rt (p256_trait rt) (w_store w) accounts args = Ok ctx \<and>
    create_and_allocate_externally_signed_account rt (p256_trait rt) ctx (w_store w) = Ok (ctx', st) \<and>
    esa_initialize_account (p256_trait rt) st (ic_account ctx') (ic_initialization_data ctx')
      (ic_session_key ctx') = Ok st1 \<and>
    esa_verify_initialization_payload (p256_trait rt) st1 (ic_account ctx') (ic_instructions_sysvar ctx')
      (ic_initialization_data ctx')
      (get_initialization_payload_hash rt ctx p256_initialization_payload (ic_session_key ctx)) = Ok st2 \<and>
    w' = w\<lparr>w_store := st2\<rparr>"
  using assms
  by (auto simp: process_initialize_external_account_def Let_def and_then_eq_Ok ok_or_eq_Ok split: prod.splits)

text \<open>
  \<open>initialized_account\<close>: the account the new address holds after a successful call: the parsed
  relying party and key, the session key if there is one, and the counter \<open>c\<close> of the signature.
\<close>

definition initialized_account ::
  "p256_parsed_initialization_data \<Rightarrow> session_key option \<Rightarrow> u32 \<Rightarrow> p256_account_data" where
  "initialized_account pi sk c = (initialized_p256 pi sk)\<lparr>counter := ucast c\<rparr>"

lemma counter_step_initialized:
  assumes "counter_step c (initialized_p256 pi sk) d'" and "parsed_counter pi = 0"
  shows "d' = initialized_account pi sk c"
  using assms by (cases "c = 0") (auto simp: counter_step_def initialized_account_def initialized_p256_def)

lemma verify_initialization_loaded:
  assumes at: "p256_at rt st k d"
    and v: "esa_verify_initialization_payload (p256_trait rt) st (account_of st k) sysvar pi payload = Ok st'"
  shows "\<exists>d'. p256_verify_initialization_payload rt sysvar pi payload d = Ok d' \<and>
    p256_at rt st' k d' \<and> data_frame k st st'"
proof -
  obtain d0 d' where d0: "p256_verify_initialization_payload rt sysvar pi payload d0 = Ok d'"
    and kept: "esa_kept (p256_trait rt) st (account_of st k) d0 st' d'"
    using p256.esa_verify_initialization_payload_Ok [OF v] by auto
  have "d0 = d" using kept at by (simp add: esa_kept_def p256_at_def)
  with d0 kept kept_p256_at [OF kept] at show ?thesis by (auto simp: esa_kept_def)
qed

text \<open>\<open>submitted_initialization\<close>: what the arguments' initialization bytes parse to.\<close>

definition submitted_initialization ::
  "runtime \<Rightarrow> initialize_account_args \<Rightarrow> p256_parsed_initialization_data \<Rightarrow> bool" where
  "submitted_initialization rt args pi \<longleftrightarrow>
     (\<exists>raw. try_from_slice (p256_raw_initialization_data_deserialize (rt_borsh rt))
              (init_initialization_data args) = Some raw \<and>
            p256_parse_initialization_data rt raw = Ok pi)"

lemma initialize_steps:
  assumes bf: "borrow_faithful rt" and sha: "sha256_length rt" and B: "borsh_format (rt_borsh rt)"
    and laws: "system_program_laws rt"
    and run: "process_initialize_external_account rt accounts data w = Ok w'"
  shows "\<exists>external payer args pi slothash seeds ixs sysvar d'.
    submitted_initialization rt args pi \<and>
    nonce_checked rt (w_store w) (accounts ! 3) (init_slothash args)
      \<lparr>signer_key = payer, nonce_slothash = slothash\<rparr> \<and>
    take 2 accounts = [external, payer] \<and>
    acc_owner (w_store w external) = system_program_id rt \<and> acc_data (w_store w external) = [] \<and>
    acc_is_signer (w_store w payer) \<and>
    try_from_slice (initialize_account_args_deserialize (rt_borsh rt)) data = Some args \<and>
    p256_derive_account rt (p256_args_of_init pi) = Ok seeds \<and> seeds_key seeds = external \<and>
    rp_id_consistent rt (parsed_rp_id_info pi) \<and>
    parsed_counter pi = 0 \<and>
    instructions_try_from rt ixs (w_store w ixs) = Ok sysvar \<and>
    p256_verify_initialization_payload rt sysvar pi
      (hash rt (initialization_payload slothash payer p256_initialization_payload (init_session_key args)))
      (initialized_p256 pi (init_session_key args)) = Ok d' \<and>
    p256_at rt (w_store w') external d' \<and>
    (\<forall>s. init_session_key args = Some s \<longrightarrow>
      (\<exists>now. clock_unix_timestamp rt = Ok now \<and> expiration s \<le> session_expiration_bound now)) \<and>
    (\<forall>k. k \<noteq> external \<longrightarrow> (\<exists>l. w_store w' k = (w_store w k)\<lparr>acc_lamports := l\<rparr>)) \<and>
    w_invoked w' = w_invoked w"
proof -
  obtain args ctx ctx' st st1 st2 where
    args: "try_from_slice (initialize_account_args_deserialize (rt_borsh rt)) data = Some args"
    and load: "initialize_external_account_load rt (p256_trait rt) (w_store w) accounts args = Ok ctx"
    and create: "create_and_allocate_externally_signed_account rt (p256_trait rt) ctx (w_store w) = Ok (ctx', st)"
    and init: "esa_initialize_account (p256_trait rt) st (ic_account ctx') (ic_initialization_data ctx')
      (ic_session_key ctx') = Ok st1"
    and ver: "esa_verify_initialization_payload (p256_trait rt) st1 (ic_account ctx') (ic_instructions_sysvar ctx')
      (ic_initialization_data ctx')
      (get_initialization_payload_hash rt ctx p256_initialization_payload (ic_session_key ctx)) = Ok st2"
    and w': "w' = w\<lparr>w_store := st2\<rparr>"
    using process_initialize_Ok [OF run] by blast
  obtain external payer ixs shs sys rest sh nonce raw where
    acc: "accounts = external # payer # ixs # shs # sys # rest"
    and empty: "acc_owner (w_store w external) = system_program_id rt" "acc_data (w_store w external) = []"
    and a: "esa_load rt (w_store w) external = Ok (ic_account ctx)"
    and ixs: "instructions_try_from rt ixs (w_store w ixs) = Ok (ic_instructions_sysvar ctx)"
    and shs: "slot_hashes_try_from rt (w_store w) shs = Ok sh"
    and nonce: "validate_nonce rt (w_store w) sh (init_slothash args) payer = Ok nonce"
    and slot: "ic_slothash ctx = nonce_slothash nonce" "ic_rent_payer ctx = payer"
    and raw: "try_from_slice (p256_raw_initialization_data_deserialize (rt_borsh rt))
      (init_initialization_data args) = Some raw"
    and pi: "p256_parse_initialization_data rt raw = Ok (ic_initialization_data ctx)"
    and seeds: "p256_derive_account rt (p256_args_of_init (ic_initialization_data ctx)) = Ok (ic_seeds ctx)"
    and key: "esa_key (ic_account ctx) = seeds_key (ic_seeds ctx)"
    and sk: "ic_session_key ctx = init_session_key args"
    using initialize_load_Ok [OF load] by auto
  define pi where "pi = ic_initialization_data ctx"
  have info: "esa_info (ic_account ctx) = external" using load_account_of [OF bf a] by simp
  note parsed = p256_parse_initialization_data_Ok [OF pi [folded pi_def] sha]
  note made = created_account [OF laws bf create, unfolded info]
  have ctx': "ctx' = ctx\<lparr>ic_account := account_of st external\<rparr>" using made by blast
  obtain l where l: "st external = (w_store w external)
      \<lparr>acc_lamports := l, acc_data := replicate 152 0, acc_owner := crate_ID\<rparr>"
    using made by blast
  have wf: "pred_option session_key_wf (init_session_key args)"
    by (rule borsh_format.initialize_args_key_wf [OF B args])
  have init': "esa_initialize_account (p256_trait rt) st (account_of st external) pi (init_session_key args) = Ok st1"
    using init by (simp add: ctx' pi_def sk)
  have at1: "p256_at rt st1 external (initialized_p256 pi (init_session_key args))"
    and frame1: "data_frame external st st1"
    and exp: "\<forall>s. init_session_key args = Some s \<longrightarrow>
      (\<exists>now. clock_unix_timestamp rt = Ok now \<and> expiration s \<le> session_expiration_bound now)"
    using initialize_fresh [OF _ _ _ wf init'] parsed l by auto
  have acct: "ic_account ctx' = account_of st1 external"
    using data_frame_account_of [OF frame1, of external] by (simp add: ctx')
  define payload where "payload = hash rt (initialization_payload (nonce_slothash nonce) payer
    p256_initialization_payload (init_session_key args))"
  have ver': "esa_verify_initialization_payload (p256_trait rt) st1 (account_of st1 external)
      (ic_instructions_sysvar ctx) pi payload = Ok st2"
    using ver by (simp add: acct ctx' [symmetric] get_initialization_payload_hash_def slot sk payload_def)
      (simp add: ctx' pi_def)
  obtain d' where d': "p256_verify_initialization_payload rt (ic_instructions_sysvar ctx) pi payload
      (initialized_p256 pi (init_session_key args)) = Ok d'"
    and at2: "p256_at rt st2 external d'" and frame2: "data_frame external st1 st2"
    using verify_initialization_loaded [OF at1 ver'] by blast
  have others: "\<exists>l. st2 k = (w_store w k)\<lparr>acc_lamports := l\<rparr>" if "k \<noteq> external" for k
    using made frame1 frame2 that by (auto simp: data_frame_def)
  have "seeds_key (ic_seeds ctx) = external" using key info by (simp add: esa_key_def)
  moreover have "take 2 accounts = [external, payer]" using acc by (simp add: numeral_2_eq_2)
  moreover note validate_nonce_facts [OF nonce]
  moreover have "nonce_checked rt (w_store w) (accounts ! 3) (init_slothash args)
      \<lparr>signer_key = payer, nonce_slothash = nonce_slothash nonce\<rparr>"
    using nonce_checkedI [OF shs nonce] validate_nonce_facts [OF nonce] acc by (cases nonce) simp
  moreover have "submitted_initialization rt args pi"
    using raw pi by (auto simp: submitted_initialization_def pi_def)
  ultimately show ?thesis
    using empty args seeds parsed ixs d' at2 exp others
    by (intro exI [of _ external] exI [of _ payer] exI [of _ args] exI [of _ pi]
        exI [of _ "nonce_slothash nonce"] exI [of _ "ic_seeds ctx"] exI [of _ ixs]
        exI [of _ "ic_instructions_sysvar ctx"] exI [of _ d'])
       (simp add: w' payload_def flip: pi_def)
qed

text \<open>
  C11. A successful initialization used an empty system account at the address derived from the
  passkey, and leaves there the program's account with exactly the submitted relying party, key
  and session key, under a signature of that passkey over nonce, payer and session key; other
  accounts change in their lamports only.
\<close>

theorem initialize_creates_account:
  assumes bf: "borrow_faithful rt" and sha: "sha256_length rt" and B: "borsh_format (rt_borsh rt)"
    and laws: "system_program_laws rt" and pre: "precompiles_verified rt ecdsa (w_store w)"
    and run: "process_initialize_external_account rt accounts data w = Ok w'"
  shows "\<exists>external payer args pi slothash c seeds.
    submitted_initialization rt args pi \<and>
    nonce_checked rt (w_store w) (accounts ! 3) (init_slothash args)
      \<lparr>signer_key = payer, nonce_slothash = slothash\<rparr> \<and>
    take 2 accounts = [external, payer] \<and>
    acc_owner (w_store w external) = system_program_id rt \<and> acc_data (w_store w external) = [] \<and>
    acc_is_signer (w_store w payer) \<and>
    try_from_slice (initialize_account_args_deserialize (rt_borsh rt)) data = Some args \<and>
    p256_derive_account rt (p256_args_of_init pi) = Ok seeds \<and> seeds_key seeds = external \<and>
    rp_id_consistent rt (parsed_rp_id_info pi) \<and>
    passkey_signed rt ecdsa (initialized_p256 pi (init_session_key args)) (parsed_init_params pi)
      (hash rt (initialization_payload slothash payer p256_initialization_payload (init_session_key args))) c \<and>
    p256_at rt (w_store w') external (initialized_account pi (init_session_key args) c) \<and>
    (\<forall>s. init_session_key args = Some s \<longrightarrow>
      (\<exists>now. clock_unix_timestamp rt = Ok now \<and> expiration s \<le> session_expiration_bound now)) \<and>
    (\<forall>k. k \<noteq> external \<longrightarrow> (\<exists>l. w_store w' k = (w_store w k)\<lparr>acc_lamports := l\<rparr>)) \<and>
    w_invoked w' = w_invoked w"
proof -
  obtain external payer args pi slothash seeds ixs sysvar d' where
    steps: "submitted_initialization rt args pi"
      "nonce_checked rt (w_store w) (accounts ! 3) (init_slothash args)
        \<lparr>signer_key = payer, nonce_slothash = slothash\<rparr>"
      "take 2 accounts = [external, payer]"
      "acc_owner (w_store w external) = system_program_id rt" "acc_data (w_store w external) = []"
      "acc_is_signer (w_store w payer)"
      "try_from_slice (initialize_account_args_deserialize (rt_borsh rt)) data = Some args"
      "p256_derive_account rt (p256_args_of_init pi) = Ok seeds" "seeds_key seeds = external"
      "rp_id_consistent rt (parsed_rp_id_info pi)"
      "p256_at rt (w_store w') external d'"
      "\<forall>s. init_session_key args = Some s \<longrightarrow>
        (\<exists>now. clock_unix_timestamp rt = Ok now \<and> expiration s \<le> session_expiration_bound now)"
      "\<forall>k. k \<noteq> external \<longrightarrow> (\<exists>l. w_store w' k = (w_store w k)\<lparr>acc_lamports := l\<rparr>)"
      "w_invoked w' = w_invoked w"
    and zero: "parsed_counter pi = 0"
    and ixs: "instructions_try_from rt ixs (w_store w ixs) = Ok sysvar"
    and ver: "p256_verify_initialization_payload rt sysvar pi
      (hash rt (initialization_payload slothash payer p256_initialization_payload (init_session_key args)))
      (initialized_p256 pi (init_session_key args)) = Ok d'"
    using initialize_steps [OF bf sha B laws run] by blast
  have "secp256r1_verified rt ecdsa sysvar"
    using pre ixs unfolding precompiles_verified_def by blast
  from verify_payload_signed [OF this sha ver [unfolded p256_verify_initialization_payload_eq]]
  obtain c where signed: "passkey_signed rt ecdsa (initialized_p256 pi (init_session_key args)) (parsed_init_params pi)
      (hash rt (initialization_payload slothash payer p256_initialization_payload (init_session_key args))) c"
    and step: "counter_step c (initialized_p256 pi (init_session_key args)) d'"
    by auto
  have "p256_at rt (w_store w') external (initialized_account pi (init_session_key args) c)"
    using counter_step_initialized [OF step zero] steps(11) by simp
  with signed steps show ?thesis by blast
qed

text \<open>
  C38. An account that exists is never initialized again: with an account of another owner, or
  with data, the call fails before anything else.
\<close>

theorem initialize_only_once:
  assumes "try_from_slice (initialize_account_args_deserialize (rt_borsh rt)) data = Some args"
    and "init_signature_scheme args = 0" and "5 \<le> length accounts"
    and "acc_owner (w_store w (hd accounts)) \<noteq> system_program_id rt \<or> acc_data (w_store w (hd accounts)) \<noteq> []"
  shows "process_initialize_external_account rt accounts data w =
    Err (if acc_owner (w_store w (hd accounts)) \<noteq> system_program_id rt then InvalidAccountOwner
         else InvalidAccountData)"
proof -
  obtain a b c d e r where "accounts = a # b # c # d # e # r"
    using assms(3) by (auto simp: numeral_eq_Suc Suc_le_length_iff)
  with assms show ?thesis
    by (auto simp: process_initialize_external_account_def check_account_uninitialized_def
        signature_scheme_try_from_primitive_def ensure_def)
qed

end
