(* ===== verification/ExecuteInstructions.thy ===== *)
theory ExecuteInstructions
  imports CompiledInstructions Nonce
begin

text \<open>
  \<open>src/instructions/execute_instructions.rs\<close>: the arguments, the sanitised context, the payload
  the passkey signs, and the handler, which verifies the payload and then invokes the
  instructions.
\<close>

section \<open>Arguments\<close>

record executable_instruction_args =
  exec_signature_scheme :: u8
  exec_signer_execution_scheme :: u8
  exec_slothash :: truncated_slot
  exec_extra_verification_data :: "u8 small_vec"
  exec_instructions :: "compiled_instruction small_vec"

definition executable_instruction_args_serialize :: "borsh \<Rightarrow> executable_instruction_args writer" where
  "executable_instruction_args_serialize B a = do {
     slot \<leftarrow> truncated_slot_serialize B (exec_slothash a);
     extra \<leftarrow> byte_vec_writer B L_u8 (exec_extra_verification_data a);
     instrs \<leftarrow> instructions_writer B (exec_instructions a);
     Some (write_u8 B (exec_signature_scheme a) @ write_u8 B (exec_signer_execution_scheme a) @
           slot @ extra @ instrs) }"

definition executable_instruction_args_deserialize :: "borsh \<Rightarrow> executable_instruction_args reader" where
  "executable_instruction_args_deserialize B bs = do {
     (scheme, bs) \<leftarrow> read_u8 B bs;
     (signer_scheme, bs) \<leftarrow> read_u8 B bs;
     (slot, bs) \<leftarrow> truncated_slot_deserialize B bs;
     (extra, bs) \<leftarrow> byte_vec_reader B L_u8 bs;
     (instrs, bs) \<leftarrow> instructions_reader B bs;
     Some (\<lparr>exec_signature_scheme = scheme, exec_signer_execution_scheme = signer_scheme,
            exec_slothash = slot, exec_extra_verification_data = extra,
            exec_instructions = instrs\<rparr>, bs) }"

section \<open>The context\<close>

record 'pv execute_instructions_context =
  xc_nonce_data :: nonce_data
  xc_execution_account :: execution_account
  xc_verification_data :: 'pv
  xc_account :: externally_signed_account
  xc_instructions_sysvar :: bytes
  xc_nonce_signer :: account_info
  xc_accounts :: "account_info list"
  xc_instructions :: "compiled_instruction list"
  xc_metas :: "account_meta list"

fun execute_instructions_load ::
  "runtime \<Rightarrow> ('d, 's, 'a, 'ri, 'rv, 'pi, 'pv) esa_trait \<Rightarrow> store \<Rightarrow> account_info list
     \<Rightarrow> executable_instruction_args \<Rightarrow> 'pv execute_instructions_context result" where
  "execute_instructions_load rt T st
     (external_account # instructions_acc # slothashes_acc # nonce_signer # execution_accounts) args =
     and_then (ok_or (try_from_slice (t_read_raw_verif T) (exec_extra_verification_data args))
                 (prog_err InvalidExtraVerificationDataArgs)) (\<lambda>raw.
     and_then (t_parse_verif T raw) (\<lambda>parsed_verification_data.
     and_then (esa_load rt st external_account) (\<lambda>externally_signed_account.
     and_then (esa_check_account T st externally_signed_account parsed_verification_data) (\<lambda>_.
     and_then (instructions_try_from rt instructions_acc (st instructions_acc)) (\<lambda>sysvar.
     and_then (slot_hashes_try_from rt st slothashes_acc) (\<lambda>slothashes.
     and_then (validate_nonce rt st slothashes (exec_slothash args) nonce_signer) (\<lambda>nonce_data.
     and_then (ok_or (signer_execution_scheme_try_from_primitive (exec_signer_execution_scheme args))
                 (prog_err InvalidSignerExecutionScheme)) (\<lambda>scheme.
     and_then (get_execution_account rt T st externally_signed_account scheme) (\<lambda>execution_account.
     Ok \<lparr>xc_nonce_data = nonce_data, xc_execution_account = execution_account,
         xc_verification_data = parsed_verification_data,
         xc_account = externally_signed_account, xc_instructions_sysvar = sysvar,
         xc_nonce_signer = nonce_signer, xc_accounts = execution_accounts,
         xc_instructions = exec_instructions args,
         xc_metas = create_instruction_execution_account_metas st execution_accounts
                      execution_account scheme\<rparr>)))))))))"
| "execute_instructions_load rt T st _ args = Err NotEnoughAccountKeys"

section \<open>The payload\<close>

definition bool_u8 :: "bool \<Rightarrow> u8" where
  "bool_u8 b = (if b then 1 else 0)"

definition account_payload :: "store \<Rightarrow> account_info \<Rightarrow> bytes" where
  "account_payload st account =
     account @ [bool_u8 (acc_is_signer (st account)), bool_u8 (acc_is_writable (st account))]"

text \<open>The bytes that are hashed; \<open>serialize(..).unwrap()\<close> panics on an instruction too long to encode.\<close>

definition instruction_payload ::
  "runtime \<Rightarrow> store \<Rightarrow> nonce_data \<Rightarrow> account_info list \<Rightarrow> compiled_instruction list \<Rightarrow> bytes result" where
  "instruction_payload rt st nonce accounts instrs =
     and_then (map_result (\<lambda>i. unwrap (compiled_instruction_serialize (rt_borsh rt) i)) instrs) (\<lambda>serialized.
     Ok (nonce_slothash nonce @ signer_key nonce @ ascii ''execute_instructions'' @
         [of_nat (length accounts)] @ concat (map (account_payload st) accounts) @
         [of_nat (length instrs)] @ concat serialized))"

definition get_instruction_payload_hash ::
  "runtime \<Rightarrow> store \<Rightarrow> 'pv execute_instructions_context \<Rightarrow> bytes result" where
  "get_instruction_payload_hash rt st ctx =
     and_then (instruction_payload rt st (xc_nonce_data ctx) (xc_accounts ctx) (xc_instructions ctx))
       (\<lambda>payload. Ok (hash rt payload))"

section \<open>The handler\<close>

definition process_execute_instructions ::
  "runtime \<Rightarrow> account_info list \<Rightarrow> bytes \<Rightarrow> world \<Rightarrow> world result" where
  "process_execute_instructions rt accounts data w =
     and_then (ok_or (try_from_slice (executable_instruction_args_deserialize (rt_borsh rt)) data)
                 (prog_err InvalidExecutionArgs)) (\<lambda>args.
     and_then (ok_or (signature_scheme_try_from_primitive (exec_signature_scheme args))
                 (prog_err InvalidSignatureScheme)) (\<lambda>signature_scheme.
     and_then (case signature_scheme of
                 P256Webauthn \<Rightarrow> execute_instructions_load rt (p256_trait rt) (w_store w) accounts args) (\<lambda>ctx.
     and_then (get_instruction_payload_hash rt (w_store w) ctx) (\<lambda>instruction_execution_hash.
     and_then (esa_verify_payload (p256_trait rt) (w_store w) (xc_account ctx) (xc_instructions_sysvar ctx)
                 (xc_verification_data ctx) instruction_execution_hash) (\<lambda>st.
     invoke_instructions rt (xc_accounts ctx) (xc_metas ctx) (xc_execution_account ctx)
       (exec_instructions args) [] [] (w\<lparr>w_store := st\<rparr>))))))"

section \<open>The arguments' codec\<close>

context borsh_format
begin

lemma executable_instruction_args_codec:
  "codec (executable_instruction_args_serialize B) (executable_instruction_args_deserialize B)"
proof
  note vec = small_vec_bytes_codec [of L_u8 "\<lambda>b. Some (write_u8 B b)" "read_u8 B"]
  note slot = truncated_slot_codec
  note instrs = compiled_instructions_codec
  show "executable_instruction_args_deserialize B (bs @ rest) = Some (x, rest)"
    if "executable_instruction_args_serialize B x = Some bs" for x bs rest
    using that codec.read_write [OF vec] codec.read_write [OF slot] codec.read_write [OF instrs]
    by (auto simp: executable_instruction_args_serialize_def executable_instruction_args_deserialize_def
        bind_eq_Some_conv read_u8_write)
  show "\<exists>c. executable_instruction_args_serialize B x = Some c \<and> bs = c @ rest"
    if r: "executable_instruction_args_deserialize B bs = Some (x, rest)" for x bs rest
  proof -
    obtain b1 b2 b3 b4 where a: "read_u8 B bs = Some (exec_signature_scheme x, b1)"
      and b: "read_u8 B b1 = Some (exec_signer_execution_scheme x, b2)"
      and s: "truncated_slot_deserialize B b2 = Some (exec_slothash x, b3)"
      and e: "byte_vec_reader B L_u8 b3 = Some (exec_extra_verification_data x, b4)"
      and i: "instructions_reader B b4 = Some (exec_instructions x, rest)"
      using r by (auto simp: executable_instruction_args_deserialize_def bind_eq_Some_conv)
    from codec.write_read [OF slot s] codec.write_read [OF vec e] codec.write_read [OF instrs i] a b
    show ?thesis by (auto simp: executable_instruction_args_serialize_def write_read_u8)
  qed
qed

end

interpretation executable_instruction_args:
  codec "executable_instruction_args_serialize borsh_le" "executable_instruction_args_deserialize borsh_le"
  by (rule ref.executable_instruction_args_codec)

section \<open>What a successful call went through\<close>

fun_cases execute_load_cases: "execute_instructions_load rt T st accounts args = Ok ctx"

lemma execute_load_Ok:
  assumes "execute_instructions_load rt T st accounts args = Ok ctx"
  shows "\<exists>external ixs shs signer rest raw sh seeds scheme.
    accounts = external # ixs # shs # signer # rest \<and>
    try_from_slice (t_read_raw_verif T) (exec_extra_verification_data args) = Some raw \<and>
    t_parse_verif T raw = Ok (xc_verification_data ctx) \<and>
    esa_load rt st external = Ok (xc_account ctx) \<and>
    esa_check_account T st (xc_account ctx) (xc_verification_data ctx) = Ok seeds \<and>
    instructions_try_from rt ixs (st ixs) = Ok (xc_instructions_sysvar ctx) \<and>
    slot_hashes_try_from rt st shs = Ok sh \<and>
    validate_nonce rt st sh (exec_slothash args) signer = Ok (xc_nonce_data ctx) \<and>
    exec_signer_execution_scheme args = signer_execution_scheme_u8 scheme \<and>
    get_execution_account rt T st (xc_account ctx) scheme = Ok (xc_execution_account ctx) \<and>
    xc_nonce_signer ctx = signer \<and> xc_accounts ctx = rest \<and> xc_instructions ctx = exec_instructions args \<and>
    xc_metas ctx = create_instruction_execution_account_metas st rest (xc_execution_account ctx) scheme"
  using assms by (rule execute_load_cases) (auto simp: eq_commute [of "Ok ctx"] result_simps)

lemma process_execute_Ok:
  assumes "process_execute_instructions rt accounts data w = Ok w'"
  shows "\<exists>args ctx h st.
    try_from_slice (executable_instruction_args_deserialize (rt_borsh rt)) data = Some args \<and>
    exec_signature_scheme args = 0 \<and>
    execute_instructions_load rt (p256_trait rt) (w_store w) accounts args = Ok ctx \<and>
    get_instruction_payload_hash rt (w_store w) ctx = Ok h \<and>
    esa_verify_payload (p256_trait rt) (w_store w) (xc_account ctx) (xc_instructions_sysvar ctx)
      (xc_verification_data ctx) h = Ok st \<and>
    invoke_instructions rt (xc_accounts ctx) (xc_metas ctx) (xc_execution_account ctx)
      (exec_instructions args) [] [] (w\<lparr>w_store := st\<rparr>) = Ok w'"
  using assms
  by (auto simp: process_execute_instructions_def result_simps split: signature_scheme.splits)

section \<open>The payload determines what is executed\<close>

lemma serialized_items:
  "map_result (\<lambda>i. unwrap (wr i)) xs = Ok ss \<Longrightarrow> serialize_items wr xs = Some (concat ss)"
  by (induction xs arbitrary: ss) (auto simp: result_simps)

lemma account_payload_eq:
  assumes "length a = 32" and "length b = 32"
  shows "account_payload st a = account_payload st' b \<longleftrightarrow>
    a = b \<and> acc_is_signer (st a) = acc_is_signer (st' b) \<and> acc_is_writable (st a) = acc_is_writable (st' b)"
  using assms by (auto simp: account_payload_def bool_u8_def split: if_splits)

lemma map_account_payload_eq:
  assumes "map (account_payload st) as = map (account_payload st') bs"
    and "\<forall>a \<in> set as. length a = 32" and "\<forall>b \<in> set bs. length b = 32"
  shows "as = bs \<and> (\<forall>a \<in> set as. acc_is_signer (st a) = acc_is_signer (st' a) \<and>
    acc_is_writable (st a) = acc_is_writable (st' a))"
proof -
  have "length as = length bs" using assms(1) by (metis length_map)
  then show ?thesis
    using assms by (induction as bs rule: list_induct2) (auto simp: account_payload_eq)
qed

lemma length_account_payload: "length a = 32 \<Longrightarrow> length (account_payload st a) = 34"
  by (simp add: account_payload_def)

lemma payload_parts:
  assumes "instruction_payload rt st nonce as is = Ok p"
  shows "\<exists>ser. serialize_items (compiled_instruction_serialize (rt_borsh rt)) is = Some ser \<and>
    p = nonce_slothash nonce @ signer_key nonce @ ascii ''execute_instructions'' @
        [of_nat (length as)] @ concat (map (account_payload st) as) @ [of_nat (length is)] @ ser"
  using assms serialized_items [of "compiled_instruction_serialize (rt_borsh rt)" "is"]
  by (auto simp: instruction_payload_def result_simps)

lemma nonce_data_eqI:
  "nonce_slothash a = nonce_slothash b \<Longrightarrow> signer_key a = signer_key b \<Longrightarrow> a = (b :: nonce_data)"
  by simp

lemma instruction_payload_inj:
  assumes B: "borsh_format (rt_borsh rt)"
    and p: "instruction_payload rt st nonce as is = Ok p"
    and p': "instruction_payload rt st' nonce' as' is' = Ok p"
    and n: "length (nonce_slothash nonce) = 32" "length (nonce_slothash nonce') = 32"
      "length (signer_key nonce) = 32" "length (signer_key nonce') = 32"
    and keys: "\<forall>a \<in> set as. length a = 32" "\<forall>a \<in> set as'. length a = 32"
    and small: "length as < 256" "length as' < 256" "length is < 256" "length is' < 256"
  shows "nonce = nonce' \<and> as = as' \<and> is = is' \<and>
    (\<forall>a \<in> set as. acc_is_signer (st a) = acc_is_signer (st' a) \<and>
                   acc_is_writable (st a) = acc_is_writable (st' a))"
proof -
  let ?ser = "compiled_instruction_serialize (rt_borsh rt)"
  obtain s where s: "serialize_items ?ser is = Some s"
    and e: "p = nonce_slothash nonce @ signer_key nonce @ ascii ''execute_instructions'' @
        [of_nat (length as)] @ concat (map (account_payload st) as) @ [of_nat (length is)] @ s"
    using payload_parts [OF p] by blast
  obtain s' where s': "serialize_items ?ser is' = Some s'"
    and e': "p = nonce_slothash nonce' @ signer_key nonce' @ ascii ''execute_instructions'' @
        [of_nat (length as')] @ concat (map (account_payload st') as') @ [of_nat (length is')] @ s'"
    using payload_parts [OF p'] by blast
  have heads: "nonce_slothash nonce = nonce_slothash nonce'" "signer_key nonce = signer_key nonce'"
    and count: "(of_nat (length as) :: u8) = of_nat (length as')"
    and tail: "concat (map (account_payload st) as) @ [of_nat (length is)] @ s =
      concat (map (account_payload st') as') @ [of_nat (length is')] @ s'"
    using e e' n by auto
  have len: "length as = length as'" using count small(1,2) by (simp add: of_nat_u8_inj)
  from concat_fixed_width [OF len _ _ tail] keys length_account_payload
  have accs: "map (account_payload st) as = map (account_payload st') as'"
    and rest: "[of_nat (length is)] @ s = [of_nat (length is')] @ s'" by blast+
  have "length is = length is'" using rest small(3,4) by (simp add: of_nat_u8_inj)
  moreover have "s @ [] = s' @ []" using rest by simp
  ultimately have "is = is'"
    using codec.items_injective [OF borsh_format.compiled_instruction_codec [OF B] s s'] by blast
  with heads map_account_payload_eq [OF accs keys] show ?thesis by simp
qed

section \<open>The handler's guarantee\<close>

text \<open>
  \<open>execute_authorised\<close>: everything a successful call has checked and done.  The accounts are
  \<open>external\<close>, two sysvars, the nonce signer and the rest; \<open>p\<close> is the signed payload before
  hashing.
\<close>

definition execute_authorised ::
  "runtime \<Rightarrow> (bytes \<Rightarrow> bytes \<Rightarrow> bytes \<Rightarrow> bool) \<Rightarrow> account_info list \<Rightarrow> bytes \<Rightarrow> world \<Rightarrow> world
     \<Rightarrow> p256_account_data \<Rightarrow> bytes \<Rightarrow> bool" where
  "execute_authorised rt ecdsa accounts data w w' d p \<longleftrightarrow>
     (\<exists>external ixs shs signer rest args nonce params c scheme ea seeds.
        accounts = external # ixs # shs # signer # rest \<and>
        try_from_slice (executable_instruction_args_deserialize (rt_borsh rt)) data = Some args \<and>
        p256_at rt (w_store w) external d \<and>
        acc_is_signer (w_store w signer) \<and> get_stack_height rt \<le> 1 \<and>
        signer_key nonce = signer \<and> length (nonce_slothash nonce) = 32 \<and>
        nonce_checked rt (w_store w) shs (exec_slothash args) nonce \<and>
        instruction_payload rt (w_store w) nonce rest (exec_instructions args) = Ok p \<and>
        passkey_signed rt ecdsa d params (hash rt p) c \<and>
        exec_signer_execution_scheme args = signer_execution_scheme_u8 scheme \<and>
        get_execution_account rt (p256_trait rt) (w_store w) (account_of (w_store w) external) scheme = Ok ea \<and>
        to_signer_seeds ea = Ok seeds \<and>
        w_invoked w' = w_invoked w @
          map (expanded_invocation rest
                (create_instruction_execution_account_metas (w_store w) rest ea scheme) seeds)
              (exec_instructions args))"

text \<open>The account before and after verification, and the inner calls from there on.\<close>

lemma execute_steps:
  assumes bf: "borrow_faithful rt" and run: "process_execute_instructions rt accounts data w = Ok w'"
  shows "\<exists>args nonce pv sysvar ea p st d d' external ixs shs signer rest scheme seeds.
    try_from_slice (executable_instruction_args_deserialize (rt_borsh rt)) data = Some args \<and>
    accounts = external # ixs # shs # signer # rest \<and>
    instructions_try_from rt ixs (w_store w ixs) = Ok sysvar \<and>
    acc_is_signer (w_store w signer) \<and> get_stack_height rt \<le> 1 \<and>
    signer_key nonce = signer \<and> length (nonce_slothash nonce) = 32 \<and>
    nonce_checked rt (w_store w) shs (exec_slothash args) nonce \<and>
    instruction_payload rt (w_store w) nonce rest (exec_instructions args) = Ok p \<and>
    p256_at rt (w_store w) external d \<and>
    p256_verify_payload rt sysvar pv (hash rt p) d = Ok d' \<and>
    p256_at rt st external d' \<and> data_frame external (w_store w) st \<and>
    exec_signer_execution_scheme args = signer_execution_scheme_u8 scheme \<and>
    get_execution_account rt (p256_trait rt) (w_store w) (account_of (w_store w) external) scheme
      = Ok ea \<and>
    to_signer_seeds ea = Ok seeds \<and>
    invoke_instructions rt rest
      (create_instruction_execution_account_metas (w_store w) rest ea scheme)
      ea (exec_instructions args) [] [] (w\<lparr>w_store := st\<rparr>) = Ok w'"
proof -
  obtain args ctx h st where
    args: "try_from_slice (executable_instruction_args_deserialize (rt_borsh rt)) data = Some args"
    and load: "execute_instructions_load rt (p256_trait rt) (w_store w) accounts args = Ok ctx"
    and h: "get_instruction_payload_hash rt (w_store w) ctx = Ok h"
    and v: "esa_verify_payload (p256_trait rt) (w_store w) (xc_account ctx) (xc_instructions_sysvar ctx)
      (xc_verification_data ctx) h = Ok st"
    and inv: "invoke_instructions rt (xc_accounts ctx) (xc_metas ctx) (xc_execution_account ctx)
      (exec_instructions args) [] [] (w\<lparr>w_store := st\<rparr>) = Ok w'"
    using process_execute_Ok [OF run] by blast
  obtain external ixs shs signer rest sh scheme where
    acc: "accounts = external # ixs # shs # signer # rest"
    and a: "esa_load rt (w_store w) external = Ok (xc_account ctx)"
    and ixs: "instructions_try_from rt ixs (w_store w ixs) = Ok (xc_instructions_sysvar ctx)"
    and shs: "slot_hashes_try_from rt (w_store w) shs = Ok sh"
    and nonce: "validate_nonce rt (w_store w) sh (exec_slothash args) signer = Ok (xc_nonce_data ctx)"
    and scheme: "exec_signer_execution_scheme args = signer_execution_scheme_u8 scheme"
    and ea: "get_execution_account rt (p256_trait rt) (w_store w) (xc_account ctx) scheme = Ok (xc_execution_account ctx)"
    and ctx: "xc_accounts ctx = rest" "xc_instructions ctx = exec_instructions args"
      "xc_metas ctx = create_instruction_execution_account_metas (w_store w) rest (xc_execution_account ctx) scheme"
    using execute_load_Ok [OF load] by blast
  obtain p where p: "instruction_payload rt (w_store w) (xc_nonce_data ctx) rest (exec_instructions args) = Ok p"
    and hp: "h = hash rt p"
    using h ctx by (auto simp: get_instruction_payload_hash_def result_simps)
  obtain seeds where "to_signer_seeds (xc_execution_account ctx) = Ok seeds"
    using get_execution_account_seeds [OF ea] by blast
  moreover obtain d d' where "p256_at rt (w_store w) external d"
    and "p256_verify_payload rt (xc_instructions_sysvar ctx) (xc_verification_data ctx) (hash rt p) d = Ok d'"
    and "p256_at rt st external d'" and "data_frame external (w_store w) st"
    using verify_loaded [OF bf a v] hp by blast
  moreover note validate_nonce_facts [OF nonce] nonce_checkedI [OF shs nonce]
  moreover have "get_execution_account rt (p256_trait rt) (w_store w) (account_of (w_store w) external) scheme
      = Ok (xc_execution_account ctx)"
    using ea load_account_of [OF bf a] by simp
  moreover have "invoke_instructions rt rest
      (create_instruction_execution_account_metas (w_store w) rest (xc_execution_account ctx) scheme)
      (xc_execution_account ctx) (exec_instructions args) [] [] (w\<lparr>w_store := st\<rparr>) = Ok w'"
    using inv ctx by simp
  ultimately show ?thesis
    using args acc ixs p scheme by (intro exI conjI) (assumption | elim conjE)+
qed

text \<open>
  C3. Whatever a successful execution invoked was signed: the passkey of the account signed a
  challenge that hashes the nonce, every account of the call with its flags and every compiled
  instruction, and the inner calls made are exactly these instructions, in their order, with the
  execution account's seeds.
\<close>

theorem execute_runs_what_was_signed:
  assumes "borrow_faithful rt" and "sha256_length rt" and "precompiles_verified rt ecdsa (w_store w)"
    and "process_execute_instructions rt accounts data w = Ok w'"
  shows "\<exists>d p. execute_authorised rt ecdsa accounts data w w' d p"
proof -
  obtain args nonce pv sysvar ea p st d d' external ixs shs signer rest scheme seeds where
    steps: "try_from_slice (executable_instruction_args_deserialize (rt_borsh rt)) data = Some args"
      "accounts = external # ixs # shs # signer # rest"
      "instructions_try_from rt ixs (w_store w ixs) = Ok sysvar"
      "acc_is_signer (w_store w signer)" "get_stack_height rt \<le> 1"
      "signer_key nonce = signer" "length (nonce_slothash nonce) = 32"
      "nonce_checked rt (w_store w) shs (exec_slothash args) nonce"
      "instruction_payload rt (w_store w) nonce rest (exec_instructions args) = Ok p"
      "p256_at rt (w_store w) external d"
      "p256_verify_payload rt sysvar pv (hash rt p) d = Ok d'"
      "exec_signer_execution_scheme args = signer_execution_scheme_u8 scheme"
      "get_execution_account rt (p256_trait rt) (w_store w) (account_of (w_store w) external) scheme
        = Ok ea"
      "to_signer_seeds ea = Ok seeds"
    and inv: "invoke_instructions rt rest
      (create_instruction_execution_account_metas (w_store w) rest ea scheme)
      ea (exec_instructions args) [] [] (w\<lparr>w_store := st\<rparr>) = Ok w'"
    using execute_steps [OF assms(1,4)] by blast
  have "secp256r1_verified rt ecdsa sysvar"
    using assms(3) steps(3) by (auto simp: precompiles_verified_def)
  then obtain c where
    "passkey_signed rt ecdsa d (parsed_verif_params pv) (hash rt p) c"
    using verify_payload_signed [OF _ assms(2) steps(11)] by blast
  moreover have "w_invoked w' = w_invoked w @ map (expanded_invocation rest
      (create_instruction_execution_account_metas (w_store w) rest ea scheme) seeds)
      (exec_instructions args)"
    using inv by (auto simp: invoke_instructions_Ok [OF _ steps(14)])
  ultimately show ?thesis
    using steps unfolding execute_authorised_def by blast
qed

text \<open>
  C40. The bytes that are hashed and signed determine everything: nonce, accounts with their
  signer and writable flags, and instructions, at the sizes the runtime and the parser admit.
\<close>

theorem execute_payload_injective:
  assumes "borsh_format (rt_borsh rt)"
    and "instruction_payload rt st nonce as is = Ok p"
    and "instruction_payload rt st' nonce' as' is' = Ok p"
    and "length (nonce_slothash nonce) = 32" and "length (nonce_slothash nonce') = 32"
    and "length (signer_key nonce) = 32" and "length (signer_key nonce') = 32"
    and "\<forall>a \<in> set as. length a = 32" and "\<forall>a \<in> set as'. length a = 32"
    and "length as < 256" and "length as' < 256" and "length is < 256" and "length is' < 256"
  shows "nonce = nonce' \<and> as = as' \<and> is = is' \<and>
    (\<forall>a \<in> set as. acc_is_signer (st a) = acc_is_signer (st' a) \<and>
                   acc_is_writable (st a) = acc_is_writable (st' a))"
  using assms by (rule instruction_payload_inj)

text \<open>
  C18. Inner instructions get no more than the transaction gave: no call into this program, no
  account from outside, no writable or signer flag the account does not have, except the
  signature of the execution account.
\<close>

theorem inner_instructions_unescalated:
  assumes "borrow_faithful rt" and "process_execute_instructions rt accounts data w = Ok w'"
  shows "\<exists>ivs ek. w_invoked w' = w_invoked w @ ivs \<and>
    (\<exists>scheme ea. get_execution_account rt (p256_trait rt) (w_store w)
        (account_of (w_store w) (hd accounts)) scheme = Ok ea \<and> ek = execution_key ea) \<and>
    (\<forall>iv \<in> set ivs. unescalated (w_store w) (drop 4 accounts) ek iv)"
proof -
  obtain ea st external ixs shs signer rest scheme seeds and args :: executable_instruction_args where
    acc: "accounts = external # ixs # shs # signer # rest"
    and ea: "get_execution_account rt (p256_trait rt) (w_store w) (account_of (w_store w) external) scheme
        = Ok ea"
    and seeds: "to_signer_seeds ea = Ok seeds"
    and inv: "invoke_instructions rt rest
      (create_instruction_execution_account_metas (w_store w) rest ea scheme)
      ea (exec_instructions args) [] [] (w\<lparr>w_store := st\<rparr>) = Ok w'"
    using execute_steps [OF assms] by blast
  have w: "w_invoked (w\<lparr>w_store := st\<rparr>) = w_invoked w" by simp
  obtain ivs where ivs: "w_invoked w' = w_invoked w @ ivs"
    "\<forall>iv \<in> set ivs. unescalated (w_store w) rest (execution_key ea) iv"
    using invoked_unescalated [OF seeds inv] unfolding w by blast
  have rest: "drop 4 accounts = rest" "hd accounts = external" using acc by simp_all
  show ?thesis
    unfolding rest using ivs ea by blast
qed

text \<open>
  C27. Who signs the inner instructions is not part of what the passkey signed: a context that loads
  with one signer execution scheme loads with any other whose account exists, with the same
  verification data and the same payload hash, and differs in the execution account only.
\<close>

theorem execution_scheme_not_signed:
  assumes "execute_instructions_load rt T st accounts args = Ok ctx"
    and "signer_execution_scheme_try_from_primitive b = Some scheme"
    and "get_execution_account rt T st (xc_account ctx) scheme = Ok ea"
  shows "\<exists>ctx'. execute_instructions_load rt T st accounts (args\<lparr>exec_signer_execution_scheme := b\<rparr>) = Ok ctx' \<and>
    get_instruction_payload_hash rt st ctx' = get_instruction_payload_hash rt st ctx \<and>
    xc_verification_data ctx' = xc_verification_data ctx \<and> xc_account ctx' = xc_account ctx \<and>
    xc_execution_account ctx' = ea"
proof -
  have inj: "signer_execution_scheme_u8 x = signer_execution_scheme_u8 y \<longleftrightarrow> x = y" for x y
    by (cases x; cases y) simp_all
  let ?ctx = "ctx\<lparr>xc_execution_account := ea,
    xc_metas := create_instruction_execution_account_metas st (xc_accounts ctx) ea scheme\<rparr>"
  have "execute_instructions_load rt T st accounts (args\<lparr>exec_signer_execution_scheme := b\<rparr>) = Ok ?ctx"
    using assms
    by (cases "(rt, T, st, accounts, args)" rule: execute_instructions_load.cases)
       (auto simp: result_simps inj)
  then show ?thesis by (simp add: get_instruction_payload_hash_def)
qed

end
