(* ===== verification/RefreshSessionKey.thy ===== *)
theory RefreshSessionKey
  imports CompiledInstructions Nonce
begin

text \<open>
  \<open>src/instructions/refresh_session_key.rs\<close>: a passkey signature installs a new session key,
  whose expiration the arguments give as a duration from now.
\<close>

section \<open>Arguments\<close>

record refresh_session_key_args =
  refresh_slothash :: truncated_slot
  refresh_signature_scheme :: u8
  refresh_verification_data :: "u8 small_vec"
  refresh_session_key :: session_key

definition refresh_session_key_args_serialize :: "borsh \<Rightarrow> refresh_session_key_args writer" where
  "refresh_session_key_args_serialize B a = do {
     slot \<leftarrow> truncated_slot_serialize B (refresh_slothash a);
     verif \<leftarrow> byte_vec_writer B L_u8 (refresh_verification_data a);
     k \<leftarrow> session_key_writer B (refresh_session_key a);
     Some (slot @ write_u8 B (refresh_signature_scheme a) @ verif @ k) }"

definition refresh_session_key_args_deserialize :: "borsh \<Rightarrow> refresh_session_key_args reader" where
  "refresh_session_key_args_deserialize B bs = do {
     (slot, bs) \<leftarrow> truncated_slot_deserialize B bs;
     (scheme, bs) \<leftarrow> read_u8 B bs;
     (verif, bs) \<leftarrow> byte_vec_reader B L_u8 bs;
     (k, bs) \<leftarrow> session_key_deserialize B bs;
     Some (\<lparr>refresh_slothash = slot, refresh_signature_scheme = scheme,
            refresh_verification_data = verif, refresh_session_key = k\<rparr>, bs) }"

section \<open>The context\<close>

record 'pv refresh_session_key_context =
  rc_nonce_data :: nonce_data
  rc_verification_data :: 'pv
  rc_account :: externally_signed_account
  rc_instructions_sysvar :: bytes
  rc_nonce_signer :: account_info
  rc_session_key :: session_key

fun refresh_session_key_load ::
  "runtime \<Rightarrow> ('d, 's, 'a, 'ri, 'rv, 'pi, 'pv) esa_trait \<Rightarrow> store \<Rightarrow> account_info list
     \<Rightarrow> refresh_session_key_args \<Rightarrow> 'pv refresh_session_key_context result" where
  "refresh_session_key_load rt T st
     (external_account # instructions_acc # slothashes_acc # nonce_signer # remaining) args =
     and_then (ok_or (try_from_slice (t_read_raw_verif T) (refresh_verification_data args))
                 (prog_err InvalidExtraVerificationDataArgs)) (\<lambda>verification_args.
     and_then (map_err (t_parse_verif T verification_args) (prog_err InvalidExtraVerificationDataArgs))
       (\<lambda>parsed_verification_data.
     and_then (esa_load rt st external_account) (\<lambda>externally_signed_account.
     and_then (esa_check_account T st externally_signed_account parsed_verification_data) (\<lambda>_.
     and_then (instructions_try_from rt instructions_acc (st instructions_acc)) (\<lambda>sysvar.
     and_then (slot_hashes_try_from rt st slothashes_acc) (\<lambda>slothashes.
     and_then (validate_nonce rt st slothashes (refresh_slothash args) nonce_signer) (\<lambda>nonce_data.
     Ok \<lparr>rc_nonce_data = nonce_data, rc_verification_data = parsed_verification_data,
         rc_account = externally_signed_account, rc_instructions_sysvar = sysvar,
         rc_nonce_signer = nonce_signer, rc_session_key = refresh_session_key args\<rparr>)))))))"
| "refresh_session_key_load rt T st _ args = Err NotEnoughAccountKeys"

section \<open>The payload\<close>

definition refresh_payload :: "runtime \<Rightarrow> nonce_data \<Rightarrow> session_key \<Rightarrow> bytes result" where
  "refresh_payload rt nonce k =
     and_then (unwrap (session_key_serialize (rt_borsh rt) k)) (\<lambda>serialized.
     Ok (nonce_slothash nonce @ signer_key nonce @ ascii ''refresh_session_key'' @ serialized))"

definition get_refresh_session_key_payload_hash ::
  "runtime \<Rightarrow> 'pv refresh_session_key_context \<Rightarrow> bytes result" where
  "get_refresh_session_key_payload_hash rt ctx =
     and_then (refresh_payload rt (rc_nonce_data ctx) (rc_session_key ctx)) (\<lambda>payload.
     Ok (hash rt payload))"

section \<open>The handler\<close>

text \<open>
  The expiration: \<open>unix_timestamp + expiration as i64\<close>, then \<open>as u64\<close>, in the wrapping
  arithmetic of a release build.
\<close>

definition refreshed_session_key :: "i64 \<Rightarrow> session_key \<Rightarrow> session_key" where
  "refreshed_session_key unix_timestamp k =
     \<lparr>session_key_key = session_key_key k, expiration = unix_timestamp + expiration k\<rparr>"

definition process_refresh_session_key ::
  "runtime \<Rightarrow> account_info list \<Rightarrow> bytes \<Rightarrow> world \<Rightarrow> world result" where
  "process_refresh_session_key rt accounts data w =
     and_then (ok_or (try_from_slice (refresh_session_key_args_deserialize (rt_borsh rt)) data)
                 InvalidArgument) (\<lambda>args.
     and_then (ok_or (signature_scheme_try_from_primitive (refresh_signature_scheme args))
                 (prog_err InvalidSignatureScheme)) (\<lambda>signature_scheme.
     and_then (case signature_scheme of
                 P256Webauthn \<Rightarrow> refresh_session_key_load rt (p256_trait rt) (w_store w) accounts args) (\<lambda>ctx.
     and_then (get_refresh_session_key_payload_hash rt ctx) (\<lambda>payload_hash.
     and_then (esa_verify_payload (p256_trait rt) (w_store w) (rc_account ctx) (rc_instructions_sysvar ctx)
                 (rc_verification_data ctx) payload_hash) (\<lambda>st.
     and_then (clock_unix_timestamp rt) (\<lambda>unix_timestamp.
     and_then (esa_update_session_key (p256_trait rt) st (rc_account ctx)
                 (refreshed_session_key unix_timestamp (refresh_session_key args))) (\<lambda>st.
     Ok (w\<lparr>w_store := st\<rparr>))))))))"

section \<open>The arguments' codec\<close>

context borsh_format
begin

lemma refresh_session_key_args_codec:
  "codec (refresh_session_key_args_serialize B) (refresh_session_key_args_deserialize B)"
proof
  note vec = small_vec_bytes_codec [of L_u8 "\<lambda>b. Some (write_u8 B b)" "read_u8 B"]
  note slot = truncated_slot_codec
  note key = session_key_codec
  show "refresh_session_key_args_deserialize B (bs @ rest) = Some (x, rest)"
    if "refresh_session_key_args_serialize B x = Some bs" for x bs rest
    using that codec.read_write [OF vec] codec.read_write [OF slot] codec.read_write [OF key]
    by (auto simp: refresh_session_key_args_serialize_def refresh_session_key_args_deserialize_def
        bind_eq_Some_conv read_u8_write)
  show "\<exists>c. refresh_session_key_args_serialize B x = Some c \<and> bs = c @ rest"
    if r: "refresh_session_key_args_deserialize B bs = Some (x, rest)" for x bs rest
  proof -
    obtain b1 b2 b3 where s: "truncated_slot_deserialize B bs = Some (refresh_slothash x, b1)"
      and a: "read_u8 B b1 = Some (refresh_signature_scheme x, b2)"
      and v: "byte_vec_reader B L_u8 b2 = Some (refresh_verification_data x, b3)"
      and k: "session_key_deserialize B b3 = Some (refresh_session_key x, rest)"
      using r by (auto simp: refresh_session_key_args_deserialize_def bind_eq_Some_conv)
    from codec.write_read [OF slot s] codec.write_read [OF vec v] codec.write_read [OF key k] a
    show ?thesis by (auto simp: refresh_session_key_args_serialize_def write_read_u8)
  qed
qed

lemma refresh_args_key_wf:
  "try_from_slice (refresh_session_key_args_deserialize B) bs = Some args \<Longrightarrow>
     session_key_wf (refresh_session_key args)"
  using codec.slice_canonical [OF refresh_session_key_args_codec, of bs args]
  by (auto simp: refresh_session_key_args_serialize_def session_key_writer_def bind_eq_Some_conv
      split: if_splits)

end

interpretation refresh_args:
  codec "refresh_session_key_args_serialize borsh_le" "refresh_session_key_args_deserialize borsh_le"
  by (rule ref.refresh_session_key_args_codec)

section \<open>What a successful call went through\<close>

fun_cases refresh_load_cases: "refresh_session_key_load rt T st accounts args = Ok ctx"

lemma refresh_load_Ok:
  assumes "refresh_session_key_load rt T st accounts args = Ok ctx"
  shows "\<exists>external ixs shs signer rest sh.
    accounts = external # ixs # shs # signer # rest \<and>
    esa_load rt st external = Ok (rc_account ctx) \<and>
    instructions_try_from rt ixs (st ixs) = Ok (rc_instructions_sysvar ctx) \<and>
    slot_hashes_try_from rt st shs = Ok sh \<and>
    validate_nonce rt st sh (refresh_slothash args) signer = Ok (rc_nonce_data ctx) \<and>
    rc_session_key ctx = refresh_session_key args"
  using assms by (rule refresh_load_cases) (auto simp: eq_commute [of "Ok ctx"] result_simps)

lemma refresh_steps:
  assumes bf: "borrow_faithful rt" and B: "borsh_format (rt_borsh rt)"
    and run: "process_refresh_session_key rt accounts data w = Ok w'"
  shows "\<exists>external ixs signer args d d' now nonce p pv sysvar.
    accounts \<noteq> [] \<and> external = hd accounts \<and> p256_at rt (w_store w) external d \<and>
    try_from_slice (refresh_session_key_args_deserialize (rt_borsh rt)) data = Some args \<and>
    acc_is_signer (w_store w signer) \<and> signer_key nonce = signer \<and>
    nonce_checked rt (w_store w) (accounts ! 2) (refresh_slothash args) nonce \<and>
    refresh_payload rt nonce (refresh_session_key args) = Ok p \<and>
    instructions_try_from rt ixs (w_store w ixs) = Ok sysvar \<and>
    p256_verify_payload rt sysvar pv (hash rt p) d = Ok d' \<and>
    clock_unix_timestamp rt = Ok now \<and>
    now + expiration (refresh_session_key args) \<le> session_expiration_bound now \<and>
    p256_at rt (w_store w') external
      (d'\<lparr>p256_session_key := refreshed_session_key now (refresh_session_key args)\<rparr>) \<and>
    data_frame external (w_store w) (w_store w') \<and> w_invoked w' = w_invoked w"
proof -
  obtain args ctx h st st' now where
    args: "try_from_slice (refresh_session_key_args_deserialize (rt_borsh rt)) data = Some args"
    and load: "refresh_session_key_load rt (p256_trait rt) (w_store w) accounts args = Ok ctx"
    and h: "get_refresh_session_key_payload_hash rt ctx = Ok h"
    and v: "esa_verify_payload (p256_trait rt) (w_store w) (rc_account ctx) (rc_instructions_sysvar ctx)
      (rc_verification_data ctx) h = Ok st"
    and now: "clock_unix_timestamp rt = Ok now"
    and u: "esa_update_session_key (p256_trait rt) st (rc_account ctx)
      (refreshed_session_key now (refresh_session_key args)) = Ok st'"
    and w': "w' = w\<lparr>w_store := st'\<rparr>"
    using run by (auto simp: process_refresh_session_key_def result_simps)
  obtain external ixs shs signer rest sh where
    acc: "accounts = external # ixs # shs # signer # rest"
    and a: "esa_load rt (w_store w) external = Ok (rc_account ctx)"
    and ixs: "instructions_try_from rt ixs (w_store w ixs) = Ok (rc_instructions_sysvar ctx)"
    and shs: "slot_hashes_try_from rt (w_store w) shs = Ok sh"
    and nonce: "validate_nonce rt (w_store w) sh (refresh_slothash args) signer = Ok (rc_nonce_data ctx)"
    and key: "rc_session_key ctx = refresh_session_key args"
    using refresh_load_Ok [OF load] by blast
  obtain p where p: "refresh_payload rt (rc_nonce_data ctx) (refresh_session_key args) = Ok p"
    and hp: "h = hash rt p"
    using h key by (auto simp: get_refresh_session_key_payload_hash_def result_simps)
  obtain d d' where d: "p256_at rt (w_store w) external d"
    and ver: "p256_verify_payload rt (rc_instructions_sysvar ctx) (rc_verification_data ctx) (hash rt p) d = Ok d'"
    and d': "p256_at rt st external d'" and frame: "data_frame external (w_store w) st"
    using verify_loaded [OF bf a v] hp by blast
  have wf: "session_key_wf (refreshed_session_key now (refresh_session_key args))"
    using borsh_format.refresh_args_key_wf [OF B args]
    by (simp add: session_key_wf_def refreshed_session_key_def)
  have acct: "rc_account ctx = account_of st external"
    using load_account_of [OF bf a] data_frame_account_of [OF frame] by simp
  have upd: "now + expiration (refresh_session_key args) \<le> session_expiration_bound now"
    "p256_at rt st' external (d'\<lparr>p256_session_key := refreshed_session_key now (refresh_session_key args)\<rparr>)"
    "data_frame external st st'"
    using update_loaded [OF d' wf u [unfolded acct]] now by (auto simp: refreshed_session_key_def)
  note facts = validate_nonce_facts [OF nonce] nonce_checkedI [OF shs nonce]
  show ?thesis
    using acc d args facts p now upd data_frame_trans [OF frame upd(3)] ixs ver
    by (intro exI [of _ external] exI [of _ ixs] exI [of _ signer] exI [of _ args] exI [of _ d] exI [of _ d']
        exI [of _ now] exI [of _ "rc_nonce_data ctx"] exI [of _ p]
        exI [of _ "rc_verification_data ctx"] exI [of _ "rc_instructions_sysvar ctx"])
       (simp add: w')
qed

text \<open>
  C12. A refreshed session key is one the passkey signed: key and duration are in the signed
  payload with the nonce; the account then holds that key until exactly the duration from now,
  within the limit, and nothing else of it changes but the counter.
\<close>

theorem refresh_installs_signed_key:
  assumes "borrow_faithful rt" and "sha256_length rt" and "borsh_format (rt_borsh rt)"
    and "precompiles_verified rt ecdsa (w_store w)"
    and "process_refresh_session_key rt accounts data w = Ok w'"
  shows "\<exists>external signer args d d' now nonce p params c.
    accounts \<noteq> [] \<and> external = hd accounts \<and> p256_at rt (w_store w) external d \<and>
    try_from_slice (refresh_session_key_args_deserialize (rt_borsh rt)) data = Some args \<and>
    acc_is_signer (w_store w signer) \<and> signer_key nonce = signer \<and>
    nonce_checked rt (w_store w) (accounts ! 2) (refresh_slothash args) nonce \<and>
    refresh_payload rt nonce (refresh_session_key args) = Ok p \<and>
    passkey_signed rt ecdsa d params (hash rt p) c \<and> counter_step c d d' \<and>
    clock_unix_timestamp rt = Ok now \<and>
    now + expiration (refresh_session_key args) \<le> session_expiration_bound now \<and>
    p256_at rt (w_store w') external
      (d'\<lparr>p256_session_key := refreshed_session_key now (refresh_session_key args)\<rparr>) \<and>
    data_frame external (w_store w) (w_store w') \<and> w_invoked w' = w_invoked w"
proof -
  obtain external ixs signer args d d' now nonce p pv sysvar where
    steps: "accounts \<noteq> []" "external = hd accounts" "p256_at rt (w_store w) external d"
      "try_from_slice (refresh_session_key_args_deserialize (rt_borsh rt)) data = Some args"
      "acc_is_signer (w_store w signer)" "signer_key nonce = signer"
      "nonce_checked rt (w_store w) (accounts ! 2) (refresh_slothash args) nonce"
      "refresh_payload rt nonce (refresh_session_key args) = Ok p"
      "clock_unix_timestamp rt = Ok now"
      "now + expiration (refresh_session_key args) \<le> session_expiration_bound now"
      "p256_at rt (w_store w') external
        (d'\<lparr>p256_session_key := refreshed_session_key now (refresh_session_key args)\<rparr>)"
      "data_frame external (w_store w) (w_store w')" "w_invoked w' = w_invoked w"
    and ixs: "instructions_try_from rt ixs (w_store w ixs) = Ok sysvar"
    and ver: "p256_verify_payload rt sysvar pv (hash rt p) d = Ok d'"
    using refresh_steps [OF assms(1,3,5)] by blast
  have "secp256r1_verified rt ecdsa sysvar"
    using assms(4) ixs unfolding precompiles_verified_def by blast
  from verify_payload_signed [OF this assms(2) ver] steps show ?thesis by blast
qed

text \<open>The signed bytes determine nonce, key and duration.\<close>

lemma refresh_payload_parts:
  assumes "borsh_format (rt_borsh rt)" and "refresh_payload rt nonce k = Ok p"
  shows "p = nonce_slothash nonce @ signer_key nonce @ ascii ''refresh_session_key'' @
    session_key_key k @ u64_to_le (expiration k)"
  using assms(2) borsh_format.w_array [OF assms(1)] borsh_format.w_u64 [OF assms(1)]
  by (auto simp: refresh_payload_def session_key_serialize_def result_simps)

text \<open>
  C29. Which durations a refresh accepts, at any realistic clock: up to the limit of three months,
  and, because the sum wraps, the ones so large that they wrap past zero, which leave a key that
  has already expired.
\<close>

theorem refresh_duration_bounds:
  assumes "clock_unix_timestamp rt = Ok now" and "unat now + 7776000 < 2 ^ 64"
  shows "(p256_update_session_key rt (refreshed_session_key now k) d =
        (if unat (expiration k) \<le> 7776000 \<or> 2 ^ 64 \<le> unat now + unat (expiration k)
         then Ok (d\<lparr>p256_session_key := refreshed_session_key now k\<rparr>)
         else Err (prog_err InvalidSessionKeyExpiration))) \<and>
    (2 ^ 64 \<le> unat now + unat (expiration k) \<longrightarrow> expiration (refreshed_session_key now k) < now)"
proof -
  have limit: "unat (session_expiration_bound now) = unat now + 7776000"
    using assms(2) by (simp add: session_expiration_bound_def SESSION_KEY_EXPIRATION_LIMIT_def unat_word_ariths)
  have small: "unat (expiration k) < 2 ^ 64" using unsigned_less [of "expiration k"] by simp
  have sum: "unat (now + expiration k) =
      (if 2 ^ 64 \<le> unat now + unat (expiration k) then unat now + unat (expiration k) - 2 ^ 64
       else unat now + unat (expiration k))"
    using small assms(2) by (simp add: unat_word_ariths) (simp add: mod_if)
  have wrap: "now + expiration k < now" if "2 ^ 64 \<le> unat now + unat (expiration k)"
    using sum small that by (simp add: word_less_nat_alt)
  have "session_expiration_bound now < now + expiration k \<longleftrightarrow>
      \<not> (unat (expiration k) \<le> 7776000 \<or> 2 ^ 64 \<le> unat now + unat (expiration k))"
    using sum small assms(2) by (auto simp: word_less_nat_alt limit)
  then show ?thesis
    using assms(1) wrap
    by (simp add: p256_update_session_key_def refreshed_session_key_def ensure_def)
qed

theorem refresh_duration_bounds_witness:
  "p256_update_session_key sample_runtime (refreshed_session_key 1000 \<lparr>session_key_key = replicate 32 4, expiration = 7776001\<rparr>)
     sample_p256 = Err (prog_err InvalidSessionKeyExpiration)"
proof -
  have clock: "clock_unix_timestamp sample_runtime = Ok 1000" by (simp add: sample_runtime_def)
  show ?thesis
    using refresh_duration_bounds [OF clock, of "\<lparr>session_key_key = replicate 32 4, expiration = 7776001\<rparr>" sample_p256]
    by simp
qed

text \<open>
  C28. How long a refreshed key lives, for a clock that is not within three months of \<open>2 ^ 64\<close>.  Once
  a refresh at time \<open>now\<close> has installed it: if \<open>now\<close> plus the requested duration is below \<open>2 ^ 64\<close>, the
  duration is at most the three months' limit, and the key, and no other, opens sessions up to and
  including the last second of it; if the sum wraps around, as nearly \<open>2 ^ 64\<close> seconds make it, the
  key has expired already and opens none from \<open>now\<close> on.  In both cases every attempt more than three
  months later fails.
\<close>

theorem refreshed_key_lifetime:
  assumes "clock_unix_timestamp rt = Ok now" and "unat now + 7776000 < 2 ^ 64"
    and "p256_update_session_key rt (refreshed_session_key now k) d = Ok d'"
    and "clock_unix_timestamp rt' = Ok t"
  shows "(if unat now + unat (expiration k) < 2 ^ 64
      then unat (expiration k) \<le> 7776000 \<and>
        (p256_is_valid_session_key rt' st signer d' = Ok () \<longleftrightarrow>
           acc_is_signer (st signer) \<and> signer = session_key_key k \<and>
           unat t \<le> unat now + unat (expiration k))
      else unat now \<le> unat t \<longrightarrow> p256_is_valid_session_key rt' st signer d' \<noteq> Ok ()) \<and>
    (unat now + 7776000 < unat t \<longrightarrow> p256_is_valid_session_key rt' st signer d' \<noteq> Ok ())"
proof -
  have limit: "unat (session_expiration_bound now) = unat now + 7776000"
    using assms(2) by (simp add: session_expiration_bound_def SESSION_KEY_EXPIRATION_LIMIT_def unat_word_ariths)
  have accepted: "unat (now + expiration k) \<le> unat now + 7776000"
    using assms(1,3) limit by (auto simp: result_simps refreshed_session_key_def word_le_nat_alt)
  have small: "unat (expiration k) < 2 ^ 64" using unsigned_less [of "expiration k"] by simp
  have sum: "unat (now + expiration k) =
      (if 2 ^ 64 \<le> unat now + unat (expiration k) then unat now + unat (expiration k) - 2 ^ 64
       else unat now + unat (expiration k))"
    using small assms(2) by (simp add: unat_word_ariths) (simp add: mod_if)
  have valid: "p256_is_valid_session_key rt' st signer d' = Ok () \<longleftrightarrow>
      acc_is_signer (st signer) \<and> signer = session_key_key k \<and> unat t \<le> unat (now + expiration k)"
    using assms(1,3,4) by (auto simp: result_simps refreshed_session_key_def word_le_nat_alt)
  show ?thesis
  proof (cases "unat now + unat (expiration k) < 2 ^ 64")
    case True
    with sum have "unat (now + expiration k) = unat now + unat (expiration k)" by simp
    with True accepted show ?thesis by (simp add: valid)
  next
    case False
    with sum small have "unat (now + expiration k) < unat now" by simp
    with False accepted show ?thesis by (simp add: valid)
  qed
qed

theorem refreshed_key_lifetime_witness:
  "p256_is_valid_session_key (sample_runtime\<lparr>clock_unix_timestamp := Ok 1600\<rparr>)
     (\<lambda>k. \<lparr>acc_owner = [], acc_lamports = 0, acc_data = [], acc_is_signer = True, acc_is_writable = False,
        acc_data_aligned = True\<rparr>)
     (replicate 32 4)
     (sample_p256\<lparr>p256_session_key := \<lparr>session_key_key = replicate 32 4, expiration = 1600\<rparr>\<rparr>) = Ok ()"
proof -
  let ?k = "\<lparr>session_key_key = replicate 32 4, expiration = 600\<rparr> :: session_key"
  let ?d = "sample_p256\<lparr>p256_session_key := \<lparr>session_key_key = replicate 32 4, expiration = 1600\<rparr>\<rparr>"
  have clock: "clock_unix_timestamp sample_runtime = Ok 1000" by (simp add: sample_runtime_def)
  have upd: "p256_update_session_key sample_runtime (refreshed_session_key 1000 ?k) sample_p256 = Ok ?d"
    by (simp add: result_simps clock refreshed_session_key_def session_expiration_bound_def
        SESSION_KEY_EXPIRATION_LIMIT_def)
  have later: "clock_unix_timestamp (sample_runtime\<lparr>clock_unix_timestamp := Ok 1600\<rparr>) = Ok 1600" by simp
  have "unat (1000 :: i64) + 7776000 < 2 ^ 64" by simp
  from refreshed_key_lifetime [OF clock this upd later] show ?thesis by simp
qed

end
