(* ===== verification/SessionedExecution.thy ===== *)
theory SessionedExecution
  imports CompiledInstructions
begin

text \<open>
  \<open>src/instructions/execute_instructions_sessioned.rs\<close>: execution authorised by the account's
  session key, which signs the transaction, instead of by a passkey signature.
\<close>

section \<open>Arguments\<close>

record executable_instruction_sessioned_args =
  sess_signature_scheme :: u8
  sess_signer_execution_scheme :: u8
  sess_instructions :: "compiled_instruction small_vec"

definition executable_instruction_sessioned_args_serialize ::
  "borsh \<Rightarrow> executable_instruction_sessioned_args writer" where
  "executable_instruction_sessioned_args_serialize B a = do {
     instrs \<leftarrow> instructions_writer B (sess_instructions a);
     Some (write_u8 B (sess_signature_scheme a) @ write_u8 B (sess_signer_execution_scheme a) @ instrs) }"

definition executable_instruction_sessioned_args_deserialize ::
  "borsh \<Rightarrow> executable_instruction_sessioned_args reader" where
  "executable_instruction_sessioned_args_deserialize B bs = do {
     (scheme, bs) \<leftarrow> read_u8 B bs;
     (signer_scheme, bs) \<leftarrow> read_u8 B bs;
     (instrs, bs) \<leftarrow> instructions_reader B bs;
     Some (\<lparr>sess_signature_scheme = scheme, sess_signer_execution_scheme = signer_scheme,
            sess_instructions = instrs\<rparr>, bs) }"

section \<open>The context\<close>

record execute_instructions_sessioned_context =
  sc_account :: externally_signed_account
  sc_session_signer :: account_info
  sc_accounts :: "account_info list"
  sc_execution_account :: execution_account
  sc_instructions :: "compiled_instruction list"
  sc_metas :: "account_meta list"

fun execute_instructions_sessioned_load ::
  "runtime \<Rightarrow> ('d, 's, 'a, 'ri, 'rv, 'pi, 'pv) esa_trait \<Rightarrow> store \<Rightarrow> account_info list
     \<Rightarrow> executable_instruction_sessioned_args \<Rightarrow> execute_instructions_sessioned_context result" where
  "execute_instructions_sessioned_load rt T st
     (external_account # session_signer # execution_accounts) args =
     and_then (esa_load rt st external_account) (\<lambda>externally_signed_account.
     and_then (esa_is_valid_session_key T st externally_signed_account session_signer) (\<lambda>_.
     and_then (ok_or (signer_execution_scheme_try_from_primitive (sess_signer_execution_scheme args))
                 (prog_err InvalidSignerExecutionScheme)) (\<lambda>scheme.
     and_then (get_execution_account rt T st externally_signed_account scheme) (\<lambda>executing_account.
     Ok \<lparr>sc_account = externally_signed_account, sc_session_signer = session_signer,
         sc_accounts = execution_accounts, sc_execution_account = executing_account,
         sc_instructions = sess_instructions args,
         sc_metas = create_instruction_execution_account_metas st execution_accounts
                      executing_account scheme\<rparr>))))"
| "execute_instructions_sessioned_load rt T st _ args = Err NotEnoughAccountKeys"

section \<open>The handler\<close>

definition process_execute_instructions_sessioned ::
  "runtime \<Rightarrow> account_info list \<Rightarrow> bytes \<Rightarrow> world \<Rightarrow> world result" where
  "process_execute_instructions_sessioned rt accounts data w =
     and_then (ok_or (try_from_slice (executable_instruction_sessioned_args_deserialize (rt_borsh rt)) data)
                 (prog_err InvalidExecutionArgs)) (\<lambda>args.
     and_then (ok_or (signature_scheme_try_from_primitive (sess_signature_scheme args))
                 (prog_err InvalidSignatureScheme)) (\<lambda>signature_scheme.
     and_then (case signature_scheme of
                 P256Webauthn \<Rightarrow>
                   execute_instructions_sessioned_load rt (p256_trait rt) (w_store w) accounts args) (\<lambda>ctx.
     invoke_instructions rt (sc_accounts ctx) (sc_metas ctx) (sc_execution_account ctx)
       (sess_instructions args) [] [] w)))"

section \<open>The arguments' codec\<close>

context borsh_format
begin

lemma executable_instruction_sessioned_args_codec:
  "codec (executable_instruction_sessioned_args_serialize B)
         (executable_instruction_sessioned_args_deserialize B)"
proof
  note instrs = compiled_instructions_codec
  show "executable_instruction_sessioned_args_deserialize B (bs @ rest) = Some (x, rest)"
    if "executable_instruction_sessioned_args_serialize B x = Some bs" for x bs rest
    using that codec.read_write [OF instrs]
    by (auto simp: executable_instruction_sessioned_args_serialize_def
        executable_instruction_sessioned_args_deserialize_def bind_eq_Some_conv read_u8_write)
  show "\<exists>c. executable_instruction_sessioned_args_serialize B x = Some c \<and> bs = c @ rest"
    if r: "executable_instruction_sessioned_args_deserialize B bs = Some (x, rest)" for x bs rest
  proof -
    obtain b1 b2 where a: "read_u8 B bs = Some (sess_signature_scheme x, b1)"
      and b: "read_u8 B b1 = Some (sess_signer_execution_scheme x, b2)"
      and i: "instructions_reader B b2 = Some (sess_instructions x, rest)"
      using r by (auto simp: executable_instruction_sessioned_args_deserialize_def bind_eq_Some_conv)
    from codec.write_read [OF instrs i] a b
    show ?thesis by (auto simp: executable_instruction_sessioned_args_serialize_def write_read_u8)
  qed
qed

end

interpretation sessioned_args:
  codec "executable_instruction_sessioned_args_serialize borsh_le"
    "executable_instruction_sessioned_args_deserialize borsh_le"
  by (rule ref.executable_instruction_sessioned_args_codec)

section \<open>What a successful call went through\<close>

text \<open>The session key in \<open>d\<close> is \<open>signer\<close>, which signed, and has not expired.\<close>

definition live_session ::
  "runtime \<Rightarrow> store \<Rightarrow> account_info \<Rightarrow> p256_account_data \<Rightarrow> bool" where
  "live_session rt st signer d \<longleftrightarrow>
     acc_is_signer (st signer) \<and> session_key_key (p256_session_key d) = signer \<and>
     (\<exists>now. clock_unix_timestamp rt = Ok now \<and> now \<le> expiration (p256_session_key d))"

lemma sessioned_load_iff:
  assumes bf: "borrow_faithful rt"
  shows "execute_instructions_sessioned_load rt (p256_trait rt) st accounts args = Ok ctx \<longleftrightarrow>
    (\<exists>external signer rest a d scheme ea.
      accounts = external # signer # rest \<and>
      esa_load rt st external = Ok a \<and> p256_at rt st external d \<and> live_session rt st signer d \<and>
      sess_signer_execution_scheme args = signer_execution_scheme_u8 scheme \<and>
      get_execution_account rt (p256_trait rt) st (account_of st external) scheme = Ok ea \<and>
      ctx = \<lparr>sc_account = account_of st external, sc_session_signer = signer, sc_accounts = rest,
             sc_execution_account = ea, sc_instructions = sess_instructions args,
             sc_metas = create_instruction_execution_account_metas st rest ea scheme\<rparr>)"
    (is "?load \<longleftrightarrow> ?spec")
proof
  assume ?load
  then obtain external signer rest a d scheme ea where
    acc: "accounts = external # signer # rest" and a: "esa_load rt st external = Ok a"
    and d: "esa_data (p256_trait rt) st a = Ok d" and live: "live_session rt st signer d"
    and "sess_signer_execution_scheme args = signer_execution_scheme_u8 scheme"
    and "get_execution_account rt (p256_trait rt) st a scheme = Ok ea"
    and "ctx = \<lparr>sc_account = a, sc_session_signer = signer, sc_accounts = rest,
             sc_execution_account = ea, sc_instructions = sess_instructions args,
             sc_metas = create_instruction_execution_account_metas st rest ea scheme\<rparr>"
    by (cases "(rt, p256_trait rt, st, accounts, args)" rule: execute_instructions_sessioned_load.cases)
       (auto simp: result_simps esa_is_valid_session_key_def live_session_def)
  with loaded_p256_at [OF bf a d] load_account_of [OF bf a] show ?spec by blast
next
  assume ?spec
  then show ?load
    using load_account_of [OF bf]
    by (auto simp: result_simps esa_is_valid_session_key_def live_session_def p256_at_def)
qed

lemma process_sessioned_iff:
  assumes "borrow_faithful rt"
  shows "process_execute_instructions_sessioned rt accounts data w = Ok w' \<longleftrightarrow>
    (\<exists>args external signer rest a d scheme ea.
      try_from_slice (executable_instruction_sessioned_args_deserialize (rt_borsh rt)) data = Some args \<and>
      sess_signature_scheme args = 0 \<and>
      accounts = external # signer # rest \<and>
      esa_load rt (w_store w) external = Ok a \<and> p256_at rt (w_store w) external d \<and>
      live_session rt (w_store w) signer d \<and>
      sess_signer_execution_scheme args = signer_execution_scheme_u8 scheme \<and>
      get_execution_account rt (p256_trait rt) (w_store w) (account_of (w_store w) external) scheme = Ok ea \<and>
      invoke_instructions rt rest (create_instruction_execution_account_metas (w_store w) rest ea scheme) ea
        (sess_instructions args) [] [] w = Ok w')"
  unfolding process_execute_instructions_sessioned_def
  by (simp add: and_then_eq_Ok ok_or_eq_Ok sessioned_load_iff [OF assms]) fastforce

section \<open>Properties\<close>

text \<open>
  C13. Execution without a passkey signature needs a live session key: the key stored in the
  program's account signed the transaction and has not expired; the inner instructions are then
  the ones submitted, none of them escalated, with the execution account's signature.
\<close>

theorem sessioned_needs_live_session_key:
  assumes "borrow_faithful rt"
    and "process_execute_instructions_sessioned rt accounts data w = Ok w'"
  shows "\<exists>external signer rest d ivs scheme ea seeds args.
    accounts = external # signer # rest \<and> p256_at rt (w_store w) external d \<and>
    live_session rt (w_store w) signer d \<and>
    try_from_slice (executable_instruction_sessioned_args_deserialize (rt_borsh rt)) data = Some args \<and>
    get_execution_account rt (p256_trait rt) (w_store w) (account_of (w_store w) external) scheme = Ok ea \<and>
    to_signer_seeds ea = Ok seeds \<and>
    ivs = map (expanded_invocation rest
            (create_instruction_execution_account_metas (w_store w) rest ea scheme) seeds) (sess_instructions args) \<and>
    w_invoked w' = w_invoked w @ ivs \<and>
    (\<forall>iv \<in> set ivs. unescalated (w_store w) rest (execution_key ea) iv)"
proof -
  obtain external signer rest d scheme ea and args :: executable_instruction_sessioned_args where
    steps: "accounts = external # signer # rest" "p256_at rt (w_store w) external d"
      "live_session rt (w_store w) signer d"
      "try_from_slice (executable_instruction_sessioned_args_deserialize (rt_borsh rt)) data = Some args"
      "get_execution_account rt (p256_trait rt) (w_store w) (account_of (w_store w) external) scheme = Ok ea"
    and inv: "invoke_instructions rt rest
        (create_instruction_execution_account_metas (w_store w) rest ea scheme) ea
        (sess_instructions args) [] [] w = Ok w'"
    using assms(2) unfolding process_sessioned_iff [OF assms(1)] by blast
  obtain seeds where seeds: "to_signer_seeds ea = Ok seeds"
    using get_execution_account_seeds [OF steps(5)] by blast
  define ivs where "ivs = map (expanded_invocation rest
    (create_instruction_execution_account_metas (w_store w) rest ea scheme) seeds) (sess_instructions args)"
  have ivs: "w_invoked w' = w_invoked w @ ivs"
    using inv by (auto simp: invoke_instructions_Ok [OF _ seeds] ivs_def)
  obtain jvs where "w_invoked w' = w_invoked w @ jvs"
    and "\<forall>iv \<in> set jvs. unescalated (w_store w) rest (execution_key ea) iv"
    using invoked_unescalated [OF seeds inv] by blast
  with ivs have "\<forall>iv \<in> set ivs. unescalated (w_store w) rest (execution_key ea) iv" by simp
  with steps seeds ivs show ?thesis unfolding ivs_def by blast
qed

end
