(* ===== verification/Entrypoint.thy ===== *)
theory Entrypoint
  imports InitializeExternalAccount ExecuteInstructions RefreshSessionKey SessionedExecution
begin

text \<open>
  \<open>src/entrypoint.rs\<close>: the first byte of the instruction data selects the handler.
\<close>

definition process_instruction ::
  "runtime \<Rightarrow> pubkey \<Rightarrow> account_info list \<Rightarrow> bytes \<Rightarrow> world \<Rightarrow> world result" where
  "process_instruction rt program_id accounts instruction_data w =
     and_then (ok_or (case instruction_data of [] \<Rightarrow> None | d # rest \<Rightarrow> Some (d, rest))
                 InvalidInstructionData) (\<lambda>(discriminator, instruction_data).
     if discriminator = 0 then process_initialize_external_account rt accounts instruction_data w
     else if discriminator = 1 then process_execute_instructions rt accounts instruction_data w
     else if discriminator = 2 then process_refresh_session_key rt accounts instruction_data w
     else if discriminator = 3 then process_execute_instructions_sessioned rt accounts instruction_data w
     else Err InvalidInstructionData)"

section \<open>Properties\<close>

text \<open>
  C25. The three kinds of signed payload never coincide: after nonce and signer each has its own
  tag, so a signature given for one operation cannot authorise another.
\<close>

theorem payload_domains_distinct:
  assumes "borsh_format (rt_borsh rt)"
    and "instruction_payload rt st n as is = Ok p" and "refresh_payload rt n' k = Ok q"
    and "i = initialization_payload s payer p256_initialization_payload sk"
    and "length (nonce_slothash n) = 32" and "length (signer_key n) = 32"
    and "length (nonce_slothash n') = 32" and "length (signer_key n') = 32"
    and "length s = 32" and "length payer = 32"
  shows "p \<noteq> q \<and> p \<noteq> i \<and> q \<noteq> i"
proof -
  have p: "p ! 64 = 101"
    using payload_parts [OF assms(2)] assms(5,6) by (auto simp: nth_append ascii_def)
  have q: "q ! 64 = 114"
    using refresh_payload_parts [OF assms(1,3)] assms(7,8) by (simp add: nth_append ascii_def)
  have i: "i ! 64 = 105"
    using assms(4,9,10) by (simp add: initialization_payload_def p256_initialization_payload_def nth_append ascii_def)
  show ?thesis using p q i by auto
qed

text \<open>
  C39. Instruction arguments have one encoding each: for all four instructions the bytes that
  parse to given arguments are exactly their serialisation.
\<close>

theorem argument_encodings_canonical:
  assumes "borsh_format B"
  shows "(try_from_slice (initialize_account_args_deserialize B) bs = Some a \<longleftrightarrow>
        initialize_account_args_serialize B a = Some bs) \<and>
    (try_from_slice (executable_instruction_args_deserialize B) bs = Some b \<longleftrightarrow>
        executable_instruction_args_serialize B b = Some bs) \<and>
    (try_from_slice (refresh_session_key_args_deserialize B) bs = Some c \<longleftrightarrow>
        refresh_session_key_args_serialize B c = Some bs) \<and>
    (try_from_slice (executable_instruction_sessioned_args_deserialize B) bs = Some d \<longleftrightarrow>
        executable_instruction_sessioned_args_serialize B d = Some bs)"
  using codec.slice_canonical [OF borsh_format.initialize_account_args_codec [OF assms]]
    codec.slice_canonical [OF borsh_format.executable_instruction_args_codec [OF assms]]
    codec.slice_canonical [OF borsh_format.refresh_session_key_args_codec [OF assms]]
    codec.slice_canonical [OF borsh_format.executable_instruction_sessioned_args_codec [OF assms]]
  by blast

theorem argument_encodings_canonical_witness:
  "try_from_slice (executable_instruction_sessioned_args_deserialize borsh_le) [0, 1, 0] =
     Some \<lparr>sess_signature_scheme = 0, sess_signer_execution_scheme = 1, sess_instructions = []\<rparr>"
proof -
  have "executable_instruction_sessioned_args_serialize borsh_le
      \<lparr>sess_signature_scheme = 0, sess_signer_execution_scheme = 1, sess_instructions = []\<rparr> = Some [0, 1, 0]"
    by (simp add: executable_instruction_sessioned_args_serialize_def small_vec_serialize_def
        serialize_slice_def no_u8_slice_def borsh_le_def)
  then show ?thesis
    using argument_encodings_canonical [OF ref.borsh_format_axioms] by blast
qed

end
