(* ===== verification/Protocol.thy ===== *)
theory Protocol
  imports Entrypoint
begin

text \<open>
  The program as a state machine: the store of all accounts, changed by instructions of this
  program (at any time and stack height) and by everything else that runs on the chain.  What
  other programs can do to this program's accounts is the runtime's ownership rule
  (\<open>foreign_change\<close>); everything else is the handlers.
\<close>

section \<open>What other programs can do\<close>

text \<open>
  Only an account's owner changes its data or gives it away; an account handed to another
  program is zeroed.
\<close>

definition foreign_change :: "store \<Rightarrow> store \<Rightarrow> bool" where
  "foreign_change st st' \<longleftrightarrow>
     (\<forall>k. if acc_owner (st k) = crate_ID
          then acc_owner (st' k) = crate_ID \<and> acc_data (st' k) = acc_data (st k) \<and>
               acc_data_aligned (st' k) = acc_data_aligned (st k)
          else acc_owner (st' k) = crate_ID \<longrightarrow> set (acc_data (st' k)) \<subseteq> {0})"

definition cpi_respects_owner :: "runtime \<Rightarrow> bool" where
  "cpi_respects_owner rt \<longleftrightarrow>
     (\<forall>iv st st'. inv_program_id iv \<noteq> crate_ID \<longrightarrow> invoke_signed rt iv st = Ok st' \<longrightarrow> foreign_change st st')"

lemma foreign_change_refl: "foreign_change st st"
  by (simp add: foreign_change_def)

lemma foreign_change_trans: "foreign_change a b \<Longrightarrow> foreign_change b c \<Longrightarrow> foreign_change a c"
  unfolding foreign_change_def by metis

lemma run_invocations_foreign:
  assumes "cpi_respects_owner rt" and "\<forall>iv \<in> set ivs. inv_program_id iv \<noteq> crate_ID"
    and "run_invocations rt ivs st = Ok st'"
  shows "foreign_change st st'"
  using assms(2,3)
proof (induction ivs arbitrary: st)
  case (Cons iv ivs)
  then obtain st1 where "invoke_signed rt iv st = Ok st1" and r: "run_invocations rt ivs st1 = Ok st'"
    by (auto simp: result_simps)
  then have "foreign_change st st1" using assms(1) Cons.prems(1) unfolding cpi_respects_owner_def by auto
  moreover have "foreign_change st1 st'" using Cons.IH r Cons.prems(1) by simp
  ultimately show ?case by (rule foreign_change_trans)
qed (simp add: foreign_change_refl)

lemma invoke_instructions_foreign:
  assumes "cpi_respects_owner rt" and "length metas = length accounts" and "to_signer_seeds ea = Ok seeds"
    and "invoke_instructions rt accounts metas ea cis [] [] w = Ok w'"
  shows "foreign_change (w_store w) (w_store w')"
proof -
  obtain st where cis: "\<forall>ci \<in> set cis. accounts ! unat (program_id_index ci) \<noteq> crate_ID"
    and run: "run_invocations rt (map (expanded_invocation accounts metas seeds) cis) (w_store w) = Ok st"
    and w': "w_store w' = st"
    using assms(4) unfolding invoke_instructions_Ok [OF assms(2,3)] by auto
  have "\<forall>iv \<in> set (map (expanded_invocation accounts metas seeds) cis). inv_program_id iv \<noteq> crate_ID"
    using cis by (simp add: expanded_invocation_def)
  from run_invocations_foreign [OF assms(1) this run] w' show ?thesis by simp
qed

section \<open>The invariant\<close>

text \<open>
  Every P-256 account of the program is at the address of its own public key, and its relying
  party is one initialization accepted: at most 32 bytes, no quote, hash consistent.
\<close>

definition account_ok :: "runtime \<Rightarrow> pubkey \<Rightarrow> p256_account_data \<Rightarrow> bool" where
  "account_ok rt k d \<longleftrightarrow> rp_id_consistent rt (rp_id_info d) \<and>
     (\<exists>s. p256_derive_existing_account rt d = Ok s \<and> seeds_key s = k)"

definition store_ok :: "runtime \<Rightarrow> store \<Rightarrow> bool" where
  "store_ok rt st \<longleftrightarrow> (\<forall>k d. p256_at rt st k d \<longrightarrow> account_ok rt k d)"

text \<open>An account goes on with the same identity, and its counter never falls.\<close>

definition account_succ :: "p256_account_data \<Rightarrow> p256_account_data \<Rightarrow> bool" where
  "account_succ d d' \<longleftrightarrow> public_key d' = public_key d \<and> rp_id_info d' = rp_id_info d \<and>
     counter d \<le> counter d'"

text \<open>
  \<open>evolves\<close>: every P-256 account goes on, and any other P-256 account of the later store is
  well-formed from the start.
\<close>

definition evolves :: "runtime \<Rightarrow> store \<Rightarrow> store \<Rightarrow> bool" where
  "evolves rt st st' \<longleftrightarrow>
     (\<forall>k d. p256_at rt st k d \<longrightarrow> (\<exists>d'. p256_at rt st' k d' \<and> account_succ d d')) \<and>
     (\<forall>k d'. p256_at rt st' k d' \<longrightarrow> (\<exists>d. p256_at rt st k d) \<or> account_ok rt k d')"

lemma evolves_forward:
  "evolves rt st st' \<Longrightarrow> p256_at rt st k d \<Longrightarrow> \<exists>d'. p256_at rt st' k d' \<and> account_succ d d'"
  unfolding evolves_def by blast

lemma evolves_backward:
  "evolves rt st st' \<Longrightarrow> p256_at rt st' k d' \<Longrightarrow> (\<exists>d. p256_at rt st k d) \<or> account_ok rt k d'"
  unfolding evolves_def by blast

lemma account_succ_refl [simp]: "account_succ d d"
  by (simp add: account_succ_def)

lemma account_succ_trans: "account_succ a b \<Longrightarrow> account_succ b c \<Longrightarrow> account_succ a c"
  by (auto simp: account_succ_def)

lemma account_succ_ok: "account_succ d d' \<Longrightarrow> account_ok rt k d' = account_ok rt k d"
  by (simp add: account_succ_def account_ok_def p256_derive_existing_account_def)

lemma evolves_store_ok:
  assumes "evolves rt st st'" and "store_ok rt st"
  shows "store_ok rt st'"
  unfolding store_ok_def
proof (intro allI impI)
  fix k d' assume at: "p256_at rt st' k d'"
  show "account_ok rt k d'"
  proof (cases "\<exists>d. p256_at rt st k d")
    case True
    then obtain d where d: "p256_at rt st k d" by blast
    then obtain d'' where "p256_at rt st' k d''" "account_succ d d''"
      using evolves_forward [OF assms(1)] by blast
    with p256_at_unique [OF at] d assms(2) account_succ_ok show ?thesis by (auto simp: store_ok_def)
  next
    case False
    with evolves_backward [OF assms(1) at] show ?thesis by blast
  qed
qed

lemma evolves_trans:
  assumes ab: "evolves rt a b" and bc: "evolves rt b c"
  shows "evolves rt a c"
  unfolding evolves_def
proof (intro conjI allI impI)
  fix k d assume "p256_at rt a k d"
  then obtain d1 where "p256_at rt b k d1" "account_succ d d1" using evolves_forward [OF ab] by blast
  moreover from this(1) obtain d2 where "p256_at rt c k d2" "account_succ d1 d2"
    using evolves_forward [OF bc] by blast
  ultimately show "\<exists>d'. p256_at rt c k d' \<and> account_succ d d'" using account_succ_trans by blast
next
  fix k d2 assume c: "p256_at rt c k d2"
  show "(\<exists>d. p256_at rt a k d) \<or> account_ok rt k d2"
  proof (cases "\<exists>d1. p256_at rt b k d1")
    case True
    then obtain d1 where d1: "p256_at rt b k d1" by blast
    then obtain d2' where "p256_at rt c k d2'" "account_succ d1 d2'"
      using evolves_forward [OF bc] by blast
    with p256_at_unique [OF c] have "account_succ d1 d2" by blast
    then show ?thesis using evolves_backward [OF ab d1] account_succ_ok by blast
  next
    case False
    then show ?thesis using evolves_backward [OF bc c] by blast
  qed
qed

lemma evolves_same_p256:
  assumes "\<And>k d. p256_at rt st' k d \<longleftrightarrow> p256_at rt st k d"
  shows "evolves rt st st'"
  using assms account_succ_refl by (auto simp: evolves_def)

lemma p256_at_iff:
  "p256_at rt st k d \<longleftrightarrow> acc_owner (st k) = crate_ID \<and> 152 \<le> length (acc_data (st k)) \<and>
     acc_data_aligned (st k) \<and> acc_data (st k) ! 0 = 1 \<and> acc_data (st k) ! 1 = 0 \<and>
     d = p256_account_from_bytes (take 152 (acc_data (st k)))"
  by (auto simp: p256_at_def p256.esa_data_Ok esa_slice_def account_of_def)

lemma foreign_p256_at:
  assumes "foreign_change st st'"
  shows "p256_at rt st' k d \<longleftrightarrow> p256_at rt st k d"
proof (cases "acc_owner (st k) = crate_ID")
  case True
  then show ?thesis using assms by (auto simp: foreign_change_def p256_at_iff)
next
  case False
  have "\<not> p256_at rt st' k d"
  proof
    assume at: "p256_at rt st' k d"
    then have one: "acc_data (st' k) ! 0 = 1" and len: "0 < length (acc_data (st' k))"
      and "acc_owner (st' k) = crate_ID"
      by (auto simp: p256_at_iff)
    from this(3) have "set (acc_data (st' k)) \<subseteq> {0}"
      using assms [unfolded foreign_change_def, rule_format, of k] False by simp
    with nth_mem [OF len] one show False by auto
  qed
  with False show ?thesis by (simp add: p256_at_iff)
qed

lemma foreign_evolves: "foreign_change st st' \<Longrightarrow> evolves rt st st'"
  by (rule evolves_same_p256) (rule foreign_p256_at)

text \<open>An update of one account by this program.\<close>

lemma data_frame_evolves:
  assumes "data_frame k st st'" and "p256_at rt st k d" and "p256_at rt st' k d'" and "account_succ d d'"
  shows "evolves rt st st'"
proof -
  have other: "p256_at rt st' j e \<longleftrightarrow> p256_at rt st j e" if "j \<noteq> k" for j e
    using assms(1) that by (simp add: p256_at_iff data_frame_def)
  show ?thesis
    unfolding evolves_def
  proof (intro conjI allI impI)
    fix j e assume "p256_at rt st j e"
    then show "\<exists>e'. p256_at rt st' j e' \<and> account_succ e e'"
      using assms p256_at_unique [of rt st k] other account_succ_refl by (cases "j = k") blast+
  next
    fix j e assume "p256_at rt st' j e"
    then show "(\<exists>d. p256_at rt st j d) \<or> account_ok rt j e"
      using assms other by (cases "j = k") blast+
  qed
qed

section \<open>Each handler evolves the store\<close>

text \<open>The behaviour of the runtime and its libraries that the invariants rest on.\<close>

definition chain_laws :: "runtime \<Rightarrow> bool" where
  "chain_laws rt \<longleftrightarrow> borrow_faithful rt \<and> sha256_length rt \<and> borsh_format (rt_borsh rt) \<and>
     system_program_laws rt \<and> cpi_respects_owner rt"

lemma verify_account_succ:
  "p256_verify_payload rt sysvar pv payload d = Ok d' \<Longrightarrow> account_succ d d'"
proof -
  assume "p256_verify_payload rt sysvar pv payload d = Ok d'"
  note c = p256_verify_payload_counter [OF this]
  then obtain n where d': "d' = d\<lparr>counter := n\<rparr>" by blast
  then show "account_succ d d'" using c [THEN conjunct2] by (simp add: account_succ_def)
qed

text \<open>An execution: the account after verification, and from there foreign changes only.\<close>

lemma execute_evolves:
  assumes laws: "chain_laws rt" and run: "process_execute_instructions rt accounts data w = Ok w'"
  shows "\<exists>sysvar pv payload d d' st. instructions_try_from rt (accounts ! 1) (w_store w (accounts ! 1)) = Ok sysvar \<and>
    p256_at rt (w_store w) (hd accounts) d \<and> p256_verify_payload rt sysvar pv payload d = Ok d' \<and>
    p256_at rt st (hd accounts) d' \<and> evolves rt (w_store w) st \<and> evolves rt st (w_store w')"
proof -
  have bf: "borrow_faithful rt" and cpi: "cpi_respects_owner rt" using laws by (simp_all add: chain_laws_def)
  obtain args nonce pv sysvar ea p st d d' external ixs shs signer rest scheme seeds where
    acc: "accounts = external # ixs # shs # signer # rest"
    and ixs: "instructions_try_from rt ixs (w_store w ixs) = Ok sysvar"
    and d: "p256_at rt (w_store w) external d"
    and ver: "p256_verify_payload rt sysvar pv (hash rt p) d = Ok d'"
    and d': "p256_at rt st external d'" and frame: "data_frame external (w_store w) st"
    and seeds: "to_signer_seeds ea = Ok seeds"
    and inv: "invoke_instructions rt rest (create_instruction_execution_account_metas (w_store w) rest ea scheme)
      ea (exec_instructions (args :: executable_instruction_args)) [] [] (w\<lparr>w_store := st\<rparr>) = Ok w'"
    using execute_steps [OF bf run] by blast
  have "evolves rt (w_store w) st"
    by (rule data_frame_evolves [OF frame d d' verify_account_succ [OF ver]])
  moreover have "evolves rt st (w_store w')"
    using foreign_evolves [OF invoke_instructions_foreign [OF cpi _ seeds inv]] by simp
  moreover have "accounts ! 1 = ixs" "hd accounts = external" using acc by simp_all
  ultimately show ?thesis using ixs d ver d' by blast
qed

lemma sessioned_evolves:
  assumes laws: "chain_laws rt" and run: "process_execute_instructions_sessioned rt accounts data w = Ok w'"
  shows "evolves rt (w_store w) (w_store w')"
proof -
  have bf: "borrow_faithful rt" and cpi: "cpi_respects_owner rt" using laws by (simp_all add: chain_laws_def)
  obtain external rest scheme ea and args :: executable_instruction_sessioned_args where
    ea: "get_execution_account rt (p256_trait rt) (w_store w) (account_of (w_store w) external) scheme = Ok ea"
    and inv: "invoke_instructions rt rest (create_instruction_execution_account_metas (w_store w) rest ea scheme)
      ea (sess_instructions args) [] [] w = Ok w'"
    using run unfolding process_sessioned_iff [OF bf] by blast
  obtain seeds where "to_signer_seeds ea = Ok seeds" using get_execution_account_seeds [OF ea] by blast
  from foreign_evolves [OF invoke_instructions_foreign [OF cpi _ this inv]] show ?thesis by simp
qed

lemma refresh_evolves:
  assumes laws: "chain_laws rt" and run: "process_refresh_session_key rt accounts data w = Ok w'"
  shows "evolves rt (w_store w) (w_store w')"
proof -
  have bf: "borrow_faithful rt" and B: "borsh_format (rt_borsh rt)" using laws by (simp_all add: chain_laws_def)
  obtain external d d' k sysvar pv payload where
    d: "p256_at rt (w_store w) external d" and ver: "p256_verify_payload rt sysvar pv payload d = Ok d'"
    and d': "p256_at rt (w_store w') external (d'\<lparr>p256_session_key := k\<rparr>)"
    and frame: "data_frame external (w_store w) (w_store w')"
    using refresh_steps [OF bf B run] by blast
  have "account_succ d (d'\<lparr>p256_session_key := k\<rparr>)"
    using verify_account_succ [OF ver] by (simp add: account_succ_def)
  from data_frame_evolves [OF frame d d' this] show ?thesis .
qed

lemma initialize_evolves:
  assumes laws: "chain_laws rt" and run: "process_initialize_external_account rt accounts data w = Ok w'"
  shows "evolves rt (w_store w) (w_store w')"
proof -
  obtain external pi sk seeds sysvar payload d' where
    empty: "acc_data (w_store w external) = []"
    and seeds: "p256_derive_account rt (p256_args_of_init pi) = Ok seeds" "seeds_key seeds = external"
    and rp: "rp_id_consistent rt (parsed_rp_id_info pi)"
    and ver: "p256_verify_initialization_payload rt sysvar pi payload (initialized_p256 pi sk) = Ok d'"
    and d': "p256_at rt (w_store w') external d'"
    and others: "\<forall>k. k \<noteq> external \<longrightarrow> (\<exists>l. w_store w' k = (w_store w k)\<lparr>acc_lamports := l\<rparr>)"
    using initialize_steps [OF _ _ _ _ run] laws unfolding chain_laws_def by blast
  have "account_succ (initialized_p256 pi sk) d'"
    using verify_account_succ ver unfolding p256_verify_initialization_payload_eq by blast
  moreover have "account_ok rt external (initialized_p256 pi sk)"
    using seeds rp
    by (simp add: account_ok_def initialized_p256_def p256_derive_existing_account_def p256_args_of_init_def)
  ultimately have ok: "account_ok rt external d'" using account_succ_ok by blast
  have not: "\<not> p256_at rt (w_store w) external d" for d using empty by (simp add: p256_at_iff)
  have same: "p256_at rt (w_store w') k d \<longleftrightarrow> p256_at rt (w_store w) k d" if k: "k \<noteq> external" for k d
  proof -
    obtain l where "w_store w' k = (w_store w k)\<lparr>acc_lamports := l\<rparr>" using others k by blast
    then show ?thesis by (simp add: p256_at_iff)
  qed
  show ?thesis
    unfolding evolves_def
  proof (intro conjI allI impI)
    fix k d assume "p256_at rt (w_store w) k d"
    then show "\<exists>d'. p256_at rt (w_store w') k d' \<and> account_succ d d'"
      using not same account_succ_refl by (cases "k = external") blast+
  next
    fix k d assume at: "p256_at rt (w_store w') k d"
    show "(\<exists>d. p256_at rt (w_store w) k d) \<or> account_ok rt k d"
    proof (cases "k = external")
      case True
      then show ?thesis using p256_at_unique [OF at] d' ok by blast
    next
      case False
      then show ?thesis using same at by blast
    qed
  qed
qed

lemma process_instruction_evolves:
  assumes laws: "chain_laws rt" and run: "process_instruction rt pid accounts data w = Ok w'"
  shows "evolves rt (w_store w) (w_store w')"
proof -
  obtain b rest where "data = b # rest" using run by (cases data) (auto simp: process_instruction_def)
  then consider "process_initialize_external_account rt accounts rest w = Ok w'"
    | "process_execute_instructions rt accounts rest w = Ok w'"
    | "process_refresh_session_key rt accounts rest w = Ok w'"
    | "process_execute_instructions_sessioned rt accounts rest w = Ok w'"
    using run by (auto simp: process_instruction_def split: if_splits)
  then show ?thesis
  proof cases
    case 1
    then show ?thesis by (rule initialize_evolves [OF laws])
  next
    case 2
    then show ?thesis using execute_evolves [OF laws] evolves_trans by blast
  next
    case 3
    then show ?thesis by (rule refresh_evolves [OF laws])
  next
    case 4
    then show ?thesis by (rule sessioned_evolves [OF laws])
  qed
qed

section \<open>Runs\<close>

text \<open>The runtime at another time and stack height; everything else of it is fixed.\<close>

definition rt_at :: "runtime \<Rightarrow> i64 result \<Rightarrow> u64 \<Rightarrow> runtime" where
  "rt_at rt now h = rt\<lparr>clock_unix_timestamp := now, sol_get_stack_height := h\<rparr>"

inductive step :: "runtime \<Rightarrow> world \<Rightarrow> world \<Rightarrow> bool" for rt where
  instruction:
    "process_instruction (rt_at rt now h) crate_ID accounts data w = Ok w' \<Longrightarrow> step rt w w'"
| other_program:
    "foreign_change (w_store w) st \<Longrightarrow> step rt w (w\<lparr>w_store := st\<rparr>)"

inductive_cases step_cases: "step rt w w'"

lemma rt_at_simps [simp]:
  "rt_borsh (rt_at rt now h) = rt_borsh rt" "sol_sha256 (rt_at rt now h) = sol_sha256 rt"
  "instructions_try_from (rt_at rt now h) = instructions_try_from rt"
  "instruction_at (rt_at rt now h) = instruction_at rt"
  "memory_beyond (rt_at rt now h) = memory_beyond rt"
  "try_find_program_address (rt_at rt now h) = try_find_program_address rt"
  by (simp_all add: rt_at_def)

lemma rt_at_laws: "chain_laws (rt_at rt now h) \<longleftrightarrow> chain_laws rt"
  by (simp add: chain_laws_def borrow_faithful_def sha256_length_def system_program_laws_def
      cpi_respects_owner_def) (simp add: rt_at_def)

lemma rt_at_p256_at [simp]: "p256_at (rt_at rt now h) st k d \<longleftrightarrow> p256_at rt st k d"
  by (simp add: p256_at_iff)

lemma rt_at_account_ok [simp]: "account_ok (rt_at rt now h) k d \<longleftrightarrow> account_ok rt k d"
  by (simp add: account_ok_def rp_id_consistent_def p256_derive_existing_account_def p256_derive_account_def
      hash_def hashv_def)

lemma rt_at_evolves: "evolves (rt_at rt now h) st st' \<longleftrightarrow> evolves rt st st'"
  by (simp add: evolves_def)

lemma step_evolves:
  assumes "chain_laws rt" and "step rt w w'"
  shows "evolves rt (w_store w) (w_store w')"
  using assms(2)
proof (rule step_cases)
  fix now h accounts data
  assume run: "process_instruction (rt_at rt now h) crate_ID accounts data w = Ok w'"
  have "chain_laws (rt_at rt now h)" using assms(1) by (simp add: rt_at_laws)
  from process_instruction_evolves [OF this run] show ?thesis by (simp add: rt_at_evolves)
next
  fix st assume "w' = w\<lparr>w_store := st\<rparr>" and "foreign_change (w_store w) st"
  then show ?thesis by (simp add: foreign_evolves)
qed

lemma steps_evolve:
  assumes laws: "chain_laws rt" and run: "(step rt)\<^sup>*\<^sup>* w w'"
  shows "evolves rt (w_store w) (w_store w')"
  using run
proof (induction rule: rtranclp_induct)
  case base
  then show ?case by (rule evolves_same_p256) simp
next
  case (step y z)
  then show ?case using evolves_trans step_evolves [OF laws] by blast
qed

section \<open>Properties of runs\<close>

text \<open>
  C8. Along any run, of this program's instructions and of anything other programs may do, a
  passkey account stays a passkey account with the same key and relying party, and its counter
  never decreases.
\<close>

theorem identity_and_counter:
  assumes "chain_laws rt" and "(step rt)\<^sup>*\<^sup>* w w'" and "p256_at rt (w_store w) k d"
  shows "\<exists>d'. p256_at rt (w_store w') k d' \<and> public_key d' = public_key d \<and>
    rp_id_info d' = rp_id_info d \<and> counter d \<le> counter d'"
  using evolves_forward [OF steps_evolve [OF assms(1,2)] assms(3)] by (auto simp: account_succ_def)

text \<open>
  C9. Starting without accounts of the program, every passkey account that ever exists is at the
  address derived from its own public key, and its relying party id has at most 32 bytes, no
  quote, and the stored hash.
\<close>

theorem reachable_accounts_ok:
  assumes "chain_laws rt" and "\<forall>k. acc_owner (w_store w k) \<noteq> crate_ID" and "(step rt)\<^sup>*\<^sup>* w w'"
    and "p256_at rt (w_store w') k d"
  shows "rp_id_consistent rt (rp_id_info d) \<and>
    (\<exists>s. p256_derive_existing_account rt d = Ok s \<and> seeds_key s = k)"
proof -
  have "store_ok rt (w_store w)" using assms(2) by (simp add: store_ok_def p256_at_iff)
  from evolves_store_ok [OF steps_evolve [OF assms(1,3)] this] assms(4)
  show ?thesis by (simp add: store_ok_def account_ok_def)
qed

lemma rt_at_data: "data_at_offset (rt_at rt now h) = data_at_offset rt"
  by (simp add: fun_eq_iff data_at_offset_def get_data_slice_raw_def raw_bytes_def cong: if_cong)

lemma rt_at_message [simp]: "precompile_message (rt_at rt now h) sysvar = precompile_message rt sysvar"
  unfolding precompile_message_def get_signature_payload_def rt_at_data by simp

lemma rt_at_sha [simp]: "sha256_length (rt_at rt now h) \<longleftrightarrow> sha256_length rt"
  by (simp add: sha256_length_def)

lemma rt_at_hash [simp]: "hash (rt_at rt now h) = hash rt"
  by (simp add: hash_def hashv_def fun_eq_iff)

text \<open>The counter a signed message carries.\<close>

definition message_counter :: "bytes \<Rightarrow> u32" where
  "message_counter m = u32_from_be (take 4 (drop 33 m))"

lemma verify_message_counter:
  assumes "sha256_length rt" and "p256_verify_payload rt sysvar pv payload d = Ok d'"
    and m: "precompile_message rt sysvar = Ok m" and c: "message_counter m \<noteq> 0"
  shows "counter d < ucast (message_counter m) \<and> counter d' = ucast (message_counter m)"
proof -
  obtain pl ad j c0 where acc: "payload_accepted rt sysvar (parsed_verif_params pv) payload d pl ad j c0"
    and step: "c0 \<noteq> 0 \<longrightarrow> counter d < ucast c0 \<and> d' = d\<lparr>counter := ucast c0\<rparr>"
    using p256_verify_payload_Ok [OF assms(2,1)] by blast
  have "m = ad @ hash rt j" using accepted_message [OF acc] m by simp
  moreover have "37 \<le> length ad" "c0 = u32_from_be (take 4 (drop 33 ad))"
    using accepted_auth_data [OF acc] by simp_all
  ultimately have "message_counter m = c0" by (simp add: message_counter_def)
  with step c show ?thesis by auto
qed

text \<open>
  C7. No replay of a counted signature: once an execution with a signed message has succeeded,
  no later execution on the same account succeeds with that message again, whatever happens in
  between, provided the authenticator counts (its counter is not zero).
\<close>

theorem no_replay:
  assumes laws: "chain_laws rt"
    and first: "process_execute_instructions (rt_at rt now h) accounts data w = Ok w1"
    and ixs: "instructions_try_from rt (accounts ! 1) (w_store w (accounts ! 1)) = Ok sysvar"
    and m: "precompile_message rt sysvar = Ok m" and counted: "message_counter m \<noteq> 0"
    and run: "(step rt)\<^sup>*\<^sup>* w1 w2"
    and same: "hd accounts' = hd accounts"
    and ixs': "instructions_try_from rt (accounts' ! 1) (w_store w2 (accounts' ! 1)) = Ok sysvar'"
    and m': "precompile_message rt sysvar' = Ok m"
  shows "process_execute_instructions (rt_at rt now' h') accounts' data' w2 \<noteq> Ok w3"
proof
  assume second: "process_execute_instructions (rt_at rt now' h') accounts' data' w2 = Ok w3"
  have laws_at: "chain_laws (rt_at rt n k)" for n k using laws by (simp add: rt_at_laws)
  have sha: "sha256_length rt" using laws by (simp add: chain_laws_def)
  let ?k = "hd accounts"
  obtain pv payload d d1 st where v1: "p256_verify_payload (rt_at rt now h) sysvar pv payload d = Ok d1"
    and at1: "p256_at rt st ?k d1" and e1: "evolves rt st (w_store w1)"
    using execute_evolves [OF laws_at first] ixs by (auto simp: rt_at_evolves)
  obtain pv' payload' d2 d3 where v2: "p256_verify_payload (rt_at rt now' h') sysvar' pv' payload' d2 = Ok d3"
    and at2: "p256_at rt (w_store w2) ?k d2"
    using execute_evolves [OF laws_at second] ixs' same by (auto simp: rt_at_evolves)
  have c1: "counter d1 = ucast (message_counter m)"
    using verify_message_counter [OF _ v1 _ counted] sha m by simp
  have c2: "counter d2 < ucast (message_counter m)"
    using verify_message_counter [OF _ v2 _ counted] sha m' by simp
  have "evolves rt st (w_store w2)" by (rule evolves_trans [OF e1 steps_evolve [OF laws run]])
  from evolves_forward [OF this at1] p256_at_unique [OF at2] have "account_succ d1 d2" by blast
  then have "counter d1 \<le> counter d2" by (simp add: account_succ_def)
  with c1 c2 show False by simp
qed

text \<open>
  What one successful execution hashed and what its passkey signed, for a given store: the
  instruction payload \<open>p\<close> and the clientDataJSON text \<open>j\<close>.
\<close>

definition executed ::
  "runtime \<Rightarrow> account_info list \<Rightarrow> bytes \<Rightarrow> store \<Rightarrow> nonce_data \<Rightarrow> compiled_instruction list \<Rightarrow> bytes \<Rightarrow> bytes
     \<Rightarrow> bool" where
  "executed rt accounts data st nonce instrs p j \<longleftrightarrow>
     (\<exists>args params d. try_from_slice (executable_instruction_args_deserialize (rt_borsh rt)) data = Some args \<and>
        exec_instructions args = instrs \<and> 4 \<le> length accounts \<and> signer_key nonce = accounts ! 3 \<and>
        length (nonce_slothash nonce) = 32 \<and>
        instruction_payload rt st nonce (drop 4 accounts) instrs = Ok p \<and>
        p256_at rt st (hd accounts) d \<and>
        reconstruct_client_data_json rt params (stored_rp_id (rp_id_info d)) (hash rt p) = Ok j)"

lemma execute_executed:
  assumes laws: "chain_laws rt" and run: "process_execute_instructions rt accounts data w = Ok w'"
    and ok: "store_ok rt (w_store w)"
    and ixs: "instructions_try_from rt (accounts ! 1) (w_store w (accounts ! 1)) = Ok sysvar"
  shows "\<exists>nonce instrs p j params d pl ad c. executed rt accounts data (w_store w) nonce instrs p j \<and>
    payload_accepted rt sysvar params (hash rt p) d pl ad j c \<and> rp_id_consistent rt (rp_id_info d)"
proof -
  have bf: "borrow_faithful rt" and sha: "sha256_length rt" using laws by (simp_all add: chain_laws_def)
  obtain args pv sysvar' p d d' external ixs' shs signer rest and nonce :: nonce_data where
    args: "try_from_slice (executable_instruction_args_deserialize (rt_borsh rt)) data = Some args"
    and acc: "accounts = external # ixs' # shs # signer # rest"
    and s: "instructions_try_from rt ixs' (w_store w ixs') = Ok sysvar'"
    and nonce: "signer_key nonce = signer" "length (nonce_slothash nonce) = 32"
    and p: "instruction_payload rt (w_store w) nonce rest (exec_instructions args) = Ok p"
    and d: "p256_at rt (w_store w) external d"
    and ver: "p256_verify_payload rt sysvar' pv (hash rt p) d = Ok d'"
    using execute_steps [OF bf run] by blast
  have [simp]: "sysvar' = sysvar" using s ixs acc by simp
  obtain pl ad j c where a: "payload_accepted rt sysvar (parsed_verif_params pv) (hash rt p) d pl ad j c"
    using p256_verify_payload_Ok [OF ver sha] by auto
  have json: "reconstruct_client_data_json rt (parsed_verif_params pv) (stored_rp_id (rp_id_info d)) (hash rt p) = Ok j"
    using a by (simp add: payload_accepted_def)
  have shape: "4 \<le> length accounts" "accounts ! 3 = signer" "drop 4 accounts = rest" "hd accounts = external"
    using acc by (simp_all add: numeral_3_eq_3)
  have "executed rt accounts data (w_store w) nonce (exec_instructions args) p j"
    unfolding executed_def shape using args nonce p d json shape(1) by blast
  moreover have "rp_id_consistent rt (rp_id_info d)" using ok d by (auto simp: store_ok_def account_ok_def)
  ultimately show ?thesis using a by blast
qed

lemma instructions_bounded:
  assumes "borsh_format (rt_borsh rt)"
    and "try_from_slice (executable_instruction_args_deserialize (rt_borsh rt)) data = Some args"
  shows "length (exec_instructions args) < 256"
proof -
  have "executable_instruction_args_serialize (rt_borsh rt) args = Some data"
    using codec.slice_canonical [OF borsh_format.executable_instruction_args_codec [OF assms(1)]] assms(2) by blast
  then show ?thesis
    by (auto simp: executable_instruction_args_serialize_def bind_eq_Some_conv small_vec_serialize_def
        split: if_splits)
qed

text \<open>
  C4. One signed message executes one thing: if two executions, at any two moments and on any
  accounts the program holds, succeed under the same signed message, then they ran the same
  instructions over the same accounts with the same flags, under the same nonce and nonce signer,
  or two concrete texts that were hashed are a collision of the hash function.
\<close>

theorem one_signature_one_execution:
  assumes laws: "chain_laws rt" and b64: "base64_url_laws rt"
    and "store_ok rt (w_store w)" and "store_ok rt (w_store v)"
    and runs: "process_execute_instructions rt accounts data w = Ok w'"
      "process_execute_instructions rt accounts' data' v = Ok v'"
    and ixs: "instructions_try_from rt (accounts ! 1) (w_store w (accounts ! 1)) = Ok sysvar"
      "instructions_try_from rt (accounts' ! 1) (w_store v (accounts' ! 1)) = Ok sysvar'"
    and msg: "precompile_message rt sysvar = precompile_message rt sysvar'"
    and keys: "\<forall>k \<in> set accounts \<union> set accounts'. length k = 32"
      "length accounts < 256" "length accounts' < 256"
  shows "\<exists>nonce nonce' instrs instrs' p p' j j'.
    executed rt accounts data (w_store w) nonce instrs p j \<and>
    executed rt accounts' data' (w_store v) nonce' instrs' p' j' \<and>
    (nonce = nonce' \<and> instrs = instrs' \<and> drop 4 accounts = drop 4 accounts' \<and>
       (\<forall>k \<in> set (drop 4 accounts). acc_is_signer (w_store w k) = acc_is_signer (w_store v k) \<and>
                                   acc_is_writable (w_store w k) = acc_is_writable (w_store v k))
     \<or> sha256_collision rt p p' \<or> sha256_collision rt j j')"
proof -
  have sha: "sha256_length rt" and B: "borsh_format (rt_borsh rt)" using laws by (simp_all add: chain_laws_def)
  obtain n cis p j params d pl ad c where a: "executed rt accounts data (w_store w) n cis p j"
    "payload_accepted rt sysvar params (hash rt p) d pl ad j c" "rp_id_consistent rt (rp_id_info d)"
    using execute_executed [OF laws runs(1) assms(3) ixs(1)] by blast
  obtain n' cis' p' j' params' d' pl' ad' c' where b: "executed rt accounts' data' (w_store v) n' cis' p' j'"
    "payload_accepted rt sysvar' params' (hash rt p') d' pl' ad' j' c'" "rp_id_consistent rt (rp_id_info d')"
    using execute_executed [OF laws runs(2) assms(4) ixs(2)] by blast
  have cases: "p = p' \<or> sha256_collision rt p p' \<or> sha256_collision rt j j'"
    using accepted_same_message [OF sha b64 a(2) b(2) msg a(3) b(3)] hash_eq_cases by blast
  have "n = n' \<and> cis = cis' \<and> drop 4 accounts = drop 4 accounts' \<and>
      (\<forall>k \<in> set (drop 4 accounts). acc_is_signer (w_store w k) = acc_is_signer (w_store v k) \<and>
        acc_is_writable (w_store w k) = acc_is_writable (w_store v k))" if "p = p'"
  proof -
    have pay: "instruction_payload rt (w_store w) n (drop 4 accounts) cis = Ok p"
      "instruction_payload rt (w_store v) n' (drop 4 accounts') cis' = Ok p"
      using a(1) b(1) that by (auto simp: executed_def)
    have lens: "length (nonce_slothash n) = 32" "length (nonce_slothash n') = 32"
      "length (signer_key n) = 32" "length (signer_key n') = 32"
      using a(1) b(1) keys(1) by (auto simp: executed_def)
    have ks: "\<forall>k \<in> set (drop 4 accounts). length k = 32" "\<forall>k \<in> set (drop 4 accounts'). length k = 32"
      using keys(1) in_set_dropD by fastforce+
    have small: "length (drop 4 accounts) < 256" "length (drop 4 accounts') < 256" "length cis < 256" "length cis' < 256"
      using keys(2,3) a(1) b(1) instructions_bounded [OF B] by (auto simp: executed_def)
    show ?thesis using instruction_payload_inj [OF B pay lens ks small] by blast
  qed
  with cases a(1) b(1) show ?thesis by blast
qed

end
