(* ===== verification/Simulation.thy ===== *)
theory Simulation
  imports Prelude
begin

text \<open>
  Runs of a system in time, invariants of runs, and refinement of one system by another: the
  interface between the program's transactions and the specification of wallets.
\<close>

text \<open>\<open>timed step t0 s0 t s\<close>: from \<open>s0\<close> at \<open>t0\<close> to \<open>s\<close> at \<open>t\<close>, with a clock that never goes back.\<close>

inductive timed :: "(i64 \<Rightarrow> 's \<Rightarrow> 's \<Rightarrow> bool) \<Rightarrow> i64 \<Rightarrow> 's \<Rightarrow> i64 \<Rightarrow> 's \<Rightarrow> bool" for step t0 s0 where
  timed_start [simp, intro]: "timed step t0 s0 t0 s0"
| timed_move: "\<lbrakk>timed step t0 s0 t s; t \<le> t'; step t' s s'\<rbrakk> \<Longrightarrow> timed step t0 s0 t' s'"

lemma timed_step: "t \<le> t' \<Longrightarrow> step t' s s' \<Longrightarrow> timed step t s t' s'"
  by (blast intro: timed_move)

text \<open>A property of state and time that every step keeps and that does not expire.\<close>

locale timed_invariant =
  fixes step :: "i64 \<Rightarrow> 's \<Rightarrow> 's \<Rightarrow> bool" and I :: "i64 \<Rightarrow> 's \<Rightarrow> bool"
  assumes later: "I t s \<Longrightarrow> t \<le> t' \<Longrightarrow> I t' s"
    and kept: "I t s \<Longrightarrow> step t s s' \<Longrightarrow> I t s'"
begin

lemma run: "timed step t0 s0 t s \<Longrightarrow> I t0 s0 \<Longrightarrow> I t s"
  by (induction rule: timed.induct) (blast intro: later kept)+

end

text \<open>
  Forward simulation by an abstraction function: under the concrete invariant every concrete step
  is an abstract one.
\<close>

locale simulation = timed_invariant step I
  for step :: "i64 \<Rightarrow> 'c \<Rightarrow> 'c \<Rightarrow> bool" and I :: "i64 \<Rightarrow> 'c \<Rightarrow> bool" +
  fixes astep :: "i64 \<Rightarrow> 'a \<Rightarrow> 'a \<Rightarrow> bool" and abs :: "'c \<Rightarrow> 'a"
  assumes simulates: "I t s \<Longrightarrow> step t s s' \<Longrightarrow> astep t (abs s) (abs s')"
begin

lemma refines:
  assumes "timed step t0 s0 t s" and "I t0 s0"
  shows "timed astep t0 (abs s0) t (abs s)"
  using assms
proof (induction rule: timed.induct)
  case (timed_move t s t' s')
  have "I t' s" using run [OF timed_move(1,5)] later timed_move(2) by blast
  then have "astep t' (abs s) (abs s')" using simulates timed_move(3) by blast
  with timed_move show ?case by (blast intro: timed.timed_move)
qed simp

text \<open>What the specification keeps, the implementation keeps.\<close>

lemma transfer:
  assumes "timed_invariant astep J" and "timed step t0 s0 t s" and "I t0 s0" and "J t0 (abs s0)"
  shows "J t (abs s)"
  using timed_invariant.run [OF assms(1) refines [OF assms(2,3)] assms(4)] .

end

end
