(* ===== verification/Wallet.thy ===== *)
theory Wallet
  imports Protocol Simulation
begin

text \<open>
  What the program promises, without bytes, parsers and accounts: a registry of wallets, each with
  a passkey, a relying party, a session key and a counter, and the log of the calls made with the
  wallets' authority.  The program of \<open>Protocol\<close> refines this specification, and what the
  specification keeps, every run of the program keeps.
\<close>

section \<open>The specification\<close>

record wallet =
  wallet_key :: bytes             \<comment> \<open>the compressed public key\<close>
  wallet_rp :: bytes              \<comment> \<open>the relying party id\<close>
  wallet_session :: session_key
  wallet_counter :: u64

type_synonym registry = "pubkey \<rightharpoonup> wallet"

record wallet_state =
  wallets :: registry
  calls :: "invocation list"

definition no_session_key :: session_key where
  "no_session_key = \<lparr>session_key_key = replicate 32 0, expiration = 0\<rparr>"

text \<open>
  \<open>consents\<close>: the passkey of the wallet has signed, with the user present and for the wallet's
  relying party, a WebAuthn assertion whose challenge is the given one; \<open>c\<close> is its counter.
\<close>

definition consents ::
  "runtime \<Rightarrow> (bytes \<Rightarrow> bytes \<Rightarrow> bytes \<Rightarrow> bool) \<Rightarrow> bytes \<Rightarrow> bytes \<Rightarrow> bytes \<Rightarrow> u32 \<Rightarrow> bool" where
  "consents rt ecdsa key rp challenge c \<longleftrightarrow>
     (\<exists>params ad j sig. ecdsa key (ad @ hash rt j) sig \<and>
        reconstruct_client_data_json rt params rp challenge = Ok j \<and>
        37 \<le> length ad \<and> take 32 ad = hash rt rp \<and> ad ! 32 AND 1 \<noteq> 0 \<and>
        c = u32_from_be (take 4 (drop 33 ad)))"

text \<open>A counter of zero counts nothing; any other one must grow.\<close>

definition admits :: "u32 \<Rightarrow> wallet \<Rightarrow> bool" where
  "admits c wl \<longleftrightarrow> c = 0 \<or> wallet_counter wl < ucast c"

definition counted :: "u32 \<Rightarrow> wallet \<Rightarrow> wallet" where
  "counted c wl = (if c = 0 then wl else wl\<lparr>wallet_counter := ucast c\<rparr>)"

text \<open>
  The calls that compiled instructions stand for, with the seeds of an execution account of the
  wallet at \<open>k\<close>; for an execution with the passkey, what has to be signed for them.
\<close>

definition wallet_calls ::
  "runtime \<Rightarrow> pubkey \<Rightarrow> store \<Rightarrow> account_info list \<Rightarrow> compiled_instruction list \<Rightarrow> invocation list \<Rightarrow> bool" where
  "wallet_calls rt k st rest cis ivs \<longleftrightarrow>
     (\<exists>scheme ea seeds. get_execution_account rt (p256_trait rt) st (account_of st k) scheme = Ok ea \<and>
        to_signer_seeds ea = Ok seeds \<and>
        ivs = map (expanded_invocation rest
                (create_instruction_execution_account_metas st rest ea scheme) seeds) cis)"

definition signed_calls ::
  "runtime \<Rightarrow> pubkey \<Rightarrow> store \<Rightarrow> bytes \<Rightarrow> invocation list \<Rightarrow> bool" where
  "signed_calls rt k st p ivs \<longleftrightarrow>
     (\<exists>nonce rest cis. instruction_payload rt st nonce rest cis = Ok p \<and> acc_is_signer (st (signer_key nonce)) \<and>
        wallet_calls rt k st rest cis ivs)"

text \<open>
  The steps: four operations, and anything that leaves wallets and log alone.  The time is the
  runtime's clock, and \<open>st\<close> shows the transaction's accounts: who signed, what is writable.
\<close>

inductive wallet_step ::
  "runtime \<Rightarrow> (bytes \<Rightarrow> bytes \<Rightarrow> bytes \<Rightarrow> bool) \<Rightarrow> store \<Rightarrow> wallet_state \<Rightarrow> wallet_state \<Rightarrow> bool"
  for rt ecdsa st where
  create:
    "\<lbrakk>wallets A k = None;
      try_find_program_address rt [ascii ''passkey'', hash rt (wallet_key wl)] crate_ID = Some (k, b);
      length (wallet_rp wl) \<le> 32; 0x22 \<notin> set (wallet_rp wl); wallet_counter wl = 0;
      wallet_session wl = (case sk of None \<Rightarrow> no_session_key | Some s \<Rightarrow> s);
      \<And>s. sk = Some s \<Longrightarrow> \<exists>now. clock_unix_timestamp rt = Ok now \<and> expiration s \<le> session_expiration_bound now;
      consents rt ecdsa (wallet_key wl) (wallet_rp wl)
        (hash rt (initialization_payload slothash payer p256_initialization_payload sk)) c; acc_is_signer (st payer)\<rbrakk>
     \<Longrightarrow> wallet_step rt ecdsa st A (A\<lparr>wallets := (wallets A)(k \<mapsto> counted c wl)\<rparr>)"
| execute:
    "\<lbrakk>wallets A k = Some wl; consents rt ecdsa (wallet_key wl) (wallet_rp wl) (hash rt p) c; admits c wl;
      signed_calls rt k st p ivs\<rbrakk>
     \<Longrightarrow> wallet_step rt ecdsa st A (A\<lparr>wallets := (wallets A)(k \<mapsto> counted c wl), calls := calls A @ ivs\<rparr>)"
| refresh:
    "\<lbrakk>wallets A k = Some wl; refresh_payload rt nonce sk = Ok p;
      consents rt ecdsa (wallet_key wl) (wallet_rp wl) (hash rt p) c; admits c wl;
      acc_is_signer (st (signer_key nonce)); clock_unix_timestamp rt = Ok now;
      now + expiration sk \<le> session_expiration_bound now\<rbrakk>
     \<Longrightarrow> wallet_step rt ecdsa st A
           (A\<lparr>wallets := (wallets A)(k \<mapsto> (counted c wl)\<lparr>wallet_session := refreshed_session_key now sk\<rparr>)\<rparr>)"
| session:
    "\<lbrakk>wallets A k = Some wl; acc_is_signer (st (session_key_key (wallet_session wl)));
      clock_unix_timestamp rt = Ok now; now \<le> expiration (wallet_session wl);
      wallet_calls rt k st rest cis ivs\<rbrakk>
     \<Longrightarrow> wallet_step rt ecdsa st A (A\<lparr>calls := calls A @ ivs\<rparr>)"
| idle: "wallet_step rt ecdsa st A A"

section \<open>The abstraction\<close>

definition wallet_of :: "p256_account_data \<Rightarrow> wallet" where
  "wallet_of d = \<lparr>wallet_key = sec1_bytes (public_key d), wallet_rp = stored_rp_id (rp_id_info d),
     wallet_session = p256_session_key d, wallet_counter = counter d\<rparr>"

definition registry :: "runtime \<Rightarrow> store \<Rightarrow> registry" where
  "registry rt st k =
     (if acc_owner (st k) \<noteq> crate_ID then None
      else case esa_data (p256_trait rt) st (account_of st k) of Ok d \<Rightarrow> Some (wallet_of d) | _ \<Rightarrow> None)"

definition wallet_view :: "runtime \<Rightarrow> world \<Rightarrow> wallet_state" where
  "wallet_view rt w = \<lparr>wallets = registry rt (w_store w), calls = w_invoked w\<rparr>"

lemma wallet_view_simps [simp]:
  "wallets (wallet_view rt w) = registry rt (w_store w)" "calls (wallet_view rt w) = w_invoked w"
  by (simp_all add: wallet_view_def)

lemma wallet_of_simps [simp]:
  "wallet_key (wallet_of d) = sec1_bytes (public_key d)" "wallet_rp (wallet_of d) = stored_rp_id (rp_id_info d)"
  "wallet_session (wallet_of d) = p256_session_key d" "wallet_counter (wallet_of d) = counter d"
  by (simp_all add: wallet_of_def)

lemma wallet_of_session: "wallet_of (d\<lparr>p256_session_key := k\<rparr>) = (wallet_of d)\<lparr>wallet_session := k\<rparr>"
  by (simp add: wallet_of_def)

lemma registry_Some: "registry rt st k = Some wl \<longleftrightarrow> (\<exists>d. p256_at rt st k d \<and> wl = wallet_of d)"
  by (auto simp: registry_def p256_at_def split: result.splits)

lemma registry_at: "p256_at rt st k d \<Longrightarrow> registry rt st k = Some (wallet_of d)"
  by (auto simp: registry_Some)

lemma registry_None: "registry rt st k = None \<longleftrightarrow> (\<forall>d. \<not> p256_at rt st k d)"
  using registry_Some [of rt st k] by (cases "registry rt st k") auto

lemma registry_cong:
  assumes "\<And>d. p256_at rt st' k d \<longleftrightarrow> p256_at rt st k d"
  shows "registry rt st' k = registry rt st k"
proof (cases "registry rt st k")
  case None
  then have "registry rt st' k = None" using assms by (simp add: registry_None)
  with None show ?thesis by simp
next
  case (Some wl)
  then have "registry rt st' k = Some wl" using assms by (simp add: registry_Some)
  with Some show ?thesis by simp
qed

lemma foreign_registry: "foreign_change st st' \<Longrightarrow> registry rt st' = registry rt st"
  by (rule ext, rule registry_cong, rule foreign_p256_at)

lemma frame_registry:
  assumes "\<forall>j. j \<noteq> k \<longrightarrow> (\<exists>l. st' j = (st j)\<lparr>acc_lamports := l\<rparr>)" and "p256_at rt st' k d'"
  shows "registry rt st' = (registry rt st)(k \<mapsto> wallet_of d')"
proof
  fix j
  show "registry rt st' j = ((registry rt st)(k \<mapsto> wallet_of d')) j"
  proof (cases "j = k")
    case True
    then show ?thesis using registry_at [OF assms(2)] by simp
  next
    case False
    then obtain l where "st' j = (st j)\<lparr>acc_lamports := l\<rparr>" using assms(1) by blast
    then show ?thesis using False registry_cong [of rt st' j st] by (simp add: p256_at_iff)
  qed
qed

lemma data_frame_registry:
  assumes "data_frame k st st'" and "p256_at rt st' k d'"
  shows "registry rt st' = (registry rt st)(k \<mapsto> wallet_of d')"
proof (rule frame_registry [OF _ assms(2)], intro allI impI)
  fix j assume "j \<noteq> k"
  then have "st' j = (st j)\<lparr>acc_lamports := acc_lamports (st j)\<rparr>"
    using assms(1) by (simp add: data_frame_def)
  then show "\<exists>l. st' j = (st j)\<lparr>acc_lamports := l\<rparr>" by blast
qed

section \<open>Each handler is a step of the specification\<close>

lemma signed_consents:
  assumes "passkey_signed rt ecdsa d params challenge c" and "rp_id_consistent rt (rp_id_info d)"
  shows "consents rt ecdsa (wallet_key (wallet_of d)) (wallet_rp (wallet_of d)) challenge c"
  using assms unfolding consents_def passkey_signed_def rp_id_consistent_def wallet_of_simps by metis

lemma counter_step_wallet:
  "counter_step c d d' \<Longrightarrow> wallet_of d' = counted c (wallet_of d) \<and> admits c (wallet_of d)"
  by (auto simp: counter_step_def counted_def admits_def wallet_of_def split: if_splits)

lemma verified_consents:
  assumes "precompiles_verified rt ecdsa st" and "instructions_try_from rt k (st k) = Ok sysvar"
    and "sha256_length rt" and "p256_verify_payload rt sysvar pv payload d = Ok d'"
    and "rp_id_consistent rt (rp_id_info d)"
  shows "\<exists>c. consents rt ecdsa (wallet_key (wallet_of d)) (wallet_rp (wallet_of d)) payload c \<and>
    admits c (wallet_of d) \<and> wallet_of d' = counted c (wallet_of d)"
proof -
  have "secp256r1_verified rt ecdsa sysvar" using assms(1,2) by (auto simp: precompiles_verified_def)
  from verify_payload_signed [OF this assms(3,4)] signed_consents [OF _ assms(5)] counter_step_wallet
  show ?thesis by blast
qed

lemma store_ok_rp: "store_ok rt st \<Longrightarrow> p256_at rt st k d \<Longrightarrow> rp_id_consistent rt (rp_id_info d)"
  by (auto simp: store_ok_def account_ok_def)

lemma initialize_wallet_step:
  assumes laws: "chain_laws rt" and pre: "precompiles_verified rt ecdsa (w_store w)"
    and run: "process_initialize_external_account rt accounts data w = Ok w'"
  shows "wallet_step rt ecdsa (w_store w) (wallet_view rt w) (wallet_view rt w')"
proof -
  have sha: "sha256_length rt" using laws by (simp add: chain_laws_def)
  obtain external payer pi sk slothash seeds ixs sysvar d' where
    empty: "acc_data (w_store w external) = []"
    and payer: "acc_is_signer (w_store w payer)"
    and seeds: "p256_derive_account rt (p256_args_of_init pi) = Ok seeds" "seeds_key seeds = external"
    and rp: "rp_id_consistent rt (parsed_rp_id_info pi)" and zero: "parsed_counter pi = 0"
    and ixs: "instructions_try_from rt ixs (w_store w ixs) = Ok sysvar"
    and ver: "p256_verify_initialization_payload rt sysvar pi
      (hash rt (initialization_payload slothash payer p256_initialization_payload sk)) (initialized_p256 pi sk) = Ok d'"
    and at: "p256_at rt (w_store w') external d'"
    and bound: "\<forall>s. sk = Some s \<longrightarrow>
      (\<exists>now. clock_unix_timestamp rt = Ok now \<and> expiration s \<le> session_expiration_bound now)"
    and others: "\<forall>k. k \<noteq> external \<longrightarrow> (\<exists>l. w_store w' k = (w_store w k)\<lparr>acc_lamports := l\<rparr>)"
    and invoked: "w_invoked w' = w_invoked w"
    using initialize_steps [OF _ _ _ _ run] laws unfolding chain_laws_def by blast
  let ?d = "initialized_p256 pi sk"
  have info: "rp_id_info ?d = parsed_rp_id_info pi" "public_key ?d = parsed_init_public_key pi"
    "counter ?d = 0" "p256_session_key ?d = (case sk of None \<Rightarrow> no_session_key | Some s \<Rightarrow> s)"
    using zero by (auto simp: initialized_p256_def no_session_key_def zero_p256_def split: option.splits)
  obtain c where c: "consents rt ecdsa (wallet_key (wallet_of ?d)) (wallet_rp (wallet_of ?d))
      (hash rt (initialization_payload slothash payer p256_initialization_payload sk)) c"
    "wallet_of d' = counted c (wallet_of ?d)"
    using verified_consents [OF pre ixs sha ver [unfolded p256_verify_initialization_payload_eq]] rp info(1) by auto
  have none: "registry rt (w_store w) external = None"
    using empty by (simp add: registry_None p256_at_iff)
  obtain b where "try_find_program_address rt [ascii ''passkey'', hash rt (sec1_bytes (parsed_init_public_key pi))]
      crate_ID = Some (external, b)"
    using seeds by (auto simp: p256_derive_account_Ok p256_args_of_init_def)
  moreover have "length (stored_rp_id (parsed_rp_id_info pi)) \<le> 32" "0x22 \<notin> set (stored_rp_id (parsed_rp_id_info pi))"
    using rp by (auto simp: rp_id_consistent_def stored_rp_id_def)
  moreover have "registry rt (w_store w') = (registry rt (w_store w))(external \<mapsto> counted c (wallet_of ?d))"
    using frame_registry [OF others at] c(2) by simp
  ultimately show ?thesis
    using wallet_step.create [of "wallet_view rt w" external rt "wallet_of ?d" b sk ecdsa slothash payer c "w_store w"]
      none info bound c(1) invoked payer by (simp add: wallet_view_def)
qed

lemma execute_wallet_step:
  assumes laws: "chain_laws rt" and pre: "precompiles_verified rt ecdsa (w_store w)"
    and ok: "store_ok rt (w_store w)"
    and run: "process_execute_instructions rt accounts data w = Ok w'"
  shows "wallet_step rt ecdsa (w_store w) (wallet_view rt w) (wallet_view rt w')"
proof -
  have bf: "borrow_faithful rt" and cpi: "cpi_respects_owner rt" and sha: "sha256_length rt"
    using laws by (simp_all add: chain_laws_def)
  obtain nonce :: nonce_data and pv sysvar ea p st d d' external ixs rest scheme seeds signer
    and args :: executable_instruction_args where
    signer: "acc_is_signer (w_store w signer)" "signer_key nonce = signer"
    and ixs: "instructions_try_from rt ixs (w_store w ixs) = Ok sysvar"
    and p: "instruction_payload rt (w_store w) nonce rest (exec_instructions args) = Ok p"
    and d: "p256_at rt (w_store w) external d"
    and ver: "p256_verify_payload rt sysvar pv (hash rt p) d = Ok d'"
    and d': "p256_at rt st external d'" and frame: "data_frame external (w_store w) st"
    and ea: "get_execution_account rt (p256_trait rt) (w_store w) (account_of (w_store w) external) scheme = Ok ea"
    and seeds: "to_signer_seeds ea = Ok seeds"
    and inv: "invoke_instructions rt rest (create_instruction_execution_account_metas (w_store w) rest ea scheme)
      ea (exec_instructions args) [] [] (w\<lparr>w_store := st\<rparr>) = Ok w'"
    using execute_steps [OF bf run] by blast
  define ivs where "ivs = map (expanded_invocation rest
    (create_instruction_execution_account_metas (w_store w) rest ea scheme) seeds) (exec_instructions args)"
  obtain c where c: "consents rt ecdsa (wallet_key (wallet_of d)) (wallet_rp (wallet_of d)) (hash rt p) c"
    "admits c (wallet_of d)" "wallet_of d' = counted c (wallet_of d)"
    using verified_consents [OF pre ixs sha ver store_ok_rp [OF ok d]] by blast
  have "registry rt (w_store w') = registry rt st"
    using foreign_registry [OF invoke_instructions_foreign [OF cpi _ seeds inv]] by simp
  also have "\<dots> = (registry rt (w_store w))(external \<mapsto> counted c (wallet_of d))"
    using data_frame_registry [OF frame d'] c(3) by simp
  finally have reg: "registry rt (w_store w') = (registry rt (w_store w))(external \<mapsto> counted c (wallet_of d))" .
  have log: "w_invoked w' = w_invoked w @ ivs"
    using inv by (auto simp: invoke_instructions_Ok [OF _ seeds] ivs_def)
  have "signed_calls rt external (w_store w) p ivs"
    unfolding signed_calls_def wallet_calls_def ivs_def using p ea seeds signer by blast
  from wallet_step.execute [of "wallet_view rt w" external "wallet_of d" rt ecdsa p c "w_store w" ivs] this
  show ?thesis using registry_at [OF d] c(1,2) reg log by (simp add: wallet_view_def)
qed

lemma refresh_wallet_step:
  assumes laws: "chain_laws rt" and pre: "precompiles_verified rt ecdsa (w_store w)"
    and ok: "store_ok rt (w_store w)"
    and run: "process_refresh_session_key rt accounts data w = Ok w'"
  shows "wallet_step rt ecdsa (w_store w) (wallet_view rt w) (wallet_view rt w')"
proof -
  have bf: "borrow_faithful rt" and B: "borsh_format (rt_borsh rt)" and sha: "sha256_length rt"
    using laws by (simp_all add: chain_laws_def)
  obtain external ixs d d' now p pv sysvar signer and args :: refresh_session_key_args and nonce :: nonce_data where
    d: "p256_at rt (w_store w) external d"
    and signer: "acc_is_signer (w_store w signer)" "signer_key nonce = signer"
    and p: "refresh_payload rt nonce (refresh_session_key args) = Ok p"
    and ixs: "instructions_try_from rt ixs (w_store w ixs) = Ok sysvar"
    and ver: "p256_verify_payload rt sysvar pv (hash rt p) d = Ok d'"
    and now: "clock_unix_timestamp rt = Ok now"
      "now + expiration (refresh_session_key args) \<le> session_expiration_bound now"
    and d': "p256_at rt (w_store w') external
      (d'\<lparr>p256_session_key := refreshed_session_key now (refresh_session_key args)\<rparr>)"
    and frame: "data_frame external (w_store w) (w_store w')" and log: "w_invoked w' = w_invoked w"
    using refresh_steps [OF bf B run] by blast
  obtain c where c: "consents rt ecdsa (wallet_key (wallet_of d)) (wallet_rp (wallet_of d)) (hash rt p) c"
    "admits c (wallet_of d)" "wallet_of d' = counted c (wallet_of d)"
    using verified_consents [OF pre ixs sha ver store_ok_rp [OF ok d]] by blast
  have "wallet_of (d'\<lparr>p256_session_key := k\<rparr>) = (counted c (wallet_of d))\<lparr>wallet_session := k\<rparr>" for k
    using c(3) by (simp add: wallet_of_session)
  with wallet_step.refresh [of "wallet_view rt w" external "wallet_of d" rt nonce "refresh_session_key args" p ecdsa c "w_store w" now]
  show ?thesis
    using registry_at [OF d] p c(1,2) now signer data_frame_registry [OF frame d'] log
    by (simp add: wallet_view_def)
qed

lemma sessioned_wallet_step:
  assumes laws: "chain_laws rt" and run: "process_execute_instructions_sessioned rt accounts data w = Ok w'"
  shows "wallet_step rt ecdsa (w_store w) (wallet_view rt w) (wallet_view rt w')"
proof -
  have bf: "borrow_faithful rt" and cpi: "cpi_respects_owner rt" using laws by (simp_all add: chain_laws_def)
  obtain external signer rest d scheme ea and args :: executable_instruction_sessioned_args where
    d: "p256_at rt (w_store w) external d" and live: "live_session rt (w_store w) signer d"
    and ea: "get_execution_account rt (p256_trait rt) (w_store w) (account_of (w_store w) external) scheme = Ok ea"
    and inv: "invoke_instructions rt rest (create_instruction_execution_account_metas (w_store w) rest ea scheme)
      ea (sess_instructions args) [] [] w = Ok w'"
    using run unfolding process_sessioned_iff [OF bf] by blast
  obtain seeds where seeds: "to_signer_seeds ea = Ok seeds" using get_execution_account_seeds [OF ea] by blast
  define ivs where "ivs = map (expanded_invocation rest
    (create_instruction_execution_account_metas (w_store w) rest ea scheme) seeds) (sess_instructions args)"
  have reg: "registry rt (w_store w') = registry rt (w_store w)"
    using foreign_registry [OF invoke_instructions_foreign [OF cpi _ seeds inv]] by simp
  have log: "w_invoked w' = w_invoked w @ ivs"
    using inv by (auto simp: invoke_instructions_Ok [OF _ seeds] ivs_def)
  obtain now where now: "clock_unix_timestamp rt = Ok now" "now \<le> expiration (p256_session_key d)"
    and signer: "acc_is_signer (w_store w signer)" "session_key_key (p256_session_key d) = signer"
    using live by (auto simp: live_session_def)
  have "wallet_calls rt external (w_store w) rest (sess_instructions args) ivs"
    unfolding wallet_calls_def ivs_def using ea seeds by blast
  from wallet_step.session [of "wallet_view rt w" external "wallet_of d" "w_store w" rt now, OF _ _ _ _ this, of ecdsa]
  show ?thesis using registry_at [OF d] now signer reg log by (simp add: wallet_view_def)
qed

lemma process_wallet_step:
  assumes laws: "chain_laws rt" and pre: "precompiles_verified rt ecdsa (w_store w)"
    and ok: "store_ok rt (w_store w)" and run: "process_instruction rt pid accounts data w = Ok w'"
  shows "wallet_step rt ecdsa (w_store w) (wallet_view rt w) (wallet_view rt w')"
proof -
  obtain b rest where "data = b # rest" using run by (cases data) (auto simp: process_instruction_def)
  then consider "process_initialize_external_account rt accounts rest w = Ok w'"
    | "process_execute_instructions rt accounts rest w = Ok w'"
    | "process_refresh_session_key rt accounts rest w = Ok w'"
    | "process_execute_instructions_sessioned rt accounts rest w = Ok w'"
    using run by (auto simp: process_instruction_def split: if_splits)
  then show ?thesis
    by cases (blast intro: initialize_wallet_step execute_wallet_step refresh_wallet_step sessioned_wallet_step
        laws pre ok)+
qed

section \<open>Runs\<close>

text \<open>
  Runs in time: the clock never goes back, and when an instruction of this program runs, the
  precompile instructions of its transaction have been verified.
\<close>

inductive program_step ::
  "runtime \<Rightarrow> (bytes \<Rightarrow> bytes \<Rightarrow> bytes \<Rightarrow> bool) \<Rightarrow> i64 \<Rightarrow> world \<Rightarrow> world \<Rightarrow> bool" for rt ecdsa t where
  run_instruction:
    "\<lbrakk>precompiles_verified rt ecdsa (w_store w);
      process_instruction (rt_at rt (Ok t) h) crate_ID accounts data w = Ok w'\<rbrakk>
     \<Longrightarrow> program_step rt ecdsa t w w'"
| run_other: "foreign_change (w_store w) st \<Longrightarrow> program_step rt ecdsa t w (w\<lparr>w_store := st\<rparr>)"

definition wallet_move ::
  "runtime \<Rightarrow> (bytes \<Rightarrow> bytes \<Rightarrow> bytes \<Rightarrow> bool) \<Rightarrow> i64 \<Rightarrow> wallet_state \<Rightarrow> wallet_state \<Rightarrow> bool" where
  "wallet_move rt ecdsa t A A' \<longleftrightarrow> (\<exists>h st. wallet_step (rt_at rt (Ok t) h) ecdsa st A A')"

definition program_run ::
  "runtime \<Rightarrow> (bytes \<Rightarrow> bytes \<Rightarrow> bytes \<Rightarrow> bool) \<Rightarrow> i64 \<Rightarrow> world \<Rightarrow> i64 \<Rightarrow> world \<Rightarrow> bool" where
  "program_run rt ecdsa = timed (program_step rt ecdsa)"

definition wallet_run ::
  "runtime \<Rightarrow> (bytes \<Rightarrow> bytes \<Rightarrow> bytes \<Rightarrow> bool) \<Rightarrow> i64 \<Rightarrow> wallet_state \<Rightarrow> i64 \<Rightarrow> wallet_state \<Rightarrow> bool" where
  "wallet_run rt ecdsa = timed (wallet_move rt ecdsa)"

lemma program_step_step: "program_step rt ecdsa t w w' \<Longrightarrow> step rt w w'"
  by (auto elim!: program_step.cases intro: step.intros)

lemma rt_at_registry [simp]: "registry (rt_at rt now h) st = registry rt st"
proof
  fix k
  show "registry (rt_at rt now h) st k = registry rt st k"
  proof (cases "registry rt st k")
    case None
    then have "registry (rt_at rt now h) st k = None" by (simp add: registry_None)
    with None show ?thesis by simp
  next
    case (Some wl)
    then have "registry (rt_at rt now h) st k = Some wl" by (simp add: registry_Some)
    with Some show ?thesis by simp
  qed
qed

lemma rt_at_view [simp]: "wallet_view (rt_at rt now h) w = wallet_view rt w"
  by (simp add: wallet_view_def)

lemma rt_at_store_ok [simp]: "store_ok (rt_at rt now h) st \<longleftrightarrow> store_ok rt st"
  by (simp add: store_ok_def)

lemma rt_at_precompiles [simp]: "precompiles_verified (rt_at rt now h) ecdsa st \<longleftrightarrow> precompiles_verified rt ecdsa st"
proof -
  have bytes: "verified_bytes (rt_at rt now h) = verified_bytes rt"
    unfolding fun_eq_iff verified_bytes_def rt_at_simps by simp
  have "verified_payload (rt_at rt now h) = verified_payload rt"
    unfolding fun_eq_iff verified_payload_def bytes by simp
  then show ?thesis
    unfolding precompiles_verified_def secp256r1_verified_def rt_at_simps by simp
qed

lemma rt_at_json [simp]: "reconstruct_client_data_json (rt_at rt now h) = reconstruct_client_data_json rt"
  unfolding fun_eq_iff reconstruct_client_data_json_def by (simp add: rt_at_def)

lemma rt_at_consents [simp]: "consents (rt_at rt now h) = consents rt"
  by (simp add: fun_eq_iff consents_def)

lemma rt_at_payloads [simp]:
  "instruction_payload (rt_at rt now h) = instruction_payload rt"
  "refresh_payload (rt_at rt now h) = refresh_payload rt"
  by (simp_all add: fun_eq_iff instruction_payload_def refresh_payload_def)

lemma rt_at_execution_account [simp]:
  "get_execution_account (rt_at rt now h) (p256_trait (rt_at rt now h)) = get_execution_account rt (p256_trait rt)"
proof -
  have "p256_derive_existing_account (rt_at rt now h) = p256_derive_existing_account rt"
    by (simp add: fun_eq_iff p256_derive_existing_account_def p256_derive_account_def)
  moreover have "esa_data (p256_trait (rt_at rt now h)) = esa_data (p256_trait rt)"
    by (simp add: fun_eq_iff esa_data_def)
  ultimately show ?thesis
    by (simp add: fun_eq_iff get_execution_account_def esa_derive_existing_account_def
        split: signer_execution_scheme.splits)
qed

lemma rt_at_wallet_calls [simp]:
  "wallet_calls (rt_at rt now h) = wallet_calls rt" "signed_calls (rt_at rt now h) = signed_calls rt"
  by (simp_all add: fun_eq_iff wallet_calls_def signed_calls_def)

text \<open>The invariant under which the program refines the wallets.\<close>

definition program_ok :: "runtime \<Rightarrow> world \<Rightarrow> bool" where
  "program_ok rt w \<longleftrightarrow> chain_laws rt \<and> store_ok rt (w_store w)"

lemma program_step_ok: "program_ok rt w \<Longrightarrow> program_step rt ecdsa t w w' \<Longrightarrow> program_ok rt w'"
  using evolves_store_ok step_evolves program_step_step unfolding program_ok_def by blast

lemma program_step_simulates:
  assumes "program_ok rt w" and "program_step rt ecdsa t w w'"
  shows "wallet_move rt ecdsa t (wallet_view rt w) (wallet_view rt w')"
  using assms(2)
proof (cases rule: program_step.cases)
  case (run_instruction h accounts data)
  have "wallet_step (rt_at rt (Ok t) h) ecdsa (w_store w) (wallet_view rt w) (wallet_view rt w')"
    using process_wallet_step [OF _ _ _ run_instruction(2)] run_instruction(1) assms(1)
    by (simp add: program_ok_def rt_at_laws)
  then show ?thesis unfolding wallet_move_def by blast
next
  case (run_other st)
  then have "wallet_view rt w' = wallet_view rt w"
    by (simp add: wallet_view_def foreign_registry [OF run_other(2)])
  then show ?thesis unfolding wallet_move_def by (metis wallet_step.idle)
qed

interpretation wallet_refinement: simulation "program_step rt ecdsa" "\<lambda>_. program_ok rt" "wallet_move rt ecdsa"
    "wallet_view rt" for rt ecdsa
  by unfold_locales (blast intro: program_step_ok program_step_simulates)+

section \<open>Where session keys come from\<close>

text \<open>
  \<open>session_granted\<close>: the session key is the empty one of an initialization without a session key,
  or the passkey signed it at an initialization, or it signed key and duration for a refresh, at
  some time up to \<open>t\<close> and within the limit of that time.
\<close>

definition session_granted ::
  "runtime \<Rightarrow> (bytes \<Rightarrow> bytes \<Rightarrow> bytes \<Rightarrow> bool) \<Rightarrow> i64 \<Rightarrow> wallet \<Rightarrow> bool" where
  "session_granted rt ecdsa t wl \<longleftrightarrow>
     wallet_session wl = no_session_key \<or>
     (\<exists>now slothash payer c. now \<le> t \<and> expiration (wallet_session wl) \<le> session_expiration_bound now \<and>
        consents rt ecdsa (wallet_key wl) (wallet_rp wl)
          (hash rt (initialization_payload slothash payer p256_initialization_payload (Some (wallet_session wl)))) c) \<or>
     (\<exists>now nonce sk p c. now \<le> t \<and> wallet_session wl = refreshed_session_key now sk \<and>
        now + expiration sk \<le> session_expiration_bound now \<and> refresh_payload rt nonce sk = Ok p \<and>
        consents rt ecdsa (wallet_key wl) (wallet_rp wl) (hash rt p) c)"

definition wallets_granted :: "runtime \<Rightarrow> (bytes \<Rightarrow> bytes \<Rightarrow> bytes \<Rightarrow> bool) \<Rightarrow> i64 \<Rightarrow> wallet_state \<Rightarrow> bool" where
  "wallets_granted rt ecdsa t A \<longleftrightarrow> (\<forall>k wl. wallets A k = Some wl \<longrightarrow> session_granted rt ecdsa t wl)"

lemma counted_simps [simp]:
  "wallet_key (counted c wl) = wallet_key wl" "wallet_rp (counted c wl) = wallet_rp wl"
  "wallet_session (counted c wl) = wallet_session wl"
  by (simp_all add: counted_def)

lemma session_granted_cong:
  "wallet_key wl = wallet_key wl' \<Longrightarrow> wallet_rp wl = wallet_rp wl' \<Longrightarrow> wallet_session wl = wallet_session wl'
     \<Longrightarrow> session_granted rt ecdsa t wl \<longleftrightarrow> session_granted rt ecdsa t wl'"
  by (simp add: session_granted_def)

lemma session_granted_later: "session_granted rt ecdsa t wl \<Longrightarrow> t \<le> t' \<Longrightarrow> session_granted rt ecdsa t' wl"
  unfolding session_granted_def by (meson order_trans)

lemma refreshed_granted:
  assumes "now \<le> t" and "now + expiration sk \<le> session_expiration_bound now"
    and "refresh_payload rt nonce sk = Ok p" and "consents rt ecdsa (wallet_key wl) (wallet_rp wl) (hash rt p) c"
  shows "session_granted rt ecdsa t (wl\<lparr>wallet_session := refreshed_session_key now sk\<rparr>)"
  unfolding session_granted_def
  by (intro disjI2 exI [of _ now] exI [of _ nonce] exI [of _ sk] exI [of _ p] exI [of _ c]) (simp add: assms)

lemma wallets_granted_upd:
  assumes "wallets_granted rt ecdsa t A" and "session_granted rt ecdsa t wl" and "wallets A' = (wallets A)(k \<mapsto> wl)"
  shows "wallets_granted rt ecdsa t A'"
  using assms by (simp add: wallets_granted_def)

lemma rt_at_clock [simp]: "clock_unix_timestamp (rt_at rt now h) = now"
  by (simp add: rt_at_def)

lemma wallet_step_granted:
  assumes "wallet_step (rt_at rt (Ok t) h) ecdsa st A A'" and granted: "wallets_granted rt ecdsa t A"
  shows "wallets_granted rt ecdsa t A'"
  using assms(1)
proof (cases rule: wallet_step.cases)
  case (create k wl b sk slothash payer c)
  have "session_granted rt ecdsa t (counted c wl)"
  proof (cases sk)
    case None
    then show ?thesis using create by (simp add: session_granted_def)
  next
    case (Some s)
    then have "wallet_session wl = s" "expiration s \<le> session_expiration_bound t"
      "consents rt ecdsa (wallet_key wl) (wallet_rp wl)
        (hash rt (initialization_payload slothash payer p256_initialization_payload (Some s))) c"
      using create by auto
    then show ?thesis by (auto simp: session_granted_def)
  qed
  from wallets_granted_upd [OF granted this] create show ?thesis by simp
next
  case (execute k wl p c ivs)
  then have "session_granted rt ecdsa t wl" using granted by (simp add: wallets_granted_def)
  then have "session_granted rt ecdsa t (counted c wl)" using session_granted_cong [of "counted c wl" wl] by simp
  from wallets_granted_upd [OF granted this] execute show ?thesis by simp
next
  case (refresh k wl nonce sk p c now)
  then have "session_granted rt ecdsa t ((counted c wl)\<lparr>wallet_session := refreshed_session_key t sk\<rparr>)"
    by (intro refreshed_granted [of t t sk rt nonce p ecdsa _ c]) simp_all
  from wallets_granted_upd [OF granted this] refresh show ?thesis by simp
next
  case (session k wl now rest cis ivs)
  then show ?thesis using granted by (simp add: wallets_granted_def)
qed (use granted in simp)

interpretation granted: timed_invariant "wallet_move rt ecdsa" "wallets_granted rt ecdsa" for rt ecdsa
proof
  show "wallets_granted rt ecdsa t' A" if "wallets_granted rt ecdsa t A" "t \<le> t'" for t t' A
    using that session_granted_later unfolding wallets_granted_def by blast
  show "wallets_granted rt ecdsa t A'" if "wallets_granted rt ecdsa t A" "wallet_move rt ecdsa t A A'" for t A A'
    using that wallet_step_granted unfolding wallet_move_def by blast
qed

lemma granted_bounded:
  assumes "session_granted rt ecdsa t wl" and "unat t + 7776000 < 2 ^ 64"
  shows "unat (expiration (wallet_session wl)) \<le> unat t + 7776000"
proof -
  have bound: "unat e \<le> unat t + 7776000" if "now \<le> t" and "e \<le> session_expiration_bound now" for now e
  proof -
    have "unat now \<le> unat t" using that(1) by (simp add: word_le_nat_alt)
    then have "unat (session_expiration_bound now) = unat now + 7776000"
      using assms(2) by (simp add: session_expiration_bound_def SESSION_KEY_EXPIRATION_LIMIT_def unat_word_ariths)
    with that \<open>unat now \<le> unat t\<close> show ?thesis by (simp add: word_le_nat_alt)
  qed
  consider "wallet_session wl = no_session_key"
    | now where "now \<le> t" "expiration (wallet_session wl) \<le> session_expiration_bound now"
    | now sk where "now \<le> t" "wallet_session wl = refreshed_session_key now sk"
        "now + expiration sk \<le> session_expiration_bound now"
    using assms(1) by (auto simp: session_granted_def)
  then show ?thesis
    by cases (simp_all add: no_session_key_def refreshed_session_key_def bound)
qed

section \<open>Properties\<close>

lemma fresh_start:
  assumes "chain_laws rt" and "\<forall>k. acc_owner (w_store w k) \<noteq> crate_ID"
  shows "program_ok rt w" "wallets_granted rt ecdsa t (wallet_view rt w)"
proof -
  have "\<not> p256_at rt (w_store w) k d" for k d using assms(2) by (simp add: p256_at_iff)
  with assms(1) show "program_ok rt w" "wallets_granted rt ecdsa t (wallet_view rt w)"
    by (auto simp: program_ok_def store_ok_def wallets_granted_def registry_Some)
qed

lemma run_session_granted:
  assumes "chain_laws rt" and "\<forall>k. acc_owner (w_store w0 k) \<noteq> crate_ID" and "program_run rt ecdsa t0 w0 t w"
    and "p256_at rt (w_store w) k d"
  shows "session_granted rt ecdsa t (wallet_of d)"
  using wallet_refinement.transfer [OF granted.timed_invariant_axioms assms(3) [unfolded program_run_def]
      fresh_start [OF assms(1,2)]] registry_at [OF assms(4)]
  by (simp add: wallets_granted_def)

text \<open>
  C2. The program refines the wallet specification: along every run, seen through the abstraction,
  the accounts and the log of inner calls move only by the specification's steps, each with the
  passkey's consent or a live session key, at the time of the run's clock.
\<close>

theorem program_refines_wallets:
  assumes "chain_laws rt" and "store_ok rt (w_store w0)" and "program_run rt ecdsa t0 w0 t w"
  shows "wallet_run rt ecdsa t0 (wallet_view rt w0) t (wallet_view rt w)"
  unfolding wallet_run_def
  by (rule wallet_refinement.refines [OF assms(3) [unfolded program_run_def]]) (simp add: program_ok_def assms)

text \<open>
  C30. Starting without accounts of the program, every session key an account ever holds is one its
  passkey signed, at its initialization or for a refresh, and it never lasts more than three
  months from now.
\<close>

theorem session_keys_are_granted:
  assumes "chain_laws rt" and "\<forall>k. acc_owner (w_store w0 k) \<noteq> crate_ID" and "program_run rt ecdsa t0 w0 t w"
    and "p256_at rt (w_store w) k d"
  shows "session_granted rt ecdsa t (wallet_of d) \<and>
    (unat t + 7776000 < 2 ^ 64 \<longrightarrow> unat (expiration (p256_session_key d)) \<le> unat t + 7776000)"
  using run_session_granted [OF assms] granted_bounded [of rt ecdsa t "wallet_of d"] by simp

text \<open>
  C1. Every inner call is authorised: what an instruction invokes on any state that can be reached
  from an empty program was signed by the passkey of one of the accounts, accounts, flags and
  instructions, or it was invoked under a session key that this passkey granted, that signed the
  transaction and that had not expired.
\<close>

theorem every_call_authorised:
  assumes laws: "chain_laws rt" and fresh: "\<forall>k. acc_owner (w_store w0 k) \<noteq> crate_ID"
    and run: "program_run rt ecdsa t0 w0 t w" and "t \<le> t'"
    and pre: "precompiles_verified rt ecdsa (w_store w)"
    and call: "process_instruction (rt_at rt (Ok t') h) crate_ID accounts data w = Ok w'"
  shows "\<exists>ivs. w_invoked w' = w_invoked w @ ivs \<and>
    (ivs = [] \<or>
     (\<exists>k d. p256_at rt (w_store w) k d \<and>
       ((\<exists>p c. consents rt ecdsa (sec1_bytes (public_key d)) (stored_rp_id (rp_id_info d)) (hash rt p) c \<and>
           signed_calls rt k (w_store w) p ivs) \<or>
        (session_granted rt ecdsa t (wallet_of d) \<and> t' \<le> expiration (p256_session_key d) \<and>
           acc_is_signer (w_store w (session_key_key (p256_session_key d))) \<and>
           (\<exists>rest cis. wallet_calls rt k (w_store w) rest cis ivs)))))"
proof -
  have ok: "store_ok rt (w_store w)"
    using wallet_refinement.run [OF run [unfolded program_run_def] fresh_start(1) [OF laws fresh]]
    by (simp add: program_ok_def)
  have "wallet_step (rt_at rt (Ok t') h) ecdsa (w_store w) (wallet_view rt w) (wallet_view rt w')"
    using process_wallet_step [OF _ _ _ call] laws pre ok by (simp add: rt_at_laws)
  then show ?thesis
  proof (cases rule: wallet_step.cases)
    case (execute k wl p c ivs)
    then obtain d where "p256_at rt (w_store w) k d" "wl = wallet_of d" by (auto simp: registry_Some)
    moreover from this execute have "w_invoked w' = w_invoked w @ ivs" "signed_calls rt k (w_store w) p ivs"
      "consents rt ecdsa (sec1_bytes (public_key d)) (stored_rp_id (rp_id_info d)) (hash rt p) c"
      by (simp_all add: wallet_view_def)
    ultimately show ?thesis by blast
  next
    case (session k wl now rest cis ivs)
    then obtain d where d: "p256_at rt (w_store w) k d" and wl: "wl = wallet_of d" by (auto simp: registry_Some)
    have "w_invoked w' = w_invoked w @ ivs" "wallet_calls rt k (w_store w) rest cis ivs"
      "acc_is_signer (w_store w (session_key_key (p256_session_key d)))" "t' \<le> expiration (p256_session_key d)"
      using session by (simp_all add: wallet_view_def wl)
    with run_session_granted [OF laws fresh run d] d show ?thesis by blast
  qed (auto simp: wallet_view_def)
qed

end
