(* ===== verification/SampleTransactions.thy ===== *)
theory SampleTransactions
  imports Entrypoint
begin

text \<open>
  Concrete transactions on the concrete runtime of \<open>Sample\<close>: one account with a passkey, the
  two sysvars, a nonce signer and a program to call.  They show that the hypotheses of the
  handlers' theorems hold together on runs that succeed.
\<close>

section \<open>The accounts\<close>

definition sample_address :: pubkey where
  "sample_address = ascii ''passkey'' @ replicate 25 2"

definition sample_signer :: pubkey where
  "sample_signer = replicate 32 9"

definition sample_program :: pubkey where
  "sample_program = replicate 32 7"

definition sample_ext :: "p256_account_data \<Rightarrow> account" where
  "sample_ext d = \<lparr>acc_owner = crate_ID, acc_lamports = 0, acc_data = p256_account_to_bytes d,
     acc_is_signer = False, acc_is_writable = True, acc_data_aligned = True\<rparr>"

definition sample_store :: "account \<Rightarrow> bytes \<Rightarrow> store" where
  "sample_store ext m = (\<lambda>k.
     if k = sample_address then ext
     else if k = INSTRUCTIONS_ID then sample_wallet\<lparr>acc_data := sample_sysvar m\<rparr>
     else if k = SLOT_HASHES_ID then sample_wallet\<lparr>acc_data := encode_slot_hashes sample_slots\<rparr>
     else sample_wallet)"

lemma sample_keys_distinct [simp]:
  "INSTRUCTIONS_ID \<noteq> sample_address" "SLOT_HASHES_ID \<noteq> sample_address" "SLOT_HASHES_ID \<noteq> INSTRUCTIONS_ID"
  "sample_signer \<noteq> sample_address" "sample_signer \<noteq> INSTRUCTIONS_ID" "sample_signer \<noteq> SLOT_HASHES_ID"
  "sample_program \<noteq> sample_address" "sample_program \<noteq> INSTRUCTIONS_ID" "sample_program \<noteq> SLOT_HASHES_ID"
  "sample_program \<noteq> crate_ID"
proof -
  have heads: "hd sample_address = 112" "hd INSTRUCTIONS_ID = 6" "hd SLOT_HASHES_ID = 6"
    "hd sample_signer = 9" "hd sample_program = 7" "hd crate_ID = 207"
    by (simp_all add: sample_address_def ascii_def INSTRUCTIONS_ID_def SLOT_HASHES_ID_def
        sample_signer_def sample_program_def crate_ID_def)
  have "INSTRUCTIONS_ID ! 4 \<noteq> SLOT_HASHES_ID ! 4" by (simp add: INSTRUCTIONS_ID_def SLOT_HASHES_ID_def)
  then show "SLOT_HASHES_ID \<noteq> INSTRUCTIONS_ID" by auto
  show "INSTRUCTIONS_ID \<noteq> sample_address" "SLOT_HASHES_ID \<noteq> sample_address"
    "sample_signer \<noteq> sample_address" "sample_signer \<noteq> INSTRUCTIONS_ID" "sample_signer \<noteq> SLOT_HASHES_ID"
    "sample_program \<noteq> sample_address" "sample_program \<noteq> INSTRUCTIONS_ID" "sample_program \<noteq> SLOT_HASHES_ID"
    "sample_program \<noteq> crate_ID"
    using heads by auto
qed

lemma sample_store_simps [simp]:
  "sample_store ext m sample_address = ext"
  "sample_store ext m INSTRUCTIONS_ID = sample_wallet\<lparr>acc_data := sample_sysvar m\<rparr>"
  "sample_store ext m SLOT_HASHES_ID = sample_wallet\<lparr>acc_data := encode_slot_hashes sample_slots\<rparr>"
  "sample_store ext m sample_signer = sample_wallet"
  "sample_store ext m sample_program = sample_wallet"
  by (simp_all add: sample_store_def)

section \<open>The runtime's laws hold\<close>

lemma sample_borrow_faithful: "borrow_faithful sample_runtime"
  by (simp add: borrow_faithful_def sample_runtime_def)

lemma sample_borsh_format: "borsh_format (rt_borsh sample_runtime)"
  by (simp add: ref.borsh_format_axioms)

lemma sample_system_program_laws: "system_program_laws sample_runtime"
  by (auto simp: system_program_laws_def sample_runtime_def Let_def)

lemma sample_instructions_try_from:
  "instructions_try_from sample_runtime k a = Ok s \<longleftrightarrow> k = INSTRUCTIONS_ID \<and> s = acc_data a"
  by (auto simp: sample_runtime_def)

lemma sample_precompiles_verified:
  assumes "length m < 65536"
  shows "precompiles_verified sample_runtime sample_ecdsa (sample_store ext m)"
  using sample_secp256r1_verified [OF assms]
  by (simp add: precompiles_verified_def sample_instructions_try_from)

section \<open>The pieces of a call\<close>

lemma sample_derive:
  "p256_derive_account sample_runtime \<lparr>derive_public_key = replicate 33 2\<rparr> =
     Ok \<lparr>seeds_key = sample_address, seeds_bump = 255, seed_passkey = ascii ''passkey'',
         seed_public_key_hash = replicate 32 2\<rparr>"
proof -
  have h: "hash sample_runtime (replicate 33 2) = replicate 32 2"
    by (simp add: hash_def hashv_def sample_runtime_def pad32_def)
  show ?thesis
    unfolding p256_derive_account_Ok
    by (simp add: h) (simp add: sample_runtime_def pad32_def sample_address_def)
qed

lemma sample_load:
  assumes "acc_owner ext = (if acc_data ext = [] then replicate 32 0 else crate_ID)"
  shows "esa_load sample_runtime (sample_store ext m) sample_address =
    Ok (account_of (sample_store ext m) sample_address)"
  using assms by (auto simp: esa_load_Ok account_of_def) (simp_all add: sample_runtime_def)

lemma length_p256_bytes: "p256_account_wf d \<Longrightarrow> length (p256_account_to_bytes d) = 152"
  by (rule p256_pod.enc_length)

lemma sample_load_ext:
  assumes "p256_account_wf d"
  shows "esa_load sample_runtime (sample_store (sample_ext d) m) sample_address =
    Ok (account_of (sample_store (sample_ext d) m) sample_address)"
  using length_p256_bytes [OF assms] by (intro sample_load) (auto simp: sample_ext_def)

lemma sample_data:
  assumes "p256_account_wf d" and "header_version (p256_header d) = 1" and "header_scheme (p256_header d) = 0"
  shows "esa_data (p256_trait rt) (sample_store (sample_ext d) m)
    (account_of (sample_store (sample_ext d) m) sample_address) = Ok d"
proof -
  have "esa_slice (sample_store (sample_ext d) m) (account_of (sample_store (sample_ext d) m) sample_address)
      = p256_account_to_bytes d"
    by (simp add: esa_slice_def account_of_def sample_ext_def)
  moreover have "acc_data_aligned (sample_ext d)" by (simp add: sample_ext_def)
  ultimately show ?thesis
    using assms p256.header_bytes [OF assms(1)] length_p256_bytes [OF assms(1)] p256_pod.dec_enc [OF assms(1)]
    by (simp add: p256.esa_data_Ok)
qed

lemma sample_nonce:
  "validate_nonce sample_runtime (sample_store ext m) sample_slot_hashes (TruncatedSlot 999) sample_signer
     = Ok \<lparr>signer_key = sample_signer, nonce_slothash = replicate 32 2\<rparr>"
  using validate_nonce_spec [of sample_runtime sample_slot_hashes "sample_store ext m" "TruncatedSlot 999" sample_signer]
  by (simp add: sample_slot_table sample_slots_descending sample_nonce_entry get_stack_height_def)
     (simp add: sample_runtime_def sample_wallet_def)

lemma sample_slot_hashes_try_from:
  "slot_hashes_try_from sample_runtime (sample_store ext m) SLOT_HASHES_ID = Ok sample_slot_hashes"
  by (simp add: slot_hashes_try_from_def sample_slot_hashes_def) (simp add: sample_runtime_def)

definition sample_extra :: bytes where
  "sample_extra = the (raw_verif_writer borsh_le
     \<lparr>raw_verif_public_key = replicate 33 2, raw_verif_params = sample_params\<rparr>)"

lemma sample_extra_Some:
  "raw_verif_writer borsh_le \<lparr>raw_verif_public_key = replicate 33 2, raw_verif_params = sample_params\<rparr>
     = Some sample_extra"
  by (simp add: sample_extra_def raw_verif_writer_def p256_raw_verification_data_serialize_def
      client_data_json_params_serialize_def write_option_def sample_params_def
      client_data_json_params_new_def new_with_optional_cross_origin_def Let_def)

lemma sample_extra_read:
  "try_from_slice (p256_raw_verification_data_deserialize borsh_le) sample_extra =
     Some \<lparr>raw_verif_public_key = replicate 33 2, raw_verif_params = sample_params\<rparr>"
  by (rule raw_verif.slice_round_trip [OF sample_extra_Some])

lemma sample_new_key: "compressed_p256_public_key_new (replicate 33 2) = Ok sample_public_key"
  by (simp add: compressed_p256_public_key_new_def slice_def index_def sample_public_key_def)

lemma sample_parse:
  "p256_parse_verification_data \<lparr>raw_verif_public_key = replicate 33 2, raw_verif_params = sample_params\<rparr>
     = Ok sample_verification_data"
  by (simp add: p256_parse_verification_data_def sample_new_key sample_verification_data_def)

lemma sample_check:
  assumes "p256_account_wf d" and "header_version (p256_header d) = 1" and "header_scheme (p256_header d) = 0"
  shows "\<exists>s. esa_check_account (p256_trait sample_runtime) (sample_store (sample_ext d) m)
    (account_of (sample_store (sample_ext d) m) sample_address) sample_verification_data = Ok s"
  using sample_data [OF assms] sample_derive
  by (auto simp: esa_check_account_def result_simps p256_args_of_verif_def sample_verification_data_def
      sample_sec1) (simp_all add: sample_ext_def)

lemma sample_execution_account:
  "get_execution_account sample_runtime T st a ExecutionAccount =
     Ok \<lparr>execution_key = pad32 (esa_key a @ ascii ''execution_account''), execution_bump = 255,
         execution_seeds = [esa_key a, ascii ''execution_account'']\<rparr>"
  by (simp add: get_execution_account_def Let_def sample_runtime_def)

lemma sample_esa_verify:
  assumes "esa_data (p256_trait sample_runtime) st a = Ok d"
    and "rp_id_info d = sample_rp" and "public_key d = sample_public_key" and "counter d < 7"
  shows "esa_verify_payload (p256_trait sample_runtime) st a (sample_sysvar (sample_message payload))
    sample_verification_data payload = Ok (esa_store (p256_trait sample_runtime) st a (d\<lparr>counter := 7\<rparr>))"
  using sample_verify [OF assms(2-4), of sample_verification_data payload] assms(1)
  by (simp add: esa_verify_payload_def sample_verification_data_def)

lemma sample_p256_fields:
  "header_version (p256_header sample_p256) = 1" "header_scheme (p256_header sample_p256) = 0"
  "rp_id_info sample_p256 = sample_rp" "public_key sample_p256 = sample_public_key" "counter sample_p256 < 7"
  by (simp_all add: sample_p256_def)

section \<open>An execution\<close>

definition sample_ci :: compiled_instruction where
  "sample_ci = \<lparr>program_id_index = 0, accounts_indices = [0, 0], ci_data = [42]\<rparr>"

text \<open>Any compiled instructions can be run; the sample transaction runs \<open>sample_ci\<close>.\<close>

definition sample_args_for :: "compiled_instruction list \<Rightarrow> executable_instruction_args" where
  "sample_args_for cis = \<lparr>exec_signature_scheme = 0, exec_signer_execution_scheme = 0,
     exec_slothash = TruncatedSlot 999, exec_extra_verification_data = sample_extra,
     exec_instructions = cis\<rparr>"

lemma sample_args_for_simps [simp]:
  "exec_signature_scheme (sample_args_for cis) = 0" "exec_signer_execution_scheme (sample_args_for cis) = 0"
  "exec_slothash (sample_args_for cis) = TruncatedSlot 999"
  "exec_extra_verification_data (sample_args_for cis) = sample_extra"
  "exec_instructions (sample_args_for cis) = cis"
  by (simp_all add: sample_args_for_def)

abbreviation sample_execute_args :: executable_instruction_args where
  "sample_execute_args \<equiv> sample_args_for [sample_ci]"

definition sample_execute_data :: bytes where
  "sample_execute_data = the (executable_instruction_args_serialize borsh_le sample_execute_args)"

lemma length_sample_extra: "length sample_extra = 37"
  by (simp add: sample_extra_def raw_verif_writer_def p256_raw_verification_data_serialize_def
      client_data_json_params_serialize_def write_option_def sample_params_def borsh_le_def
      client_data_json_params_new_def new_with_optional_cross_origin_def Let_def)

lemma sample_ci_Some: "compiled_instruction_serialize borsh_le sample_ci = Some [0, 2, 0, 0, 1, 0, 42]"
  by (simp add: compiled_instruction_serialize_def sample_ci_def small_vec_serialize_def
      serialize_slice_def borsh_le_def numeral_2_eq_2)

lemma sample_execute_read:
  "try_from_slice (executable_instruction_args_deserialize borsh_le) sample_execute_data = Some sample_execute_args"
proof (rule executable_instruction_args.slice_round_trip)
  show "executable_instruction_args_serialize borsh_le sample_execute_args = Some sample_execute_data"
    using length_sample_extra
    by (simp add: sample_execute_data_def executable_instruction_args_serialize_def
        truncated_slot_serialize_def small_vec_serialize_def serialize_slice_def no_u8_slice_def
        sample_ci_Some ref.w_slice)
qed

definition sample_execute_payload :: bytes where
  "sample_execute_payload = replicate 32 2 @ sample_signer @ ascii ''execute_instructions'' @
     [1] @ (sample_program @ [1, 1]) @ [1] @ [0, 2, 0, 0, 1, 0, 42]"

abbreviation sample_message_of :: "bytes \<Rightarrow> bytes" where
  "sample_message_of p \<equiv> sample_message (hash sample_runtime p)"

abbreviation sample_nonce_data :: nonce_data where
  "sample_nonce_data \<equiv> \<lparr>signer_key = sample_signer, nonce_slothash = replicate 32 2\<rparr>"

lemma sample_payload_ok:
  "instruction_payload sample_runtime (sample_store ext m) sample_nonce_data [sample_program] [sample_ci]
     = Ok sample_execute_payload"
  by (simp add: instruction_payload_def sample_ci_Some account_payload_def bool_u8_def
      sample_execute_payload_def) (simp add: sample_wallet_def)

definition sample_ea :: execution_account where
  "sample_ea = \<lparr>execution_key = pad32 (sample_address @ ascii ''execution_account''), execution_bump = 255,
     execution_seeds = [sample_address, ascii ''execution_account'']\<rparr>"

definition sample_accounts_for :: "account_info list \<Rightarrow> account_info list" where
  "sample_accounts_for rest = [sample_address, INSTRUCTIONS_ID, SLOT_HASHES_ID, sample_signer] @ rest"

definition sample_accounts :: "account_info list" where
  "sample_accounts = [sample_address, INSTRUCTIONS_ID, SLOT_HASHES_ID, sample_signer, sample_program]"

lemma sample_accounts_for: "sample_accounts = sample_accounts_for [sample_program]"
  by (simp add: sample_accounts_def sample_accounts_for_def)

definition sample_context_for ::
  "account \<Rightarrow> bytes \<Rightarrow> account_info list \<Rightarrow> compiled_instruction list
     \<Rightarrow> p256_parsed_verification_data execute_instructions_context" where
  "sample_context_for ext m rest cis = \<lparr>xc_nonce_data = sample_nonce_data, xc_execution_account = sample_ea,
     xc_verification_data = sample_verification_data,
     xc_account = account_of (sample_store ext m) sample_address,
     xc_instructions_sysvar = sample_sysvar m, xc_nonce_signer = sample_signer,
     xc_accounts = rest, xc_instructions = cis,
     xc_metas = create_instruction_execution_account_metas (sample_store ext m) rest
                  sample_ea ExecutionAccount\<rparr>"

abbreviation sample_context :: "account \<Rightarrow> bytes \<Rightarrow> p256_parsed_verification_data execute_instructions_context" where
  "sample_context ext m \<equiv> sample_context_for ext m [sample_program] [sample_ci]"

lemma scheme_zero [simp]: "signer_execution_scheme_try_from_primitive 0 = Some ExecutionAccount"
  "signature_scheme_try_from_primitive 0 = Some P256Webauthn"
  by (simp_all add: signer_execution_scheme_try_from_primitive_def signature_scheme_try_from_primitive_def)

lemma sample_execute_load:
  assumes "p256_account_wf d" and "header_version (p256_header d) = 1" and "header_scheme (p256_header d) = 0"
  shows "execute_instructions_load sample_runtime (p256_trait sample_runtime)
    (sample_store (sample_ext d) m) (sample_accounts_for rest) (sample_args_for cis) =
    Ok (sample_context_for (sample_ext d) m rest cis)"
proof -
  obtain s where s: "esa_check_account (p256_trait sample_runtime) (sample_store (sample_ext d) m)
      (account_of (sample_store (sample_ext d) m) sample_address) sample_verification_data = Ok s"
    using sample_check [OF assms] by blast
  have ixs: "instructions_try_from sample_runtime INSTRUCTIONS_ID (sample_wallet\<lparr>acc_data := sample_sysvar m\<rparr>)
      = Ok (sample_sysvar m)"
    by (simp add: sample_runtime_def)
  show ?thesis
    by (simp add: sample_accounts_for_def sample_extra_read sample_parse
        sample_load_ext [OF assms(1)] s ixs sample_slot_hashes_try_from sample_nonce
        sample_execution_account sample_context_for_def sample_ea_def esa_key_def)
qed

definition sample_world :: "account \<Rightarrow> bytes \<Rightarrow> world" where
  "sample_world ext m = \<lparr>w_store = sample_store ext m, w_invoked = []\<rparr>"

definition sample_invocation :: "store \<Rightarrow> invocation" where
  "sample_invocation st = expanded_invocation [sample_program]
     (create_instruction_execution_account_metas st [sample_program] sample_ea ExecutionAccount)
     [sample_address, ascii ''execution_account'', [255]] sample_ci"

lemma sample_seeds: "to_signer_seeds sample_ea = Ok [sample_address, ascii ''execution_account'', [255]]"
  by (simp add: to_signer_seeds_def sample_ea_def index_def)

lemma sample_invoke_all:
  assumes "\<forall>ci \<in> set cis. instruction_in_range (length rest) ci \<and> rest ! unat (program_id_index ci) \<noteq> crate_ID"
  shows "invoke_instructions sample_runtime rest
     (create_instruction_execution_account_metas st rest sample_ea ExecutionAccount) sample_ea cis [] [] w
   = Ok (w\<lparr>w_invoked := w_invoked w @ map (expanded_invocation rest
       (create_instruction_execution_account_metas st rest sample_ea ExecutionAccount)
       [sample_address, ascii ''execution_account'', [255]]) cis\<rparr>)"
proof -
  have "run_invocations sample_runtime ivs st' = Ok st'" for ivs st'
    by (induction ivs) (simp_all, simp add: sample_runtime_def)
  with assms show ?thesis by (subst invoke_instructions_Ok [OF _ sample_seeds]) simp_all
qed

lemma sample_ci_in_range:
  "\<forall>ci \<in> set [sample_ci]. instruction_in_range (length [sample_program]) ci \<and>
     [sample_program] ! unat (program_id_index ci) \<noteq> crate_ID"
  by (simp add: instruction_in_range_def sample_ci_def)

lemma sample_invoke:
  "invoke_instructions sample_runtime [sample_program]
     (create_instruction_execution_account_metas st [sample_program] sample_ea ExecutionAccount)
     sample_ea [sample_ci] [] [] w
   = Ok (w\<lparr>w_invoked := w_invoked w @ [sample_invocation st]\<rparr>)"
  unfolding sample_invoke_all [OF sample_ci_in_range] by (simp add: sample_invocation_def)

lemma sample_execute_run_all:
  assumes d: "d = sample_p256" and m: "m = sample_message_of p"
    and read: "try_from_slice (executable_instruction_args_deserialize borsh_le) data = Some (sample_args_for cis)"
    and p: "instruction_payload sample_runtime (sample_store (sample_ext d) m) sample_nonce_data rest cis = Ok p"
    and range: "\<forall>ci \<in> set cis. instruction_in_range (length rest) ci \<and> rest ! unat (program_id_index ci) \<noteq> crate_ID"
  shows "process_execute_instructions sample_runtime (sample_accounts_for rest) data
      (sample_world (sample_ext d) m) =
    Ok \<lparr>w_store = esa_store (p256_trait sample_runtime) (sample_store (sample_ext d) m)
          (account_of (sample_store (sample_ext d) m) sample_address) (d\<lparr>counter := 7\<rparr>),
        w_invoked = map (expanded_invocation rest (create_instruction_execution_account_metas
          (sample_store (sample_ext d) m) rest sample_ea ExecutionAccount)
          [sample_address, ascii ''execution_account'', [255]]) cis\<rparr>"
proof -
  have wf: "p256_account_wf d" by (simp add: d sample_p256_wf)
  note fields = sample_p256_fields [folded d]
  have h: "get_instruction_payload_hash sample_runtime (sample_store (sample_ext d) m)
      (sample_context_for (sample_ext d) m rest cis) = Ok (hash sample_runtime p)"
    by (simp add: get_instruction_payload_hash_def sample_context_for_def p)
  have v: "esa_verify_payload (p256_trait sample_runtime) (sample_store (sample_ext d) m)
      (account_of (sample_store (sample_ext d) m) sample_address) (sample_sysvar m)
      sample_verification_data (hash sample_runtime p) =
    Ok (esa_store (p256_trait sample_runtime) (sample_store (sample_ext d) m)
          (account_of (sample_store (sample_ext d) m) sample_address) (d\<lparr>counter := 7\<rparr>))"
    unfolding m by (rule sample_esa_verify [OF sample_data [OF wf fields(1,2)] fields(3-5)])
  show ?thesis
    unfolding process_execute_instructions_def
    by (simp add: read sample_world_def sample_execute_load [OF wf fields(1,2)] h
        del: invoke_instructions.simps)
       (simp add: sample_context_for_def v sample_invoke_all [OF range] del: invoke_instructions.simps)
qed

lemma sample_execute_run:
  assumes "d = sample_p256" and "m = sample_message_of sample_execute_payload"
  shows "process_execute_instructions sample_runtime sample_accounts sample_execute_data
      (sample_world (sample_ext d) m) =
    Ok \<lparr>w_store = esa_store (p256_trait sample_runtime) (sample_store (sample_ext d) m)
          (account_of (sample_store (sample_ext d) m) sample_address) (d\<lparr>counter := 7\<rparr>),
        w_invoked = [sample_invocation (sample_store (sample_ext d) m)]\<rparr>"
  using sample_execute_run_all [OF assms sample_execute_read sample_payload_ok sample_ci_in_range]
  by (simp add: sample_accounts_for sample_invocation_def)

abbreviation sample_execute_world :: world where
  "sample_execute_world \<equiv> sample_world (sample_ext sample_p256) (sample_message_of sample_execute_payload)"

lemma length_sample_message_of: "length (sample_message_of p) < 65536"
  by simp

lemma sample_execute_precompiles:
  "precompiles_verified sample_runtime sample_ecdsa (w_store (sample_world ext (sample_message_of p)))"
  using sample_precompiles_verified [OF length_sample_message_of] by (simp add: sample_world_def)

theorem execute_runs_what_was_signed_witness:
  "\<exists>w' d p. process_execute_instructions sample_runtime sample_accounts sample_execute_data sample_execute_world
       = Ok w' \<and> length (w_invoked w') = 1 \<and>
     execute_authorised sample_runtime sample_ecdsa sample_accounts sample_execute_data
       sample_execute_world w' d p"
  using execute_runs_what_was_signed [OF sample_borrow_faithful sample_sha256_length
      sample_execute_precompiles sample_execute_run [OF refl refl]]
    sample_execute_run [OF refl refl]
  by (metis One_nat_def length_Cons list.size(3) world.select_convs(2))

theorem invocation_loop_reference_witness:
  "\<forall>w. invoke_instructions sample_runtime [sample_program, crate_ID]
     (create_instruction_execution_account_metas (\<lambda>_. sample_wallet) [sample_program, crate_ID] sample_ea ExecutionAccount)
     sample_ea [sample_ci, \<lparr>program_id_index = 1, accounts_indices = [], ci_data = []\<rparr>] [] [] w = Panic"
proof
  fix w
  have runs: "invoke_signed sample_runtime iv st = Ok st" for iv st by (simp add: sample_runtime_def)
  show "invoke_instructions sample_runtime [sample_program, crate_ID]
     (create_instruction_execution_account_metas (\<lambda>_. sample_wallet) [sample_program, crate_ID] sample_ea ExecutionAccount)
     sample_ea [sample_ci, \<lparr>program_id_index = 1, accounts_indices = [], ci_data = []\<rparr>] [] [] w = Panic"
    by (subst invocation_loop_reference [OF _ sample_seeds])
       (simp_all add: runs sample_ci_def instruction_in_range_def Let_def)
qed

theorem execution_scheme_not_signed_witness:
  "\<exists>ctx'. execute_instructions_load sample_runtime (p256_trait sample_runtime) (sample_store (sample_ext sample_p256) [])
       sample_accounts (sample_execute_args\<lparr>exec_signer_execution_scheme := 1\<rparr>) = Ok ctx' \<and>
     get_instruction_payload_hash sample_runtime (sample_store (sample_ext sample_p256) []) ctx'
       = Ok (hash sample_runtime sample_execute_payload) \<and>
     execution_key (xc_execution_account ctx') = sample_address"
proof -
  let ?st = "sample_store (sample_ext sample_p256) []"
  let ?ea = "\<lparr>execution_key = sample_address, execution_bump = 255,
    execution_seeds = [ascii ''passkey'', replicate 32 2]\<rparr>"
  note wf = sample_p256_wf sample_p256_fields(1,2)
  have one: "signer_execution_scheme_try_from_primitive 1 = Some ExternalAccount"
    by (simp add: signer_execution_scheme_try_from_primitive_def)
  have ea: "get_execution_account sample_runtime (p256_trait sample_runtime) ?st
      (xc_account (sample_context (sample_ext sample_p256) [])) ExternalAccount = Ok ?ea"
    using sample_data [OF wf, of sample_runtime "[]"] sample_derive
    by (simp add: get_execution_account_def esa_derive_existing_account_def sample_context_for_def
        p256_derive_existing_account_def sample_p256_fields(4) sample_sec1 account_seeds_owned_def)
  have h: "get_instruction_payload_hash sample_runtime ?st (sample_context (sample_ext sample_p256) [])
      = Ok (hash sample_runtime sample_execute_payload)"
    by (simp add: get_instruction_payload_hash_def sample_context_for_def sample_payload_ok)
  show ?thesis
    using execution_scheme_not_signed [OF sample_execute_load [OF wf] one ea, folded sample_accounts_for] h by auto
qed

theorem execute_payload_injective_witness:
  "instruction_payload sample_runtime (sample_store (sample_ext sample_p256) [])
     \<lparr>signer_key = sample_signer, nonce_slothash = replicate 32 3\<rparr> [sample_program] [sample_ci]
   \<noteq> Ok sample_execute_payload"
proof
  let ?nonce = "\<lparr>signer_key = sample_signer, nonce_slothash = replicate 32 3\<rparr>"
  assume eq: "instruction_payload sample_runtime (sample_store (sample_ext sample_p256) []) ?nonce
    [sample_program] [sample_ci] = Ok sample_execute_payload"
  have "?nonce = sample_nonce_data"
    using execute_payload_injective [OF sample_borsh_format eq sample_payload_ok [of "sample_ext sample_p256" "[]"]]
    by (simp add: sample_signer_def sample_program_def)
  then show False by simp
qed

theorem inner_instructions_unescalated_witness:
  "\<exists>w' ivs ek. process_execute_instructions sample_runtime sample_accounts sample_execute_data sample_execute_world
       = Ok w' \<and> w_invoked w' = w_invoked sample_execute_world @ ivs \<and>
     (\<forall>iv \<in> set ivs. unescalated (w_store sample_execute_world) [sample_program] ek iv)"
proof -
  have rest: "drop 4 sample_accounts = [sample_program]" by (simp add: sample_accounts_def)
  show ?thesis
    using inner_instructions_unescalated [OF sample_borrow_faithful sample_execute_run [OF refl refl]]
      sample_execute_run [OF refl refl]
    unfolding rest by blast
qed

section \<open>A sessioned execution\<close>

definition sample_sessioned_args :: executable_instruction_sessioned_args where
  "sample_sessioned_args = \<lparr>sess_signature_scheme = 0, sess_signer_execution_scheme = 0,
     sess_instructions = [sample_ci]\<rparr>"

definition sample_sessioned_data :: bytes where
  "sample_sessioned_data = the (executable_instruction_sessioned_args_serialize borsh_le sample_sessioned_args)"

lemma sample_sessioned_read:
  "try_from_slice (executable_instruction_sessioned_args_deserialize borsh_le) sample_sessioned_data
     = Some sample_sessioned_args"
proof (rule sessioned_args.slice_round_trip)
  show "executable_instruction_sessioned_args_serialize borsh_le sample_sessioned_args = Some sample_sessioned_data"
    by (simp add: sample_sessioned_data_def executable_instruction_sessioned_args_serialize_def
        sample_sessioned_args_def small_vec_serialize_def serialize_slice_def no_u8_slice_def sample_ci_Some)
qed

definition sample_session_signer :: pubkey where
  "sample_session_signer = replicate 32 3"

lemma sample_session_signer_simps [simp]:
  "sample_session_signer \<noteq> sample_address" "sample_session_signer \<noteq> sample_program"
  "sample_signer \<noteq> sample_program" "sample_store ext m sample_session_signer = sample_wallet"
proof -
  have heads: "hd sample_session_signer = 3" "hd sample_address = 112" "hd INSTRUCTIONS_ID = 6"
    "hd SLOT_HASHES_ID = 6" "hd sample_program = 7" "hd sample_signer = 9"
    by (simp_all add: sample_address_def ascii_def INSTRUCTIONS_ID_def SLOT_HASHES_ID_def
        sample_session_signer_def sample_program_def sample_signer_def)
  then show "sample_session_signer \<noteq> sample_address" "sample_session_signer \<noteq> sample_program"
    "sample_signer \<noteq> sample_program" "sample_store ext m sample_session_signer = sample_wallet"
    by (auto simp: sample_store_def)
qed

lemma sample_p256_at:
  "p256_at rt (sample_store (sample_ext sample_p256) m) sample_address sample_p256"
  using sample_data [OF sample_p256_wf sample_p256_fields(1,2)]
  by (simp add: p256_at_def) (simp add: sample_ext_def)

lemma sample_live_session:
  "live_session sample_runtime (sample_store ext m) sample_session_signer sample_p256"
  by (simp add: live_session_def sample_wallet_def sample_p256_def sample_session_key_def)
     (simp add: sample_session_signer_def sample_runtime_def)

lemma sample_sessioned_run_all:
  assumes read: "try_from_slice (executable_instruction_sessioned_args_deserialize borsh_le) data = Some
      \<lparr>sess_signature_scheme = 0, sess_signer_execution_scheme = 0, sess_instructions = cis\<rparr>"
    and range: "\<forall>ci \<in> set cis. instruction_in_range (length rest) ci \<and> rest ! unat (program_id_index ci) \<noteq> crate_ID"
  shows "process_execute_instructions_sessioned sample_runtime
      (sample_address # sample_session_signer # rest) data (sample_world (sample_ext sample_p256) m) =
    Ok \<lparr>w_store = sample_store (sample_ext sample_p256) m,
        w_invoked = map (expanded_invocation rest (create_instruction_execution_account_metas
          (sample_store (sample_ext sample_p256) m) rest sample_ea ExecutionAccount)
          [sample_address, ascii ''execution_account'', [255]]) cis\<rparr>"
proof -
  let ?st = "sample_store (sample_ext sample_p256) m"
  let ?args = "\<lparr>sess_signature_scheme = 0, sess_signer_execution_scheme = 0, sess_instructions = cis\<rparr>"
  have ea: "get_execution_account sample_runtime (p256_trait sample_runtime) ?st
      (account_of ?st sample_address) ExecutionAccount = Ok sample_ea"
    by (simp add: sample_execution_account sample_ea_def esa_key_def)
  show ?thesis
    using read sample_load_ext [OF sample_p256_wf, of m] sample_p256_at [of sample_runtime m]
      sample_live_session [of "sample_ext sample_p256" m] ea
      sample_invoke_all [OF range, of ?st "sample_world (sample_ext sample_p256) m"]
    unfolding process_sessioned_iff [OF sample_borrow_faithful]
    by (intro exI [of _ ?args] exI [of _ sample_address] exI [of _ sample_session_signer]
        exI [of _ rest] exI [of _ "account_of ?st sample_address"] exI [of _ sample_p256]
        exI [of _ ExecutionAccount] exI [of _ sample_ea])
       (simp add: sample_world_def del: invoke_instructions.simps)
qed

lemma sample_sessioned_run:
  "process_execute_instructions_sessioned sample_runtime
      [sample_address, sample_session_signer, sample_program] sample_sessioned_data
      (sample_world (sample_ext sample_p256) m) =
    Ok \<lparr>w_store = sample_store (sample_ext sample_p256) m,
        w_invoked = [sample_invocation (sample_store (sample_ext sample_p256) m)]\<rparr>"
  using sample_sessioned_run_all [OF sample_sessioned_read [unfolded sample_sessioned_args_def] sample_ci_in_range]
  by (simp add: sample_invocation_def)

theorem sessioned_needs_live_session_key_witness:
  "\<exists>d signer. live_session sample_runtime (sample_store (sample_ext sample_p256) []) signer d"
  using sessioned_needs_live_session_key [OF sample_borrow_faithful sample_sessioned_run [of "[]"]]
  by (auto simp: sample_world_def)

section \<open>A refresh\<close>

definition sample_new_session_key :: session_key where
  "sample_new_session_key = \<lparr>session_key_key = replicate 32 4, expiration = 500\<rparr>"

definition sample_refresh_args :: refresh_session_key_args where
  "sample_refresh_args = \<lparr>refresh_slothash = TruncatedSlot 999, refresh_signature_scheme = 0,
     refresh_verification_data = sample_extra, refresh_session_key = sample_new_session_key\<rparr>"

definition sample_refresh_data :: bytes where
  "sample_refresh_data = the (refresh_session_key_args_serialize borsh_le sample_refresh_args)"

lemma sample_refresh_read:
  "try_from_slice (refresh_session_key_args_deserialize borsh_le) sample_refresh_data = Some sample_refresh_args"
proof (rule refresh_args.slice_round_trip)
  show "refresh_session_key_args_serialize borsh_le sample_refresh_args = Some sample_refresh_data"
    using length_sample_extra
    by (simp add: sample_refresh_data_def refresh_session_key_args_serialize_def sample_refresh_args_def
        truncated_slot_serialize_def small_vec_serialize_def serialize_slice_def ref.w_slice
        session_key_writer_def session_key_serialize_def session_key_wf_def sample_new_session_key_def)
qed

definition sample_refresh_payload :: bytes where
  "sample_refresh_payload = replicate 32 2 @ sample_signer @ ascii ''refresh_session_key'' @
     replicate 32 4 @ u64_to_le 500"

lemma sample_refresh_run_all:
  assumes d: "d = sample_p256" and m: "m = sample_message_of sample_refresh_payload"
  shows "\<exists>w'. process_refresh_session_key sample_runtime (sample_accounts_for rest) sample_refresh_data
      (sample_world (sample_ext d) m) = Ok w'"
proof -
  have wf: "p256_account_wf d" by (simp add: d sample_p256_wf)
  note fields = sample_p256_fields [folded d]
  let ?T = "p256_trait sample_runtime"
  let ?st = "sample_store (sample_ext d) m"
  let ?a = "account_of ?st sample_address"
  let ?ctx = "\<lparr>rc_nonce_data = sample_nonce_data, rc_verification_data = sample_verification_data,
    rc_account = ?a, rc_instructions_sysvar = sample_sysvar m, rc_nonce_signer = sample_signer,
    rc_session_key = sample_new_session_key\<rparr>"
  obtain s where s: "esa_check_account ?T ?st ?a sample_verification_data = Ok s"
    using sample_check [OF wf fields(1,2)] by blast
  have ixs: "instructions_try_from sample_runtime INSTRUCTIONS_ID (sample_wallet\<lparr>acc_data := sample_sysvar m\<rparr>)
      = Ok (sample_sysvar m)"
    by (simp add: sample_runtime_def)
  have load: "refresh_session_key_load sample_runtime ?T ?st (sample_accounts_for rest) sample_refresh_args = Ok ?ctx"
    by (simp add: sample_accounts_for_def sample_refresh_args_def sample_extra_read sample_parse
        sample_load_ext [OF wf] s ixs sample_slot_hashes_try_from sample_nonce)
  have h: "get_refresh_session_key_payload_hash sample_runtime ?ctx = Ok (hash sample_runtime sample_refresh_payload)"
    by (simp add: get_refresh_session_key_payload_hash_def refresh_payload_def session_key_serialize_def
        sample_new_session_key_def sample_refresh_payload_def ref.w_array ref.w_u64)
  have data: "esa_data ?T ?st ?a = Ok d" by (rule sample_data [OF wf fields(1,2)])
  let ?st1 = "esa_store ?T ?st ?a (d\<lparr>counter := 7\<rparr>)"
  have v: "esa_verify_payload ?T ?st ?a (sample_sysvar m) sample_verification_data
      (hash sample_runtime sample_refresh_payload) = Ok ?st1"
    unfolding m by (rule sample_esa_verify [OF data [unfolded m] fields(3-5)])
  have data1: "esa_data ?T ?st1 ?a = Ok (d\<lparr>counter := 7\<rparr>)"
    by (rule p256.esa_data_store [OF data]) (use wf in \<open>simp_all add: p256_account_wf_def\<close>)
  have clock: "clock_unix_timestamp sample_runtime = Ok 1000" by (simp add: sample_runtime_def)
  have bound: "expiration (refreshed_session_key 1000 sample_new_session_key) \<le> session_expiration_bound 1000"
    by (simp add: refreshed_session_key_def sample_new_session_key_def session_expiration_bound_def
        SESSION_KEY_EXPIRATION_LIMIT_def)
  have u: "\<exists>st2. esa_update_session_key ?T ?st1 ?a (refreshed_session_key 1000 sample_new_session_key) = Ok st2"
    using bound clock by (simp add: esa_update_session_key_def data1 result_simps)
  show ?thesis
    unfolding process_refresh_session_key_def
    using u by (auto simp: sample_refresh_read sample_world_def load h v clock
        sample_refresh_args_def [THEN arg_cong, of refresh_signature_scheme]
        sample_refresh_args_def [THEN arg_cong, of refresh_session_key])
qed

lemmas sample_refresh_run = sample_refresh_run_all [where rest = "[sample_program]", folded sample_accounts_for]

abbreviation sample_refresh_world :: world where
  "sample_refresh_world \<equiv> sample_world (sample_ext sample_p256) (sample_message_of sample_refresh_payload)"

theorem refresh_installs_signed_key_witness:
  "\<exists>w' external d'. process_refresh_session_key sample_runtime sample_accounts sample_refresh_data sample_refresh_world
     = Ok w' \<and> p256_at sample_runtime (w_store w') external
       (d'\<lparr>p256_session_key := \<lparr>session_key_key = replicate 32 4, expiration = 1500\<rparr>\<rparr>)"
proof -
  obtain w' where w': "process_refresh_session_key sample_runtime sample_accounts sample_refresh_data
      sample_refresh_world = Ok w'"
    using sample_refresh_run [OF refl refl] by blast
  have clock: "clock_unix_timestamp sample_runtime = Ok 1000" by (simp add: sample_runtime_def)
  from refresh_installs_signed_key [OF sample_borrow_faithful sample_sha256_length sample_borsh_format
      sample_execute_precompiles w'] w' show ?thesis
    by (auto simp: sample_refresh_read clock sample_refresh_args_def refreshed_session_key_def
        sample_new_session_key_def) blast
qed

section \<open>An initialization\<close>

definition sample_raw_init :: p256_raw_initialization_data where
  "sample_raw_init = \<lparr>raw_rp_id = ascii ''localhost'', raw_init_public_key = replicate 33 2,
     raw_init_params = sample_params\<rparr>"

definition sample_parsed_init :: p256_parsed_initialization_data where
  "sample_parsed_init = \<lparr>parsed_rp_id_info = sample_rp, parsed_init_public_key = sample_public_key,
     parsed_counter = 0, parsed_init_params = sample_params\<rparr>"

definition sample_init_bytes :: bytes where
  "sample_init_bytes = the (raw_init_writer borsh_le sample_raw_init)"

lemma sample_init_bytes_facts:
  "raw_init_writer borsh_le sample_raw_init = Some sample_init_bytes" "length sample_init_bytes = 47"
  by (simp_all add: sample_init_bytes_def raw_init_writer_def p256_raw_initialization_data_serialize_def
      sample_raw_init_def client_data_json_params_serialize_def write_option_def sample_params_def
      borsh_le_def client_data_json_params_new_def new_with_optional_cross_origin_def Let_def
      small_vec_serialize_def serialize_slice_def)

lemma sample_init_bytes_read:
  "try_from_slice (p256_raw_initialization_data_deserialize borsh_le) sample_init_bytes = Some sample_raw_init"
  by (rule raw_init.slice_round_trip [OF sample_init_bytes_facts(1)])

lemma sample_parse_init:
  "p256_parse_initialization_data sample_runtime sample_raw_init = Ok sample_parsed_init"
  using localhost_not_quote
  by (simp add: p256_parse_initialization_data_def sample_raw_init_def sample_parsed_init_def sample_new_key
      rp_id_information_new_def sample_rp_def overwrite_def)

definition sample_initialize_args :: initialize_account_args where
  "sample_initialize_args = \<lparr>init_slothash = TruncatedSlot 999, init_signature_scheme = 0,
     init_initialization_data = sample_init_bytes, init_session_key = Some sample_session_key\<rparr>"

definition sample_initialize_data :: bytes where
  "sample_initialize_data = the (initialize_account_args_serialize borsh_le sample_initialize_args)"

lemma sample_initialize_read:
  "try_from_slice (initialize_account_args_deserialize borsh_le) sample_initialize_data = Some sample_initialize_args"
proof (rule initialize_args.slice_round_trip)
  show "initialize_account_args_serialize borsh_le sample_initialize_args = Some sample_initialize_data"
    using sample_init_bytes_facts
    by (simp add: sample_initialize_data_def initialize_account_args_serialize_def sample_initialize_args_def
        truncated_slot_serialize_def small_vec_serialize_def serialize_slice_def ref.w_slice write_option_def
        session_key_writer_def session_key_serialize_def session_key_wf_def sample_session_key_def)
qed

definition sample_init_accounts :: "account_info list" where
  "sample_init_accounts = [sample_address, sample_signer, INSTRUCTIONS_ID, SLOT_HASHES_ID, replicate 32 0]"

definition sample_empty :: account where
  "sample_empty = sample_wallet\<lparr>acc_is_signer := False\<rparr>"

lemma sample_empty_simps [simp]:
  "acc_data sample_empty = []" "acc_owner sample_empty = replicate 32 0" "acc_data_aligned sample_empty"
  by (simp_all add: sample_empty_def sample_wallet_def)

definition sample_init_payload :: bytes where
  "sample_init_payload = initialization_payload (replicate 32 2) sample_signer p256_initialization_payload
     (Some sample_session_key)"

definition sample_init_seeds :: account_seeds where
  "sample_init_seeds = \<lparr>seeds_key = sample_address, seeds_bump = 255, seed_passkey = ascii ''passkey'',
     seed_public_key_hash = replicate 32 2\<rparr>"

lemma sample_initialize_load:
  "initialize_external_account_load sample_runtime (p256_trait sample_runtime) (sample_store sample_empty m)
     sample_init_accounts sample_initialize_args =
   Ok \<lparr>ic_slothash = replicate 32 2, ic_account = account_of (sample_store sample_empty m) sample_address,
      ic_rent_payer = sample_signer, ic_instructions_sysvar = sample_sysvar m,
      ic_system_program = replicate 32 0, ic_seeds = sample_init_seeds,
      ic_initialization_data = sample_parsed_init, ic_session_key = Some sample_session_key\<rparr>"
proof -
  have sys: "system_program_id sample_runtime = replicate 32 0" by (simp add: sample_runtime_def)
  have fresh: "check_account_uninitialized sample_runtime (sample_store sample_empty m) sample_address = Ok ()"
    by (simp add: check_account_uninitialized_def sys)
  have load: "esa_load sample_runtime (sample_store sample_empty m) sample_address =
      Ok (account_of (sample_store sample_empty m) sample_address)"
    by (rule sample_load) simp
  have ixs: "instructions_try_from sample_runtime INSTRUCTIONS_ID (sample_wallet\<lparr>acc_data := sample_sysvar m\<rparr>)
      = Ok (sample_sysvar m)"
    by (simp add: sample_runtime_def)
  have derive: "p256_derive_account sample_runtime (p256_args_of_init sample_parsed_init) = Ok sample_init_seeds"
    using sample_derive by (simp add: p256_args_of_init_def sample_parsed_init_def sample_sec1 sample_init_seeds_def)
  show ?thesis
    by (simp add: sample_init_accounts_def sample_initialize_args_def fresh load ixs sys
        sample_slot_hashes_try_from sample_nonce sample_init_bytes_read sample_parse_init derive esa_key_def)
       (simp add: sample_init_seeds_def)
qed

text \<open>After the system program's three calls.\<close>

lemma sample_create:
  assumes "esa_info (ic_account ctx) = sample_address" and "ic_rent_payer ctx = sample_signer"
  shows "\<exists>st. create_and_allocate_externally_signed_account sample_runtime (p256_trait sample_runtime) ctx
      (sample_store sample_empty m) = Ok (ctx\<lparr>ic_account := account_of st sample_address\<rparr>, st) \<and>
    acc_data (st sample_address) = replicate 152 0 \<and> acc_owner (st sample_address) = crate_ID \<and>
    acc_data_aligned (st sample_address)"
  using assms
  by (simp add: create_and_allocate_externally_signed_account_def Let_def esa_reload_def)
     (simp add: sample_runtime_def account_of_def Let_def sample_wallet_def)

lemma sample_initialize_fresh:
  assumes "acc_data (st k) = replicate 152 0" and "acc_owner (st k) = crate_ID" and "acc_data_aligned (st k)"
  shows "\<exists>st'. esa_initialize_account (p256_trait sample_runtime) st (account_of st k) pi
    (Some sample_session_key) = Ok st'"
proof -
  have slice: "esa_slice st (account_of st k) = replicate 152 0"
    by (simp add: esa_slice_def account_of_def assms(1))
  have header: "esa_header st (account_of st k) = Ok (account_header_from_bytes (replicate 4 0))"
    by (simp add: esa_header_def slice slice_def account_header_size_def)
  let ?h = "account_header_to_bytes (header_set (p256_trait sample_runtime) (account_header_from_bytes (replicate 4 0)))"
  have h: "?h = [1, 0, 0, 0]"
    by (simp add: header_set_def account_header_from_bytes_def account_header_to_bytes_def numeral_2_eq_2)
  let ?st1 = "esa_write st (account_of st k) [1, 0, 0, 0]"
  have slice1: "esa_slice ?st1 (account_of st k) = [1, 0, 0, 0] @ replicate 148 0"
    by (simp add: esa_slice_def account_of_def esa_write_def assms(1) overwrite_def)
  have data: "esa_data (p256_trait sample_runtime) ?st1 (account_of st k) = Ok zero_p256"
    unfolding p256.esa_data_Ok slice1 zero_p256_bytes [symmetric]
    using assms(3) by (simp add: esa_write_def)
  have clock: "clock_unix_timestamp sample_runtime = Ok 1000" by (simp add: sample_runtime_def)
  have "\<exists>d. p256_initialize_account sample_runtime pi (Some sample_session_key) zero_p256 = Ok d"
    by (simp add: result_simps clock sample_session_key_def session_expiration_bound_def
        SESSION_KEY_EXPIRATION_LIMIT_def)
  with h data show ?thesis
    by (auto simp: esa_initialize_account_def esa_initialize_header_def header)
qed

lemma sample_initialize_run:
  assumes m: "m = sample_message_of sample_init_payload"
  shows "\<exists>w'. process_initialize_external_account sample_runtime sample_init_accounts sample_initialize_data
      (sample_world sample_empty m) = Ok w'"
proof -
  let ?T = "p256_trait sample_runtime"
  let ?a = "account_of (sample_store sample_empty m) sample_address"
  define ctx where "ctx = \<lparr>ic_slothash = replicate 32 2, ic_account = ?a,
      ic_rent_payer = sample_signer, ic_instructions_sysvar = sample_sysvar m,
      ic_system_program = replicate 32 0, ic_seeds = sample_init_seeds,
      ic_initialization_data = sample_parsed_init, ic_session_key = Some sample_session_key\<rparr>"
  obtain st where create: "create_and_allocate_externally_signed_account sample_runtime ?T ctx
      (sample_store sample_empty m) = Ok (ctx\<lparr>ic_account := account_of st sample_address\<rparr>, st)"
    and st: "acc_data (st sample_address) = replicate 152 0" "acc_owner (st sample_address) = crate_ID"
      "acc_data_aligned (st sample_address)"
    using sample_create [of ctx m] by (auto simp: ctx_def)
  obtain st1 where init: "esa_initialize_account ?T st (account_of st sample_address) sample_parsed_init (Some sample_session_key) = Ok st1"
    using sample_initialize_fresh [where st = st and k = sample_address, OF st] by blast
  have wf: "parsed_init_wf sample_parsed_init"
    using sample_p256_wf by (simp add: parsed_init_wf_def sample_parsed_init_def p256_account_wf_def sample_p256_def)
  have at: "p256_at sample_runtime st1 sample_address (initialized_p256 sample_parsed_init (Some sample_session_key))"
    and frame: "data_frame sample_address st st1"
    using initialize_fresh [where st = st and k = sample_address, OF st(1,2) wf _ init]
    by (simp_all add: session_key_wf_def sample_session_key_def)
  have acct: "account_of st1 sample_address = account_of st sample_address"
    by (rule data_frame_account_of [OF frame])
  have data: "esa_data ?T st1 (account_of st sample_address) = Ok (initialized_p256 sample_parsed_init (Some sample_session_key))"
    using at by (simp add: p256_at_def acct)
  have ver: "p256_verify_initialization_payload sample_runtime (sample_sysvar m) sample_parsed_init
      (hash sample_runtime sample_init_payload) (initialized_p256 sample_parsed_init (Some sample_session_key)) =
      Ok ((initialized_p256 sample_parsed_init (Some sample_session_key))\<lparr>counter := 7\<rparr>)"
    unfolding m p256_verify_initialization_payload_eq
    by (rule sample_verify) (simp_all add: initialized_p256_def sample_parsed_init_def)
  have v: "esa_verify_initialization_payload ?T st1 (account_of st sample_address) (sample_sysvar m)
      sample_parsed_init (hash sample_runtime sample_init_payload) =
      Ok (esa_store ?T st1 (account_of st sample_address) ((initialized_p256 sample_parsed_init (Some sample_session_key))\<lparr>counter := 7\<rparr>))"
    by (simp add: esa_verify_initialization_payload_def data ver)
  have h: "get_initialization_payload_hash sample_runtime ctx p256_initialization_payload (ic_session_key ctx)
      = hash sample_runtime sample_init_payload"
    by (simp add: get_initialization_payload_hash_def ctx_def sample_init_payload_def)
  show ?thesis
    unfolding process_initialize_external_account_def
    by (simp add: sample_initialize_read sample_world_def sample_initialize_load [of m, folded ctx_def] h
        sample_initialize_args_def [THEN arg_cong, of init_signature_scheme] create Let_def)
       (simp add: ctx_def init v)
qed

abbreviation sample_init_world :: world where
  "sample_init_world \<equiv> sample_world sample_empty (sample_message_of sample_init_payload)"

lemma sample_submitted:
  "submitted_initialization sample_runtime sample_initialize_args pi \<longleftrightarrow> pi = sample_parsed_init"
  by (auto simp: submitted_initialization_def sample_initialize_args_def sample_init_bytes_read sample_parse_init)

theorem initialize_creates_account_witness:
  "\<exists>w' c. process_initialize_external_account sample_runtime sample_init_accounts
       sample_initialize_data sample_init_world = Ok w' \<and>
     p256_at sample_runtime (w_store w') sample_address (initialized_account sample_parsed_init (Some sample_session_key) c)"
proof -
  obtain w' where w': "process_initialize_external_account sample_runtime sample_init_accounts
       sample_initialize_data sample_init_world = Ok w'"
    using sample_initialize_run [OF refl] by blast
  from initialize_creates_account [OF sample_borrow_faithful sample_sha256_length sample_borsh_format
      sample_system_program_laws sample_execute_precompiles w']
  obtain external payer c where "take 2 sample_init_accounts = [external, payer]"
    "p256_at sample_runtime (w_store w') external
       (initialized_account sample_parsed_init (init_session_key sample_initialize_args) c)"
    by (auto simp: sample_initialize_read sample_submitted)
  with w' show ?thesis
    by (auto simp: sample_init_accounts_def sample_initialize_args_def)
qed

theorem initialize_only_once_witness:
  "process_initialize_external_account sample_runtime sample_init_accounts sample_initialize_data
     (sample_world (sample_ext sample_p256) []) = Err InvalidAccountOwner"
proof -
  have "hd crate_ID \<noteq> hd (replicate 32 0)" by (simp add: crate_ID_def)
  then have "crate_ID \<noteq> replicate 32 0" by metis
  then have "acc_owner (w_store (sample_world (sample_ext sample_p256) []) (hd sample_init_accounts))
      \<noteq> system_program_id sample_runtime"
    by (simp add: sample_world_def sample_init_accounts_def) (simp add: sample_ext_def sample_runtime_def)
  moreover have "init_signature_scheme sample_initialize_args = 0" "5 \<le> length sample_init_accounts"
    by (simp_all add: sample_initialize_args_def sample_init_accounts_def)
  ultimately show ?thesis
    using initialize_only_once [of sample_runtime sample_initialize_data sample_initialize_args
        sample_init_accounts "sample_world (sample_ext sample_p256) []"]
    by (simp add: sample_initialize_read)
qed

end
