(* ===== verification/SampleRuns.thy ===== *)
theory SampleRuns
  imports Protocol SampleTransactions
begin

text \<open>
  Concrete runs of the state machine of \<open>Protocol\<close>, made of the transactions of
  \<open>SampleTransactions\<close>: the theorems about runs applied where all their hypotheses hold.
\<close>

lemma sample_chain_laws: "chain_laws sample_runtime"
  using sample_borrow_faithful sample_sha256_length sample_borsh_format sample_system_program_laws
    foreign_change_refl
  by (simp add: chain_laws_def cpi_respects_owner_def) (simp add: sample_runtime_def)

lemma sample_rt_at: "rt_at sample_runtime (Ok 1000) 1 = sample_runtime"
  by (simp add: rt_at_def sample_runtime_def)

lemma sample_step:
  assumes "process_instruction sample_runtime crate_ID accounts data w = Ok w'"
  shows "(step sample_runtime)\<^sup>*\<^sup>* w w'"
  using step.instruction [of sample_runtime "Ok 1000" 1 accounts data w w'] assms
  by (simp add: sample_rt_at r_into_rtranclp)

abbreviation sample_executed_world :: world where
  "sample_executed_world \<equiv> \<lparr>w_store = esa_store (p256_trait sample_runtime) (w_store sample_execute_world)
      (account_of (w_store sample_execute_world) sample_address) (sample_p256\<lparr>counter := 7\<rparr>),
    w_invoked = [sample_invocation (w_store sample_execute_world)]\<rparr>"

lemma sample_execute_world_run:
  "process_execute_instructions sample_runtime sample_accounts sample_execute_data sample_execute_world
     = Ok sample_executed_world"
  using sample_execute_run [OF refl refl] by (simp add: sample_world_def)

lemma sample_execute_world_run_at:
  "process_execute_instructions (rt_at sample_runtime (Ok 1000) 1) sample_accounts sample_execute_data
     sample_execute_world = Ok sample_executed_world"
  unfolding sample_rt_at by (rule sample_execute_world_run)

lemma sample_execute_step: "(step sample_runtime)\<^sup>*\<^sup>* sample_execute_world sample_executed_world"
  by (rule sample_step [of sample_accounts "1 # sample_execute_data"])
     (simp add: process_instruction_def sample_execute_world_run)

lemma sample_world_p256_at:
  "p256_at rt (w_store (sample_world (sample_ext sample_p256) m)) sample_address sample_p256"
  by (simp add: sample_world_def sample_p256_at)

theorem identity_and_counter_witness:
  "\<exists>d'. p256_at sample_runtime (w_store sample_executed_world) sample_address d' \<and>
     public_key d' = sample_public_key \<and> 6 \<le> counter d'"
  using identity_and_counter [OF sample_chain_laws sample_execute_step sample_world_p256_at]
  by (auto simp: sample_p256_def)

lemma zeros_not_crate: "replicate 32 0 \<noteq> crate_ID"
proof -
  have "hd crate_ID \<noteq> hd (replicate 32 0)" by (simp add: crate_ID_def)
  then show ?thesis by metis
qed

lemma sample_init_fresh: "\<forall>k. acc_owner (w_store sample_init_world k) \<noteq> crate_ID"
proof -
  have "acc_owner (w_store sample_init_world k) = replicate 32 0" for k
    by (simp add: sample_world_def sample_store_def sample_wallet_def)
  then show ?thesis using zeros_not_crate by simp
qed

theorem reachable_accounts_ok_witness:
  "\<exists>w' k d. (step sample_runtime)\<^sup>*\<^sup>* sample_init_world w' \<and> p256_at sample_runtime (w_store w') k d \<and>
     rp_id_consistent sample_runtime (rp_id_info d)"
proof -
  obtain w' where run: "process_initialize_external_account sample_runtime sample_init_accounts
       sample_initialize_data sample_init_world = Ok w'"
    using sample_initialize_run [OF refl] by blast
  obtain k d where at: "p256_at sample_runtime (w_store w') k d"
    using initialize_steps [OF sample_borrow_faithful sample_sha256_length sample_borsh_format
      sample_system_program_laws run] by blast
  have step: "(step sample_runtime)\<^sup>*\<^sup>* sample_init_world w'"
    by (rule sample_step [of sample_init_accounts "0 # sample_initialize_data"])
       (simp add: process_instruction_def run)
  from reachable_accounts_ok [OF sample_chain_laws sample_init_fresh step at] at step show ?thesis by blast
qed

lemma sample_message_instructions:
  "precompile_message sample_runtime (sample_sysvar (sample_message p)) = Ok (sample_message p)"
  by (simp add: precompile_message_def sample_instruction_at sample_parser_new sample_get_payload)

lemma sample_message_counter: "message_counter (sample_message p) = 7"
proof -
  have "take 4 (drop 33 (sample_message p)) = rev (le_bytes 4 (unat (7 :: u32)))"
    by (simp add: sample_message_def sample_auth_data_def encode_auth_data_def)
  then show ?thesis using u32_from_be_rev [of 7] by (simp add: message_counter_def)
qed

lemma sample_sysvar_at:
  "instructions_try_from sample_runtime (sample_accounts ! 1)
     (w_store (sample_world ext (sample_message p)) (sample_accounts ! 1)) = Ok (sample_sysvar (sample_message p))"
  by (simp add: sample_instructions_try_from sample_accounts_def sample_world_def)

lemma sample_sysvar_after:
  "instructions_try_from sample_runtime (sample_accounts ! 1)
     (w_store sample_executed_world (sample_accounts ! 1)) = Ok (sample_sysvar (sample_message_of sample_execute_payload))"
  by (simp add: sample_instructions_try_from sample_accounts_def sample_world_def esa_store_def esa_write_def)

theorem no_replay_witness:
  "\<forall>w3. process_execute_instructions sample_runtime sample_accounts sample_execute_data sample_executed_world \<noteq> Ok w3"
proof
  fix w3
  have "message_counter (sample_message_of sample_execute_payload) \<noteq> 0" by (simp add: sample_message_counter)
  from no_replay [OF sample_chain_laws sample_execute_world_run_at
      sample_sysvar_at sample_message_instructions this rtranclp.rtrancl_refl refl
      sample_sysvar_after sample_message_instructions, of "Ok 1000" 1 sample_execute_data w3]
  show "process_execute_instructions sample_runtime sample_accounts sample_execute_data sample_executed_world \<noteq> Ok w3"
    unfolding sample_rt_at .
qed

lemma sample_store_ok: "store_ok sample_runtime (w_store (sample_world (sample_ext sample_p256) m))"
  unfolding store_ok_def
proof (intro allI impI)
  fix k d assume at: "p256_at sample_runtime (w_store (sample_world (sample_ext sample_p256) m)) k d"
  have k: "k = sample_address"
    using at zeros_not_crate
    by (auto simp: p256_at_iff sample_world_def sample_store_def sample_wallet_def split: if_splits)
  have "d = sample_p256" using p256_at_unique [OF at [unfolded k] sample_world_p256_at] .
  then show "account_ok sample_runtime k d"
    using sample_rp_consistent sample_derive k
    by (simp add: account_ok_def p256_derive_existing_account_def sample_p256_fields sample_sec1)
qed

theorem one_signature_one_execution_witness:
  "\<exists>nonce instrs p j. executed sample_runtime sample_accounts sample_execute_data (w_store sample_execute_world)
     nonce instrs p j"
proof -
  have keys: "\<forall>k \<in> set sample_accounts \<union> set sample_accounts. length k = 32" "length sample_accounts < 256"
    by (simp_all add: sample_accounts_def sample_address_def INSTRUCTIONS_ID_def SLOT_HASHES_ID_def
        sample_signer_def sample_program_def)
  from one_signature_one_execution [OF sample_chain_laws sample_base64_url_laws sample_store_ok sample_store_ok
      sample_execute_world_run sample_execute_world_run sample_sysvar_at sample_sysvar_at refl keys(1,2,2)]
  show ?thesis by blast
qed

text \<open>The payloads of the sample transactions are of different kinds.\<close>

theorem payload_domains_distinct_witness:
  "sample_execute_payload \<noteq> sample_refresh_payload \<and> sample_execute_payload \<noteq> sample_init_payload \<and>
   sample_refresh_payload \<noteq> sample_init_payload"
proof -
  have refresh: "refresh_payload sample_runtime sample_nonce_data sample_new_session_key = Ok sample_refresh_payload"
    by (simp add: refresh_payload_def session_key_serialize_def sample_new_session_key_def
        sample_refresh_payload_def ref.w_array ref.w_u64)
  show ?thesis
    by (rule payload_domains_distinct [OF sample_borsh_format sample_payload_ok refresh sample_init_payload_def])
       (simp_all add: sample_signer_def)
qed

end
