(* ===== verification/SampleWallet.thy ===== *)
theory SampleWallet
  imports Wallet SampleRuns
begin

text \<open>
  The theorems of \<open>Wallet\<close> on concrete runs: an execution with the passkey, and an account that is
  initialized with a session key, which then executes.
\<close>

lemma sample_program_run:
  assumes "precompiles_verified sample_runtime sample_ecdsa (w_store w)"
    and "process_instruction sample_runtime crate_ID accounts data w = Ok w'"
  shows "program_run sample_runtime sample_ecdsa 1000 w 1000 w'"
proof -
  have "program_step sample_runtime sample_ecdsa 1000 w w'"
    using run_instruction [OF assms(1), of 1000 1 accounts data w'] assms(2) by (simp add: sample_rt_at)
  then show ?thesis by (simp add: program_run_def timed_step)
qed

theorem program_refines_wallets_witness:
  "wallet_run sample_runtime sample_ecdsa 1000 (wallet_view sample_runtime sample_execute_world)
     1000 (wallet_view sample_runtime sample_executed_world)"
proof (rule program_refines_wallets [OF sample_chain_laws sample_store_ok sample_program_run])
  show "precompiles_verified sample_runtime sample_ecdsa (w_store sample_execute_world)"
    by (rule sample_execute_precompiles)
  show "process_instruction sample_runtime crate_ID sample_accounts (1 # sample_execute_data) sample_execute_world
      = Ok sample_executed_world"
    by (simp add: process_instruction_def sample_execute_world_run)
qed

section \<open>An account with a session key\<close>

lemma sample_initialized_world:
  "\<exists>w d. program_run sample_runtime sample_ecdsa 1000 sample_init_world 1000 w \<and>
     p256_at sample_runtime (w_store w) sample_address d \<and> p256_session_key d = sample_session_key \<and>
     (\<forall>k. k \<noteq> sample_address \<longrightarrow> (\<exists>l. w_store w k = (w_store sample_init_world k)\<lparr>acc_lamports := l\<rparr>))"
proof -
  obtain w where run: "process_initialize_external_account sample_runtime sample_init_accounts
       sample_initialize_data sample_init_world = Ok w"
    using sample_initialize_run [OF refl] by blast
  obtain external payer pi sysvar challenge d and args :: initialize_account_args where
    acc: "take 2 sample_init_accounts = [external, payer]"
    and args: "try_from_slice (initialize_account_args_deserialize (rt_borsh sample_runtime)) sample_initialize_data
      = Some args"
    and ver: "p256_verify_initialization_payload sample_runtime sysvar pi challenge
      (initialized_p256 pi (init_session_key args)) = Ok d"
    and at: "p256_at sample_runtime (w_store w) external d"
    and others: "\<forall>k. k \<noteq> external \<longrightarrow> (\<exists>l. w_store w k = (w_store sample_init_world k)\<lparr>acc_lamports := l\<rparr>)"
    using initialize_steps [OF sample_borrow_faithful sample_sha256_length sample_borsh_format
      sample_system_program_laws run] by blast
  have "external = sample_address" using acc by (simp add: sample_init_accounts_def)
  moreover have "init_session_key args = Some sample_session_key"
    using args sample_initialize_read by (auto simp: sample_initialize_args_def)
  then have "p256_session_key d = sample_session_key"
    using p256_verify_payload_counter [OF ver [unfolded p256_verify_initialization_payload_eq]]
    by (metis (no_types, lifting) initialized_p256_def option.simps(5) p256_account_data.select_convs(5)
        p256_account_data.surjective p256_account_data.update_convs(5,6))
  moreover have "program_run sample_runtime sample_ecdsa 1000 sample_init_world 1000 w"
    by (rule sample_program_run [of _ sample_init_accounts "0 # sample_initialize_data"])
       (simp_all add: sample_execute_precompiles process_instruction_def run)
  ultimately show ?thesis using at others by blast
qed

theorem session_keys_are_granted_witness:
  "\<exists>w d. program_run sample_runtime sample_ecdsa 1000 sample_init_world 1000 w \<and>
     p256_at sample_runtime (w_store w) sample_address d \<and> p256_session_key d = sample_session_key \<and>
     session_granted sample_runtime sample_ecdsa 1000 (wallet_of d)"
  using sample_initialized_world session_keys_are_granted [OF sample_chain_laws sample_init_fresh] by blast

lemma sample_session_call:
  assumes at: "p256_at sample_runtime (w_store w) sample_address d" and key: "p256_session_key d = sample_session_key"
    and others: "\<forall>k. k \<noteq> sample_address \<longrightarrow>
      (\<exists>l. w_store w k = (w_store sample_init_world k)\<lparr>acc_lamports := l\<rparr>)"
  shows "\<exists>iv. process_instruction sample_runtime crate_ID [sample_address, sample_session_signer, sample_program]
    (3 # sample_sessioned_data) w = Ok (w\<lparr>w_invoked := w_invoked w @ [iv]\<rparr>)"
proof -
  let ?st = "w_store w"
  have load: "esa_load sample_runtime ?st sample_address = Ok (account_of ?st sample_address)"
    using at by (auto simp: esa_load_Ok account_of_def p256_at_iff) (simp_all add: sample_runtime_def)
  obtain l where "?st sample_session_signer = (w_store sample_init_world sample_session_signer)\<lparr>acc_lamports := l\<rparr>"
    using others by (meson sample_session_signer_simps(1))
  then have "acc_is_signer (?st sample_session_signer)" by (simp add: sample_world_def sample_wallet_def)
  then have live: "live_session sample_runtime ?st sample_session_signer d"
    by (simp add: live_session_def key sample_session_key_def sample_session_signer_def)
       (simp add: sample_runtime_def)
  have ea: "get_execution_account sample_runtime (p256_trait sample_runtime) ?st
      (account_of ?st sample_address) ExecutionAccount = Ok sample_ea"
    by (simp add: sample_execution_account sample_ea_def esa_key_def)
  have "process_execute_instructions_sessioned sample_runtime
      [sample_address, sample_session_signer, sample_program] sample_sessioned_data w =
    Ok (w\<lparr>w_invoked := w_invoked w @ [sample_invocation ?st]\<rparr>)"
    using sample_sessioned_read load at live ea sample_invoke [of ?st w]
    unfolding process_sessioned_iff [OF sample_borrow_faithful]
    by (intro exI [of _ sample_sessioned_args] exI [of _ sample_address] exI [of _ sample_session_signer]
        exI [of _ "[sample_program]"] exI [of _ "account_of ?st sample_address"] exI [of _ d]
        exI [of _ ExecutionAccount] exI [of _ sample_ea])
       (simp add: sample_sessioned_args_def del: invoke_instructions.simps)
  then show ?thesis by (auto simp: process_instruction_def)
qed

lemma sample_init_precompiles:
  assumes "\<forall>k. k \<noteq> sample_address \<longrightarrow> (\<exists>l. w_store w k = (w_store sample_init_world k)\<lparr>acc_lamports := l\<rparr>)"
  shows "precompiles_verified sample_runtime sample_ecdsa (w_store w)"
proof -
  have pre: "precompiles_verified sample_runtime sample_ecdsa (w_store sample_init_world)"
    by (rule sample_execute_precompiles)
  obtain l where "w_store w INSTRUCTIONS_ID = (w_store sample_init_world INSTRUCTIONS_ID)\<lparr>acc_lamports := l\<rparr>"
    using assms by (meson sample_keys_distinct(1))
  then have "acc_data (w_store w INSTRUCTIONS_ID) = acc_data (w_store sample_init_world INSTRUCTIONS_ID)" by simp
  with pre show ?thesis by (auto simp: precompiles_verified_def sample_instructions_try_from)
qed

theorem every_call_authorised_witness:
  "\<exists>w w' iv. program_run sample_runtime sample_ecdsa 1000 sample_init_world 1000 w \<and>
     process_instruction sample_runtime crate_ID [sample_address, sample_session_signer, sample_program]
       (3 # sample_sessioned_data) w = Ok w' \<and> w_invoked w' = w_invoked w @ [iv] \<and>
     (\<exists>k d. p256_at sample_runtime (w_store w) k d \<and>
       ((\<exists>p c. consents sample_runtime sample_ecdsa (sec1_bytes (public_key d)) (stored_rp_id (rp_id_info d))
            (hash sample_runtime p) c) \<or>
        session_granted sample_runtime sample_ecdsa 1000 (wallet_of d)))"
proof -
  obtain w d where run: "program_run sample_runtime sample_ecdsa 1000 sample_init_world 1000 w"
    and at: "p256_at sample_runtime (w_store w) sample_address d" and key: "p256_session_key d = sample_session_key"
    and others: "\<forall>k. k \<noteq> sample_address \<longrightarrow> (\<exists>l. w_store w k = (w_store sample_init_world k)\<lparr>acc_lamports := l\<rparr>)"
    using sample_initialized_world by blast
  obtain iv where call: "process_instruction sample_runtime crate_ID
      [sample_address, sample_session_signer, sample_program] (3 # sample_sessioned_data) w
      = Ok (w\<lparr>w_invoked := w_invoked w @ [iv]\<rparr>)"
    using sample_session_call [OF at key others] by blast
  let ?w' = "w\<lparr>w_invoked := w_invoked w @ [iv]\<rparr>"
  obtain k d' where "p256_at sample_runtime (w_store w) k d'"
    and "(\<exists>p c. consents sample_runtime sample_ecdsa (sec1_bytes (public_key d')) (stored_rp_id (rp_id_info d'))
            (hash sample_runtime p) c) \<or>
        session_granted sample_runtime sample_ecdsa 1000 (wallet_of d')"
    using every_call_authorised [OF sample_chain_laws sample_init_fresh run order_refl sample_init_precompiles [OF others],
        of 1 "[sample_address, sample_session_signer, sample_program]" "3 # sample_sessioned_data", unfolded sample_rt_at,
        OF call] by force
  moreover have "w_invoked ?w' = w_invoked w @ [iv]" by simp
  ultimately show ?thesis using run call by blast
qed

end
