(* ===== verification/Sdk.thy ===== *)
theory Sdk
  imports Entrypoint
begin

text \<open>
  \<open>sdks/rust-sdk/src/\<close>, its common part: \<open>types.rs\<close>, \<open>error.rs\<close> and \<open>pda.rs\<close>.  The SDK runs on
  the client, so what it calls (the Solana client crates, OpenSSL) is a parameter of its own, the
  record \<open>sdk_lib\<close>.
\<close>

section \<open>Results\<close>

datatype sdk_error =
    InvalidSignatureFormat
  | InvalidSignatureLength
  | MessageTooLarge
  | SerializationError string
  | PdaDerivationFailed
  | InvalidRpId string
  | BorshError

datatype 'a sdk_result = Built 'a | Refused sdk_error | Aborted   \<comment> \<open>\<open>Ok\<close>, \<open>Err\<close>, a panic\<close>

fun built_then :: "'a sdk_result \<Rightarrow> ('a \<Rightarrow> 'b sdk_result) \<Rightarrow> 'b sdk_result" where
  "built_then (Built x) f = f x"
| "built_then (Refused e) f = Refused e"
| "built_then Aborted f = Aborted"

definition or_refuse :: "'a option \<Rightarrow> sdk_error \<Rightarrow> 'a sdk_result" where
  "or_refuse x e = (case x of Some v \<Rightarrow> Built v | None \<Rightarrow> Refused e)"

definition or_abort :: "'a option \<Rightarrow> 'a sdk_result" where
  "or_abort x = (case x of Some v \<Rightarrow> Built v | None \<Rightarrow> Aborted)"

named_theorems sdk_simps \<open>when an SDK computation succeeds\<close>

lemma built_then_Built [sdk_simps]: "built_then r f = Built y \<longleftrightarrow> (\<exists>x. r = Built x \<and> f x = Built y)"
  by (cases r) auto

lemma or_refuse_Built [sdk_simps]: "or_refuse x e = Built v \<longleftrightarrow> x = Some v"
  by (simp add: or_refuse_def split: option.splits)

lemma or_abort_Built [sdk_simps]: "or_abort x = Built v \<longleftrightarrow> x = Some v"
  by (simp add: or_abort_def split: option.splits)

lemma or_refuse_Some [simp]: "or_refuse (Some v) e = Built v" "or_abort (Some v) = Built v"
  by (simp_all add: or_refuse_def or_abort_def)

text \<open>\<open>SmallVec::try_from(v).map_err(|_| e)\<close>.\<close>

definition small_vec_or :: "len_type \<Rightarrow> 'a list \<Rightarrow> sdk_error \<Rightarrow> 'a small_vec sdk_result" where
  "small_vec_or L xs e = (case small_vec_try_from L xs of Inr v \<Rightarrow> Built v | Inl _ \<Rightarrow> Refused e)"

lemma small_vec_or_Built [sdk_simps]:
  "small_vec_or L xs e = Built v \<longleftrightarrow> v = xs \<and> length xs \<le> len_max L"
  by (auto simp: small_vec_or_def small_vec_try_from_def)

section \<open>Instructions and messages\<close>

record solana_instruction =
  six_program_id :: pubkey
  six_accounts :: "account_meta list"
  six_data :: bytes

text \<open>A legacy message, as the accessors of \<open>VersionedMessage\<close> show it.\<close>

record sdk_compiled_instruction =
  sci_program_id_index :: u8
  sci_accounts :: "u8 list"
  sci_data :: bytes

record sdk_message =
  num_required_signatures :: u8
  num_readonly_signed_accounts :: u8
  num_readonly_unsigned_accounts :: u8
  static_account_keys :: "pubkey list"
  message_instructions :: "sdk_compiled_instruction list"

text \<open>\<open>AccountMeta::new\<close> and \<open>AccountMeta::new_readonly\<close> of the client library.\<close>

definition meta_new :: "pubkey \<Rightarrow> bool \<Rightarrow> account_meta" where
  "meta_new k signer = \<lparr>meta_pubkey = k, meta_is_writable = True, meta_is_signer = signer\<rparr>"

definition meta_new_readonly :: "pubkey \<Rightarrow> bool \<Rightarrow> account_meta" where
  "meta_new_readonly k signer = \<lparr>meta_pubkey = k, meta_is_writable = False, meta_is_signer = signer\<rparr>"

lemma meta_new_simps [simp]:
  "meta_pubkey (meta_new k s) = k" "meta_pubkey (meta_new_readonly k s) = k"
  "meta_is_signer (meta_new k s) = s" "meta_is_signer (meta_new_readonly k s) = s"
  "meta_is_writable (meta_new k s)" "\<not> meta_is_writable (meta_new_readonly k s)"
  by (simp_all add: meta_new_def meta_new_readonly_def)

section \<open>The parameter\<close>

record sdk_lib =
  lib_hashv :: "bytes list \<Rightarrow> bytes"                          \<comment> \<open>\<open>solana_nostd_sha256::hashv\<close>\<close>
  lib_try_find_program_address :: "bytes list \<Rightarrow> pubkey \<Rightarrow> (pubkey \<times> u8) option"
  lib_pubkey_from_str :: "string \<Rightarrow> pubkey option"
  lib_system_program_id :: pubkey
  lib_secp256r1_id :: pubkey
  lib_message_new :: "solana_instruction list \<Rightarrow> pubkey \<Rightarrow> sdk_message option"
  lib_ecdsa_from_der :: "bytes \<Rightarrow> (int \<times> int) option"         \<comment> \<open>\<open>EcdsaSig::from_der\<close>: \<open>r\<close> and \<open>s\<close>\<close>
  lib_bn_from_slice :: "bytes \<Rightarrow> int option"                   \<comment> \<open>OpenSSL's \<open>BigNum\<close>\<close>
  lib_bn_checked_sub :: "int \<Rightarrow> int \<Rightarrow> int option"
  lib_bn_to_vec :: "int \<Rightarrow> bytes"
  lib_secp256r1_order :: bytes                              \<comment> \<open>constants of \<open>solana_secp256r1_program\<close>\<close>
  lib_data_start :: nat
  lib_pubkey_size :: nat
  lib_signature_size :: nat
  lib_borsh :: borsh

text \<open>The client and the chain compute the same documented functions.\<close>

definition lib_matches :: "sdk_lib \<Rightarrow> runtime \<Rightarrow> bool" where
  "lib_matches lib rt \<longleftrightarrow> lib_hashv lib = sol_sha256 rt \<and>
     lib_try_find_program_address lib = try_find_program_address rt \<and>
     lib_system_program_id lib = system_program_id rt \<and> lib_borsh lib = rt_borsh rt \<and>
     lib_secp256r1_id lib = SECP256R1_PRECOMPILE_ID"

text \<open>The layout constants of the precompile: two bytes, one block of offsets, then the data.\<close>

definition precompile_layout :: "sdk_lib \<Rightarrow> bool" where
  "precompile_layout lib \<longleftrightarrow>
     lib_data_start lib = 16 \<and> lib_pubkey_size lib = 33 \<and> lib_signature_size lib = 64"

text \<open>
  What a compiled legacy message promises: distinct keys, in the order writable signers,
  read-only signers, writable others, read-only others, with the header's counts as the borders;
  a key signs or is writable when the payer or some instruction says so; every instruction
  refers to its program and accounts by their positions.  Messages of more than 256 keys, whose
  positions do not fit a byte, are outside the promise.
\<close>

definition key_signs :: "solana_instruction list \<Rightarrow> pubkey \<Rightarrow> pubkey \<Rightarrow> bool" where
  "key_signs ixs payer k \<longleftrightarrow>
     k = payer \<or> (\<exists>ix \<in> set ixs. \<exists>m \<in> set (six_accounts ix). meta_pubkey m = k \<and> meta_is_signer m)"

definition key_writable :: "solana_instruction list \<Rightarrow> pubkey \<Rightarrow> pubkey \<Rightarrow> bool" where
  "key_writable ixs payer k \<longleftrightarrow>
     k = payer \<or> (\<exists>ix \<in> set ixs. \<exists>m \<in> set (six_accounts ix). meta_pubkey m = k \<and> meta_is_writable m)"

definition compiled_refers :: "pubkey list \<Rightarrow> sdk_compiled_instruction \<Rightarrow> solana_instruction \<Rightarrow> bool" where
  "compiled_refers keys c ix \<longleftrightarrow>
     unat (sci_program_id_index c) < length keys \<and> keys ! unat (sci_program_id_index c) = six_program_id ix \<and>
     (\<forall>i \<in> set (sci_accounts c). unat i < length keys) \<and>
     map (\<lambda>i. keys ! unat i) (sci_accounts c) = map meta_pubkey (six_accounts ix) \<and>
     sci_data c = six_data ix"

definition message_sound :: "solana_instruction list \<Rightarrow> pubkey \<Rightarrow> sdk_message \<Rightarrow> bool" where
  "message_sound ixs payer m \<longleftrightarrow>
     (let keys = static_account_keys m; required = unat (num_required_signatures m);
          ro_signed = unat (num_readonly_signed_accounts m);
          ro_unsigned = unat (num_readonly_unsigned_accounts m)
      in distinct keys \<and> ro_signed \<le> required \<and> required + ro_unsigned \<le> length keys \<and>
         (\<forall>i < length keys. (i < required \<longleftrightarrow> key_signs ixs payer (keys ! i)) \<and>
            ((if i < required then i < required - ro_signed else i < length keys - ro_unsigned)
               \<longleftrightarrow> key_writable ixs payer (keys ! i))) \<and>
         list_all2 (compiled_refers keys) (message_instructions m) ixs)"

definition message_laws :: "sdk_lib \<Rightarrow> bool" where
  "message_laws lib \<longleftrightarrow>
     (\<forall>ixs payer m. lib_message_new lib ixs payer = Some m \<longrightarrow> length (static_account_keys m) \<le> 256 \<longrightarrow>
        message_sound ixs payer m)"

section \<open>Data of a WebAuthn ceremony (\<open>types.rs\<close>)\<close>

record webauthn_data =
  wd_public_key :: bytes
  wd_signature :: bytes
  wd_auth_data :: bytes
  wd_client_data_json :: bytes
  wd_params :: client_data_json_params

definition webauthn_data_new ::
  "bytes \<Rightarrow> bytes \<Rightarrow> bytes \<Rightarrow> bytes \<Rightarrow> auth_type \<Rightarrow> bool \<Rightarrow> bool \<Rightarrow> bool \<Rightarrow> u16 option \<Rightarrow> webauthn_data" where
  "webauthn_data_new pk sig ad json ty cross_origin http google_extra p =
     \<lparr>wd_public_key = pk, wd_signature = sig, wd_auth_data = ad, wd_client_data_json = json,
      wd_params = client_data_json_params_new ty cross_origin http google_extra p\<rparr>"

section \<open>Addresses (\<open>pda.rs\<close>)\<close>

definition derive_passkey_account :: "sdk_lib \<Rightarrow> bytes \<Rightarrow> (pubkey \<times> u8) sdk_result" where
  "derive_passkey_account lib pk =
     (let public_key_hash = lib_hashv lib [pk]
      in or_refuse (lib_try_find_program_address lib [ascii ''passkey'', public_key_hash] crate_ID)
           PdaDerivationFailed)"

definition derive_execution_account :: "sdk_lib \<Rightarrow> pubkey \<Rightarrow> (pubkey \<times> u8) sdk_result" where
  "derive_execution_account lib passkey_account =
     or_refuse (lib_try_find_program_address lib [passkey_account, ascii ''execution_account''] crate_ID)
       PdaDerivationFailed"

end
