(* ===== verification/SdkSample.thy ===== *)
theory SdkSample
  imports Sdk
begin

text \<open>
  Concrete client libraries that keep every law the theorems on the SDK name: the message
  compiler orders the keys as the legacy format prescribes, big numbers are integers.
\<close>

section \<open>Compiling a message\<close>

definition message_keys :: "solana_instruction list \<Rightarrow> pubkey \<Rightarrow> pubkey list" where
  "message_keys ixs payer =
     (let ks = first_occurrences
           (payer # concat (map (\<lambda>ix. map meta_pubkey (six_accounts ix)) ixs) @ map six_program_id ixs);
          signs = key_signs ixs payer; writes = key_writable ixs payer
      in filter (\<lambda>k. signs k \<and> writes k) ks @ filter (\<lambda>k. signs k \<and> \<not> writes k) ks @
         filter (\<lambda>k. \<not> signs k \<and> writes k) ks @ filter (\<lambda>k. \<not> signs k \<and> \<not> writes k) ks)"

fun position :: "'a \<Rightarrow> 'a list \<Rightarrow> nat" where
  "position x [] = 0"
| "position x (y # ys) = (if x = y then 0 else Suc (position x ys))"

definition sample_message_new :: "solana_instruction list \<Rightarrow> pubkey \<Rightarrow> sdk_message option" where
  "sample_message_new ixs payer =
     (let keys = message_keys ixs payer; signs = key_signs ixs payer; writes = key_writable ixs payer;
          count = (\<lambda>P. length (filter P keys))
      in if 256 \<le> length keys then None
         else Some \<lparr>num_required_signatures = of_nat (count signs),
           num_readonly_signed_accounts = of_nat (count (\<lambda>k. signs k \<and> \<not> writes k)),
           num_readonly_unsigned_accounts = of_nat (count (\<lambda>k. \<not> signs k \<and> \<not> writes k)),
           static_account_keys = keys,
           message_instructions = map (\<lambda>ix.
             \<lparr>sci_program_id_index = of_nat (position (six_program_id ix) keys),
              sci_accounts = map (\<lambda>m. of_nat (position (meta_pubkey m) keys)) (six_accounts ix),
              sci_data = six_data ix\<rparr>) ixs\<rparr>)"

lemma unat_of_nat_byte: "n < 256 \<Longrightarrow> unat (of_nat n :: u8) = n"
  by (simp add: unat_of_nat)

lemma position_nth: "x \<in> set xs \<Longrightarrow> position x xs < length xs \<and> xs ! position x xs = x"
  by (induction xs) auto

text \<open>A list in two parts that a predicate tells apart.\<close>

lemma border:
  assumes "\<forall>x \<in> set xs. P x" and "\<forall>y \<in> set ys. \<not> P y" and "i < length (xs @ ys)"
  shows "P ((xs @ ys) ! i) \<longleftrightarrow> i < length xs"
  using assms by (auto simp: nth_append)

lemma filter_all: "\<forall>x \<in> set xs. P x \<Longrightarrow> filter P xs = xs" "\<forall>x \<in> set xs. \<not> P x \<Longrightarrow> filter P xs = []"
  by (simp_all add: filter_empty_conv)

lemma sample_message_sound:
  assumes "sample_message_new ixs payer = Some m"
  shows "message_sound ixs payer m"
proof -
  let ?signs = "key_signs ixs payer" and ?writes = "key_writable ixs payer"
  define ks where "ks = first_occurrences
    (payer # concat (map (\<lambda>ix. map meta_pubkey (six_accounts ix)) ixs) @ map six_program_id ixs)"
  define a b c d where parts: "a = filter (\<lambda>k. ?signs k \<and> ?writes k) ks"
    "b = filter (\<lambda>k. ?signs k \<and> \<not> ?writes k) ks"
    "c = filter (\<lambda>k. \<not> ?signs k \<and> ?writes k) ks" "d = filter (\<lambda>k. \<not> ?signs k \<and> \<not> ?writes k) ks"
  have keys: "message_keys ixs payer = a @ b @ c @ d"
    by (simp add: message_keys_def Let_def ks_def parts)
  have kinds: "\<forall>k \<in> set a. ?signs k \<and> ?writes k" "\<forall>k \<in> set b. ?signs k \<and> \<not> ?writes k"
    "\<forall>k \<in> set c. \<not> ?signs k \<and> ?writes k" "\<forall>k \<in> set d. \<not> ?signs k \<and> \<not> ?writes k"
    by (auto simp: parts)
  have dist: "distinct (a @ b @ c @ d)" by (auto simp: parts ks_def)
  have members: "set (a @ b @ c @ d) = set ks" by (auto simp: parts)
  have short: "length (a @ b @ c @ d) < 256"
    and m: "m = \<lparr>num_required_signatures = of_nat (length (a @ b)),
           num_readonly_signed_accounts = of_nat (length b), num_readonly_unsigned_accounts = of_nat (length d),
           static_account_keys = a @ b @ c @ d,
           message_instructions = map (\<lambda>ix.
             \<lparr>sci_program_id_index = of_nat (position (six_program_id ix) (a @ b @ c @ d)),
              sci_accounts = map (\<lambda>m. of_nat (position (meta_pubkey m) (a @ b @ c @ d))) (six_accounts ix),
              sci_data = six_data ix\<rparr>) ixs\<rparr>"
    using assms kinds
    by (auto simp: sample_message_new_def Let_def keys filter_all split: if_splits)
  have counts: "unat (of_nat (length (a @ b)) :: u8) = length (a @ b)" "unat (of_nat (length b) :: u8) = length b"
    "unat (of_nat (length d) :: u8) = length d"
    by (rule unat_of_nat_byte; use short in simp)+
  have pos: "unat (of_nat (position k (a @ b @ c @ d)) :: u8) = position k (a @ b @ c @ d)"
    "position k (a @ b @ c @ d) < length (a @ b @ c @ d)" "(a @ b @ c @ d) ! position k (a @ b @ c @ d) = k"
    if "k \<in> set ks" for k
  proof -
    have "k \<in> set (a @ b @ c @ d)" unfolding members by (rule that)
    note p = position_nth [OF this]
    show "position k (a @ b @ c @ d) < length (a @ b @ c @ d)"
      "(a @ b @ c @ d) ! position k (a @ b @ c @ d) = k"
      using p by blast+
    show "unat (of_nat (position k (a @ b @ c @ d)) :: u8) = position k (a @ b @ c @ d)"
      using p short by (intro unat_of_nat_byte) linarith
  qed
  have refers: "six_program_id ix \<in> set ks" "meta_pubkey x \<in> set ks"
    if "ix \<in> set ixs" "x \<in> set (six_accounts ix)" for ix x
    using that by (auto simp: ks_def)
  have program: "six_program_id ix \<in> set ks" if "ix \<in> set ixs" for ix
    using that by (simp add: ks_def)
  have signers: "?signs ((a @ b @ c @ d) ! i) \<longleftrightarrow> i < length (a @ b)" if "i < length (a @ b @ c @ d)" for i
    using border [of "a @ b" ?signs "c @ d" i] kinds that by auto
  have writers: "?writes ((a @ b @ c @ d) ! i) \<longleftrightarrow>
      (if i < length (a @ b) then i < length a else i < length (a @ b @ c))" if "i < length (a @ b @ c @ d)" for i
  proof (cases "i < length (a @ b)")
    case True
    then show ?thesis using border [of a ?writes b i] kinds by (auto simp: nth_append)
  next
    case False
    then show ?thesis
      using border [of c ?writes d "i - length (a @ b)"] kinds that by (auto simp: nth_append)
  qed
  have "list_all2 (compiled_refers (a @ b @ c @ d)) (message_instructions m) ixs"
    by (auto simp: m list_all2_map1 compiled_refers_def pos pos(2) [simplified] refers program
        intro!: list.rel_refl_strong)
  then show ?thesis
    using dist signers writers counts by (auto simp: message_sound_def Let_def m)
qed

section \<open>The library\<close>

text \<open>
  DER decoding is fixed to one signature, whose \<open>s\<close> is two above half the order, so that the
  conversion has to negate it.
\<close>

definition sample_order :: bytes where
  "sample_order =
     [0xFF, 0xFF, 0xFF, 0xFF, 0x00, 0x00, 0x00, 0x00, 0xFF, 0xFF, 0xFF, 0xFF, 0xFF, 0xFF, 0xFF, 0xFF,
      0xBC, 0xE6, 0xFA, 0xAD, 0xA7, 0x17, 0x9E, 0x84, 0xF3, 0xB9, 0xCA, 0xC2, 0xFC, 0x63, 0x25, 0x51]"

definition sample_lib :: sdk_lib where
  "sample_lib = \<lparr>
     lib_hashv = sol_sha256 sample_runtime,
     lib_try_find_program_address = try_find_program_address sample_runtime,
     lib_pubkey_from_str = (\<lambda>_. Some INSTRUCTIONS_ID),
     lib_system_program_id = system_program_id sample_runtime,
     lib_secp256r1_id = SECP256R1_PRECOMPILE_ID,
     lib_message_new = sample_message_new,
     lib_ecdsa_from_der = (\<lambda>_. Some (5, int (be_nat sample_order) div 2 + 2)),
     lib_bn_from_slice = (\<lambda>bs. Some (int (be_nat bs))),
     lib_bn_checked_sub = (\<lambda>a b. Some (a - b)),
     lib_bn_to_vec = (\<lambda>n. be_minimal (nat \<bar>n\<bar>)),
     lib_secp256r1_order = sample_order,
     lib_data_start = 16, lib_pubkey_size = 33, lib_signature_size = 64,
     lib_borsh = rt_borsh sample_runtime \<rparr>"

lemma sample_lib_matches: "lib_matches sample_lib sample_runtime"
  by (simp add: lib_matches_def sample_lib_def)

lemma sample_precompile_layout: "precompile_layout sample_lib"
  by (simp add: precompile_layout_def sample_lib_def)

lemma sample_message_laws: "message_laws sample_lib"
  by (simp add: message_laws_def sample_lib_def sample_message_sound)

end
