(* ===== verification/SdkInstructions.thy ===== *)
theory SdkInstructions
  imports SdkSample
begin

text \<open>
  \<open>sdks/rust-sdk/src/instructions/\<close>: the builders of the program's four instructions, and
  \<open>compile_instructions_for_execution\<close>, which turns the caller's instructions into indices into
  the accounts it passes along.
\<close>

section \<open>Compiling the inner instructions (\<open>execute.rs\<close>)\<close>

record compiled_execution_payload =
  cep_account_metas :: "account_meta list"
  cep_instructions :: "compiled_instruction small_vec"

text \<open>The header's counts are \<open>u8\<close>s; a subtraction that would go below zero panics.\<close>

definition header_metas :: "sdk_message \<Rightarrow> account_meta list sdk_result" where
  "header_metas message =
     (let account_keys = static_account_keys message;
          signed_end = unat (num_required_signatures message)
      in built_then (or_abort (checked_sub (num_required_signatures message)
                                 (num_readonly_signed_accounts message))) (\<lambda>writable_signed_end.
         if length account_keys < unat (num_readonly_unsigned_accounts message) then Aborted
         else
           let writable_unsigned_end = length account_keys - unat (num_readonly_unsigned_accounts message)
           in Built (map (\<lambda>(index, key).
                let signer = index < signed_end
                in \<lparr>meta_pubkey = key,
                    meta_is_writable = (if signer then index < unat writable_signed_end
                                        else index < writable_unsigned_end),
                    meta_is_signer = signer\<rparr>) (enumerate 0 account_keys))))"

fun normalize_instructions :: "sdk_compiled_instruction list \<Rightarrow> compiled_instruction list sdk_result" where
  "normalize_instructions [] = Built []"
| "normalize_instructions (instruction # rest) =
     built_then (small_vec_or L_u8 (sci_accounts instruction)
                   (SerializationError ''Too many instruction accounts'')) (\<lambda>accs.
     built_then (small_vec_or L_u16 (sci_data instruction)
                   (SerializationError ''Instruction data too large'')) (\<lambda>data.
     built_then (normalize_instructions rest) (\<lambda>normalized.
     Built (\<lparr>program_id_index = sci_program_id_index instruction, accounts_indices = accs,
             ci_data = data\<rparr> # normalized))))"

definition compile_instructions_for_execution ::
  "sdk_lib \<Rightarrow> solana_instruction list \<Rightarrow> pubkey \<Rightarrow> compiled_execution_payload sdk_result" where
  "compile_instructions_for_execution lib instructions payer =
     built_then (or_abort (lib_message_new lib instructions payer)) (\<lambda>message.
     built_then (header_metas message) (\<lambda>metas.
     built_then (normalize_instructions (message_instructions message)) (\<lambda>normalized.
     built_then (small_vec_or L_u8 normalized (SerializationError ''Too many instructions'')) (\<lambda>compiled.
     Built \<lparr>cep_account_metas = metas, cep_instructions = compiled\<rparr>))))"

section \<open>The pieces the builders share\<close>

definition instructions_sysvar_id :: "sdk_lib \<Rightarrow> pubkey sdk_result" where
  "instructions_sysvar_id lib =
     or_abort (lib_pubkey_from_str lib ''Sysvar1nstructions1111111111111111111111111'')"

definition verification_data_of :: "sdk_lib \<Rightarrow> webauthn_data \<Rightarrow> u8 small_vec sdk_result" where
  "verification_data_of lib wd =
     built_then (or_refuse (raw_verif_writer (lib_borsh lib)
         \<lparr>raw_verif_public_key = wd_public_key wd, raw_verif_params = wd_params wd\<rparr>) BorshError) (\<lambda>bs.
     small_vec_or L_u8 bs (SerializationError ''Verification data too large''))"

section \<open>Execution (\<open>execute.rs\<close>, \<open>execute_sessioned.rs\<close>)\<close>

definition execute_instructions ::
  "sdk_lib \<Rightarrow> webauthn_data \<Rightarrow> pubkey \<Rightarrow> pubkey \<Rightarrow> truncated_slot \<Rightarrow> solana_instruction list
     \<Rightarrow> signer_execution_scheme \<Rightarrow> solana_instruction sdk_result" where
  "execute_instructions lib wd passkey_account nonce_signer slot instructions scheme =
     built_then (compile_instructions_for_execution lib instructions nonce_signer) (\<lambda>compiled.
     built_then (verification_data_of lib wd) (\<lambda>extra.
     let args = \<lparr>exec_signature_scheme = 0, exec_signer_execution_scheme = signer_execution_scheme_u8 scheme,
                 exec_slothash = slot, exec_extra_verification_data = extra,
                 exec_instructions = cep_instructions compiled\<rparr>
     in built_then (or_refuse (executable_instruction_args_serialize (lib_borsh lib) args) BorshError) (\<lambda>bs.
        built_then (instructions_sysvar_id lib) (\<lambda>sysvar_id.
        Built \<lparr>six_program_id = crate_ID,
          six_accounts = [meta_new passkey_account False, meta_new_readonly sysvar_id False,
            meta_new_readonly SLOT_HASHES_ID False, meta_new nonce_signer True] @ cep_account_metas compiled,
          six_data = 1 # bs\<rparr>))))"

definition execute_instructions_sessioned ::
  "sdk_lib \<Rightarrow> pubkey \<Rightarrow> pubkey \<Rightarrow> solana_instruction list \<Rightarrow> signer_execution_scheme
     \<Rightarrow> solana_instruction sdk_result" where
  "execute_instructions_sessioned lib passkey_account session_signer instructions scheme =
     built_then (compile_instructions_for_execution lib instructions session_signer) (\<lambda>compiled.
     let args = \<lparr>sess_signature_scheme = 0, sess_signer_execution_scheme = signer_execution_scheme_u8 scheme,
                 sess_instructions = cep_instructions compiled\<rparr>
     in built_then (or_refuse (executable_instruction_sessioned_args_serialize (lib_borsh lib) args) BorshError) (\<lambda>bs.
        Built \<lparr>six_program_id = crate_ID,
          six_accounts = [meta_new passkey_account False, meta_new_readonly session_signer True] @
            cep_account_metas compiled,
          six_data = 3 # bs\<rparr>))"

section \<open>Refreshing the session key (\<open>refresh_session.rs\<close>)\<close>

definition sdk_refresh_session_key ::
  "sdk_lib \<Rightarrow> webauthn_data \<Rightarrow> pubkey \<Rightarrow> pubkey \<Rightarrow> truncated_slot \<Rightarrow> session_key
     \<Rightarrow> solana_instruction sdk_result" where
  "sdk_refresh_session_key lib wd passkey_account payer slot session_key =
     built_then (verification_data_of lib wd) (\<lambda>verif.
     let args = \<lparr>refresh_slothash = slot, refresh_signature_scheme = 0,
                 refresh_verification_data = verif, refresh_session_key = session_key\<rparr>
     in built_then (or_refuse (refresh_session_key_args_serialize (lib_borsh lib) args) BorshError) (\<lambda>bs.
        built_then (instructions_sysvar_id lib) (\<lambda>sysvar_id.
        Built \<lparr>six_program_id = crate_ID,
          six_accounts = [meta_new passkey_account False, meta_new_readonly sysvar_id False,
            meta_new_readonly SLOT_HASHES_ID False, meta_new payer True],
          six_data = 2 # bs\<rparr>)))"

section \<open>Initialization (\<open>initialize.rs\<close>)\<close>

text \<open>\<open>initialize_passkey_account\<close> and \<open>initialize_passkey_account_with_session\<close> differ in the last field.\<close>

definition initialize_with :: 
  "sdk_lib \<Rightarrow> webauthn_data \<Rightarrow> bytes \<Rightarrow> pubkey \<Rightarrow> truncated_slot \<Rightarrow> session_key option
     \<Rightarrow> (pubkey \<times> solana_instruction) sdk_result" where
  "initialize_with lib wd rp payer slot session_key =
     built_then (derive_passkey_account lib (wd_public_key wd)) (\<lambda>(account_to_initialize, _).
     built_then (small_vec_or L_u8 rp (InvalidRpId ''RP ID too long'')) (\<lambda>rp.
     built_then (or_refuse (raw_init_writer (lib_borsh lib)
         \<lparr>raw_rp_id = rp, raw_init_public_key = wd_public_key wd, raw_init_params = wd_params wd\<rparr>) BorshError) (\<lambda>raw.
     built_then (small_vec_or L_u8 raw (SerializationError ''Initialization data too large'')) (\<lambda>init_data.
     let args = \<lparr>init_slothash = slot, init_signature_scheme = signature_scheme_u8 P256Webauthn,
                 init_initialization_data = init_data, init_session_key = session_key\<rparr>
     in built_then (or_refuse (initialize_account_args_serialize (lib_borsh lib) args) BorshError) (\<lambda>bs.
        built_then (instructions_sysvar_id lib) (\<lambda>sysvar_id.
        Built (account_to_initialize, \<lparr>six_program_id = crate_ID,
          six_accounts = [meta_new account_to_initialize False, meta_new payer True,
            meta_new_readonly sysvar_id False, meta_new_readonly SLOT_HASHES_ID False,
            meta_new_readonly (lib_system_program_id lib) False],
          six_data = 0 # bs\<rparr>)))))))"

definition initialize_passkey_account ::
  "sdk_lib \<Rightarrow> webauthn_data \<Rightarrow> bytes \<Rightarrow> pubkey \<Rightarrow> truncated_slot
     \<Rightarrow> (pubkey \<times> solana_instruction) sdk_result" where
  "initialize_passkey_account lib wd rp payer slot = initialize_with lib wd rp payer slot None"

definition initialize_passkey_account_with_session ::
  "sdk_lib \<Rightarrow> webauthn_data \<Rightarrow> bytes \<Rightarrow> pubkey \<Rightarrow> truncated_slot \<Rightarrow> session_key
     \<Rightarrow> (pubkey \<times> solana_instruction) sdk_result" where
  "initialize_passkey_account_with_session lib wd rp payer slot session_key =
     initialize_with lib wd rp payer slot (Some session_key)"

end
