(* ===== verification/SdkPrecompile.thy ===== *)
theory SdkPrecompile
  imports SdkSample
begin

text \<open>
  \<open>sdks/rust-sdk/src/instructions/precompile.rs\<close>: the secp256r1 instruction that the runtime
  verifies and the program reads back, and the conversion of a DER signature to the compact
  low-S form the precompile wants.
\<close>

section \<open>Signatures\<close>

definition FIELD_SIZE :: nat where "FIELD_SIZE = 32"

definition SECP256R1_HALF_ORDER :: bytes where
  "SECP256R1_HALF_ORDER =
     [0x7F, 0xFF, 0xFF, 0xFF, 0x80, 0x00, 0x00, 0x00, 0x7F, 0xFF, 0xFF, 0xFF, 0xFF, 0xFF, 0xFF, 0xFF,
      0xDE, 0x73, 0x7D, 0x56, 0xD3, 0x8B, 0xCF, 0x42, 0x79, 0xDC, 0xE5, 0x61, 0x7E, 0x31, 0x92, 0xA8]"

text \<open>\<open>padded[FIELD_SIZE - len ..].copy_from_slice(bs)\<close> on a zeroed field.\<close>

definition pad_field :: "bytes \<Rightarrow> bytes" where
  "pad_field bs = replicate (FIELD_SIZE - length bs) 0 @ bs"

text \<open>The two halves copied into a \<open>[u8; SIGNATURE_SERIALIZED_SIZE]\<close>.\<close>

definition compact_signature :: "sdk_lib \<Rightarrow> bytes \<Rightarrow> bytes \<Rightarrow> bytes sdk_result" where
  "compact_signature lib padded_r padded_s =
     (if lib_signature_size lib = length (padded_r @ padded_s) then Built (padded_r @ padded_s) else Aborted)"

definition parse_der_signature_to_compact :: "sdk_lib \<Rightarrow> bytes \<Rightarrow> bytes sdk_result" where
  "parse_der_signature_to_compact lib signature_der =
     built_then (or_refuse (lib_ecdsa_from_der lib signature_der) InvalidSignatureFormat) (\<lambda>(sig_r, sig_s).
     let r = lib_bn_to_vec lib sig_r; s = lib_bn_to_vec lib sig_s in
     if FIELD_SIZE < length r \<or> FIELD_SIZE < length s then Refused InvalidSignatureFormat
     else
       built_then (compact_signature lib (pad_field r) (pad_field s)) (\<lambda>signature.
       built_then (or_refuse (lib_bn_from_slice lib s) InvalidSignatureFormat) (\<lambda>s_bignum.
       built_then (or_refuse (lib_bn_from_slice lib SECP256R1_HALF_ORDER) InvalidSignatureFormat) (\<lambda>half_order.
       built_then (or_refuse (lib_bn_from_slice lib (lib_secp256r1_order lib)) InvalidSignatureFormat) (\<lambda>order.
       if half_order < s_bignum then
         built_then (or_refuse (lib_bn_checked_sub lib order s_bignum) InvalidSignatureFormat) (\<lambda>new_s.
         let new_s_bytes = lib_bn_to_vec lib new_s in
         if FIELD_SIZE < length new_s_bytes then Refused InvalidSignatureFormat
         else compact_signature lib (pad_field r) (pad_field new_s_bytes))
       else Built signature)))))"

section \<open>The instruction\<close>

definition create_secp256r1_instruction ::
  "sdk_lib \<Rightarrow> bytes \<Rightarrow> bytes \<Rightarrow> bytes \<Rightarrow> (u8 \<times> u16) option \<Rightarrow> solana_instruction sdk_result" where
  "create_secp256r1_instruction lib signature_der message pk pk_offset =
     (if 65535 < length message then Refused MessageTooLarge
      else built_then (parse_der_signature_to_compact lib signature_der) (\<lambda>signature.
        let num_signatures = 1 :: u8;
            pk_index = (case pk_offset of Some (ix, _) \<Rightarrow> ucast ix :: u16 | None \<Rightarrow> 65535);
            pk_start = (case pk_offset of Some (_, offset) \<Rightarrow> unat offset | None \<Rightarrow> lib_data_start lib);
            signature_start = (if pk_index = 65535 then pk_start + lib_pubkey_size lib else lib_data_start lib);
            message_start = signature_start + lib_signature_size lib;
            offsets = \<lparr>signature_offset = of_nat signature_start, signature_instruction_index = 65535,
              public_key_offset = of_nat pk_start, public_key_instruction_index = pk_index,
              message_data_offset = of_nat message_start,
              message_data_size = of_nat (length message), message_instruction_index = 65535\<rparr>
        in Built \<lparr>six_program_id = lib_secp256r1_id lib, six_accounts = [],
             six_data = [num_signatures, 0] @ signature_offsets_to_bytes offsets @
               (if pk_index = 65535 then pk else []) @ signature @ message\<rparr>))"

section \<open>Documented behaviour of the libraries\<close>

text \<open>OpenSSL's big numbers: big-endian conversions, the shortest one on output, and subtraction.\<close>

definition bignum_laws :: "sdk_lib \<Rightarrow> bool" where
  "bignum_laws lib \<longleftrightarrow>
     (\<forall>bs. lib_bn_from_slice lib bs = Some (int (be_nat bs))) \<and>
     (\<forall>a b. lib_bn_checked_sub lib a b = Some (a - b)) \<and>
     (\<forall>n. be_nat (lib_bn_to_vec lib n) = nat \<bar>n\<bar> \<and>
          (\<forall>k. nat \<bar>n\<bar> < 256 ^ k \<longrightarrow> length (lib_bn_to_vec lib n) \<le> k))"

text \<open>The order of the curve is odd, of 32 bytes, and the repository's constant is its half.\<close>

definition order_law :: "sdk_lib \<Rightarrow> bool" where
  "order_law lib \<longleftrightarrow> length (lib_secp256r1_order lib) = 32 \<and>
     be_nat (lib_secp256r1_order lib) = 2 * be_nat SECP256R1_HALF_ORDER + 1"

section \<open>Lemmas\<close>

lemma be_nat_pad_field [simp]: "be_nat (pad_field bs) = be_nat bs"
  by (simp add: pad_field_def)

lemma length_pad_field: "length bs \<le> 32 \<Longrightarrow> length (pad_field bs) = 32"
  by (simp add: pad_field_def FIELD_SIZE_def)

lemma compact_signature_Built [sdk_simps]:
  "compact_signature lib a b = Built sig \<longleftrightarrow> sig = a @ b \<and> lib_signature_size lib = length (a @ b)"
  by (auto simp: compact_signature_def)

lemma parse_der_length:
  "parse_der_signature_to_compact lib der = Built sig \<Longrightarrow> length sig = lib_signature_size lib"
  by (auto simp: parse_der_signature_to_compact_def Let_def sdk_simps split: if_splits)

lemma to_vec_pad:
  assumes "bignum_laws lib" and "nat \<bar>n\<bar> < 2 ^ 256"
  shows "length (lib_bn_to_vec lib n) \<le> 32" "be_nat (lib_bn_to_vec lib n) = nat \<bar>n\<bar>"
proof -
  have "(256 :: nat) ^ 32 = 2 ^ 256" by simp
  then show "length (lib_bn_to_vec lib n) \<le> 32" "be_nat (lib_bn_to_vec lib n) = nat \<bar>n\<bar>"
    using assms by (auto simp: bignum_laws_def)
qed

lemma der_signature_normalised:
  assumes laws: "bignum_laws lib" "order_law lib" "precompile_layout lib"
    and der: "lib_ecdsa_from_der lib der = Some (r, s)"
    and r: "0 \<le> r" "r < int (be_nat (lib_secp256r1_order lib))"
    and s: "0 \<le> s" "s < int (be_nat (lib_secp256r1_order lib))"
  shows "\<exists>sig. parse_der_signature_to_compact lib der = Built sig \<and> length sig = 64 \<and>
    int (be_nat (take 32 sig)) = r \<and>
    (int (be_nat (drop 32 sig)) = s \<or> int (be_nat (drop 32 sig)) = int (be_nat (lib_secp256r1_order lib)) - s) \<and>
    be_nat (drop 32 sig) \<le> be_nat SECP256R1_HALF_ORDER"
proof -
  let ?n = "be_nat (lib_secp256r1_order lib)" and ?half = "be_nat SECP256R1_HALF_ORDER"
  have n: "?n < 2 ^ 256" "?n = 2 * ?half + 1"
    using be_nat_less [of "lib_secp256r1_order lib"] laws(2) by (simp_all add: order_law_def)
  have b: "nat \<bar>r\<bar> < 2 ^ 256" "nat \<bar>s\<bar> < 2 ^ 256" "nat \<bar>int ?n - s\<bar> < 2 ^ 256"
    using r s n(1) by linarith+
  note vr = to_vec_pad [OF laws(1) b(1)] and vs = to_vec_pad [OF laws(1) b(2)]
    and vn = to_vec_pad [OF laws(1) b(3)]
  have fsl: "lib_bn_from_slice lib bs = Some (int (be_nat bs))" for bs
    using laws(1) by (simp add: bignum_laws_def)
  have sub: "lib_bn_checked_sub lib x y = Some (x - y)" for x y
    using laws(1) by (simp add: bignum_laws_def)
  have size: "lib_signature_size lib = 64" using laws(3) by (simp add: precompile_layout_def)
  define s' where "s' = (if int ?half < s then lib_bn_to_vec lib (int ?n - s) else lib_bn_to_vec lib s)"
  have s': "length s' \<le> 32" "be_nat s' \<le> ?half" "int (be_nat s') = s \<or> int (be_nat s') = int ?n - s"
    using vs vn s n(2) by (auto simp: s'_def)
  have "parse_der_signature_to_compact lib der = Built (pad_field (lib_bn_to_vec lib r) @ pad_field s')"
    using der vr vs vn s(1)
    by (simp add: parse_der_signature_to_compact_def FIELD_SIZE_def compact_signature_def size
        length_pad_field fsl sub s'_def)
  then show ?thesis
    using s' vr r(1) by (auto simp: length_pad_field)
qed

section \<open>Properties\<close>

text \<open>
  C35. A signature with both halves below the order of the curve always converts: to 64 bytes, the
  first half unchanged, the second one \<open>s\<close> or its negation modulo the order, whichever is in the
  lower half of the range, as the precompile demands.
\<close>

theorem der_signature_low_s:
  assumes laws: "bignum_laws lib" "order_law lib" "precompile_layout lib"
    and der: "lib_ecdsa_from_der lib der = Some (r, s)"
    and r: "0 \<le> r" "r < int (be_nat (lib_secp256r1_order lib))"
    and s: "0 \<le> s" "s < int (be_nat (lib_secp256r1_order lib))"
  shows "\<exists>sig. parse_der_signature_to_compact lib der = Built sig \<and> length sig = 64 \<and>
    int (be_nat (take 32 sig)) = r \<and>
    (int (be_nat (drop 32 sig)) = s \<or> int (be_nat (drop 32 sig)) = int (be_nat (lib_secp256r1_order lib)) - s) \<and>
    be_nat (drop 32 sig) \<le> be_nat SECP256R1_HALF_ORDER"
  using assms by (rule der_signature_normalised)

lemma sample_bignum_laws: "bignum_laws sample_lib"
  by (simp add: bignum_laws_def sample_lib_def be_nat_be_minimal length_be_minimal)

lemma sample_order_values:
  "be_nat sample_order = 115792089210356248762697446949407573529996955224135760342422259061068512044369"
  "be_nat SECP256R1_HALF_ORDER = 57896044605178124381348723474703786764998477612067880171211129530534256022184"
  by (simp_all add: sample_order_def SECP256R1_HALF_ORDER_def be_nat_def)

lemma sample_order_law: "order_law sample_lib"
  by (simp add: order_law_def sample_lib_def sample_order_values) (simp add: sample_order_def)

theorem der_signature_low_s_witness:
  "\<exists>sig. parse_der_signature_to_compact sample_lib [0x30] = Built sig \<and> length sig = 64 \<and>
     be_nat (take 32 sig) = 5 \<and>
     be_nat (drop 32 sig) = be_nat SECP256R1_HALF_ORDER - 1"
proof -
  have der: "lib_ecdsa_from_der sample_lib [0x30] = Some (5, int (be_nat sample_order) div 2 + 2)"
    by (simp add: sample_lib_def)
  have order: "lib_secp256r1_order sample_lib = sample_order" by (simp add: sample_lib_def)
  show ?thesis
    using der_signature_low_s [OF sample_bignum_laws sample_order_law sample_precompile_layout der]
    unfolding order sample_order_values by auto
qed

lemma unat_ucast_byte: "unat (ucast (i :: u8) :: u16) = unat i"
proof -
  have "unat i < 2 ^ 16" using unat_lt_256 [of i] by simp
  then show ?thesis by (simp add: unsigned_ucast_eq take_bit_nat_eq_self)
qed

text \<open>What the runtime verifies of an instruction the SDK built, in the words of the precompile.\<close>

lemma built_instruction_verified:
  assumes "precompile_layout lib" and "lib_secp256r1_id lib = SECP256R1_PRECOMPILE_ID"
    and "create_secp256r1_instruction lib der m pk pk_offset = Built ix" and "length pk = 33"
    and "instruction_at rt sysvar 0 = Ok \<lparr>iix_program_id = six_program_id ix, iix_data = six_data ix, iix_even = True\<rparr>"
    and "case pk_offset of None \<Rightarrow> key = pk
         | Some (i, off) \<Rightarrow> \<exists>other. instruction_at rt sysvar (unat i) = Ok other \<and>
             unat off + 33 \<le> length (iix_data other) \<and> key = take 33 (drop (unat off) (iix_data other))"
  shows "\<exists>sig. parse_der_signature_to_compact lib der = Built sig \<and> six_program_id ix = SECP256R1_PRECOMPILE_ID \<and>
    six_data ix ! 0 = 1 \<and> six_data ix \<noteq> [] \<and>
    verified_payload rt sysvar (six_data ix) 0 =
      Some \<lparr>payload_signature = sig, payload_public_key = key, payload_message = m\<rparr>"
proof -
  have sizes: "lib_data_start lib = 16" "lib_pubkey_size lib = 33" "lib_signature_size lib = 64"
    using assms(1) by (simp_all add: precompile_layout_def)
  define own where "own = (pk_offset = None)"
  define offs where "offs = \<lparr>signature_offset = (if own then 49 else 16 :: u16), signature_instruction_index = 65535,
    public_key_offset = (case pk_offset of None \<Rightarrow> 16 | Some (_, off) \<Rightarrow> off),
    public_key_instruction_index = (case pk_offset of None \<Rightarrow> 65535 | Some (i, _) \<Rightarrow> ucast i),
    message_data_offset = (if own then 113 else 80), message_data_size = of_nat (length m),
    message_instruction_index = 65535\<rparr>"
  have byte: "(ucast i :: u16) \<noteq> 65535" for i :: u8
    using unat_lt_256 [of i] by (auto simp: word_unat_eq_iff unat_ucast_byte)
  obtain sig where sig: "parse_der_signature_to_compact lib der = Built sig" and m: "length m \<le> 65535"
    and ix: "ix = \<lparr>six_program_id = SECP256R1_PRECOMPILE_ID, six_accounts = [],
      six_data = [1, 0] @ signature_offsets_to_bytes offs @ (if own then pk else []) @ sig @ m\<rparr>"
    using assms(2,3) byte sizes
    by (auto simp: create_secp256r1_instruction_def sdk_simps Let_def offs_def own_def split: if_splits option.splits)
  have sig64: "length sig = 64" using parse_der_length [OF sig] sizes by simp
  define d where "d = six_data ix"
  have data: "d = [1, 0] @ signature_offsets_to_bytes offs @ (if own then pk else []) @ sig @ m"
    by (simp add: d_def ix)
  have parts: "take 14 (drop 2 d) = signature_offsets_to_bytes offs" "d ! 0 = 1"
    "length d = (if own then 113 else 80) + length m"
    "take 64 (drop (if own then 49 else 16) d) = sig" "take (length m) (drop (if own then 113 else 80) d) = m"
    "own \<Longrightarrow> take 33 (drop 16 d) = pk"
    by (cases own; use sig64 assms(4) in \<open>simp add: data\<close>)+
  have key: "verified_bytes rt sysvar d (public_key_instruction_index offs) (public_key_offset offs) 33 = Some key"
  proof (cases pk_offset)
    case None
    then have "own" by (simp add: own_def)
    with None assms(6) parts(3,6) show ?thesis by (simp add: verified_bytes_def offs_def)
  next
    case (Some at)
    then obtain i off other where "pk_offset = Some (i, off)" "instruction_at rt sysvar (unat i) = Ok other"
      "unat off + 33 \<le> length (iix_data other)" "key = take 33 (drop (unat off) (iix_data other))"
      using assms(6) by (cases at) auto
    with byte show ?thesis by (simp add: verified_bytes_def offs_def unat_ucast_byte)
  qed
  have size: "unat (of_nat (length m) :: u16) = length m" using m by (simp add: unat_of_nat)
  have rest: "verified_bytes rt sysvar d (signature_instruction_index offs) (signature_offset offs) 64 = Some sig"
    "verified_bytes rt sysvar d (message_instruction_index offs) (message_data_offset offs)
       (unat (message_data_size offs)) = Some m"
    by (cases own; use parts size in \<open>simp add: verified_bytes_def offs_def\<close>)+
  have "2 + 14 * 0 + 14 \<le> length d" using parts(3) by simp
  moreover have "signature_offsets_from_bytes (take 14 (drop (2 + 14 * 0) d)) = offs"
    using parts(1) by (simp add: offsets.dec_enc)
  ultimately have "verified_payload rt sysvar d 0 =
      Some \<lparr>payload_signature = sig, payload_public_key = key, payload_message = m\<rparr>"
    using key rest by (simp add: verified_payload_def)
  moreover have "six_program_id ix = SECP256R1_PRECOMPILE_ID" by (simp add: ix)
  moreover have "d \<noteq> []" by (simp add: data)
  ultimately show ?thesis unfolding d_def [symmetric] using sig parts(2) by blast
qed

text \<open>
  C34. The program reads back what the SDK put into the precompile instruction: one signature, the
  compact form of the given one, the message, and the key, which stands in the instruction itself
  or, when the caller gives a position, in the instruction and at the offset it names.
\<close>

theorem precompile_read_back:
  assumes "precompile_layout lib" and "lib_secp256r1_id lib = SECP256R1_PRECOMPILE_ID"
    and "create_secp256r1_instruction lib der m pk pk_offset = Built ix" and "length pk = 33"
    and "instruction_at rt sysvar 0 = Ok \<lparr>iix_program_id = six_program_id ix, iix_data = six_data ix, iix_even = True\<rparr>"
    and "case pk_offset of None \<Rightarrow> key = pk
         | Some (i, off) \<Rightarrow> \<exists>other. instruction_at rt sysvar (unat i) = Ok other \<and>
             unat off + 33 \<le> length (iix_data other) \<and> key = take 33 (drop (unat off) (iix_data other))"
  shows "\<exists>sig p. parse_der_signature_to_compact lib der = Built sig \<and>
    precompile_parser_new Secp256r1Precompile
      \<lparr>iix_program_id = six_program_id ix, iix_data = six_data ix, iix_even = True\<rparr> sysvar = Ok p \<and>
    num_signatures p = Ok 1 \<and>
    get_signature_payload rt Secp256r1Precompile p 0 =
      Ok \<lparr>payload_signature = sig, payload_public_key = key, payload_message = m\<rparr>"
proof -
  let ?ix = "\<lparr>iix_program_id = six_program_id ix, iix_data = six_data ix, iix_even = True\<rparr>"
  let ?p = "\<lparr>precompile_ix_data = six_data ix, ix_data_even = True, instructions_sysvar = sysvar\<rparr>"
  obtain sig where sig: "parse_der_signature_to_compact lib der = Built sig"
    and id: "six_program_id ix = SECP256R1_PRECOMPILE_ID" and one: "six_data ix ! 0 = 1" "six_data ix \<noteq> []"
    and pl: "verified_payload rt sysvar (six_data ix) 0 =
      Some \<lparr>payload_signature = sig, payload_public_key = key, payload_message = m\<rparr>"
    using built_instruction_verified [OF assms] by blast
  have n: "num_signatures ?p = Ok 1" using one by (simp add: num_signatures_def index_def)
  have "precompile_parser_new Secp256r1Precompile ?ix sysvar = Ok ?p"
    by (simp add: precompile_parser_new_def Secp256r1Precompile_def id)
  moreover have "get_signature_payload rt Secp256r1Precompile ?p 0 =
      Ok \<lparr>payload_signature = sig, payload_public_key = key, payload_message = m\<rparr>"
    using get_signature_payload_verified [of rt ?p 0 _ 1] pl n by simp
  ultimately show ?thesis using sig n by blast
qed

lemma sample_parse_der: "\<exists>sig. parse_der_signature_to_compact sample_lib der = Built sig"
proof -
  have der: "lib_ecdsa_from_der sample_lib der = Some (5, int (be_nat sample_order) div 2 + 2)"
    and order: "lib_secp256r1_order sample_lib = sample_order" by (simp_all add: sample_lib_def)
  show ?thesis
    using der_signature_normalised [OF sample_bignum_laws sample_order_law sample_precompile_layout der]
    unfolding order sample_order_values by auto
qed

theorem precompile_read_back_witness:
  "\<exists>ix sig p. create_secp256r1_instruction sample_lib [0x30] [7, 8, 9] (replicate 33 2) None = Built ix \<and>
     get_signature_payload (sample_runtime\<lparr>instruction_at := (\<lambda>_ _. Ok
         \<lparr>iix_program_id = six_program_id ix, iix_data = six_data ix, iix_even = True\<rparr>)\<rparr>) Secp256r1Precompile p 0 =
       Ok \<lparr>payload_signature = sig, payload_public_key = replicate 33 2, payload_message = [7, 8, 9]\<rparr>"
proof -
  obtain sig where sig: "parse_der_signature_to_compact sample_lib [0x30] = Built sig"
    using sample_parse_der by blast
  obtain ix where ix: "create_secp256r1_instruction sample_lib [0x30] [7, 8, 9] (replicate 33 2) None = Built ix"
    by (simp add: create_secp256r1_instruction_def sig Let_def)
  have id: "lib_secp256r1_id sample_lib = SECP256R1_PRECOMPILE_ID" by (simp add: sample_lib_def)
  show ?thesis
    using ix precompile_read_back [OF sample_precompile_layout id ix, of
        "sample_runtime\<lparr>instruction_at := (\<lambda>_ _. Ok
           \<lparr>iix_program_id = six_program_id ix, iix_data = six_data ix, iix_even = True\<rparr>)\<rparr>" "[]" "replicate 33 2"]
    by auto
qed

end
