(* ===== verification/SdkRuns.thy ===== *)
theory SdkRuns
  imports SdkInstructions SdkPrecompile Protocol
begin

text \<open>
  The SDK and the program together: what the SDK builds is what the program reads, and the inner
  instructions the program then invokes are the ones the caller gave to the SDK.
\<close>

section \<open>Addresses\<close>

lemma derive_passkey_account_Built:
  assumes "lib_matches lib rt"
  shows "derive_passkey_account lib pk = Built (k, b) \<longleftrightarrow>
    (\<exists>s. p256_derive_account rt \<lparr>derive_public_key = pk\<rparr> = Ok s \<and> seeds_key s = k \<and> seeds_bump s = b)"
  using assms
  by (auto simp: derive_passkey_account_def p256_derive_account_def lib_matches_def Let_def hash_def hashv_def
      sdk_simps result_simps)

section \<open>Compiled instructions\<close>

text \<open>A compiled instruction stands for the caller's, over the keys of the accounts passed along.\<close>

definition stands_for :: "pubkey list \<Rightarrow> compiled_instruction \<Rightarrow> solana_instruction \<Rightarrow> bool" where
  "stands_for keys ci ix \<longleftrightarrow>
     unat (program_id_index ci) < length keys \<and> keys ! unat (program_id_index ci) = six_program_id ix \<and>
     (\<forall>i \<in> set (accounts_indices ci). unat i < length keys) \<and>
     map (\<lambda>i. keys ! unat i) (accounts_indices ci) = map meta_pubkey (six_accounts ix) \<and>
     ci_data ci = six_data ix"

lemma normalize_instructions_Built:
  "normalize_instructions cs = Built ns \<longleftrightarrow>
     (\<forall>c \<in> set cs. length (sci_accounts c) \<le> 255 \<and> length (sci_data c) \<le> 65535) \<and>
     ns = map (\<lambda>c. \<lparr>program_id_index = sci_program_id_index c, accounts_indices = sci_accounts c,
                    ci_data = sci_data c\<rparr>) cs"
  by (induction cs arbitrary: ns) (auto simp: sdk_simps)

lemma header_metas_sound:
  assumes "message_sound ixs payer m" and "header_metas m = Built metas"
  shows "metas = map (\<lambda>k. \<lparr>meta_pubkey = k, meta_is_writable = key_writable ixs payer k,
    meta_is_signer = key_signs ixs payer k\<rparr>) (static_account_keys m)"
proof (rule nth_equalityI)
  let ?keys = "static_account_keys m"
  let ?req = "unat (num_required_signatures m)" and ?ro = "unat (num_readonly_signed_accounts m)"
    and ?un = "unat (num_readonly_unsigned_accounts m)"
  have sound: "?ro \<le> ?req" "?req + ?un \<le> length ?keys"
    "\<forall>i < length ?keys. (i < ?req \<longleftrightarrow> key_signs ixs payer (?keys ! i)) \<and>
       ((if i < ?req then i < ?req - ?ro else i < length ?keys - ?un) \<longleftrightarrow> key_writable ixs payer (?keys ! i))"
    using assms(1) unfolding message_sound_def Let_def by blast+
  from sound(1) have sub: "unat (num_required_signatures m - num_readonly_signed_accounts m) = ?req - ?ro"
    by (simp add: unat_sub word_le_nat_alt)
  have metas: "metas = map (\<lambda>(i, key). \<lparr>meta_pubkey = key,
      meta_is_writable = (if i < ?req then i < ?req - ?ro else i < length ?keys - ?un),
      meta_is_signer = i < ?req\<rparr>) (enumerate 0 ?keys)"
    using assms(2) by (auto simp: header_metas_def Let_def sdk_simps checked_sub_def sub split: if_splits)
  then show "length metas = length (map (\<lambda>k. \<lparr>meta_pubkey = k, meta_is_writable = key_writable ixs payer k,
    meta_is_signer = key_signs ixs payer k\<rparr>) ?keys)" by simp
  fix i assume "i < length metas"
  then have i: "i < length ?keys" by (simp add: metas)
  have flags: "(i < ?req) = key_signs ixs payer (?keys ! i)"
    "(if i < ?req then i < ?req - ?ro else i < length ?keys - ?un) = key_writable ixs payer (?keys ! i)"
    using sound(3) i by blast+
  from i have "metas ! i = \<lparr>meta_pubkey = ?keys ! i,
      meta_is_writable = (if i < ?req then i < ?req - ?ro else i < length ?keys - ?un), meta_is_signer = i < ?req\<rparr>"
    by (simp add: metas nth_enumerate_eq)
  then show "metas ! i = map (\<lambda>k. \<lparr>meta_pubkey = k, meta_is_writable = key_writable ixs payer k,
    meta_is_signer = key_signs ixs payer k\<rparr>) ?keys ! i"
    unfolding flags(2) unfolding flags(1) using i by simp
qed

lemma compile_stands_for:
  assumes laws: "message_laws lib" and c: "compile_instructions_for_execution lib ixs payer = Built c"
    and short: "length (cep_account_metas c) \<le> 256"
  shows "(\<forall>m \<in> set (cep_account_metas c).
      meta_is_writable m = key_writable ixs payer (meta_pubkey m) \<and>
      meta_is_signer m = key_signs ixs payer (meta_pubkey m)) \<and>
    distinct (map meta_pubkey (cep_account_metas c)) \<and>
    list_all2 (stands_for (map meta_pubkey (cep_account_metas c))) (cep_instructions c) ixs"
proof -
  obtain m metas where m: "lib_message_new lib ixs payer = Some m" and metas: "header_metas m = Built metas"
    and ns: "cep_instructions c = map (\<lambda>c. \<lparr>program_id_index = sci_program_id_index c,
      accounts_indices = sci_accounts c, ci_data = sci_data c\<rparr>) (message_instructions m)"
    and cm: "cep_account_metas c = metas"
    using c by (auto simp: compile_instructions_for_execution_def sdk_simps normalize_instructions_Built)
  have "length metas = length (static_account_keys m)"
    using metas by (auto simp: header_metas_def Let_def sdk_simps split: if_splits)
  with laws m short cm have sound: "message_sound ixs payer m" by (simp add: message_laws_def)
  note eq = header_metas_sound [OF sound metas]
  have keys: "map meta_pubkey (cep_account_metas c) = static_account_keys m"
    by (simp add: cm eq comp_def)
  have "list_all2 (compiled_refers (static_account_keys m)) (message_instructions m) ixs"
    and "distinct (static_account_keys m)"
    using sound by (simp_all add: message_sound_def Let_def)
  then show ?thesis
    unfolding keys
    by (auto simp: cm eq ns list_all2_map1 compiled_refers_def stands_for_def elim: list_all2_mono)
qed

section \<open>The calls the program makes\<close>

text \<open>
  \<open>carried_out\<close>: an inner call is the caller's instruction, with at least the privileges it asks
  for, except that an external account that signs is passed read-only.
\<close>

definition account_carried_out :: "signer_execution_scheme \<Rightarrow> pubkey \<Rightarrow> account_meta \<Rightarrow> account_meta \<Rightarrow> bool" where
  "account_carried_out scheme ek given asked \<longleftrightarrow>
     meta_pubkey given = meta_pubkey asked \<and> (meta_is_signer asked \<longrightarrow> meta_is_signer given) \<and>
     (meta_is_writable asked \<longrightarrow> meta_is_writable given \<or> scheme = ExternalAccount \<and> meta_pubkey asked = ek)"

definition carried_out :: "signer_execution_scheme \<Rightarrow> pubkey \<Rightarrow> invocation \<Rightarrow> solana_instruction \<Rightarrow> bool" where
  "carried_out scheme ek iv ix \<longleftrightarrow>
     inv_program_id iv = six_program_id ix \<and> inv_data iv = six_data ix \<and>
     list_all2 (account_carried_out scheme ek) (inv_accounts iv) (six_accounts ix)"

text \<open>The transaction grants at least the privileges its instruction asks for.\<close>

definition transaction_grants :: "store \<Rightarrow> account_meta list \<Rightarrow> bool" where
  "transaction_grants st metas \<longleftrightarrow>
     (\<forall>m \<in> set metas. (meta_is_signer m \<longrightarrow> acc_is_signer (st (meta_pubkey m))) \<and>
                     (meta_is_writable m \<longrightarrow> acc_is_writable (st (meta_pubkey m))))"

lemma created_meta_carried_out:
  assumes "k \<in> set keys" and "meta_pubkey x = k"
    and "meta_is_signer x \<longrightarrow> acc_is_signer (st k)" and "meta_is_writable x \<longrightarrow> acc_is_writable (st k)"
  shows "account_carried_out scheme (execution_key ea) (execution_account_meta st ea scheme k) x"
  using assms
  by (auto simp: account_carried_out_def execution_account_meta_def account_meta_new_def
      split: signer_execution_scheme.splits)

lemma expanded_carried_out:
  assumes sf: "stands_for keys ci ix"
    and grants: "\<And>x. x \<in> set (six_accounts ix) \<Longrightarrow>
      (meta_is_signer x \<longrightarrow> acc_is_signer (st (meta_pubkey x))) \<and>
      (meta_is_writable x \<longrightarrow> acc_is_writable (st (meta_pubkey x)))"
  shows "carried_out scheme (execution_key ea)
    (expanded_invocation keys (create_instruction_execution_account_metas st keys ea scheme) seeds ci) ix"
proof -
  let ?given = "map (\<lambda>i. create_instruction_execution_account_metas st keys ea scheme ! unat i) (accounts_indices ci)"
  have len: "length (accounts_indices ci) = length (six_accounts ix)"
    using arg_cong [of _ _ length, OF conjunct1 [OF conjunct2 [OF conjunct2 [OF conjunct2 [OF sf [unfolded stands_for_def]]]]]]
    by simp
  have "list_all2 (account_carried_out scheme (execution_key ea)) ?given (six_accounts ix)"
  proof (rule list_all2_all_nthI)
    fix j assume j: "j < length ?given"
    let ?i = "accounts_indices ci ! j" and ?x = "six_accounts ix ! j"
    have i: "unat ?i < length keys" using sf j by (simp add: stands_for_def)
    have "map (\<lambda>i. keys ! unat i) (accounts_indices ci) ! j = map meta_pubkey (six_accounts ix) ! j"
      using sf by (simp add: stands_for_def)
    then have k: "meta_pubkey ?x = keys ! unat ?i" using j len by simp
    have "?given ! j = execution_account_meta st ea scheme (keys ! unat ?i)"
      using i j by (simp add: create_instruction_execution_account_metas_def)
    moreover have "?x \<in> set (six_accounts ix)" using j len by simp
    ultimately show "account_carried_out scheme (execution_key ea) (?given ! j) ?x"
      using created_meta_carried_out [of "keys ! unat ?i" keys ?x st scheme ea] i k grants [of ?x] by auto
  qed (simp add: len)
  then show ?thesis using sf by (simp add: carried_out_def expanded_invocation_def stands_for_def)
qed

lemma compiled_carried_out:
  assumes "message_laws lib" and "compile_instructions_for_execution lib ixs payer = Built c"
    and "length (cep_account_metas c) \<le> 256" and grants: "transaction_grants st (cep_account_metas c)"
  shows "list_all2 (carried_out scheme (execution_key ea))
    (map (expanded_invocation (map meta_pubkey (cep_account_metas c))
      (create_instruction_execution_account_metas st (map meta_pubkey (cep_account_metas c)) ea scheme) seeds)
      (cep_instructions c)) ixs"
proof -
  let ?metas = "cep_account_metas c"
  note c = compile_stands_for [OF assms(1-3)]
  have granted: "(meta_is_signer x \<longrightarrow> acc_is_signer (st (meta_pubkey x))) \<and>
      (meta_is_writable x \<longrightarrow> acc_is_writable (st (meta_pubkey x)))"
    if ix: "ix \<in> set ixs" "x \<in> set (six_accounts ix)" and sf: "stands_for (map meta_pubkey ?metas) ci ix" for ix x ci
  proof -
    have "meta_pubkey x \<in> set (map (\<lambda>i. map meta_pubkey ?metas ! unat i) (accounts_indices ci))"
      using ix(2) sf by (simp add: stands_for_def)
    then obtain i where "i \<in> set (accounts_indices ci)" "meta_pubkey x = map meta_pubkey ?metas ! unat i" by auto
    then have "meta_pubkey x \<in> set (map meta_pubkey ?metas)" using sf by (auto simp: stands_for_def)
    then obtain m where m: "m \<in> set ?metas" "meta_pubkey m = meta_pubkey x" by auto
    have "meta_is_signer x \<longrightarrow> meta_is_signer m" "meta_is_writable x \<longrightarrow> meta_is_writable m"
      using c m ix by (auto simp: key_signs_def key_writable_def)
    with grants m show ?thesis by (auto simp: transaction_grants_def)
  qed
  from c have "list_all2 (stands_for (map meta_pubkey ?metas)) (cep_instructions c) ixs" by blast
  then show ?thesis
    unfolding list_all2_map1
    by (rule list.rel_mono_strong) (rule expanded_carried_out, assumption, rule granted)
qed

lemma invoked_carried_out:
  assumes "message_laws lib" and "compile_instructions_for_execution lib ixs payer = Built c"
    and "length (cep_account_metas c) \<le> 256" and "transaction_grants st (cep_account_metas c)"
    and "to_signer_seeds ea = Ok seeds"
    and "invoke_instructions rt (map meta_pubkey (cep_account_metas c))
      (create_instruction_execution_account_metas st (map meta_pubkey (cep_account_metas c)) ea scheme) ea
      (cep_instructions c) [] [] w = Ok w'"
  shows "\<exists>ivs. w_invoked w' = w_invoked w @ ivs \<and> list_all2 (carried_out scheme (execution_key ea)) ivs ixs"
  using assms(6) compiled_carried_out [OF assms(1-4), of scheme ea seeds]
  by (auto simp: invoke_instructions_Ok [OF _ assms(5)])

lemma signer_execution_scheme_u8_inj:
  "signer_execution_scheme_u8 a = signer_execution_scheme_u8 b \<longleftrightarrow> a = b"
  by (cases a; cases b) simp_all

lemma process_instruction_handlers:
  "process_instruction rt pid accounts (0 # bs) w = process_initialize_external_account rt accounts bs w"
  "process_instruction rt pid accounts (1 # bs) w = process_execute_instructions rt accounts bs w"
  "process_instruction rt pid accounts (2 # bs) w = process_refresh_session_key rt accounts bs w"
  "process_instruction rt pid accounts (3 # bs) w = process_execute_instructions_sessioned rt accounts bs w"
  by (simp_all add: process_instruction_def)

lemma transaction_grants_Cons [simp]:
  "transaction_grants st (m # ms) \<longleftrightarrow> (meta_is_signer m \<longrightarrow> acc_is_signer (st (meta_pubkey m))) \<and>
     (meta_is_writable m \<longrightarrow> acc_is_writable (st (meta_pubkey m))) \<and> transaction_grants st ms"
  by (auto simp: transaction_grants_def)

section \<open>Properties\<close>

text \<open>
  The SDK derives the addresses the program checks: the account of a passkey and its execution
  account, with their bumps.
\<close>

theorem sdk_addresses_agree:
  assumes "lib_matches lib rt"
  shows "(derive_passkey_account lib pk = Built (k, b) \<longleftrightarrow>
      (\<exists>s. p256_derive_account rt \<lparr>derive_public_key = pk\<rparr> = Ok s \<and> seeds_key s = k \<and> seeds_bump s = b)) \<and>
    (derive_execution_account lib (esa_key a) = Built (k, b) \<longleftrightarrow>
      (\<exists>ea. get_execution_account rt T st a ExecutionAccount = Ok ea \<and> execution_key ea = k \<and> execution_bump ea = b))"
  using derive_passkey_account_Built [OF assms] assms
  by (auto simp: derive_execution_account_def get_execution_account_def lib_matches_def Let_def
      sdk_simps result_simps)

text \<open>
  A sessioned execution built by the SDK, when the program accepts it, invokes exactly the
  caller's instructions, in order, under the signer scheme the caller chose (\<open>carried_out\<close>).
\<close>

theorem sdk_sessioned_execution:
  assumes "lib_matches lib rt" and "message_laws lib" and "borsh_format (rt_borsh rt)" and "borrow_faithful rt"
    and "execute_instructions_sessioned lib passkey signer ixs scheme = Built ix"
    and "length (six_accounts ix) \<le> 256" and "transaction_grants (w_store w) (six_accounts ix)"
    and "process_instruction rt pid (map meta_pubkey (six_accounts ix)) (six_data ix) w = Ok w'"
  shows "\<exists>ea ivs. get_execution_account rt (p256_trait rt) (w_store w) (account_of (w_store w) passkey) scheme = Ok ea \<and>
    w_invoked w' = w_invoked w @ ivs \<and> list_all2 (carried_out scheme (execution_key ea)) ivs ixs"
proof -
  obtain c bs where c: "compile_instructions_for_execution lib ixs signer = Built c"
    and bs: "executable_instruction_sessioned_args_serialize (rt_borsh rt)
      \<lparr>sess_signature_scheme = 0, sess_signer_execution_scheme = signer_execution_scheme_u8 scheme,
       sess_instructions = cep_instructions c\<rparr> = Some bs"
    and ix: "six_accounts ix = [meta_new passkey False, meta_new_readonly signer True] @ cep_account_metas c"
      "six_data ix = 3 # bs"
    using assms(1,5) by (auto simp: execute_instructions_sessioned_def sdk_simps Let_def lib_matches_def)
  have run: "process_execute_instructions_sessioned rt (passkey # signer # map meta_pubkey (cep_account_metas c)) bs w = Ok w'"
    using assms(8) by (simp add: ix process_instruction_handlers)
  have read: "try_from_slice (executable_instruction_sessioned_args_deserialize (rt_borsh rt)) bs = Some
      \<lparr>sess_signature_scheme = 0, sess_signer_execution_scheme = signer_execution_scheme_u8 scheme,
       sess_instructions = cep_instructions c\<rparr>"
    using codec.slice_round_trip [OF borsh_format.executable_instruction_sessioned_args_codec [OF assms(3)] bs] .
  obtain ea where ea: "get_execution_account rt (p256_trait rt) (w_store w) (account_of (w_store w) passkey) scheme = Ok ea"
    and inv: "invoke_instructions rt (map meta_pubkey (cep_account_metas c))
      (create_instruction_execution_account_metas (w_store w) (map meta_pubkey (cep_account_metas c)) ea scheme) ea
      (cep_instructions c) [] [] w = Ok w'"
    using run [unfolded process_sessioned_iff [OF assms(4)]] by (auto simp: read signer_execution_scheme_u8_inj)
  obtain seeds where seeds: "to_signer_seeds ea = Ok seeds"
    using get_execution_account_seeds [OF ea] by blast
  have "length (cep_account_metas c) \<le> 256" "transaction_grants (w_store w) (cep_account_metas c)"
    using assms(6,7) by (simp_all add: ix)
  from invoked_carried_out [OF assms(2) c this seeds inv] ea show ?thesis by blast
qed

text \<open>
  C31. An execution built by the SDK, when the program accepts it, invokes exactly the caller's
  instructions, in order, under the signer scheme the caller chose: the same programs, data and
  accounts, each account with at least the privileges the caller asks for.  One exception: under the
  scheme \<open>ExternalAccount\<close> the external account itself is passed read-only, also where the caller
  asks for it writable.
\<close>

theorem sdk_execution:
  assumes "lib_matches lib rt" and "message_laws lib" and "borsh_format (rt_borsh rt)" and "borrow_faithful rt"
    and "execute_instructions lib wd passkey signer slot ixs scheme = Built ix"
    and "length (six_accounts ix) \<le> 256" and "transaction_grants (w_store w) (six_accounts ix)"
    and "process_instruction rt pid (map meta_pubkey (six_accounts ix)) (six_data ix) w = Ok w'"
  shows "\<exists>ea ivs. get_execution_account rt (p256_trait rt) (w_store w) (account_of (w_store w) passkey) scheme = Ok ea \<and>
    w_invoked w' = w_invoked w @ ivs \<and> list_all2 (carried_out scheme (execution_key ea)) ivs ixs"
proof -
  obtain c bs extra sid where c: "compile_instructions_for_execution lib ixs signer = Built c"
    and bs: "executable_instruction_args_serialize (rt_borsh rt)
      \<lparr>exec_signature_scheme = 0, exec_signer_execution_scheme = signer_execution_scheme_u8 scheme,
       exec_slothash = slot, exec_extra_verification_data = extra, exec_instructions = cep_instructions c\<rparr> = Some bs"
    and ix: "six_accounts ix = [meta_new passkey False, meta_new_readonly sid False,
        meta_new_readonly SLOT_HASHES_ID False, meta_new signer True] @ cep_account_metas c"
      "six_data ix = 1 # bs"
    using assms(1,5) by (auto simp: execute_instructions_def sdk_simps Let_def lib_matches_def)
  have run: "process_execute_instructions rt
      (passkey # sid # SLOT_HASHES_ID # signer # map meta_pubkey (cep_account_metas c)) bs w = Ok w'"
    using assms(8) by (simp add: ix process_instruction_handlers)
  have read: "try_from_slice (executable_instruction_args_deserialize (rt_borsh rt)) bs = Some
      \<lparr>exec_signature_scheme = 0, exec_signer_execution_scheme = signer_execution_scheme_u8 scheme,
       exec_slothash = slot, exec_extra_verification_data = extra, exec_instructions = cep_instructions c\<rparr>"
    using codec.slice_round_trip [OF borsh_format.executable_instruction_args_codec [OF assms(3)] bs] .
  obtain ea st seeds where ea: "get_execution_account rt (p256_trait rt) (w_store w) (account_of (w_store w) passkey) scheme = Ok ea"
    and seeds: "to_signer_seeds ea = Ok seeds"
    and inv: "invoke_instructions rt (map meta_pubkey (cep_account_metas c))
      (create_instruction_execution_account_metas (w_store w) (map meta_pubkey (cep_account_metas c)) ea scheme) ea
      (cep_instructions c) [] [] (w\<lparr>w_store := st\<rparr>) = Ok w'"
    using execute_steps [OF assms(4) run] by (auto simp: read signer_execution_scheme_u8_inj)
  have "length (cep_account_metas c) \<le> 256" "transaction_grants (w_store w) (cep_account_metas c)"
    using assms(6,7) by (simp_all add: ix)
  from invoked_carried_out [OF assms(2) c this seeds inv] ea show ?thesis by auto
qed

text \<open>
  C32. An account the SDK initializes, when the program accepts it, is at the address the SDK
  returned and holds what the caller gave: the relying party, the passkey and the session key.
\<close>

theorem sdk_initialization:
  assumes "lib_matches lib rt" and "borsh_format (rt_borsh rt)" and "borrow_faithful rt" and "sha256_length rt"
    and "system_program_laws rt" and "length (wd_public_key wd) = 33"
    and "(case sk of None \<Rightarrow> initialize_passkey_account lib wd rp payer slot
          | Some s \<Rightarrow> initialize_passkey_account_with_session lib wd rp payer slot s) = Built (k, ix)"
    and "process_instruction rt pid (map meta_pubkey (six_accounts ix)) (six_data ix) w = Ok w'"
  shows "\<exists>d. p256_at rt (w_store w') k d \<and> stored_rp_id (rp_id_info d) = rp \<and>
    sec1_bytes (public_key d) = wd_public_key wd \<and>
    p256_session_key d = (case sk of None \<Rightarrow> \<lparr>session_key_key = replicate 32 0, expiration = 0\<rparr> | Some s \<Rightarrow> s) \<and>
    (\<forall>j. j \<noteq> k \<longrightarrow> (\<exists>l. w_store w' j = (w_store w j)\<lparr>acc_lamports := l\<rparr>)) \<and> w_invoked w' = w_invoked w"
proof -
  have "initialize_with lib wd rp payer slot sk = Built (k, ix)"
    using assms(7) by (cases sk) (simp_all add: initialize_passkey_account_def initialize_passkey_account_with_session_def)
  then obtain raw bs sid where
    raw: "raw_init_writer (rt_borsh rt) \<lparr>raw_rp_id = rp, raw_init_public_key = wd_public_key wd, raw_init_params = wd_params wd\<rparr>
      = Some raw"
    and bs: "initialize_account_args_serialize (rt_borsh rt) \<lparr>init_slothash = slot,
      init_signature_scheme = signature_scheme_u8 P256Webauthn, init_initialization_data = raw, init_session_key = sk\<rparr> = Some bs"
    and ix: "six_accounts ix = [meta_new k False, meta_new payer True, meta_new_readonly sid False,
        meta_new_readonly SLOT_HASHES_ID False, meta_new_readonly (system_program_id rt) False]" "six_data ix = 0 # bs"
    using assms(1) by (auto simp: initialize_with_def sdk_simps Let_def lib_matches_def split: prod.splits)
  let ?raw = "\<lparr>raw_rp_id = rp, raw_init_public_key = wd_public_key wd, raw_init_params = wd_params wd\<rparr>"
  let ?args = "\<lparr>init_slothash = slot, init_signature_scheme = signature_scheme_u8 P256Webauthn,
    init_initialization_data = raw, init_session_key = sk\<rparr>"
  have read: "try_from_slice (initialize_account_args_deserialize (rt_borsh rt)) bs = Some ?args"
    using codec.slice_round_trip [OF borsh_format.initialize_account_args_codec [OF assms(2)] bs] .
  have read_raw: "try_from_slice (p256_raw_initialization_data_deserialize (rt_borsh rt)) raw = Some ?raw"
    using codec.slice_round_trip [OF borsh_format.raw_init_codec [OF assms(2)] raw] .
  have run: "process_initialize_external_account rt [k, payer, sid, SLOT_HASHES_ID, system_program_id rt] bs w = Ok w'"
    using assms(8) by (simp add: ix process_instruction_handlers)
  obtain pi sysvar challenge d where sub: "submitted_initialization rt ?args pi"
    and ver: "p256_verify_initialization_payload rt sysvar pi challenge (initialized_p256 pi sk) = Ok d"
    and at: "p256_at rt (w_store w') k d"
    and frame: "\<forall>j. j \<noteq> k \<longrightarrow> (\<exists>l. w_store w' j = (w_store w j)\<lparr>acc_lamports := l\<rparr>)" "w_invoked w' = w_invoked w"
    using initialize_steps [OF assms(3,4,2,5) run] by (auto simp: read)
  from sub have "p256_parse_initialization_data rt ?raw = Ok pi"
    by (simp add: submitted_initialization_def read_raw)
  from p256_parse_initialization_data_Ok [OF this assms(4)]
  have pi: "stored_rp_id (parsed_rp_id_info pi) = rp" "sec1_bytes (parsed_init_public_key pi) = wd_public_key wd"
    using assms(6) by simp_all
  obtain n where "d = (initialized_p256 pi sk)\<lparr>counter := n\<rparr>"
    using p256_verify_payload_counter [OF ver [unfolded p256_verify_initialization_payload_eq]] by blast
  then have "rp_id_info d = parsed_rp_id_info pi" "public_key d = parsed_init_public_key pi"
    "p256_session_key d = (case sk of None \<Rightarrow> \<lparr>session_key_key = replicate 32 0, expiration = 0\<rparr> | Some s \<Rightarrow> s)"
    by (auto simp: initialized_p256_def zero_p256_def split: option.splits)
  with at pi frame show ?thesis by auto
qed

text \<open>
  C33. A refresh built by the SDK, when the program accepts it, gives the account the caller's
  session key for the caller's duration from the chain's time, and leaves everything else of it but
  the counter.
\<close>

theorem sdk_refresh:
  assumes "lib_matches lib rt" and "borsh_format (rt_borsh rt)" and "borrow_faithful rt"
    and "sdk_refresh_session_key lib wd passkey payer slot sk = Built ix"
    and "process_instruction rt pid (map meta_pubkey (six_accounts ix)) (six_data ix) w = Ok w'"
  shows "\<exists>d n now. p256_at rt (w_store w) passkey d \<and> clock_unix_timestamp rt = Ok now \<and>
    p256_at rt (w_store w') passkey (d\<lparr>counter := n, p256_session_key := refreshed_session_key now sk\<rparr>) \<and>
    counter d \<le> n \<and> data_frame passkey (w_store w) (w_store w') \<and> w_invoked w' = w_invoked w"
proof -
  obtain verif bs sid where bs: "refresh_session_key_args_serialize (rt_borsh rt) \<lparr>refresh_slothash = slot,
      refresh_signature_scheme = 0, refresh_verification_data = verif, refresh_session_key = sk\<rparr> = Some bs"
    and ix: "six_accounts ix = [meta_new passkey False, meta_new_readonly sid False,
        meta_new_readonly SLOT_HASHES_ID False, meta_new payer True]" "six_data ix = 2 # bs"
    using assms(1,4) by (auto simp: sdk_refresh_session_key_def sdk_simps Let_def lib_matches_def)
  have read: "try_from_slice (refresh_session_key_args_deserialize (rt_borsh rt)) bs = Some
      \<lparr>refresh_slothash = slot, refresh_signature_scheme = 0, refresh_verification_data = verif, refresh_session_key = sk\<rparr>"
    using codec.slice_round_trip [OF borsh_format.refresh_session_key_args_codec [OF assms(2)] bs] .
  have run: "process_refresh_session_key rt [passkey, sid, SLOT_HASHES_ID, payer] bs w = Ok w'"
    using assms(5) by (simp add: ix process_instruction_handlers)
  obtain d d' now p sysvar pv where d: "p256_at rt (w_store w) passkey d"
    and ver: "p256_verify_payload rt sysvar pv p d = Ok d'" and now: "clock_unix_timestamp rt = Ok now"
    and d': "p256_at rt (w_store w') passkey (d'\<lparr>p256_session_key := refreshed_session_key now sk\<rparr>)"
    and frame: "data_frame passkey (w_store w) (w_store w')" "w_invoked w' = w_invoked w"
    using refresh_steps [OF assms(3,2) run] by (auto simp: read)
  have "d' = d\<lparr>counter := counter d'\<rparr>" "counter d \<le> counter d'" using p256_verify_payload_counter [OF ver] by blast+
  with d now d' frame show ?thesis by metis
qed

end
