(* ===== verification/Completeness.thy ===== *)
theory Completeness
  imports Protocol
begin

text \<open>
  The other direction of what the handlers guarantee: nothing that is properly authorised is turned
  down.  Each handler is run from what its caller has to provide (an account, a recent slot hash and
  a signer, an assertion of the passkey or a live session key, arguments in their encoding) to the
  exact state it leaves.
\<close>

section \<open>What a caller provides\<close>

text \<open>
  An assertion: the transaction's first instruction is a secp256r1 instruction with one signature by
  the account's key, over authenticator data for its relying party with the user present and over
  the clientDataJSON for the payload; \<open>c\<close> is the signature counter.
\<close>

definition assertion_made ::
  "runtime \<Rightarrow> bytes \<Rightarrow> client_data_json_params \<Rightarrow> bytes \<Rightarrow> p256_account_data \<Rightarrow> u32 \<Rightarrow> bool" where
  "assertion_made rt sysvar params payload d c \<longleftrightarrow>
     (\<exists>ix pl ad j. instruction_at rt sysvar 0 = Ok ix \<and> iix_program_id ix = SECP256R1_PRECOMPILE_ID \<and>
        iix_even ix \<and> iix_data ix ! 0 = 1 \<and> verified_payload rt sysvar (iix_data ix) 0 = Some pl \<and>
        payload_public_key pl = sec1_bytes (public_key d) \<and> payload_message pl = ad @ hash rt j \<and>
        37 \<le> length ad \<and> take 32 ad = rp_id_hash (rp_id_info d) \<and> ad ! 32 AND 1 \<noteq> 0 \<and>
        reconstruct_client_data_json rt params (stored_rp_id (rp_id_info d)) payload = Ok j \<and>
        c = u32_from_be (take 4 (drop 33 ad)))"

text \<open>A counter the account admits, and the account with that counter.\<close>

definition counter_fresh :: "u32 \<Rightarrow> p256_account_data \<Rightarrow> bool" where
  "counter_fresh c d \<longleftrightarrow> c = 0 \<or> counter d < ucast c"

definition counted :: "u32 \<Rightarrow> p256_account_data \<Rightarrow> p256_account_data" where
  "counted c d = (if c = 0 then d else d\<lparr>counter := ucast c\<rparr>)"

text \<open>An account the program has made, not borrowed elsewhere and passed as writable.\<close>

definition account_ready :: "runtime \<Rightarrow> store \<Rightarrow> pubkey \<Rightarrow> p256_account_data \<Rightarrow> bool" where
  "account_ready rt st k d \<longleftrightarrow> p256_at rt st k d \<and> account_ok rt k d \<and> acc_is_writable (st k) \<and>
     borrow_mut_data rt (st k) = Ok (acc_data (st k))"

text \<open>A slot hash less than 150 slots old, named by the last digits of its slot, and a signer.\<close>

definition nonce_available ::
  "runtime \<Rightarrow> store \<Rightarrow> account_info \<Rightarrow> truncated_slot \<Rightarrow> nonce_data \<Rightarrow> bool" where
  "nonce_available rt st shs slot nonce \<longleftrightarrow>
     get_stack_height rt \<le> 1 \<and> acc_is_signer (st (signer_key nonce)) \<and>
     (\<exists>sh e. slot_hashes_try_from rt st shs = Ok sh \<and> slots_descending (slot_table rt sh) \<and>
        nonce_entry (slot_table rt sh) (slot_number slot) e \<and> nonce_slothash nonce = slot_hash_hash e)"

text \<open>The store with an account's struct replaced.\<close>

definition with_p256 :: "runtime \<Rightarrow> store \<Rightarrow> pubkey \<Rightarrow> p256_account_data \<Rightarrow> store" where
  "with_p256 rt st k d = esa_store (p256_trait rt) st (account_of st k) d"

section \<open>The pieces the handlers share\<close>

lemma nonce_available_validated:
  assumes "nonce_available rt st shs slot nonce"
  shows "\<exists>sh. slot_hashes_try_from rt st shs = Ok sh \<and> validate_nonce rt st sh slot (signer_key nonce) = Ok nonce"
proof -
  obtain sh e where sh: "slot_hashes_try_from rt st shs = Ok sh" "slots_descending (slot_table rt sh)"
    and e: "nonce_entry (slot_table rt sh) (slot_number slot) e" "nonce_slothash nonce = slot_hash_hash e"
    and ok: "get_stack_height rt \<le> 1" "acc_is_signer (st (signer_key nonce))"
    using assms by (auto simp: nonce_available_def)
  have "unat (slot_number slot) < 1000" using e(1) by (auto simp: nonce_entry_def)
  then have "slot_number slot < 1000" by (simp add: word_less_nat_alt)
  moreover have "\<exists>!e. nonce_entry (slot_table rt sh) (slot_number slot) e"
    using e(1) nonce_entry_unique [OF sh(2)] by blast
  moreover have "nonce = \<lparr>signer_key = signer_key nonce, nonce_slothash = slot_hash_hash e\<rparr>"
    using e(2) by simp
  ultimately have "validate_nonce rt st sh slot (signer_key nonce) = Ok nonce"
    unfolding validate_nonce_spec [OF sh(2)] using ok e(1) by blast
  with sh(1) show ?thesis by blast
qed

lemma ready_wf: "account_ready rt st k d \<Longrightarrow> p256_account_wf d"
  using p256.esa_data_wf by (auto simp: account_ready_def p256_at_def)

lemma ready_data: "account_ready rt st k d \<Longrightarrow> esa_data (p256_trait rt) st (account_of st k) = Ok d"
  by (simp add: account_ready_def p256_at_def)

lemma ready_load:
  assumes "account_ready rt st k d"
  shows "esa_load rt st k = Ok (account_of st k)"
proof -
  have "152 \<le> length (acc_data (st k))" using p256.esa_data_fits [OF ready_data [OF assms]] by simp
  then have "acc_data (st k) \<noteq> []" by auto
  with assms show ?thesis by (simp add: account_ready_def p256_at_def result_simps account_of_def)
qed

lemma ready_check:
  assumes "account_ready rt st k d" and "sec1_bytes (parsed_verif_public_key pv) = sec1_bytes (public_key d)"
  shows "\<exists>s. esa_check_account (p256_trait rt) st (account_of st k) pv = Ok s"
proof -
  obtain s where s: "p256_derive_existing_account rt d = Ok s" "seeds_key s = k"
    using assms(1) by (auto simp: account_ready_def account_ok_def)
  then have "p256_derive_account rt (p256_args_of_verif pv) = Ok s"
    using assms(2) by (simp add: p256_derive_existing_account_def p256_args_of_verif_def)
  with s(2) assms(1) ready_data [OF assms(1)] show ?thesis
    by (simp add: esa_check_account_def account_ready_def p256_check_account_def ensure_def)
qed

lemma with_p256:
  assumes "p256_at rt st k d" and "p256_account_wf d'" and "p256_header d' = p256_header d"
  shows "p256_at rt (with_p256 rt st k d') k d'" "data_frame k st (with_p256 rt st k d')"
proof -
  have data: "esa_data (p256_trait rt) st (account_of st k) = Ok d" using assms(1) by (simp add: p256_at_def)
  show frame: "data_frame k st (with_p256 rt st k d')"
    using p256.esa_store_frame [OF data assms(2)] by (simp add: with_p256_def)
  show "p256_at rt (with_p256 rt st k d') k d'"
    using p256.esa_data_store [OF data assms(2,3)] assms(1) data_frame_fields(1) [OF frame, of k]
      data_frame_account_of [OF frame, of k]
    by (simp add: p256_at_def with_p256_def)
qed

lemma counted_fields [simp]:
  "p256_header (counted c d) = p256_header d" "public_key (counted c d) = public_key d"
  "rp_id_info (counted c d) = rp_id_info d" "p256_session_key (counted c d) = p256_session_key d"
  by (simp_all add: counted_def)

lemma counter_fresh_zero: "counter d = 0 \<Longrightarrow> counter_fresh c d"
proof -
  have "unat c < 2 ^ 32" using unsigned_less [of c, where ?'a = nat] by simp
  then have "unat c < 2 ^ 64" by simp
  then have "unat (ucast c :: u64) = unat c" by (simp add: unsigned_ucast_eq take_bit_nat_eq_self)
  then have "c \<noteq> 0 \<Longrightarrow> 0 < (ucast c :: u64)" by (simp add: word_less_nat_alt unat_gt_0)
  then show "counter d = 0 \<Longrightarrow> counter_fresh c d" by (auto simp: counter_fresh_def)
qed

lemma counted_wf: "p256_account_wf d \<Longrightarrow> p256_account_wf (counted c d)"
  by (simp add: counted_def p256_account_wf_def)

lemma rp_id_fits: "p256_account_wf d \<Longrightarrow> rp_id_consistent rt (rp_id_info d) \<Longrightarrow>
  unat (rp_id_len (rp_id_info d)) \<le> length (rp_id (rp_id_info d))"
  by (simp add: rp_id_consistent_def p256_account_wf_def rp_id_information_wf_def)

lemma assertion_accepted:
  assumes "sha256_length rt" and "assertion_made rt sysvar (parsed_verif_params pv) payload d c"
    and "counter_fresh c d" and "unat (rp_id_len (rp_id_info d)) \<le> length (rp_id (rp_id_info d))"
  shows "p256_verify_payload rt sysvar pv payload d = Ok (counted c d)"
proof -
  obtain ix pl ad j where a: "instruction_at rt sysvar 0 = Ok ix" "iix_program_id ix = SECP256R1_PRECOMPILE_ID"
    "iix_even ix" "iix_data ix ! 0 = 1" "verified_payload rt sysvar (iix_data ix) 0 = Some pl"
    "payload_public_key pl = sec1_bytes (public_key d)" "payload_message pl = ad @ hash rt j"
    "37 \<le> length ad" "take 32 ad = rp_id_hash (rp_id_info d)" "ad ! 32 AND 1 \<noteq> 0"
    "reconstruct_client_data_json rt (parsed_verif_params pv) (stored_rp_id (rp_id_info d)) payload = Ok j"
    "c = u32_from_be (take 4 (drop 33 ad))"
    using assms(2) by (auto simp: assertion_made_def)
  from correct_assertion_accepted [OF assms(1) a(1-10) assms(4) a(11,12)] assms(3)
  show ?thesis by (auto simp: counter_fresh_def counted_def)
qed

lemma ready_verify:
  assumes "sha256_length rt" and "account_ready rt st k d"
    and "assertion_made rt sysvar (parsed_verif_params pv) payload d c" and "counter_fresh c d"
  shows "esa_verify_payload (p256_trait rt) st (account_of st k) sysvar pv payload =
    Ok (with_p256 rt st k (counted c d))"
proof -
  have "unat (rp_id_len (rp_id_info d)) \<le> length (rp_id (rp_id_info d))"
    using rp_id_fits ready_wf [OF assms(2)] assms(2) by (auto simp: account_ready_def account_ok_def)
  from assertion_accepted [OF assms(1,3,4) this] ready_data [OF assms(2)] show ?thesis
    by (simp add: esa_verify_payload_def with_p256_def)
qed

text \<open>Verification data that names the account's own key.\<close>

lemma own_key_parsed:
  assumes "borsh_format (rt_borsh rt)" and "p256_account_wf d"
    and "raw_verif_writer (rt_borsh rt) \<lparr>raw_verif_public_key = sec1_bytes (public_key d), raw_verif_params = params\<rparr>
           = Some bs"
  shows "\<exists>raw pv. try_from_slice (p256_raw_verification_data_deserialize (rt_borsh rt)) bs = Some raw \<and>
    p256_parse_verification_data raw = Ok pv \<and>
    sec1_bytes (parsed_verif_public_key pv) = sec1_bytes (public_key d) \<and> parsed_verif_params pv = params"
proof -
  let ?raw = "\<lparr>raw_verif_public_key = sec1_bytes (public_key d), raw_verif_params = params\<rparr>"
  have read: "try_from_slice (p256_raw_verification_data_deserialize (rt_borsh rt)) bs = Some ?raw"
    by (rule codec.slice_round_trip [OF borsh_format.raw_verif_codec [OF assms(1)] assms(3)])
  have "length (sec1_bytes (public_key d)) = 33"
    using assms(2) by (simp add: p256_account_wf_def public_key_wf_def sec1_bytes_def)
  then obtain k where "compressed_p256_public_key_new (sec1_bytes (public_key d)) = Ok k"
    "sec1_bytes k = sec1_bytes (public_key d)"
    using compressed_p256_public_key_new_33 by blast
  with read show ?thesis by (auto simp: p256_parse_verification_data_def)
qed

section \<open>Execution\<close>

text \<open>
  The inner calls of an execution: what the compiled instructions expand to, all in range and none
  of them into this program, run in order from the store \<open>st\<close> (the metas come from \<open>st0\<close>, the
  store the transaction started with).
\<close>

definition inner_calls ::
  "store \<Rightarrow> account_info list \<Rightarrow> execution_account \<Rightarrow> signer_execution_scheme \<Rightarrow> bytes list
     \<Rightarrow> compiled_instruction list \<Rightarrow> invocation list" where
  "inner_calls st0 accounts ea scheme seeds cis =
     map (expanded_invocation accounts (create_instruction_execution_account_metas st0 accounts ea scheme) seeds) cis"

definition inner_calls_run ::
  "runtime \<Rightarrow> store \<Rightarrow> account_info list \<Rightarrow> execution_account \<Rightarrow> signer_execution_scheme \<Rightarrow> bytes list
     \<Rightarrow> compiled_instruction list \<Rightarrow> store \<Rightarrow> store \<Rightarrow> bool" where
  "inner_calls_run rt st0 accounts ea scheme seeds cis st st' \<longleftrightarrow>
     (\<forall>ci \<in> set cis. instruction_in_range (length accounts) ci \<and>
        accounts ! unat (program_id_index ci) \<noteq> crate_ID) \<and>
     run_invocations rt (inner_calls st0 accounts ea scheme seeds cis) st = Ok st'"

lemma inner_calls_invoked:
  assumes "to_signer_seeds ea = Ok seeds"
    and "inner_calls_run rt st0 accounts ea scheme seeds cis (w_store w) st'"
  shows "invoke_instructions rt accounts (create_instruction_execution_account_metas st0 accounts ea scheme) ea
    cis [] [] w = Ok (w\<lparr>w_store := st', w_invoked := w_invoked w @ inner_calls st0 accounts ea scheme seeds cis\<rparr>)"
  using assms(2)
  by (subst invoke_instructions_Ok [OF _ assms(1)]) (auto simp: inner_calls_run_def inner_calls_def)

lemma execution_runs:
  assumes B: "borsh_format (rt_borsh rt)" and sha: "sha256_length rt"
    and ready: "account_ready rt (w_store w) external d"
    and ixs: "instructions_try_from rt ixs (w_store w ixs) = Ok sysvar"
    and nonce: "nonce_available rt (w_store w) shs (exec_slothash args) nonce"
    and data: "executable_instruction_args_serialize (rt_borsh rt) args = Some data"
    and schemes: "exec_signature_scheme args = 0"
      "exec_signer_execution_scheme args = signer_execution_scheme_u8 scheme"
    and own: "raw_verif_writer (rt_borsh rt) \<lparr>raw_verif_public_key = sec1_bytes (public_key d),
      raw_verif_params = params\<rparr> = Some (exec_extra_verification_data args)"
    and ea: "get_execution_account rt (p256_trait rt) (w_store w) (account_of (w_store w) external) scheme = Ok ea"
    and seeds: "to_signer_seeds ea = Ok seeds"
    and p: "instruction_payload rt (w_store w) nonce rest (exec_instructions args) = Ok p"
    and made: "assertion_made rt sysvar params (hash rt p) d c" and fresh: "counter_fresh c d"
    and calls: "inner_calls_run rt (w_store w) rest ea scheme seeds (exec_instructions args)
      (with_p256 rt (w_store w) external (counted c d)) st'"
  shows "process_execute_instructions rt (external # ixs # shs # signer_key nonce # rest) data w =
    Ok (w\<lparr>w_store := st', w_invoked := w_invoked w @
          inner_calls (w_store w) rest ea scheme seeds (exec_instructions args)\<rparr>)"
proof -
  have read: "try_from_slice (executable_instruction_args_deserialize (rt_borsh rt)) data = Some args"
    by (rule codec.slice_round_trip [OF borsh_format.executable_instruction_args_codec [OF B] data])
  obtain sh where sh: "slot_hashes_try_from rt (w_store w) shs = Ok sh"
    "validate_nonce rt (w_store w) sh (exec_slothash args) (signer_key nonce) = Ok nonce"
    using nonce_available_validated [OF nonce] by blast
  obtain raw pv where raw: "try_from_slice (p256_raw_verification_data_deserialize (rt_borsh rt))
      (exec_extra_verification_data args) = Some raw" "p256_parse_verification_data raw = Ok pv"
    and pv: "sec1_bytes (parsed_verif_public_key pv) = sec1_bytes (public_key d)" "parsed_verif_params pv = params"
    using own_key_parsed [OF B ready_wf [OF ready] own] by blast
  obtain s where check: "esa_check_account (p256_trait rt) (w_store w) (account_of (w_store w) external) pv = Ok s"
    using ready_check [OF ready pv(1)] by blast
  have ver: "esa_verify_payload (p256_trait rt) (w_store w) (account_of (w_store w) external) sysvar pv (hash rt p)
      = Ok (with_p256 rt (w_store w) external (counted c d))"
    using ready_verify [OF sha ready _ fresh, of sysvar pv] made pv(2) by simp
  have scheme: "signer_execution_scheme_try_from_primitive (exec_signer_execution_scheme args) = Some scheme"
    "signature_scheme_try_from_primitive (exec_signature_scheme args) = Some P256Webauthn"
    by (cases scheme; simp add: schemes signer_execution_scheme_try_from_primitive_def
        signature_scheme_try_from_primitive_def)+
  have inv: "invoke_instructions rt rest (create_instruction_execution_account_metas (w_store w) rest ea scheme) ea
      (exec_instructions args) [] [] (w\<lparr>w_store := with_p256 rt (w_store w) external (counted c d)\<rparr>) =
    Ok (w\<lparr>w_store := st', w_invoked := w_invoked w @
          inner_calls (w_store w) rest ea scheme seeds (exec_instructions args)\<rparr>)"
    using inner_calls_invoked [OF seeds, of rt "w_store w" rest scheme "exec_instructions args"
        "w\<lparr>w_store := with_p256 rt (w_store w) external (counted c d)\<rparr>" st'] calls by simp
  show ?thesis
    by (simp add: process_execute_instructions_def read scheme raw ready_load [OF ready] check ixs sh ea
        get_instruction_payload_hash_def p ver inv)
qed

section \<open>Execution under a session key\<close>

lemma sessioned_execution_runs:
  assumes B: "borsh_format (rt_borsh rt)" and bf: "borrow_faithful rt"
    and at: "p256_at rt (w_store w) external d"
    and borrow: "borrow_mut_data rt (w_store w external) = Ok (acc_data (w_store w external))"
    and live: "live_session rt (w_store w) signer d"
    and data: "executable_instruction_sessioned_args_serialize (rt_borsh rt) args = Some data"
    and schemes: "sess_signature_scheme args = 0"
      "sess_signer_execution_scheme args = signer_execution_scheme_u8 scheme"
    and ea: "get_execution_account rt (p256_trait rt) (w_store w) (account_of (w_store w) external) scheme = Ok ea"
    and seeds: "to_signer_seeds ea = Ok seeds"
    and calls: "inner_calls_run rt (w_store w) rest ea scheme seeds (sess_instructions args) (w_store w) st'"
  shows "process_execute_instructions_sessioned rt (external # signer # rest) data w =
    Ok (w\<lparr>w_store := st', w_invoked := w_invoked w @
          inner_calls (w_store w) rest ea scheme seeds (sess_instructions args)\<rparr>)"
proof -
  have read: "try_from_slice (executable_instruction_sessioned_args_deserialize (rt_borsh rt)) data = Some args"
    by (rule codec.slice_round_trip [OF borsh_format.executable_instruction_sessioned_args_codec [OF B] data])
  have "152 \<le> length (acc_data (w_store w external))"
    using at p256.esa_data_fits [of rt "w_store w" "account_of (w_store w) external" d] by (simp add: p256_at_def)
  then have "acc_data (w_store w external) \<noteq> []" by auto
  then have "esa_load rt (w_store w) external = Ok (account_of (w_store w) external)"
    using at borrow by (simp add: p256_at_def result_simps account_of_def)
  with at live schemes ea read inner_calls_invoked [OF seeds calls] show ?thesis
    unfolding process_sessioned_iff [OF bf] by blast
qed

section \<open>Refreshing the session key\<close>

lemma with_p256_again:
  assumes "p256_at rt st k d" and "p256_account_wf d'" and "p256_header d' = p256_header d" and "p256_account_wf d''"
  shows "with_p256 rt (with_p256 rt st k d') k d'' = with_p256 rt st k d''"
proof -
  note lens = p256_pod.enc_length [OF assms(2)] p256_pod.enc_length [OF assms(4)]
  have "152 \<le> length (acc_data (st k))"
    using assms(1) p256.esa_data_fits [of rt st "account_of st k" d] by (simp add: p256_at_def)
  moreover have "account_of (with_p256 rt st k d') k = account_of st k"
    by (rule data_frame_account_of [OF with_p256(2) [OF assms(1-3)]])
  ultimately show ?thesis
    using lens by (simp add: with_p256_def esa_store_def esa_write_def overwrite_def fun_eq_iff)
qed

lemma refresh_runs:
  assumes B: "borsh_format (rt_borsh rt)" and sha: "sha256_length rt"
    and ready: "account_ready rt (w_store w) external d"
    and ixs: "instructions_try_from rt ixs (w_store w ixs) = Ok sysvar"
    and nonce: "nonce_available rt (w_store w) shs (refresh_slothash args) nonce"
    and data: "refresh_session_key_args_serialize (rt_borsh rt) args = Some data"
    and scheme: "refresh_signature_scheme args = 0"
    and own: "raw_verif_writer (rt_borsh rt) \<lparr>raw_verif_public_key = sec1_bytes (public_key d),
      raw_verif_params = params\<rparr> = Some (refresh_verification_data args)"
    and p: "refresh_payload rt nonce (refresh_session_key args) = Ok p"
    and made: "assertion_made rt sysvar params (hash rt p) d c" and fresh: "counter_fresh c d"
    and now: "clock_unix_timestamp rt = Ok now"
    and limit: "now + expiration (refresh_session_key args) \<le> session_expiration_bound now"
  shows "process_refresh_session_key rt (external # ixs # shs # signer_key nonce # rest) data w =
    Ok (w\<lparr>w_store := with_p256 rt (w_store w) external
          ((counted c d)\<lparr>p256_session_key := refreshed_session_key now (refresh_session_key args)\<rparr>)\<rparr>)"
proof -
  let ?st = "with_p256 rt (w_store w) external (counted c d)"
  let ?d = "(counted c d)\<lparr>p256_session_key := refreshed_session_key now (refresh_session_key args)\<rparr>"
  have at: "p256_at rt (w_store w) external d" using ready by (simp add: account_ready_def)
  note wf = counted_wf [OF ready_wf [OF ready], of c]
  have read: "try_from_slice (refresh_session_key_args_deserialize (rt_borsh rt)) data = Some args"
    by (rule codec.slice_round_trip [OF borsh_format.refresh_session_key_args_codec [OF B] data])
  obtain sh where sh: "slot_hashes_try_from rt (w_store w) shs = Ok sh"
    "validate_nonce rt (w_store w) sh (refresh_slothash args) (signer_key nonce) = Ok nonce"
    using nonce_available_validated [OF nonce] by blast
  obtain raw pv where raw: "try_from_slice (p256_raw_verification_data_deserialize (rt_borsh rt))
      (refresh_verification_data args) = Some raw" "p256_parse_verification_data raw = Ok pv"
    and pv: "sec1_bytes (parsed_verif_public_key pv) = sec1_bytes (public_key d)" "parsed_verif_params pv = params"
    using own_key_parsed [OF B ready_wf [OF ready] own] by blast
  obtain s where check: "esa_check_account (p256_trait rt) (w_store w) (account_of (w_store w) external) pv = Ok s"
    using ready_check [OF ready pv(1)] by blast
  have ver: "esa_verify_payload (p256_trait rt) (w_store w) (account_of (w_store w) external) sysvar pv (hash rt p)
      = Ok ?st"
    using ready_verify [OF sha ready _ fresh, of sysvar pv] made pv(2) by simp
  have st: "p256_at rt ?st external (counted c d)" "account_of ?st external = account_of (w_store w) external"
    using with_p256 [OF at wf] data_frame_account_of [of external "w_store w" ?st external] by simp_all
  have "session_key_wf (refresh_session_key args)" by (rule borsh_format.refresh_args_key_wf [OF B read])
  then have wf': "p256_account_wf ?d"
    using wf by (simp add: p256_account_wf_def refreshed_session_key_def session_key_wf_def)
  have "p256_update_session_key rt (refreshed_session_key now (refresh_session_key args)) (counted c d) = Ok ?d"
    using now limit by (simp add: result_simps refreshed_session_key_def)
  then have "esa_update_session_key (p256_trait rt) ?st (account_of (w_store w) external)
      (refreshed_session_key now (refresh_session_key args)) = Ok (with_p256 rt ?st external ?d)"
    using st by (simp add: esa_update_session_key_def p256_at_def with_p256_def)
  then have upd: "esa_update_session_key (p256_trait rt) ?st (account_of (w_store w) external)
      (refreshed_session_key now (refresh_session_key args)) = Ok (with_p256 rt (w_store w) external ?d)"
    using with_p256_again [OF at wf _ wf'] by simp
  show ?thesis
    by (simp add: process_refresh_session_key_def read scheme signature_scheme_try_from_primitive_def raw
        ready_load [OF ready] check ixs sh get_refresh_session_key_payload_hash_def p ver now upd)
qed

section \<open>Initialization\<close>

text \<open>
  The system program's part: the rent is known and paid, the space allocated and the account
  assigned, and the data can be borrowed before and afterwards.
\<close>

definition account_created ::
  "runtime \<Rightarrow> account_info \<Rightarrow> account_info \<Rightarrow> bytes list \<Rightarrow> store \<Rightarrow> store \<Rightarrow> bool" where
  "account_created rt payer k seeds st st' \<longleftrightarrow>
     utils_initialize_account rt k payer p256_account_size seeds st = Ok st' \<and>
     borrow_mut_data rt (st k) = Ok (acc_data (st k)) \<and> borrow_mut_data rt (st' k) = Ok (acc_data (st' k))"

lemma created_store:
  assumes laws: "system_program_laws rt" and made: "account_created rt payer k seeds st st'"
  shows "acc_data (st' k) = replicate 152 0" "acc_owner (st' k) = crate_ID"
    "acc_data_aligned (st' k) = acc_data_aligned (st k)"
proof -
  obtain lam st1 st2 where t: "system_transfer rt payer k lam st = Ok st1"
    and al: "system_allocate rt k (of_nat 152) [seeds] st1 = Ok st2"
    and as: "system_assign rt k crate_ID [seeds] st2 = Ok st'"
    using made
    by (auto simp: account_created_def utils_initialize_account_def p256_account_size_def result_simps)
  have "st1 k = (st k)\<lparr>acc_lamports := acc_lamports (st1 k)\<rparr>"
    using laws t unfolding system_program_laws_def by blast
  then have "acc_data_aligned (st1 k) = acc_data_aligned (st k)" by (metis account.ext_inject account.surjective account.update_convs(2))
  moreover have al': "st2 = st1(k := (st1 k)\<lparr>acc_data := replicate 152 0\<rparr>)"
    using laws al unfolding system_program_laws_def by fastforce
  moreover have "st' = st2(k := (st2 k)\<lparr>acc_owner := crate_ID\<rparr>)"
    using laws as unfolding system_program_laws_def by blast
  ultimately show "acc_data (st' k) = replicate 152 0" "acc_owner (st' k) = crate_ID"
    "acc_data_aligned (st' k) = acc_data_aligned (st k)" by simp_all
qed

lemma fresh_account_initialized:
  assumes data: "acc_data (st k) = replicate 152 0" and al: "acc_data_aligned (st k)"
    and init: "p256_initialize_account rt pi sk zero_p256 = Ok (initialized_p256 pi sk)"
    and wf: "parsed_init_wf pi" "pred_option session_key_wf sk"
  shows "esa_initialize_account (p256_trait rt) st (account_of st k) pi sk =
    Ok (with_p256 rt st k (initialized_p256 pi sk))"
proof -
  let ?a = "account_of st k" and ?h = "[1, 0, 0, 0] :: bytes"
  have two: "replicate 2 0 = [0, 0 :: u8]" by (simp add: numeral_2_eq_2)
  have slice: "esa_slice st ?a = replicate 152 0" by (simp add: esa_slice_def account_of_def data)
  have header: "esa_initialize_header (p256_trait rt) st ?a = Ok (esa_write st ?a ?h)"
    using two by (simp add: esa_initialize_header_def esa_header_def slice slice_def account_header_size_def
        header_set_def account_header_from_bytes_def account_header_to_bytes_def)
  have slice1: "esa_slice (esa_write st ?a ?h) ?a = ?h @ replicate 148 0"
    by (simp add: esa_slice_def account_of_def esa_write_def data overwrite_def)
  have zero: "esa_data (p256_trait rt) (esa_write st ?a ?h) ?a = Ok zero_p256"
    unfolding p256.esa_data_Ok slice1 zero_p256_bytes [symmetric] using al by (simp add: esa_write_def)
  have "p256_account_wf (initialized_p256 pi sk)"
    using p256.init_keeps [of zero_p256 pi sk rt] p256.esa_data_wf [OF zero] wf init by simp
  then have len: "length (p256_account_to_bytes (initialized_p256 pi sk)) = 152"
    by (rule p256_pod.enc_length)
  have "esa_store (p256_trait rt) (esa_write st ?a ?h) ?a (initialized_p256 pi sk) =
      with_p256 rt st k (initialized_p256 pi sk)"
    using len by (simp add: with_p256_def esa_store_def esa_write_def overwrite_def data fun_eq_iff)
  with header zero init show ?thesis by (simp add: esa_initialize_account_def)
qed

lemma created_by_handler:
  assumes "account_created rt (ic_rent_payer ctx) k (t_seeds (p256_trait rt) (ic_seeds ctx)) st st'"
    and "esa_info (ic_account ctx) = k"
  shows "create_and_allocate_externally_signed_account rt (p256_trait rt) ctx st =
    Ok (ctx\<lparr>ic_account := account_of st' k\<rparr>, st')"
proof -
  obtain lam st1 st2 where "rent_minimum_balance rt 152 = Ok lam"
    and "system_transfer rt (ic_rent_payer ctx) k lam st = Ok st1"
    and "system_allocate rt k (of_nat 152) [t_seeds (p256_trait rt) (ic_seeds ctx)] st1 = Ok st2"
    and "system_assign rt k crate_ID [t_seeds (p256_trait rt) (ic_seeds ctx)] st2 = Ok st'"
    and "borrow_mut_data rt (st' k) = Ok (acc_data (st' k))"
    using assms(1)
    by (auto simp: account_created_def utils_initialize_account_def p256_account_size_def result_simps)
  moreover have "(ic_account ctx)\<lparr>esa_data_len := length (acc_data (st' k))\<rparr> = account_of st' k"
    using assms(2) by (cases "ic_account ctx") (simp add: account_of_def)
  ultimately show ?thesis
    using assms(2)
    by (simp add: create_and_allocate_externally_signed_account_def esa_reload_def Let_def)
qed

lemma parse_initialization_admissible:
  assumes "length (raw_init_public_key raw) = 33" and "length (raw_rp_id raw) \<le> 32" and "0x22 \<notin> set (raw_rp_id raw)"
  shows "\<exists>pi. p256_parse_initialization_data rt raw = Ok pi"
  using parse_initialization_data_cases [OF assms(1), of rt] assms(2,3)
  by (cases "p256_parse_initialization_data rt raw") auto

lemma initialization_runs:
  assumes B: "borsh_format (rt_borsh rt)" and sha: "sha256_length rt" and laws: "system_program_laws rt"
    and empty: "acc_owner (w_store w external) = system_program_id rt" "acc_data (w_store w external) = []"
      "acc_data_aligned (w_store w external)"
    and ixs: "instructions_try_from rt ixs (w_store w ixs) = Ok sysvar"
    and nonce: "nonce_available rt (w_store w) shs (init_slothash args) nonce"
    and data: "initialize_account_args_serialize (rt_borsh rt) args = Some data"
    and scheme: "init_signature_scheme args = 0"
    and raw: "raw_init_writer (rt_borsh rt) raw = Some (init_initialization_data args)"
    and pi: "p256_parse_initialization_data rt raw = Ok pi"
    and seeds: "p256_derive_account rt (p256_args_of_init pi) = Ok s" "seeds_key s = external"
    and made: "account_created rt (signer_key nonce) external (account_seeds_seeds s) (w_store w) st'"
    and limit: "\<forall>k. init_session_key args = Some k \<longrightarrow>
      (\<exists>now. clock_unix_timestamp rt = Ok now \<and> expiration k \<le> session_expiration_bound now)"
    and signed: "assertion_made rt sysvar (raw_init_params raw)
      (hash rt (initialization_payload (nonce_slothash nonce) (signer_key nonce) p256_initialization_payload
        (init_session_key args))) (initialized_p256 pi (init_session_key args)) c"
  shows "process_initialize_external_account rt
      (external # signer_key nonce # ixs # shs # system_program_id rt # rest) data w =
    Ok (w\<lparr>w_store := with_p256 rt st' external (initialized_account pi (init_session_key args) c)\<rparr>)"
    and "p256_at rt (with_p256 rt st' external (initialized_account pi (init_session_key args) c)) external
      (initialized_account pi (init_session_key args) c)"
proof -
  let ?sk = "init_session_key args" and ?k = external
  let ?d = "initialized_p256 pi ?sk"
  let ?payload = "hash rt (initialization_payload (nonce_slothash nonce) (signer_key nonce)
    p256_initialization_payload ?sk)"
  have read: "try_from_slice (initialize_account_args_deserialize (rt_borsh rt)) data = Some args"
    by (rule codec.slice_round_trip [OF borsh_format.initialize_account_args_codec [OF B] data])
  have read_raw: "try_from_slice (p256_raw_initialization_data_deserialize (rt_borsh rt))
      (init_initialization_data args) = Some raw"
    by (rule codec.slice_round_trip [OF borsh_format.raw_init_codec [OF B] raw])
  obtain sh where sh: "slot_hashes_try_from rt (w_store w) shs = Ok sh"
    "validate_nonce rt (w_store w) sh (init_slothash args) (signer_key nonce) = Ok nonce"
    using nonce_available_validated [OF nonce] by blast
  have load: "esa_load rt (w_store w) ?k = Ok (account_of (w_store w) ?k)"
    using empty made by (simp add: account_created_def account_of_def result_simps)
  note new = created_store [OF laws made]
  note parsed = p256_parse_initialization_data_Ok [OF pi sha]
  have wf: "pred_option session_key_wf ?sk" by (rule borsh_format.initialize_args_key_wf [OF B read])
  have init: "p256_initialize_account rt pi ?sk zero_p256 = Ok ?d"
    using limit by (auto simp: result_simps initialized_p256_def split: option.splits)
  have ini: "esa_initialize_account (p256_trait rt) st' (account_of st' ?k) pi ?sk = Ok (with_p256 rt st' ?k ?d)"
    using fresh_account_initialized [of st' ?k rt pi ?sk] new(1,3) init wf parsed empty(3) by simp
  from initialize_fresh [of st' ?k pi ?sk rt] new(1,2) wf ini parsed
  have at: "p256_at rt (with_p256 rt st' ?k ?d) ?k ?d" and frame: "data_frame ?k st' (with_p256 rt st' ?k ?d)"
    by auto
  have dwf: "p256_account_wf ?d" using at p256.esa_data_wf by (auto simp: p256_at_def)
  let ?pv = "\<lparr>parsed_verif_public_key = parsed_init_public_key pi, parsed_verif_params = parsed_init_params pi\<rparr>"
  have "rp_id_consistent rt (rp_id_info ?d)" "counter_fresh c ?d"
    using parsed by (simp_all add: initialized_p256_def counter_fresh_zero)
  then have "p256_verify_payload rt sysvar ?pv ?payload ?d = Ok (counted c ?d)"
    using assertion_accepted [OF sha, of sysvar ?pv ?payload ?d c] signed parsed rp_id_fits [OF dwf] by simp
  moreover have same: "account_of (with_p256 rt st' ?k ?d) ?k = account_of st' ?k"
    by (rule data_frame_account_of [OF frame])
  ultimately have "esa_verify_initialization_payload (p256_trait rt) (with_p256 rt st' ?k ?d) (account_of st' ?k)
      sysvar pi ?payload = Ok (with_p256 rt (with_p256 rt st' ?k ?d) ?k (counted c ?d))"
    using at by (simp add: esa_verify_initialization_payload_def p256_verify_initialization_payload_eq
        p256_at_def with_p256_def)
  moreover have counted: "counted c ?d = initialized_account pi ?sk c"
    using parsed by (auto simp: counted_def initialized_account_def initialized_p256_def)
  moreover have again: "with_p256 rt (with_p256 rt st' ?k ?d) ?k (counted c ?d) = with_p256 rt st' ?k (counted c ?d)"
    using p256_pod.enc_length [OF dwf] p256_pod.enc_length [OF counted_wf [OF dwf, of c]] same
    by (simp add: with_p256_def esa_store_def esa_write_def overwrite_def fun_eq_iff)
  ultimately have ver: "esa_verify_initialization_payload (p256_trait rt) (with_p256 rt st' ?k ?d) (account_of st' ?k)
      sysvar pi ?payload = Ok (with_p256 rt st' ?k (initialized_account pi ?sk c))" by simp
  show "p256_at rt (with_p256 rt st' ?k (initialized_account pi ?sk c)) ?k (initialized_account pi ?sk c)"
    using with_p256(1) [OF at counted_wf [OF dwf, of c] counted_fields(1)] unfolding again unfolding counted .
  show "process_initialize_external_account rt
      (external # signer_key nonce # ixs # shs # system_program_id rt # rest) data w =
    Ok (w\<lparr>w_store := with_p256 rt st' external (initialized_account pi ?sk c)\<rparr>)"
    using created_by_handler [of rt _ ?k "w_store w" st'] made seeds(2)
    by (simp add: process_initialize_external_account_def read scheme signature_scheme_try_from_primitive_def
        check_account_uninitialized_def empty load ixs sh assert_that_def read_raw pi seeds(1) esa_key_def
        get_initialization_payload_hash_def ini ver Let_def)
qed

section \<open>Properties\<close>

text \<open>
  C6. What the verification of a payload answers, case by case, when the transaction carries one
  verified signature: which error or panic, in which order, for a foreign key, a message too short
  to hold a hash or the flags, an absent user, another relying party, an origin that cannot be
  rebuilt, another challenge, a message too short to hold a counter and a stale counter; and the
  account it leaves otherwise.
\<close>

theorem verify_payload_outcome:
  assumes "instruction_at rt sysvar 0 = Ok ix" and "iix_program_id ix = SECP256R1_PRECOMPILE_ID"
    and "iix_even ix" and "iix_data ix ! 0 = 1" and "verified_payload rt sysvar (iix_data ix) 0 = Some pl"
    and "p256_account_wf d" and "rp_id_consistent rt (rp_id_info d)"
  shows "p256_verify_payload rt sysvar pv payload d =
    (let m = payload_message pl; n = length m - 32; ad = take n m; c = u32_from_be (take 4 (drop 33 ad))
     in if payload_public_key pl \<noteq> sec1_bytes (public_key d) then Err (prog_err P256PublicKeyMismatch)
        else if length m < 65 then Panic
        else if m ! 32 AND 1 = 0 then Err (prog_err P256UserNotPresent)
        else if take 32 m \<noteq> rp_id_hash (rp_id_info d) then Err (prog_err P256RelyingPartyMismatch)
        else and_then (reconstruct_client_data_json rt (parsed_verif_params pv) (stored_rp_id (rp_id_info d)) payload)
          (\<lambda>j. if hash rt j \<noteq> drop n m then Err (prog_err P256ClientDataHashMismatch)
             else if length m < 69 then Panic
             else if c = 0 then Ok d
             else if counter d < ucast c then Ok (d\<lparr>counter := ucast c\<rparr>)
             else Panic))"
proof -
  let ?p = "\<lparr>precompile_ix_data = iix_data ix, ix_data_even = iix_even ix, instructions_sysvar = sysvar\<rparr>"
  let ?m = "payload_message pl"
  let ?ad = "auth_data_parser_new (take (length ?m - 32) ?m)"
  have new: "precompile_parser_new Secp256r1Precompile ix sysvar = Ok ?p"
    using assms(2) by (simp add: precompile_parser_new_def Secp256r1Precompile_def)
  have "iix_data ix \<noteq> []" using assms(5) by (auto simp: verified_payload_def split: if_splits)
  then have n: "num_signatures ?p = Ok 1" using assms(4) by (simp add: num_signatures_def index_def)
  have pl: "get_signature_payload rt Secp256r1Precompile ?p 0 = Ok pl"
    using get_signature_payload_verified [of rt ?p 0 pl 1] assms(3,5) n by simp
  have rp: "slice (rp_id (rp_id_info d)) 0 (unat (rp_id_len (rp_id_info d))) = Ok (stored_rp_id (rp_id_info d))"
    using rp_id_fits [OF assms(6,7)] by (simp add: slice_def stored_rp_id_def)
  have ad: "is_user_present ?ad = (if length ?m < 65 then Panic else Ok (?m ! 32 AND 1 \<noteq> 0))"
    "auth_rp_id_hash ?ad = (if length ?m < 64 then Panic else Ok (take 32 ?m))"
    "AuthenticatorData.get_counter ?ad = (if length ?m < 69 then Panic
       else Ok (u32_from_be (take 4 (drop 33 (take (length ?m - 32) ?m)))))" if "32 \<le> length ?m"
    using that
    by (auto simp: is_user_present_def auth_rp_id_hash_def AuthenticatorData.get_counter_def
        auth_data_parser_new_def index_def slice_def min_def)
  show ?thesis
  proof (cases "32 \<le> length ?m")
    case True
    then show ?thesis
      by (simp add: p256_verify_payload_def assms(1) new n pl rp ad split_message_def split_at_def ensure_def
          assert_that_def Let_def cong: if_cong) (auto intro!: arg_cong [of _ _ "and_then _"])
  next
    case False
    then show ?thesis
      by (simp add: p256_verify_payload_def assms(1) new n pl split_message_def ensure_def Let_def)
  qed
qed

end
