(* ===== verification/SdkCompleteness.thy ===== *)
theory SdkCompleteness
  imports SdkRuns Completeness
begin

text \<open>
  A whole transaction from the client to the chain: the precompile instruction and the program's
  instruction are built by the SDK from the data of a WebAuthn ceremony, and the program accepts
  them and does what was asked.
\<close>

section \<open>The ceremony\<close>

text \<open>
  What an authenticator and a browser give for the challenge \<open>payload\<close>: the account's key,
  authenticator data for its relying party with the user present, and the clientDataJSON that the
  parameters describe.
\<close>

definition ceremony_for :: "runtime \<Rightarrow> p256_account_data \<Rightarrow> bytes \<Rightarrow> webauthn_data \<Rightarrow> bool" where
  "ceremony_for rt d payload wd \<longleftrightarrow> wd_public_key wd = sec1_bytes (public_key d) \<and>
     37 \<le> length (wd_auth_data wd) \<and> take 32 (wd_auth_data wd) = rp_id_hash (rp_id_info d) \<and>
     wd_auth_data wd ! 32 AND 1 \<noteq> 0 \<and>
     reconstruct_client_data_json rt (wd_params wd) (stored_rp_id (rp_id_info d)) payload =
       Ok (wd_client_data_json wd)"

definition ceremony_counter :: "webauthn_data \<Rightarrow> u32" where
  "ceremony_counter wd = u32_from_be (take 4 (drop 33 (wd_auth_data wd)))"

text \<open>
  The transaction starts with the precompile instruction the SDK builds for the ceremony, at an even
  address of the instructions sysvar.
\<close>

definition signed_transaction :: "sdk_lib \<Rightarrow> runtime \<Rightarrow> store \<Rightarrow> bytes \<Rightarrow> webauthn_data \<Rightarrow> bool" where
  "signed_transaction lib rt st sysvar wd \<longleftrightarrow>
     (\<exists>sid. instructions_sysvar_id lib = Built sid \<and> instructions_try_from rt sid (st sid) = Ok sysvar) \<and>
     (\<exists>pix. create_secp256r1_instruction lib (wd_signature wd) (wd_auth_data wd @ hash rt (wd_client_data_json wd))
              (wd_public_key wd) None = Built pix \<and>
        instruction_at rt sysvar 0 =
          Ok \<lparr>iix_program_id = six_program_id pix, iix_data = six_data pix, iix_even = True\<rparr>)"

lemma ceremony_asserts:
  assumes "lib_matches lib rt" and "precompile_layout lib" and "p256_account_wf d"
    and "ceremony_for rt d payload wd" and "signed_transaction lib rt st sysvar wd"
  shows "assertion_made rt sysvar (wd_params wd) payload d (ceremony_counter wd)"
proof -
  let ?m = "wd_auth_data wd @ hash rt (wd_client_data_json wd)"
  obtain pix where pix: "create_secp256r1_instruction lib (wd_signature wd) ?m (wd_public_key wd) None = Built pix"
    and at: "instruction_at rt sysvar 0 =
      Ok \<lparr>iix_program_id = six_program_id pix, iix_data = six_data pix, iix_even = True\<rparr>"
    using assms(5) by (auto simp: signed_transaction_def)
  have len: "length (wd_public_key wd) = 33"
    using assms(3,4) by (simp add: ceremony_for_def p256_account_wf_def public_key_wf_def sec1_bytes_def)
  have id: "lib_secp256r1_id lib = SECP256R1_PRECOMPILE_ID" using assms(1) by (simp add: lib_matches_def)
  obtain sig where "six_program_id pix = SECP256R1_PRECOMPILE_ID" "six_data pix ! 0 = 1"
    "verified_payload rt sysvar (six_data pix) 0 =
      Some \<lparr>payload_signature = sig, payload_public_key = wd_public_key wd, payload_message = ?m\<rparr>"
    using built_instruction_verified [OF assms(2) id pix len at, of "wd_public_key wd"] by auto
  with at assms(4) show ?thesis
    unfolding assertion_made_def ceremony_for_def ceremony_counter_def
    by (intro exI [of _ "\<lparr>iix_program_id = six_program_id pix, iix_data = six_data pix, iix_even = True\<rparr>"]
        exI [of _ "\<lparr>payload_signature = sig, payload_public_key = wd_public_key wd, payload_message = ?m\<rparr>"]
        exI [of _ "wd_auth_data wd"] exI [of _ "wd_client_data_json wd"]) simp
qed

lemma transaction_sysvar:
  "signed_transaction lib rt st sysvar wd \<Longrightarrow>
     \<exists>sid. instructions_sysvar_id lib = Built sid \<and> instructions_try_from rt sid (st sid) = Ok sysvar"
  by (simp add: signed_transaction_def)

lemma verification_data_written:
  assumes "lib_matches lib rt" and "verification_data_of lib wd = Built extra"
  shows "raw_verif_writer (rt_borsh rt) \<lparr>raw_verif_public_key = wd_public_key wd, raw_verif_params = wd_params wd\<rparr>
    = Some extra"
  using assms by (auto simp: verification_data_of_def lib_matches_def sdk_simps)

section \<open>The compiled instructions are in range\<close>

lemma compiled_in_range:
  assumes "message_laws lib" and "compile_instructions_for_execution lib ixs payer = Built c"
    and "length (cep_account_metas c) \<le> 64" and "\<forall>ix \<in> set ixs. six_program_id ix \<noteq> crate_ID"
  shows "\<forall>ci \<in> set (cep_instructions c).
    instruction_in_range (length (map meta_pubkey (cep_account_metas c))) ci \<and>
    map meta_pubkey (cep_account_metas c) ! unat (program_id_index ci) \<noteq> crate_ID"
proof
  fix ci assume ci: "ci \<in> set (cep_instructions c)"
  have "list_all2 (stands_for (map meta_pubkey (cep_account_metas c))) (cep_instructions c) ixs"
    using compile_stands_for [OF assms(1,2)] assms(3) by simp
  then obtain ix where "ix \<in> set ixs" "stands_for (map meta_pubkey (cep_account_metas c)) ci ix"
    using ci by (metis in_set_conv_nth list_all2_conv_all_nth)
  with assms(3,4) show "instruction_in_range (length (map meta_pubkey (cep_account_metas c))) ci \<and>
      map meta_pubkey (cep_account_metas c) ! unat (program_id_index ci) \<noteq> crate_ID"
    by (auto simp: stands_for_def instruction_in_range_def)
qed

section \<open>Properties\<close>

text \<open>
  C14. A transaction the SDK builds from a WebAuthn ceremony over the payload of an execution
  succeeds: when the account is the program's and writable, the slot hash is recent, the counter
  is fresh, no instruction calls the program itself and the called programs succeed, then the
  program accepts it and has invoked exactly the caller's instructions, in order, and stored the
  new counter before the first of them.
\<close>

theorem sdk_execution_succeeds:
  assumes lib: "lib_matches lib rt" "message_laws lib" "precompile_layout lib"
    and B: "borsh_format (rt_borsh rt)" and sha: "sha256_length rt"
    and ready: "account_ready rt (w_store w) passkey d"
    and nonce: "nonce_available rt (w_store w) SLOT_HASHES_ID slot nonce"
    and tx: "signed_transaction lib rt (w_store w) sysvar wd"
    and c: "compile_instructions_for_execution lib ixs (signer_key nonce) = Built c"
    and ix: "execute_instructions lib wd passkey (signer_key nonce) slot ixs scheme = Built ix"
    and keys: "keys = map meta_pubkey (cep_account_metas c)" "length keys \<le> 64"
    and foreign: "\<forall>ix \<in> set ixs. six_program_id ix \<noteq> crate_ID"
    and p: "instruction_payload rt (w_store w) nonce keys (cep_instructions c) = Ok p"
    and signed: "ceremony_for rt d (hash rt p) wd" and fresh: "counter_fresh (ceremony_counter wd) d"
    and ea: "get_execution_account rt (p256_trait rt) (w_store w) (account_of (w_store w) passkey) scheme = Ok ea"
    and seeds: "to_signer_seeds ea = Ok seeds"
    and calls: "calls = inner_calls (w_store w) keys ea scheme seeds (cep_instructions c)"
    and run: "run_invocations rt calls (with_p256 rt (w_store w) passkey (counted (ceremony_counter wd) d)) = Ok st'"
  shows "process_instruction rt pid (map meta_pubkey (six_accounts ix)) (six_data ix) w =
      Ok (w\<lparr>w_store := st', w_invoked := w_invoked w @ calls\<rparr>) \<and>
    (transaction_grants (w_store w) (cep_account_metas c) \<longrightarrow>
      list_all2 (carried_out scheme (execution_key ea)) calls ixs)"
proof
  obtain sid where sid: "instructions_sysvar_id lib = Built sid"
    "instructions_try_from rt sid (w_store w sid) = Ok sysvar"
    using transaction_sysvar [OF tx] by blast
  let ?args = "\<lambda>extra. \<lparr>exec_signature_scheme = 0, exec_signer_execution_scheme = signer_execution_scheme_u8 scheme,
    exec_slothash = slot, exec_extra_verification_data = extra, exec_instructions = cep_instructions c\<rparr>"
  obtain extra bs where extra: "verification_data_of lib wd = Built extra"
    and bs: "executable_instruction_args_serialize (rt_borsh rt) (?args extra) = Some bs"
    and ix': "six_accounts ix = [meta_new passkey False, meta_new_readonly sid False,
        meta_new_readonly SLOT_HASHES_ID False, meta_new (signer_key nonce) True] @ cep_account_metas c"
      "six_data ix = 1 # bs"
    using ix c lib(1) sid(1) by (auto simp: execute_instructions_def sdk_simps Let_def lib_matches_def)
  have own: "raw_verif_writer (rt_borsh rt) \<lparr>raw_verif_public_key = sec1_bytes (public_key d),
      raw_verif_params = wd_params wd\<rparr> = Some extra"
    using verification_data_written [OF lib(1) extra] signed by (simp add: ceremony_for_def)
  have "inner_calls_run rt (w_store w) keys ea scheme seeds (cep_instructions c)
      (with_p256 rt (w_store w) passkey (counted (ceremony_counter wd) d)) st'"
    using compiled_in_range [OF lib(2) c _ foreign] keys run by (simp add: inner_calls_run_def calls)
  from execution_runs [OF B sha ready sid(2) _ bs _ _ _ ea seeds _ ceremony_asserts [OF lib(1,3) ready_wf [OF ready] signed tx]
      fresh, of SLOT_HASHES_ID nonce keys st'] this nonce own p
  have "process_execute_instructions rt (passkey # sid # SLOT_HASHES_ID # signer_key nonce # keys) bs w =
      Ok (w\<lparr>w_store := st', w_invoked := w_invoked w @ calls\<rparr>)"
    by (simp add: calls)
  then show "process_instruction rt pid (map meta_pubkey (six_accounts ix)) (six_data ix) w =
      Ok (w\<lparr>w_store := st', w_invoked := w_invoked w @ calls\<rparr>)"
    by (simp add: ix' process_instruction_handlers keys(1))
  show "transaction_grants (w_store w) (cep_account_metas c) \<longrightarrow>
      list_all2 (carried_out scheme (execution_key ea)) calls ixs"
    using compiled_carried_out [OF lib(2) c] keys by (simp add: calls inner_calls_def)
qed

text \<open>
  C17. A sessioned execution the SDK builds succeeds as long as the session key lives: the key
  signs the transaction and has not expired, no instruction calls the program itself and the called
  programs succeed; then exactly the caller's instructions have been invoked, in order.
\<close>

theorem sdk_sessioned_execution_succeeds:
  assumes lib: "lib_matches lib rt" "message_laws lib"
    and B: "borsh_format (rt_borsh rt)" and bf: "borrow_faithful rt"
    and at: "p256_at rt (w_store w) passkey d"
    and borrow: "borrow_mut_data rt (w_store w passkey) = Ok (acc_data (w_store w passkey))"
    and live: "live_session rt (w_store w) signer d"
    and c: "compile_instructions_for_execution lib ixs signer = Built c"
    and ix: "execute_instructions_sessioned lib passkey signer ixs scheme = Built ix"
    and keys: "keys = map meta_pubkey (cep_account_metas c)" "length keys \<le> 64"
    and foreign: "\<forall>ix \<in> set ixs. six_program_id ix \<noteq> crate_ID"
    and ea: "get_execution_account rt (p256_trait rt) (w_store w) (account_of (w_store w) passkey) scheme = Ok ea"
    and seeds: "to_signer_seeds ea = Ok seeds"
    and calls: "calls = inner_calls (w_store w) keys ea scheme seeds (cep_instructions c)"
    and run: "run_invocations rt calls (w_store w) = Ok st'"
  shows "process_instruction rt pid (map meta_pubkey (six_accounts ix)) (six_data ix) w =
      Ok (w\<lparr>w_store := st', w_invoked := w_invoked w @ calls\<rparr>) \<and>
    (transaction_grants (w_store w) (cep_account_metas c) \<longrightarrow>
      list_all2 (carried_out scheme (execution_key ea)) calls ixs)"
proof
  obtain bs where bs: "executable_instruction_sessioned_args_serialize (rt_borsh rt)
      \<lparr>sess_signature_scheme = 0, sess_signer_execution_scheme = signer_execution_scheme_u8 scheme,
       sess_instructions = cep_instructions c\<rparr> = Some bs"
    and ix': "six_accounts ix = [meta_new passkey False, meta_new_readonly signer True] @ cep_account_metas c"
      "six_data ix = 3 # bs"
    using ix c lib(1) by (auto simp: execute_instructions_sessioned_def sdk_simps Let_def lib_matches_def)
  have "inner_calls_run rt (w_store w) keys ea scheme seeds (cep_instructions c) (w_store w) st'"
    using compiled_in_range [OF lib(2) c _ foreign] keys run by (simp add: inner_calls_run_def calls)
  with sessioned_execution_runs [OF B bf at borrow live bs _ _ ea seeds, of keys st']
  have "process_execute_instructions_sessioned rt (passkey # signer # keys) bs w =
      Ok (w\<lparr>w_store := st', w_invoked := w_invoked w @ calls\<rparr>)"
    by (simp add: calls)
  then show "process_instruction rt pid (map meta_pubkey (six_accounts ix)) (six_data ix) w =
      Ok (w\<lparr>w_store := st', w_invoked := w_invoked w @ calls\<rparr>)"
    by (simp add: ix' process_instruction_handlers keys(1))
  show "transaction_grants (w_store w) (cep_account_metas c) \<longrightarrow>
      list_all2 (carried_out scheme (execution_key ea)) calls ixs"
    using compiled_carried_out [OF lib(2) c] keys by (simp add: calls inner_calls_def)
qed

text \<open>
  C16. A refresh the SDK builds from a ceremony over its payload succeeds for every duration of at
  most three months, and leaves the account with the new session key, the new counter and
  everything else as it was.
\<close>

theorem sdk_refresh_succeeds:
  assumes lib: "lib_matches lib rt" "precompile_layout lib"
    and B: "borsh_format (rt_borsh rt)" and sha: "sha256_length rt"
    and ready: "account_ready rt (w_store w) passkey d"
    and nonce: "nonce_available rt (w_store w) SLOT_HASHES_ID slot nonce"
    and tx: "signed_transaction lib rt (w_store w) sysvar wd"
    and ix: "sdk_refresh_session_key lib wd passkey (signer_key nonce) slot sk = Built ix"
    and p: "refresh_payload rt nonce sk = Ok p"
    and signed: "ceremony_for rt d (hash rt p) wd" and fresh: "counter_fresh (ceremony_counter wd) d"
    and now: "clock_unix_timestamp rt = Ok now" "unat now + 7776000 < 2 ^ 64"
    and duration: "unat (expiration sk) \<le> 7776000"
  shows "\<exists>st'. process_instruction rt pid (map meta_pubkey (six_accounts ix)) (six_data ix) w =
      Ok (w\<lparr>w_store := st'\<rparr>) \<and>
    p256_at rt st' passkey ((counted (ceremony_counter wd) d)\<lparr>p256_session_key :=
      \<lparr>session_key_key = session_key_key sk, expiration = now + expiration sk\<rparr>\<rparr>) \<and>
    data_frame passkey (w_store w) st'"
proof -
  obtain sid where sid: "instructions_sysvar_id lib = Built sid"
    "instructions_try_from rt sid (w_store w sid) = Ok sysvar"
    using transaction_sysvar [OF tx] by blast
  obtain verif bs where verif: "verification_data_of lib wd = Built verif"
    and bs: "refresh_session_key_args_serialize (rt_borsh rt) \<lparr>refresh_slothash = slot,
      refresh_signature_scheme = 0, refresh_verification_data = verif, refresh_session_key = sk\<rparr> = Some bs"
    and ix': "six_accounts ix = [meta_new passkey False, meta_new_readonly sid False,
        meta_new_readonly SLOT_HASHES_ID False, meta_new (signer_key nonce) True]" "six_data ix = 2 # bs"
    using ix lib(1) sid(1) by (auto simp: sdk_refresh_session_key_def sdk_simps Let_def lib_matches_def)
  have own: "raw_verif_writer (rt_borsh rt) \<lparr>raw_verif_public_key = sec1_bytes (public_key d),
      raw_verif_params = wd_params wd\<rparr> = Some verif"
    using verification_data_written [OF lib(1) verif] signed by (simp add: ceremony_for_def)
  have limit: "now + expiration sk \<le> session_expiration_bound now"
  proof -
    have "unat (now + expiration sk) = unat now + unat (expiration sk)"
      using now(2) duration by (simp add: unat_word_ariths)
    moreover have "unat (session_expiration_bound now) = unat now + 7776000"
      using now(2) by (simp add: session_expiration_bound_def SESSION_KEY_EXPIRATION_LIMIT_def unat_word_ariths)
    ultimately show ?thesis using duration by (simp add: word_le_nat_alt)
  qed
  let ?d = "(counted (ceremony_counter wd) d)\<lparr>p256_session_key := refreshed_session_key now sk\<rparr>"
  from refresh_runs [OF B sha ready sid(2) _ bs _ _ _ ceremony_asserts [OF lib(1,2) ready_wf [OF ready] signed tx]
      fresh now(1), of SLOT_HASHES_ID nonce "[]"] nonce own p limit
  have run: "process_refresh_session_key rt [passkey, sid, SLOT_HASHES_ID, signer_key nonce] bs w =
      Ok (w\<lparr>w_store := with_p256 rt (w_store w) passkey ?d\<rparr>)"
    by simp
  have "session_key_wf sk"
    using bs by (auto simp: refresh_session_key_args_serialize_def session_key_writer_def bind_eq_Some_conv split: if_splits)
  then have "p256_account_wf ?d"
    using counted_wf [OF ready_wf [OF ready], of "ceremony_counter wd"]
    by (simp add: p256_account_wf_def refreshed_session_key_def session_key_wf_def)
  with ready have "p256_at rt (with_p256 rt (w_store w) passkey ?d) passkey ?d"
    "data_frame passkey (w_store w) (with_p256 rt (w_store w) passkey ?d)"
    using with_p256 [of rt "w_store w" passkey d ?d] by (simp_all add: account_ready_def)
  with run show ?thesis
    by (auto simp: ix' process_instruction_handlers refreshed_session_key_def)
qed

text \<open>The account an initialization leaves: well formed, with the caller's data.\<close>

lemma initialized_wf:
  assumes "p256_parse_initialization_data rt raw = Ok pi" and "sha256_length rt" and "pred_option session_key_wf sk"
  shows "p256_account_wf (initialized_p256 pi sk)"
  using p256_parse_initialization_data_Ok [OF assms(1,2)] assms(3)
  by (auto simp: initialized_p256_def zero_p256_def p256_account_wf_def parsed_init_wf_def account_header_wf_def
      session_key_wf_def split: option.splits)

lemma initialized_account_fields:
  assumes "p256_parse_initialization_data rt \<lparr>raw_rp_id = rp, raw_init_public_key = pk, raw_init_params = ps\<rparr> = Ok pi"
    and "sha256_length rt" and "length pk = 33"
  shows "stored_rp_id (rp_id_info (initialized_account pi sk c)) = rp"
    "sec1_bytes (public_key (initialized_account pi sk c)) = pk"
    "counter (initialized_account pi sk c) = ucast c"
    "p256_session_key (initialized_account pi sk c) =
      (case sk of None \<Rightarrow> \<lparr>session_key_key = replicate 32 0, expiration = 0\<rparr> | Some x \<Rightarrow> x)"
  using p256_parse_initialization_data_Ok [OF assms(1,2)] assms(3)
  by (simp_all add: initialized_account_def initialized_p256_def zero_p256_def split: option.splits)

text \<open>
  C15. An initialization the SDK builds from a ceremony of the new passkey succeeds on an empty
  account at the address it returns, when the payer can pay the rent: the account then holds the
  given relying party, passkey and session key and the counter of the ceremony.
\<close>

theorem sdk_initialization_succeeds:
  assumes lib: "lib_matches lib rt" "precompile_layout lib"
    and B: "borsh_format (rt_borsh rt)" and sha: "sha256_length rt" and laws: "system_program_laws rt"
    and ix: "initialize_with lib wd rp (signer_key nonce) slot sk = Built (k, ix)"
    and empty: "acc_owner (w_store w k) = system_program_id rt" "acc_data (w_store w k) = []"
      "acc_data_aligned (w_store w k)"
    and nonce: "nonce_available rt (w_store w) SLOT_HASHES_ID slot nonce"
    and tx: "signed_transaction lib rt (w_store w) sysvar wd"
    and pi: "p256_parse_initialization_data rt
      \<lparr>raw_rp_id = rp, raw_init_public_key = wd_public_key wd, raw_init_params = wd_params wd\<rparr> = Ok pi"
    and s: "p256_derive_account rt \<lparr>derive_public_key = wd_public_key wd\<rparr> = Ok s"
    and paid: "account_created rt (signer_key nonce) k (account_seeds_seeds s) (w_store w) st1"
    and limit: "\<forall>x. sk = Some x \<longrightarrow>
      (\<exists>now. clock_unix_timestamp rt = Ok now \<and> expiration x \<le> session_expiration_bound now)"
    and signed: "ceremony_for rt (initialized_p256 pi sk)
      (hash rt (initialization_payload (nonce_slothash nonce) (signer_key nonce) p256_initialization_payload sk)) wd"
  shows "\<exists>st' d. process_instruction rt pid (map meta_pubkey (six_accounts ix)) (six_data ix) w =
      Ok (w\<lparr>w_store := st'\<rparr>) \<and>
    p256_at rt st' k d \<and> stored_rp_id (rp_id_info d) = rp \<and> sec1_bytes (public_key d) = wd_public_key wd \<and>
    counter d = ucast (ceremony_counter wd) \<and>
    p256_session_key d = (case sk of None \<Rightarrow> \<lparr>session_key_key = replicate 32 0, expiration = 0\<rparr> | Some x \<Rightarrow> x)"
proof -
  let ?raw = "\<lparr>raw_rp_id = rp, raw_init_public_key = wd_public_key wd, raw_init_params = wd_params wd\<rparr>"
  obtain sid where sid: "instructions_sysvar_id lib = Built sid"
    "instructions_try_from rt sid (w_store w sid) = Ok sysvar"
    using transaction_sysvar [OF tx] by blast
  obtain bump raw bs where k: "derive_passkey_account lib (wd_public_key wd) = Built (k, bump)"
    and raw: "raw_init_writer (rt_borsh rt) ?raw = Some raw"
    and bs: "initialize_account_args_serialize (rt_borsh rt) \<lparr>init_slothash = slot,
      init_signature_scheme = signature_scheme_u8 P256Webauthn, init_initialization_data = raw, init_session_key = sk\<rparr> = Some bs"
    and ix': "six_accounts ix = [meta_new k False, meta_new (signer_key nonce) True, meta_new_readonly sid False,
        meta_new_readonly SLOT_HASHES_ID False, meta_new_readonly (system_program_id rt) False]" "six_data ix = 0 # bs"
    using ix lib(1) sid(1) by (auto simp: initialize_with_def sdk_simps Let_def lib_matches_def split: prod.splits)
  let ?args = "\<lparr>init_slothash = slot, init_signature_scheme = signature_scheme_u8 P256Webauthn,
    init_initialization_data = raw, init_session_key = sk\<rparr>"
  let ?d = "initialized_p256 pi sk" and ?c = "ceremony_counter wd"
  have "seeds_key s = k" using derive_passkey_account_Built [OF lib(1)] k s by auto
  have len: "length (wd_public_key wd) = 33" using raw by (auto simp: raw_init_writer_def split: if_splits)
  note parsed = p256_parse_initialization_data_Ok [OF pi sha]
  have args: "p256_args_of_init pi = \<lparr>derive_public_key = wd_public_key wd\<rparr>"
    using parsed len by (simp add: p256_args_of_init_def)
  have read: "try_from_slice (initialize_account_args_deserialize (rt_borsh rt)) bs = Some ?args"
    by (rule codec.slice_round_trip [OF borsh_format.initialize_account_args_codec [OF B] bs])
  have wf: "pred_option session_key_wf sk"
    using borsh_format.initialize_args_key_wf [OF B read] by simp
  note dwf = initialized_wf [OF pi sha wf]
  have made: "assertion_made rt sysvar (wd_params wd)
      (hash rt (initialization_payload (nonce_slothash nonce) (signer_key nonce) p256_initialization_payload sk)) ?d ?c"
    by (rule ceremony_asserts [OF lib dwf signed tx])
  note runs = initialization_runs [OF B sha laws empty sid(2) _ bs _ _ pi _ \<open>seeds_key s = k\<close>,
      of SLOT_HASHES_ID nonce st1 ?c]
  have run: "process_initialize_external_account rt [k, signer_key nonce, sid, SLOT_HASHES_ID, system_program_id rt] bs w
      = Ok (w\<lparr>w_store := with_p256 rt st1 k (initialized_account pi sk ?c)\<rparr>)"
    and at: "p256_at rt (with_p256 rt st1 k (initialized_account pi sk ?c)) k (initialized_account pi sk ?c)"
    using runs(1) [of "[]"] runs(2) nonce raw args s paid limit made by simp_all
  with initialized_account_fields [OF pi sha len, of sk ?c] show ?thesis by (auto simp: ix' process_instruction_handlers)
qed

end
