(* ===== verification/SdkSampleRuns.thy ===== *)
theory SdkSampleRuns
  imports SdkRuns SampleRuns
begin

text \<open>
  Transactions that the SDK builds with the concrete libraries of \<open>SdkSample\<close> and that run on the
  concrete runtime of \<open>Sample\<close>: the theorems of \<open>SdkRuns\<close> applied where their hypotheses hold.
\<close>

section \<open>Addresses\<close>

theorem sdk_addresses_agree_witness:
  "derive_passkey_account sample_lib (replicate 33 2) = Built (sample_address, 255) \<and>
   derive_execution_account sample_lib sample_address = Built (execution_key sample_ea, 255)"
proof -
  let ?a = "account_of (sample_store (sample_ext sample_p256) []) sample_address"
  have key: "esa_key ?a = sample_address" by (simp add: esa_key_def)
  show ?thesis
    using sdk_addresses_agree [OF sample_lib_matches, of "replicate 33 2" sample_address 255 ?a]
      sdk_addresses_agree [OF sample_lib_matches, of "replicate 33 2" "execution_key sample_ea" 255 ?a]
      sample_derive
    unfolding sample_execution_account key by (simp add: sample_ea_def)
qed

section \<open>One instruction for the program to run\<close>

definition sample_ix :: "pubkey \<Rightarrow> solana_instruction" where
  "sample_ix k = \<lparr>six_program_id = sample_program, six_accounts = [meta_new k True], six_data = [42]\<rparr>"

definition sample_compiled :: "pubkey \<Rightarrow> compiled_execution_payload" where
  "sample_compiled k = \<lparr>cep_account_metas = [meta_new k True, meta_new_readonly sample_program False],
     cep_instructions = [\<lparr>program_id_index = 1, accounts_indices = [0], ci_data = [42]\<rparr>]\<rparr>"

lemma sample_compile:
  assumes "k \<noteq> sample_program"
  shows "compile_instructions_for_execution sample_lib [sample_ix k] k = Built (sample_compiled k)"
proof -
  have keys: "message_keys [sample_ix k] k = [k, sample_program]"
    using assms by (auto simp: message_keys_def sample_ix_def key_signs_def key_writable_def)
  have "sample_message_new [sample_ix k] k = Some \<lparr>num_required_signatures = 1,
      num_readonly_signed_accounts = 0, num_readonly_unsigned_accounts = 1,
      static_account_keys = [k, sample_program],
      message_instructions = [\<lparr>sci_program_id_index = 1, sci_accounts = [0], sci_data = [42]\<rparr>]\<rparr>"
    using assms unfolding sample_message_new_def keys
    by (auto simp: sample_ix_def key_signs_def key_writable_def)
  then have "lib_message_new sample_lib [sample_ix k] k = Some \<lparr>num_required_signatures = 1,
      num_readonly_signed_accounts = 0, num_readonly_unsigned_accounts = 1,
      static_account_keys = [k, sample_program],
      message_instructions = [\<lparr>sci_program_id_index = 1, sci_accounts = [0], sci_data = [42]\<rparr>]\<rparr>"
    by (simp add: sample_lib_def)
  then show ?thesis
    by (simp add: compile_instructions_for_execution_def header_metas_def checked_sub_def Let_def
        small_vec_or_def small_vec_try_from_def sample_compiled_def meta_new_def meta_new_readonly_def)
qed

lemma sample_wallet_flags [simp]: "acc_is_signer sample_wallet" "acc_is_writable sample_wallet"
  by (simp_all add: sample_wallet_def)

section \<open>Execution with the session key\<close>

lemma sample_lib_borsh [simp]: "lib_borsh sample_lib = borsh_le"
  "lib_pubkey_from_str sample_lib s = Some INSTRUCTIONS_ID"
  by (simp_all add: sample_lib_def sample_runtime_def)

lemma sample_compiled_simps [simp]:
  "cep_account_metas (sample_compiled k) = [meta_new k True, meta_new_readonly sample_program False]"
  "cep_instructions (sample_compiled k) = [\<lparr>program_id_index = 1, accounts_indices = [0], ci_data = [42]\<rparr>]"
  by (simp_all add: sample_compiled_def)

lemma sample_compiled_in_range:
  "\<forall>ci \<in> set [\<lparr>program_id_index = 1, accounts_indices = [0], ci_data = [42]\<rparr>].
     instruction_in_range (length [k, sample_program]) ci \<and> [k, sample_program] ! unat (program_id_index ci) \<noteq> crate_ID"
  by (simp add: instruction_in_range_def)

lemma sample_compiled_Some:
  "compiled_instruction_serialize borsh_le \<lparr>program_id_index = 1, accounts_indices = [0], ci_data = [42]\<rparr> =
     Some [1, 1, 0, 1, 0, 42]"
  by (simp add: compiled_instruction_serialize_def small_vec_serialize_def serialize_slice_def borsh_le_def
      numeral_2_eq_2)

lemma sample_sdk_sessioned:
  "\<exists>bs. executable_instruction_sessioned_args_serialize borsh_le
      \<lparr>sess_signature_scheme = 0, sess_signer_execution_scheme = 0,
       sess_instructions = [\<lparr>program_id_index = 1, accounts_indices = [0], ci_data = [42]\<rparr>]\<rparr> = Some bs \<and>
    execute_instructions_sessioned sample_lib sample_address sample_session_signer
      [sample_ix sample_session_signer] ExecutionAccount = Built \<lparr>six_program_id = crate_ID,
        six_accounts = [meta_new sample_address False, meta_new_readonly sample_session_signer True,
          meta_new sample_session_signer True, meta_new_readonly sample_program False],
        six_data = 3 # bs\<rparr>"
  by (simp add: execute_instructions_sessioned_def sample_compile Let_def
      executable_instruction_sessioned_args_serialize_def small_vec_serialize_def serialize_slice_def
      no_u8_slice_def sample_compiled_Some)

theorem sdk_sessioned_execution_witness:
  "\<exists>ix w' iv. execute_instructions_sessioned sample_lib sample_address sample_session_signer
       [sample_ix sample_session_signer] ExecutionAccount = Built ix \<and>
     process_instruction sample_runtime crate_ID (map meta_pubkey (six_accounts ix)) (six_data ix)
       (sample_world (sample_ext sample_p256) []) = Ok w' \<and>
     w_invoked w' = [iv] \<and> carried_out ExecutionAccount (execution_key sample_ea) iv (sample_ix sample_session_signer)"
proof -
  obtain bs where bs: "executable_instruction_sessioned_args_serialize borsh_le
      \<lparr>sess_signature_scheme = 0, sess_signer_execution_scheme = 0,
       sess_instructions = [\<lparr>program_id_index = 1, accounts_indices = [0], ci_data = [42]\<rparr>]\<rparr> = Some bs"
    and ix: "execute_instructions_sessioned sample_lib sample_address sample_session_signer
      [sample_ix sample_session_signer] ExecutionAccount = Built \<lparr>six_program_id = crate_ID,
        six_accounts = [meta_new sample_address False, meta_new_readonly sample_session_signer True,
          meta_new sample_session_signer True, meta_new_readonly sample_program False],
        six_data = 3 # bs\<rparr>" (is "_ = Built ?ix")
    using sample_sdk_sessioned by blast
  let ?w = "sample_world (sample_ext sample_p256) []"
  obtain w' where run: "process_instruction sample_runtime crate_ID (map meta_pubkey (six_accounts ?ix)) (six_data ?ix) ?w = Ok w'"
    using sample_sessioned_run_all [OF sessioned_args.slice_round_trip [OF bs]
        sample_compiled_in_range [of sample_session_signer]]
    by (auto simp: process_instruction_handlers)
  have "length (six_accounts ?ix) \<le> 256" "transaction_grants (w_store ?w) (six_accounts ?ix)"
    by (simp_all add: sample_world_def transaction_grants_def sample_ext_def)
  from sdk_sessioned_execution [OF sample_lib_matches sample_message_laws sample_borsh_format sample_borrow_faithful ix
      this run] ix run
  show ?thesis
    by (auto simp: sample_execution_account sample_ea_def esa_key_def sample_world_def list_all2_Cons2)
qed

section \<open>Execution with the passkey\<close>

definition sample_webauthn :: webauthn_data where
  "sample_webauthn = \<lparr>wd_public_key = replicate 33 2, wd_signature = [0x30],
     wd_auth_data = [], wd_client_data_json = [], wd_params = sample_params\<rparr>"

lemma sample_verification_data_of: "verification_data_of sample_lib sample_webauthn = Built sample_extra"
  by (simp add: verification_data_of_def sample_webauthn_def sample_extra_Some small_vec_or_def
      small_vec_try_from_def length_sample_extra)

abbreviation sample_sdk_cis :: "compiled_instruction list" where
  "sample_sdk_cis \<equiv> [\<lparr>program_id_index = 1, accounts_indices = [0], ci_data = [42]\<rparr>]"

definition sample_sdk_payload :: bytes where
  "sample_sdk_payload = replicate 32 2 @ sample_signer @ ascii ''execute_instructions'' @
     [2] @ (sample_signer @ [1, 1]) @ (sample_program @ [1, 1]) @ [1] @ [1, 1, 0, 1, 0, 42]"

lemma sample_sdk_payload_ok:
  "instruction_payload sample_runtime (sample_store ext m) sample_nonce_data [sample_signer, sample_program]
     sample_sdk_cis = Ok sample_sdk_payload"
  by (simp add: instruction_payload_def sample_compiled_Some account_payload_def bool_u8_def sample_sdk_payload_def)

lemma sample_sdk_execute:
  "\<exists>bs. executable_instruction_args_serialize borsh_le (sample_args_for sample_sdk_cis) = Some bs \<and>
    execute_instructions sample_lib sample_webauthn sample_address sample_signer (TruncatedSlot 999)
      [sample_ix sample_signer] ExecutionAccount = Built \<lparr>six_program_id = crate_ID,
        six_accounts = [meta_new sample_address False, meta_new_readonly INSTRUCTIONS_ID False,
          meta_new_readonly SLOT_HASHES_ID False, meta_new sample_signer True,
          meta_new sample_signer True, meta_new_readonly sample_program False],
        six_data = 1 # bs\<rparr>"
  using length_sample_extra
  by (simp add: execute_instructions_def sample_compile sample_verification_data_of Let_def
      sample_args_for_def [symmetric] instructions_sysvar_id_def)
     (simp add: executable_instruction_args_serialize_def truncated_slot_serialize_def
      small_vec_serialize_def serialize_slice_def no_u8_slice_def ref.w_slice sample_compiled_Some)

theorem sdk_execution_witness:
  "\<exists>ix w' iv. execute_instructions sample_lib sample_webauthn sample_address sample_signer (TruncatedSlot 999)
       [sample_ix sample_signer] ExecutionAccount = Built ix \<and>
     process_instruction sample_runtime crate_ID (map meta_pubkey (six_accounts ix)) (six_data ix)
       (sample_world (sample_ext sample_p256) (sample_message_of sample_sdk_payload)) = Ok w' \<and>
     w_invoked w' = [iv] \<and> carried_out ExecutionAccount (execution_key sample_ea) iv (sample_ix sample_signer)"
proof -
  obtain bs where bs: "executable_instruction_args_serialize borsh_le (sample_args_for sample_sdk_cis) = Some bs"
    and ix: "execute_instructions sample_lib sample_webauthn sample_address sample_signer (TruncatedSlot 999)
      [sample_ix sample_signer] ExecutionAccount = Built \<lparr>six_program_id = crate_ID,
        six_accounts = [meta_new sample_address False, meta_new_readonly INSTRUCTIONS_ID False,
          meta_new_readonly SLOT_HASHES_ID False, meta_new sample_signer True,
          meta_new sample_signer True, meta_new_readonly sample_program False],
        six_data = 1 # bs\<rparr>" (is "_ = Built ?ix")
    using sample_sdk_execute by blast
  let ?w = "sample_world (sample_ext sample_p256) (sample_message_of sample_sdk_payload)"
  obtain w' where run: "process_instruction sample_runtime crate_ID (map meta_pubkey (six_accounts ?ix)) (six_data ?ix) ?w = Ok w'"
    using sample_execute_run_all [OF refl refl executable_instruction_args.slice_round_trip [OF bs]
        sample_sdk_payload_ok sample_compiled_in_range [of sample_signer]]
    by (auto simp: process_instruction_handlers sample_accounts_for_def)
  have "length (six_accounts ?ix) \<le> 256" "transaction_grants (w_store ?w) (six_accounts ?ix)"
    by (simp_all add: sample_world_def transaction_grants_def sample_ext_def)
  from sdk_execution [OF sample_lib_matches sample_message_laws sample_borsh_format sample_borrow_faithful ix
      this run] ix run
  show ?thesis
    by (auto simp: sample_execution_account sample_ea_def esa_key_def sample_world_def list_all2_Cons2)
qed

section \<open>Initialization and refresh\<close>

lemma sample_lib_system [simp]: "lib_system_program_id sample_lib = replicate 32 0"
  by (simp add: sample_lib_def sample_runtime_def)

lemma sample_derive_passkey:
  "derive_passkey_account sample_lib (replicate 33 2) = Built (sample_address, 255)"
  using derive_passkey_account_Built [OF sample_lib_matches] sample_derive by simp

lemma sample_sdk_initialize:
  "initialize_passkey_account_with_session sample_lib sample_webauthn (ascii ''localhost'') sample_signer
     (TruncatedSlot 999) sample_session_key = Built (sample_address, \<lparr>six_program_id = crate_ID,
       six_accounts = [meta_new sample_address False, meta_new sample_signer True, meta_new_readonly INSTRUCTIONS_ID False,
         meta_new_readonly SLOT_HASHES_ID False, meta_new_readonly (replicate 32 0) False],
       six_data = 0 # sample_initialize_data\<rparr>)"
proof -
  have raw: "raw_init_writer borsh_le \<lparr>raw_rp_id = ascii ''localhost'', raw_init_public_key = replicate 33 2,
      raw_init_params = sample_params\<rparr> = Some sample_init_bytes"
    using sample_init_bytes_facts(1) by (simp add: sample_raw_init_def)
  have args: "initialize_account_args_serialize borsh_le \<lparr>init_slothash = TruncatedSlot 999,
      init_signature_scheme = signature_scheme_u8 P256Webauthn, init_initialization_data = sample_init_bytes,
      init_session_key = Some sample_session_key\<rparr> = Some sample_initialize_data"
    using initialize_args.slice_canonical [of sample_initialize_data sample_initialize_args] sample_initialize_read
    by (simp add: sample_initialize_args_def)
  show ?thesis
    using raw args sample_init_bytes_facts(2)
    by (simp add: initialize_passkey_account_with_session_def initialize_with_def sample_webauthn_def
        sample_derive_passkey small_vec_or_def small_vec_try_from_def Let_def instructions_sysvar_id_def)
qed

theorem sdk_initialization_witness:
  "\<exists>ix w' d. initialize_passkey_account_with_session sample_lib sample_webauthn (ascii ''localhost'') sample_signer
       (TruncatedSlot 999) sample_session_key = Built (sample_address, ix) \<and>
     process_instruction sample_runtime crate_ID (map meta_pubkey (six_accounts ix)) (six_data ix) sample_init_world
       = Ok w' \<and>
     p256_at sample_runtime (w_store w') sample_address d \<and> stored_rp_id (rp_id_info d) = ascii ''localhost'' \<and>
     sec1_bytes (public_key d) = replicate 33 2 \<and> p256_session_key d = sample_session_key"
proof -
  obtain w' where run: "process_initialize_external_account sample_runtime sample_init_accounts
       sample_initialize_data sample_init_world = Ok w'"
    using sample_initialize_run [OF refl] by blast
  obtain ix where ix: "initialize_passkey_account_with_session sample_lib sample_webauthn (ascii ''localhost'')
      sample_signer (TruncatedSlot 999) sample_session_key = Built (sample_address, ix)"
    and run': "process_instruction sample_runtime crate_ID (map meta_pubkey (six_accounts ix)) (six_data ix)
      sample_init_world = Ok w'"
    using sample_sdk_initialize run by (simp add: process_instruction_handlers sample_init_accounts_def)
  have "length (wd_public_key sample_webauthn) = 33" by (simp add: sample_webauthn_def)
  from sdk_initialization [OF sample_lib_matches sample_borsh_format sample_borrow_faithful sample_sha256_length
      sample_system_program_laws this, where sk = "Some sample_session_key", simplified, OF ix run'] ix run'
  show ?thesis by (auto simp: sample_webauthn_def)
qed

lemma sample_sdk_refresh:
  "sdk_refresh_session_key sample_lib sample_webauthn sample_address sample_signer (TruncatedSlot 999)
     sample_new_session_key = Built \<lparr>six_program_id = crate_ID,
       six_accounts = [meta_new sample_address False, meta_new_readonly INSTRUCTIONS_ID False,
         meta_new_readonly SLOT_HASHES_ID False, meta_new sample_signer True],
       six_data = 2 # sample_refresh_data\<rparr>"
proof -
  have "refresh_session_key_args_serialize borsh_le sample_refresh_args = Some sample_refresh_data"
    using refresh_args.slice_canonical [of sample_refresh_data sample_refresh_args] sample_refresh_read by simp
  then show ?thesis
    by (simp add: sdk_refresh_session_key_def sample_verification_data_of Let_def instructions_sysvar_id_def
        sample_refresh_args_def)
qed

theorem sdk_refresh_witness:
  "\<exists>ix w' d n. sdk_refresh_session_key sample_lib sample_webauthn sample_address sample_signer (TruncatedSlot 999)
       sample_new_session_key = Built ix \<and>
     process_instruction sample_runtime crate_ID (map meta_pubkey (six_accounts ix)) (six_data ix) sample_refresh_world
       = Ok w' \<and>
     p256_at sample_runtime (w_store w') sample_address
       (d\<lparr>counter := n, p256_session_key := \<lparr>session_key_key = replicate 32 4, expiration = 1500\<rparr>\<rparr>)"
proof -
  obtain w' where "process_refresh_session_key sample_runtime (sample_accounts_for []) sample_refresh_data
      sample_refresh_world = Ok w'"
    using sample_refresh_run_all [OF refl refl] by blast
  then obtain ix where ix: "sdk_refresh_session_key sample_lib sample_webauthn sample_address sample_signer
      (TruncatedSlot 999) sample_new_session_key = Built ix"
    and run: "process_instruction sample_runtime crate_ID (map meta_pubkey (six_accounts ix)) (six_data ix)
      sample_refresh_world = Ok w'"
    using sample_sdk_refresh by (simp add: process_instruction_handlers sample_accounts_for_def)
  have clock: "clock_unix_timestamp sample_runtime = Ok 1000" by (simp add: sample_runtime_def)
  from sdk_refresh [OF sample_lib_matches sample_borsh_format sample_borrow_faithful ix run] ix run clock
  show ?thesis by (auto simp: refreshed_session_key_def sample_new_session_key_def)
qed

end
