(* ===== verification/SampleCompleteness.thy ===== *)
theory SampleCompleteness
  imports SdkCompleteness SdkSampleRuns
begin

text \<open>
  Whole transactions on the concrete runtime and client libraries: the precompile instruction in the
  instructions sysvar and the program's instruction are both the SDK's.  The theorems of
  \<open>SdkCompleteness\<close> are applied to them.
\<close>

section \<open>The ceremony\<close>

definition sample_ceremony :: "bytes \<Rightarrow> webauthn_data" where
  "sample_ceremony payload = \<lparr>wd_public_key = replicate 33 2, wd_signature = [0x30],
     wd_auth_data = sample_auth_data, wd_client_data_json = sample_json (b64url payload),
     wd_params = sample_params\<rparr>"

lemma sample_ceremony_simps [simp]:
  "wd_public_key (sample_ceremony p) = replicate 33 2" "wd_signature (sample_ceremony p) = [0x30]"
  "wd_auth_data (sample_ceremony p) = sample_auth_data" "wd_params (sample_ceremony p) = sample_params"
  "wd_client_data_json (sample_ceremony p) = sample_json (b64url p)"
  by (simp_all add: sample_ceremony_def)

lemma sample_auth_data_facts:
  "length sample_auth_data = 37" "take 32 sample_auth_data = hash sample_runtime (ascii ''localhost'')"
  "sample_auth_data ! 32 AND 1 \<noteq> 0" "u32_from_be (take 4 (drop 33 sample_auth_data)) = 7"
  using u32_from_be_rev [of 7] by (simp_all add: sample_auth_data_def encode_auth_data_def nth_append)

lemma sample_ceremony_for:
  assumes "rp_id_info d = sample_rp" and "public_key d = sample_public_key"
  shows "ceremony_for sample_runtime d payload (sample_ceremony payload)"
  using assms sample_auth_data_facts
  by (simp add: ceremony_for_def sample_sec1 sample_stored_rp_id sample_reconstruct)
     (simp add: sample_rp_def)

lemma sample_ceremony_counter [simp]: "ceremony_counter (sample_ceremony payload) = 7"
  unfolding ceremony_counter_def by (simp only: sample_ceremony_simps sample_auth_data_facts)

section \<open>The transaction\<close>

definition sample_precompile :: "bytes \<Rightarrow> solana_instruction" where
  "sample_precompile payload =
     (case create_secp256r1_instruction sample_lib [0x30]
        (sample_auth_data @ hash sample_runtime (sample_json (b64url payload))) (replicate 33 2) None of
        Built ix \<Rightarrow> ix)"

lemma sample_precompile:
  "create_secp256r1_instruction sample_lib [0x30]
     (sample_auth_data @ hash sample_runtime (sample_json (b64url payload))) (replicate 33 2) None =
   Built (sample_precompile payload)" "six_program_id (sample_precompile payload) = SECP256R1_PRECOMPILE_ID"
proof -
  obtain sig where "parse_der_signature_to_compact sample_lib [0x30] = Built sig"
    using sample_parse_der by blast
  then have "\<exists>ix. create_secp256r1_instruction sample_lib [0x30]
     (sample_auth_data @ hash sample_runtime (sample_json (b64url payload))) (replicate 33 2) None = Built ix \<and>
     six_program_id ix = SECP256R1_PRECOMPILE_ID"
    by (simp add: create_secp256r1_instruction_def Let_def sample_auth_data_facts) (simp add: sample_lib_def)
  then show "create_secp256r1_instruction sample_lib [0x30]
     (sample_auth_data @ hash sample_runtime (sample_json (b64url payload))) (replicate 33 2) None =
     Built (sample_precompile payload)" "six_program_id (sample_precompile payload) = SECP256R1_PRECOMPILE_ID"
    by (auto simp: sample_precompile_def)
qed

text \<open>The store of \<open>SampleTransactions\<close> with the SDK's instruction in the instructions sysvar.\<close>

definition sample_tx_sysvar :: "bytes \<Rightarrow> bytes" where
  "sample_tx_sysvar payload = SECP256R1_PRECOMPILE_ID @ six_data (sample_precompile payload)"

definition sample_tx_store :: "account \<Rightarrow> bytes \<Rightarrow> store" where
  "sample_tx_store ext payload =
     (sample_store ext [])(INSTRUCTIONS_ID := sample_wallet\<lparr>acc_data := sample_tx_sysvar payload\<rparr>)"

definition sample_tx_world :: "account \<Rightarrow> bytes \<Rightarrow> world" where
  "sample_tx_world ext payload = \<lparr>w_store = sample_tx_store ext payload, w_invoked = []\<rparr>"

lemma sample_tx_simps [simp]:
  "w_store (sample_tx_world ext payload) = sample_tx_store ext payload"
  "w_invoked (sample_tx_world ext payload) = []"
  "sample_tx_store ext payload sample_address = ext"
  "sample_tx_store ext payload SLOT_HASHES_ID = sample_wallet\<lparr>acc_data := encode_slot_hashes sample_slots\<rparr>"
  "sample_tx_store ext payload sample_signer = sample_wallet"
  "sample_tx_store ext payload sample_program = sample_wallet"
  "sample_tx_store ext payload INSTRUCTIONS_ID = sample_wallet\<lparr>acc_data := sample_tx_sysvar payload\<rparr>"
  by (simp_all add: sample_tx_world_def sample_tx_store_def sample_keys_distinct [symmetric])

lemma sample_signed_transaction:
  "signed_transaction sample_lib sample_runtime (sample_tx_store ext payload) (sample_tx_sysvar payload)
     (sample_ceremony payload)"
proof -
  have "length SECP256R1_PRECOMPILE_ID = 32" by (simp add: SECP256R1_PRECOMPILE_ID_def)
  then have "instruction_at sample_runtime (sample_tx_sysvar payload) 0 =
      Ok \<lparr>iix_program_id = six_program_id (sample_precompile payload),
          iix_data = six_data (sample_precompile payload), iix_even = True\<rparr>"
    by (simp add: sample_tx_sysvar_def sample_precompile(2)) (simp add: sample_runtime_def)
  moreover have "instructions_sysvar_id sample_lib = Built INSTRUCTIONS_ID"
    by (simp add: instructions_sysvar_id_def)
  moreover have "instructions_try_from sample_runtime INSTRUCTIONS_ID
      (sample_tx_store ext payload INSTRUCTIONS_ID) = Ok (sample_tx_sysvar payload)"
    by (simp add: sample_instructions_try_from)
  ultimately show ?thesis
    using sample_precompile(1) [of payload] unfolding signed_transaction_def by (simp del: sample_tx_simps)
qed

lemma sample_nonce_available:
  "nonce_available sample_runtime (sample_tx_store ext payload) SLOT_HASHES_ID (TruncatedSlot 999) sample_nonce_data"
proof -
  have "slot_hashes_try_from sample_runtime (sample_tx_store ext payload) SLOT_HASHES_ID = Ok sample_slot_hashes"
    by (simp add: slot_hashes_try_from_def sample_slot_hashes_def) (simp add: sample_runtime_def)
  moreover have "get_stack_height sample_runtime = 1" by (simp add: get_stack_height_def sample_runtime_def)
  ultimately show ?thesis
    by (simp add: nonce_available_def sample_slot_table sample_slots_descending sample_nonce_entry)
qed

lemma sample_ext_p256_at:
  assumes "st k = sample_ext d" and "p256_account_wf d"
    and "header_version (p256_header d) = 1" and "header_scheme (p256_header d) = 0"
  shows "p256_at rt st k d"
proof -
  have "esa_slice st (account_of st k) = p256_account_to_bytes d"
    by (simp add: esa_slice_def account_of_def assms(1) sample_ext_def)
  moreover have "acc_data_aligned (sample_ext d)" "acc_owner (sample_ext d) = crate_ID"
    by (simp_all add: sample_ext_def)
  ultimately show ?thesis
    using assms p256.header_bytes [OF assms(2)] length_p256_bytes [OF assms(2)] p256_pod.dec_enc [OF assms(2)]
    by (simp add: p256_at_def p256.esa_data_Ok)
qed

lemma sample_borrows: "borrow_mut_data sample_runtime a = Ok (acc_data a)"
  by (simp add: sample_runtime_def)

lemma sample_account_ready:
  "account_ready sample_runtime (sample_tx_store (sample_ext sample_p256) payload) sample_address sample_p256"
proof -
  have "p256_at sample_runtime (sample_tx_store (sample_ext sample_p256) payload) sample_address sample_p256"
    using sample_ext_p256_at [OF _ sample_p256_wf sample_p256_fields(1,2)] by simp
  moreover have "account_ok sample_runtime sample_address sample_p256"
    using sample_derive sample_rp_consistent
    by (simp add: account_ok_def sample_p256_fields p256_derive_existing_account_def sample_sec1)
  moreover have "acc_is_writable (sample_ext sample_p256)" by (simp add: sample_ext_def)
  ultimately show ?thesis by (simp add: account_ready_def sample_borrows)
qed

lemma sample_counter_fresh: "counter_fresh 7 sample_p256"
  by (simp add: counter_fresh_def sample_p256_def)

lemma sample_run_invocations: "run_invocations sample_runtime ivs st = Ok st"
  by (induction ivs) (simp_all, simp add: sample_runtime_def)

lemma sample_ceremony_verification: "verification_data_of sample_lib (sample_ceremony payload) = Built sample_extra"
  using sample_verification_data_of by (simp add: verification_data_of_def sample_webauthn_def)

lemma sample_ea_here:
  "get_execution_account sample_runtime T st (account_of st' sample_address) ExecutionAccount = Ok sample_ea"
  by (simp add: sample_execution_account sample_ea_def esa_key_def)

section \<open>Witnesses\<close>

theorem sdk_execution_succeeds_witness:
  "\<exists>ix w' iv. execute_instructions sample_lib (sample_ceremony (hash sample_runtime sample_sdk_payload)) sample_address
       sample_signer (TruncatedSlot 999) [sample_ix sample_signer] ExecutionAccount = Built ix \<and>
     process_instruction sample_runtime crate_ID (map meta_pubkey (six_accounts ix)) (six_data ix)
       (sample_tx_world (sample_ext sample_p256) (hash sample_runtime sample_sdk_payload)) = Ok w' \<and>
     w_invoked w' = [iv] \<and> carried_out ExecutionAccount (execution_key sample_ea) iv (sample_ix sample_signer)"
proof -
  let ?payload = "hash sample_runtime sample_sdk_payload"
  let ?wd = "sample_ceremony ?payload" and ?w = "sample_tx_world (sample_ext sample_p256) ?payload"
  obtain ix where ix: "execute_instructions sample_lib ?wd sample_address (signer_key sample_nonce_data)
      (TruncatedSlot 999) [sample_ix sample_signer] ExecutionAccount = Built ix"
    using sample_sdk_execute
    by (auto simp: execute_instructions_def sample_verification_data_of sample_ceremony_verification)
  have c: "compile_instructions_for_execution sample_lib [sample_ix sample_signer] (signer_key sample_nonce_data)
      = Built (sample_compiled sample_signer)"
    using sample_compile [of sample_signer] by simp
  have keys: "[sample_signer, sample_program] = map meta_pubkey (cep_account_metas (sample_compiled sample_signer))"
    "length [sample_signer, sample_program] \<le> 64"
    "\<forall>ix \<in> set [sample_ix sample_signer]. six_program_id ix \<noteq> crate_ID"
    by (simp_all add: sample_ix_def)
  have p: "instruction_payload sample_runtime (w_store ?w) sample_nonce_data [sample_signer, sample_program]
      (cep_instructions (sample_compiled sample_signer)) = Ok sample_sdk_payload"
    by (simp add: instruction_payload_def sample_compiled_Some account_payload_def bool_u8_def sample_sdk_payload_def)
  have signed: "ceremony_for sample_runtime sample_p256 ?payload ?wd"
    by (rule sample_ceremony_for) (simp_all add: sample_p256_fields)
  have grants: "transaction_grants (w_store ?w) (cep_account_metas (sample_compiled sample_signer))"
    by (simp add: transaction_grants_def)
  have fresh: "counter_fresh (ceremony_counter ?wd) sample_p256" by (simp add: sample_counter_fresh)
  from sdk_execution_succeeds [OF sample_lib_matches sample_message_laws sample_precompile_layout
      sample_borsh_format sample_sha256_length, where w = ?w and pid = crate_ID and passkey = sample_address,
      unfolded sample_tx_simps(1,2), OF sample_account_ready sample_nonce_available sample_signed_transaction c ix
      keys p [unfolded sample_tx_simps(1)] signed fresh sample_ea_here sample_seeds refl sample_run_invocations]
  show ?thesis using ix grants by (auto simp: inner_calls_def)
qed

theorem sdk_sessioned_execution_succeeds_witness:
  "\<exists>ix w' iv. execute_instructions_sessioned sample_lib sample_address sample_session_signer
       [sample_ix sample_session_signer] ExecutionAccount = Built ix \<and>
     process_instruction sample_runtime crate_ID (map meta_pubkey (six_accounts ix)) (six_data ix)
       (sample_world (sample_ext sample_p256) []) = Ok w' \<and>
     w_invoked w' = [iv] \<and> carried_out ExecutionAccount (execution_key sample_ea) iv (sample_ix sample_session_signer)"
proof -
  let ?w = "sample_world (sample_ext sample_p256) []" and ?k = sample_session_signer
  obtain ix where ix: "execute_instructions_sessioned sample_lib sample_address ?k [sample_ix ?k] ExecutionAccount = Built ix"
    using sample_sdk_sessioned by blast
  have c: "compile_instructions_for_execution sample_lib [sample_ix ?k] ?k = Built (sample_compiled ?k)"
    using sample_compile [of ?k] by simp
  have at: "p256_at sample_runtime (w_store ?w) sample_address sample_p256"
    using sample_ext_p256_at [OF _ sample_p256_wf sample_p256_fields(1,2)] by (simp add: sample_world_def)
  have clock: "clock_unix_timestamp sample_runtime = Ok 1000" by (simp add: sample_runtime_def)
  have live: "live_session sample_runtime (w_store ?w) ?k sample_p256"
    unfolding live_session_def
    by (simp add: clock sample_world_def)
       (simp add: sample_p256_def sample_session_key_def sample_session_signer_def)
  have keys: "[?k, sample_program] = map meta_pubkey (cep_account_metas (sample_compiled ?k))"
    "length [?k, sample_program] \<le> 64" "\<forall>ix \<in> set [sample_ix ?k]. six_program_id ix \<noteq> crate_ID"
    by (simp_all add: sample_ix_def)
  have grants: "transaction_grants (w_store ?w) (cep_account_metas (sample_compiled ?k))"
    by (simp add: transaction_grants_def sample_world_def)
  from sdk_sessioned_execution_succeeds [OF sample_lib_matches sample_message_laws sample_borsh_format
      sample_borrow_faithful at sample_borrows live c ix keys sample_ea_here sample_seeds refl sample_run_invocations]
  show ?thesis using ix grants by (fastforce simp: inner_calls_def sample_world_def)
qed

theorem sdk_refresh_succeeds_witness:
  "\<exists>ix w'. sdk_refresh_session_key sample_lib (sample_ceremony (hash sample_runtime sample_refresh_payload))
       sample_address sample_signer (TruncatedSlot 999) sample_new_session_key = Built ix \<and>
     process_instruction sample_runtime crate_ID (map meta_pubkey (six_accounts ix)) (six_data ix)
       (sample_tx_world (sample_ext sample_p256) (hash sample_runtime sample_refresh_payload)) = Ok w' \<and>
     p256_at sample_runtime (w_store w') sample_address (sample_p256\<lparr>counter := 7,
       p256_session_key := \<lparr>session_key_key = replicate 32 4, expiration = 1500\<rparr>\<rparr>)"
proof -
  let ?payload = "hash sample_runtime sample_refresh_payload"
  let ?wd = "sample_ceremony ?payload" and ?w = "sample_tx_world (sample_ext sample_p256) ?payload"
  obtain ix where ix: "sdk_refresh_session_key sample_lib ?wd sample_address (signer_key sample_nonce_data)
      (TruncatedSlot 999) sample_new_session_key = Built ix"
    using sample_sdk_refresh
    by (auto simp: sdk_refresh_session_key_def sample_verification_data_of sample_ceremony_verification)
  have p: "refresh_payload sample_runtime sample_nonce_data sample_new_session_key = Ok sample_refresh_payload"
    by (simp add: refresh_payload_def session_key_serialize_def sample_new_session_key_def
        sample_refresh_payload_def ref.w_array ref.w_u64)
  have signed: "ceremony_for sample_runtime sample_p256 ?payload ?wd"
    by (rule sample_ceremony_for) (simp_all add: sample_p256_fields)
  have clock: "clock_unix_timestamp sample_runtime = Ok 1000" by (simp add: sample_runtime_def)
  have fresh: "counter_fresh (ceremony_counter ?wd) sample_p256" by (simp add: sample_counter_fresh)
  have times: "unat (1000 :: i64) + 7776000 < 2 ^ 64" "unat (expiration sample_new_session_key) \<le> 7776000"
    by (simp_all add: sample_new_session_key_def)
  from sdk_refresh_succeeds [OF sample_lib_matches sample_precompile_layout sample_borsh_format sample_sha256_length,
      where w = ?w and pid = crate_ID and passkey = sample_address, unfolded sample_tx_simps(1),
      OF sample_account_ready sample_nonce_available sample_signed_transaction ix p signed fresh clock times]
  show ?thesis using ix by (auto simp: counted_def sample_new_session_key_def)
qed

theorem sdk_initialization_succeeds_witness:
  "\<exists>ix w' d. initialize_passkey_account_with_session sample_lib
       (sample_ceremony (hash sample_runtime sample_init_payload)) (ascii ''localhost'') sample_signer
       (TruncatedSlot 999) sample_session_key = Built (sample_address, ix) \<and>
     process_instruction sample_runtime crate_ID (map meta_pubkey (six_accounts ix)) (six_data ix)
       (sample_tx_world sample_empty (hash sample_runtime sample_init_payload)) = Ok w' \<and>
     p256_at sample_runtime (w_store w') sample_address d \<and> stored_rp_id (rp_id_info d) = ascii ''localhost'' \<and>
     sec1_bytes (public_key d) = replicate 33 2 \<and> p256_session_key d = sample_session_key \<and> counter d = 7"
proof -
  let ?payload = "hash sample_runtime sample_init_payload"
  let ?wd = "sample_ceremony ?payload" and ?w = "sample_tx_world sample_empty ?payload"
  obtain ix where ix: "initialize_with sample_lib ?wd (ascii ''localhost'') (signer_key sample_nonce_data)
      (TruncatedSlot 999) (Some sample_session_key) = Built (sample_address, ix)"
    using sample_sdk_initialize
    by (auto simp: initialize_passkey_account_with_session_def initialize_with_def sample_webauthn_def)
  have empty: "acc_owner (w_store ?w sample_address) = system_program_id sample_runtime"
    "acc_data (w_store ?w sample_address) = []" "acc_data_aligned (w_store ?w sample_address)"
    by simp (simp_all add: sample_runtime_def)
  have pi: "p256_parse_initialization_data sample_runtime \<lparr>raw_rp_id = ascii ''localhost'',
      raw_init_public_key = wd_public_key ?wd, raw_init_params = wd_params ?wd\<rparr> = Ok sample_parsed_init"
    using sample_parse_init by (simp add: sample_raw_init_def)
  have s: "p256_derive_account sample_runtime \<lparr>derive_public_key = wd_public_key ?wd\<rparr> = Ok sample_init_seeds"
    using sample_derive by (simp add: sample_init_seeds_def)
  obtain st1 where paid: "account_created sample_runtime (signer_key sample_nonce_data) sample_address
      (account_seeds_seeds sample_init_seeds) (w_store ?w) st1"
    by (simp add: account_created_def sample_borrows utils_initialize_account_def) (simp add: sample_runtime_def Let_def)
  have clock: "clock_unix_timestamp sample_runtime = Ok 1000" by (simp add: sample_runtime_def)
  have limit: "\<forall>x. Some sample_session_key = Some x \<longrightarrow> (\<exists>now. clock_unix_timestamp sample_runtime = Ok now \<and>
      expiration x \<le> session_expiration_bound now)"
    by (simp add: clock sample_session_key_def session_expiration_bound_def SESSION_KEY_EXPIRATION_LIMIT_def)
  have signed: "ceremony_for sample_runtime (initialized_p256 sample_parsed_init (Some sample_session_key))
      (hash sample_runtime (initialization_payload (nonce_slothash sample_nonce_data) (signer_key sample_nonce_data)
        p256_initialization_payload (Some sample_session_key))) ?wd"
    using sample_ceremony_for [of "initialized_p256 sample_parsed_init (Some sample_session_key)" ?payload]
    by (simp add: initialized_p256_def sample_parsed_init_def sample_init_payload_def)
  have tx: "signed_transaction sample_lib sample_runtime (w_store ?w) (sample_tx_sysvar ?payload) ?wd"
    "nonce_available sample_runtime (w_store ?w) SLOT_HASHES_ID (TruncatedSlot 999) sample_nonce_data"
    by (simp_all add: sample_signed_transaction sample_nonce_available)
  from sdk_initialization_succeeds [OF sample_lib_matches sample_precompile_layout sample_borsh_format
      sample_sha256_length sample_system_program_laws ix empty tx(2,1) pi s paid limit signed, of crate_ID]
  show ?thesis using ix by (auto simp: initialize_passkey_account_with_session_def)
qed

end
