(* ===== verification/Bounds.thy ===== *)
theory Bounds
  imports Protocol "HOL-Library.While_Combinator"
begin

text \<open>
  How much work a call can do: the loop of the slot-hash search with its iterator, which ends after
  at most 149 reads, and the number and size of the inner calls.
\<close>

section \<open>The search loop\<close>

text \<open>
  \<open>for index in (0..search_end).rev()\<close> in \<open>utils/nonce.rs\<close>, round by round: \<open>remaining\<close> is what is
  left of the iterator, \<open>reads\<close> counts the entries read, \<open>outcome\<close> is set when the function returns.
\<close>

record search_state =
  remaining :: nat
  reads :: nat
  outcome :: "slot_hash result option"

definition search_start :: "nat \<Rightarrow> search_state" where
  "search_start search_end = \<lparr>remaining = search_end, reads = 0, outcome = None\<rparr>"

definition search_running :: "search_state \<Rightarrow> bool" where
  "search_running s \<longleftrightarrow> outcome s = None"

definition search_step :: "runtime \<Rightarrow> slot_hashes \<Rightarrow> u64 \<Rightarrow> search_state \<Rightarrow> search_state" where
  "search_step rt sh expected_slot s =
     (case remaining s of
        0 \<Rightarrow> s\<lparr>outcome := Some (Err (prog_err InvalidSlothashIndex))\<rparr>
      | Suc i \<Rightarrow>
          (let s = s\<lparr>remaining := i, reads := reads s + 1\<rparr> in
           case get_slot_hash rt sh i of
             Ok candidate \<Rightarrow>
               if height candidate = expected_slot then s\<lparr>outcome := Some (Ok candidate)\<rparr> else s
           | Err e \<Rightarrow> s\<lparr>outcome := Some (Err e)\<rparr>
           | Panic \<Rightarrow> s\<lparr>outcome := Some Panic\<rparr>))"

lemma search_loop_from:
  "\<exists>s. while_option search_running (search_step rt sh x) \<lparr>remaining = n, reads = r, outcome = None\<rparr> = Some s \<and>
     outcome s = Some (reverse_linear_search_slot_hash rt sh x n) \<and> reads s \<le> r + n"
proof (induction n arbitrary: r)
  case 0
  then show ?case
    by (subst while_option_unfold, simp add: search_running_def search_step_def,
        subst while_option_unfold, simp add: search_running_def)
next
  case (Suc n)
  let ?next = "search_step rt sh x \<lparr>remaining = Suc n, reads = r, outcome = None\<rparr>"
  have step: "while_option search_running (search_step rt sh x) \<lparr>remaining = Suc n, reads = r, outcome = None\<rparr> =
      while_option search_running (search_step rt sh x) ?next"
    by (subst while_option_unfold) (simp add: search_running_def)
  show ?case
  proof (cases "\<exists>c. get_slot_hash rt sh n = Ok c \<and> height c \<noteq> x")
    case True
    then have "?next = \<lparr>remaining = n, reads = Suc r, outcome = None\<rparr>" by (auto simp: search_step_def)
    with Suc.IH [of "Suc r"] True show ?thesis unfolding step by auto
  next
    case False
    then have "outcome ?next = Some (reverse_linear_search_slot_hash rt sh x (Suc n))" "reads ?next = Suc r"
      by (auto simp: search_step_def Let_def split: result.splits)
    moreover from this have "while_option search_running (search_step rt sh x) ?next = Some ?next"
      by (subst while_option_unfold) (simp add: search_running_def)
    ultimately show ?thesis unfolding step by auto
  qed
qed

section \<open>The size of the inner calls\<close>

text \<open>What the encodings leave room for.\<close>

definition call_bounded :: "invocation \<Rightarrow> bool" where
  "call_bounded iv \<longleftrightarrow> length (inv_accounts iv) \<le> 255 \<and> length (inv_account_infos iv) \<le> 64 \<and>
     length (inv_data iv) \<le> 65535 \<and> length (inv_signers_seeds iv) = 1"

definition instruction_bounded :: "compiled_instruction \<Rightarrow> bool" where
  "instruction_bounded ci \<longleftrightarrow> length (accounts_indices ci) \<le> 255 \<and> length (ci_data ci) \<le> 65535"

lemma compiled_instruction_bounded:
  "compiled_instruction_serialize B ci = Some bs \<Longrightarrow> instruction_bounded ci"
  by (auto simp: compiled_instruction_serialize_def instruction_bounded_def small_vec_serialize_def bind_eq_Some_conv
      split: if_splits)

lemma serialized_items_bounded:
  "serialize_items (compiled_instruction_serialize B) cis = Some bs \<Longrightarrow> \<forall>ci \<in> set cis. instruction_bounded ci"
  by (induction cis arbitrary: bs) (auto simp: bind_eq_Some_conv dest: compiled_instruction_bounded)

lemma instructions_writer_bounded:
  assumes "instructions_writer B cis = Some bs"
  shows "length cis \<le> 255 \<and> (\<forall>ci \<in> set cis. instruction_bounded ci)"
  using assms serialized_items_bounded [of B cis]
  by (auto simp: small_vec_serialize_def serialize_slice_def no_u8_slice_def bind_eq_Some_conv split: if_splits)

lemma length_distinct_bytes:
  assumes "distinct (xs :: u8 list)" and "\<forall>x \<in> set xs. unat x < n"
  shows "length xs \<le> n"
proof -
  have "length xs = card (unat ` set xs)"
    using assms(1) by (simp add: distinct_card card_image inj_on_def word_unat_eq_iff)
  also have "\<dots> \<le> card {..<n}" using assms(2) by (intro card_mono) auto
  finally show ?thesis by simp
qed

lemma expanded_bounded:
  assumes "instruction_in_range n ci" and "instruction_bounded ci"
  shows "call_bounded (expanded_invocation accounts metas seeds ci)"
proof -
  have "length (first_occurrences (accounts_indices ci)) \<le> 64"
    using assms(1) by (intro length_distinct_bytes) (auto simp: instruction_in_range_def)
  with assms(2) show ?thesis by (simp add: call_bounded_def expanded_invocation_def instruction_bounded_def)
qed

lemma invoked_bounded:
  assumes "length metas = length accounts" and "to_signer_seeds ea = Ok seeds"
    and "invoke_instructions rt accounts metas ea cis [] [] w = Ok w'"
    and "length cis \<le> 255 \<and> (\<forall>ci \<in> set cis. instruction_bounded ci)"
  shows "\<exists>ivs. w_invoked w' = w_invoked w @ ivs \<and> length ivs \<le> 255 \<and> (\<forall>iv \<in> set ivs. call_bounded iv)"
  using assms(3,4) expanded_bounded [of "length accounts"]
  by (auto simp: invoke_instructions_Ok [OF assms(1,2)])

lemma execute_bounded:
  assumes "borsh_format (rt_borsh rt)" and "borrow_faithful rt"
    and "process_execute_instructions rt accounts data w = Ok w'"
  shows "\<exists>ivs. w_invoked w' = w_invoked w @ ivs \<and> length ivs \<le> 255 \<and> (\<forall>iv \<in> set ivs. call_bounded iv)"
proof -
  obtain ea st seeds args rest scheme where
    args: "try_from_slice (executable_instruction_args_deserialize (rt_borsh rt)) data = Some args"
    and seeds: "to_signer_seeds ea = Ok seeds"
    and inv: "invoke_instructions rt rest (create_instruction_execution_account_metas (w_store w) rest ea scheme)
      ea (exec_instructions args) [] [] (w\<lparr>w_store := st\<rparr>) = Ok w'"
    using execute_steps [OF assms(2,3)] by blast
  have "executable_instruction_args_serialize (rt_borsh rt) args = Some data"
    using codec.slice_canonical [OF borsh_format.executable_instruction_args_codec [OF assms(1)]] args by blast
  then have "length (exec_instructions args) \<le> 255 \<and> (\<forall>ci \<in> set (exec_instructions args). instruction_bounded ci)"
    by (auto simp: executable_instruction_args_serialize_def bind_eq_Some_conv dest: instructions_writer_bounded)
  from invoked_bounded [OF _ seeds inv this] show ?thesis by simp
qed

lemma sessioned_bounded:
  assumes "borsh_format (rt_borsh rt)" and "borrow_faithful rt"
    and "process_execute_instructions_sessioned rt accounts data w = Ok w'"
  shows "\<exists>ivs. w_invoked w' = w_invoked w @ ivs \<and> length ivs \<le> 255 \<and> (\<forall>iv \<in> set ivs. call_bounded iv)"
proof -
  obtain args external rest scheme ea where
    args: "try_from_slice (executable_instruction_sessioned_args_deserialize (rt_borsh rt)) data = Some args"
    and ea: "get_execution_account rt (p256_trait rt) (w_store w) (account_of (w_store w) external) scheme = Ok ea"
    and inv: "invoke_instructions rt rest (create_instruction_execution_account_metas (w_store w) rest ea scheme)
      ea (sess_instructions args) [] [] w = Ok w'"
    using assms(3) unfolding process_sessioned_iff [OF assms(2)] by blast
  obtain seeds where seeds: "to_signer_seeds ea = Ok seeds" using get_execution_account_seeds [OF ea] by blast
  have "executable_instruction_sessioned_args_serialize (rt_borsh rt) args = Some data"
    using codec.slice_canonical [OF borsh_format.executable_instruction_sessioned_args_codec [OF assms(1)]] args by blast
  then have "length (sess_instructions args) \<le> 255 \<and> (\<forall>ci \<in> set (sess_instructions args). instruction_bounded ci)"
    by (auto simp: executable_instruction_sessioned_args_serialize_def bind_eq_Some_conv dest: instructions_writer_bounded)
  from invoked_bounded [OF _ seeds inv this] show ?thesis by simp
qed

section \<open>Properties\<close>

text \<open>
  C22. The search for a slot hash ends: from any index below 150, the largest the window lets
  through, the loop over the newer entries stops after at most 149 reads, whatever the sysvar holds,
  and its outcome is the search's result unless the direct index hits.
\<close>

theorem fallback_search_terminates:
  assumes "n < 150"
  shows "\<exists>s. while_option search_running (search_step rt sh x)
      (search_start (min n (unat (get_slothashes_len rt sh)))) = Some s \<and>
    reads s \<le> 149 \<and>
    find_slot_hash_with_fallback rt sh x n =
      (if n < length (slot_table rt sh) \<and> height (slot_table rt sh ! n) = x
       then Ok (slot_table rt sh ! n) else the (outcome s))"
proof -
  let ?last = "min n (unat (get_slothashes_len rt sh))"
  obtain s where s: "while_option search_running (search_step rt sh x) (search_start ?last) = Some s"
    "outcome s = Some (reverse_linear_search_slot_hash rt sh x ?last)" "reads s \<le> ?last"
    using search_loop_from [of rt sh x ?last 0] by (auto simp: search_start_def)
  have "find_slot_hash_with_fallback rt sh x n =
      (if n < length (slot_table rt sh) \<and> height (slot_table rt sh ! n) = x
       then Ok (slot_table rt sh ! n) else reverse_linear_search_slot_hash rt sh x ?last)"
    by (cases "?last = 0")
       (auto simp: find_slot_hash_with_fallback_def Let_def get_slot_hash_table length_slot_table)
  with s assms show ?thesis by auto
qed

text \<open>
  C23. What one instruction makes the runtime do is bounded by its encoding: at most 255 inner calls,
  each with at most 255 account metas, 64 account infos, 65535 bytes of data and one set of signer
  seeds.
\<close>

theorem inner_calls_bounded:
  assumes "borsh_format (rt_borsh rt)" and "borrow_faithful rt" and "sha256_length rt" and "system_program_laws rt"
    and "process_instruction rt pid accounts data w = Ok w'"
  shows "\<exists>ivs. w_invoked w' = w_invoked w @ ivs \<and> length ivs \<le> 255 \<and>
    (\<forall>iv \<in> set ivs. length (inv_accounts iv) \<le> 255 \<and> length (inv_account_infos iv) \<le> 64 \<and>
       length (inv_data iv) \<le> 65535 \<and> length (inv_signers_seeds iv) = 1)"
proof -
  obtain t rest where d: "data = t # rest" using assms(5) by (cases data) (auto simp: process_instruction_def)
  consider "process_initialize_external_account rt accounts rest w = Ok w'"
    | "process_execute_instructions rt accounts rest w = Ok w'"
    | "process_refresh_session_key rt accounts rest w = Ok w'"
    | "process_execute_instructions_sessioned rt accounts rest w = Ok w'"
    using assms(5) by (auto simp: process_instruction_def d split: if_splits)
  then have "\<exists>ivs. w_invoked w' = w_invoked w @ ivs \<and> length ivs \<le> 255 \<and> (\<forall>iv \<in> set ivs. call_bounded iv)"
  proof cases
    case 1
    from initialize_steps [OF assms(2,3,1,4) this] have "w_invoked w' = w_invoked w" by blast
    then show ?thesis by simp
  next
    case 3
    from refresh_steps [OF assms(2,1) this] have "w_invoked w' = w_invoked w" by blast
    then show ?thesis by simp
  qed (use execute_bounded sessioned_bounded assms(1,2) in blast)+
  then show ?thesis unfolding call_bounded_def .
qed

end
