(* ===== verification/AccountTyping.thy ===== *)
theory AccountTyping
  imports Completeness
begin

text \<open>
  The account struct as a type of the store.  Account data is bytes, which anyone can read as a struct;
  what makes the bytes of the program's accounts a struct is that every instruction keeps them so.  The
  invariant here speaks of all accounts the program owns, not only of those the wrapper accepts.
\<close>

section \<open>Typed stores\<close>

text \<open>\<open>typed_account\<close>: the data of account \<open>k\<close> begins with the bytes of the well-formed struct \<open>d\<close>.\<close>

definition typed_account :: "store \<Rightarrow> pubkey \<Rightarrow> p256_account_data \<Rightarrow> bool" where
  "typed_account st k d \<longleftrightarrow> acc_owner (st k) = crate_ID \<and> acc_data_aligned (st k) \<and> p256_account_wf d \<and>
     header_version (p256_header d) = 1 \<and> header_scheme (p256_header d) = 0 \<and>
     (\<exists>rest. acc_data (st k) = p256_account_to_bytes d @ rest)"

text \<open>
  \<open>blank_account\<close>: nothing but zeros, what the runtime leaves of an account that another program
  handed over.
\<close>

definition blank_account :: "store \<Rightarrow> pubkey \<Rightarrow> bool" where
  "blank_account st k \<longleftrightarrow> set (acc_data (st k)) \<subseteq> {0}"

definition store_typed :: "store \<Rightarrow> bool" where
  "store_typed st \<longleftrightarrow>
     (\<forall>k. acc_owner (st k) = crate_ID \<longrightarrow> blank_account st k \<or> (\<exists>d. typed_account st k d))"

lemma typed_account_p256_at: "typed_account st k d \<longleftrightarrow> p256_at rt st k d"
proof
  assume typed: "typed_account st k d"
  then obtain rest where data: "acc_data (st k) = p256_account_to_bytes d @ rest" and wf: "p256_account_wf d"
    by (auto simp: typed_account_def)
  note len = p256_pod.enc_length [OF wf]
  have "esa_slice st (account_of st k) = p256_account_to_bytes d @ rest"
    by (simp add: esa_slice_def account_of_def data)
  then show "p256_at rt st k d"
    using typed len p256.header_bytes [OF wf] p256_pod.dec_enc [OF wf]
    by (simp add: p256_at_def p256.esa_data_Ok typed_account_def nth_append)
next
  assume at: "p256_at rt st k d"
  then have data: "esa_data (p256_trait rt) st (account_of st k) = Ok d" by (simp add: p256_at_def)
  then have d: "d = p256_account_from_bytes (take 152 (acc_data (st k)))" "152 \<le> length (acc_data (st k))"
    "acc_data_aligned (st k)"
    by (auto simp: p256.esa_data_Ok esa_slice_def account_of_def)
  then have "p256_account_to_bytes d = take 152 (acc_data (st k))" by (simp add: p256_pod.enc_dec)
  then have "acc_data (st k) = p256_account_to_bytes d @ drop 152 (acc_data (st k))" by simp
  with at d(3) p256.esa_data_wf [OF data] p256.esa_data_header [OF data] show "typed_account st k d"
    by (auto simp: typed_account_def p256_at_def)
qed

section \<open>Every step keeps the store typed\<close>

lemma foreign_typed:
  assumes "foreign_change st st'" and "store_typed st"
  shows "store_typed st'"
  unfolding store_typed_def
proof (intro allI impI)
  fix k assume own: "acc_owner (st' k) = crate_ID"
  show "blank_account st' k \<or> (\<exists>d. typed_account st' k d)"
  proof (cases "acc_owner (st k) = crate_ID")
    case True
    then have same: "acc_data (st' k) = acc_data (st k)" "acc_data_aligned (st' k) = acc_data_aligned (st k)"
      using assms(1) by (simp_all add: foreign_change_def)
    have "blank_account st k \<or> (\<exists>d. typed_account st k d)" using assms(2) True by (simp add: store_typed_def)
    then show ?thesis using own True by (simp add: blank_account_def typed_account_def same)
  next
    case False
    then show ?thesis using assms(1) own by (simp add: foreign_change_def blank_account_def)
  qed
qed

text \<open>A change of one account that leaves the struct there, and of the others no more than the balance.\<close>

lemma update_typed:
  assumes "store_typed st" and "p256_at rt st' k d"
    and "\<forall>j. j \<noteq> k \<longrightarrow> (\<exists>l. st' j = (st j)\<lparr>acc_lamports := l\<rparr>)"
  shows "store_typed st'"
  unfolding store_typed_def
proof (intro allI impI)
  fix j assume own: "acc_owner (st' j) = crate_ID"
  show "blank_account st' j \<or> (\<exists>d. typed_account st' j d)"
  proof (cases "j = k")
    case True
    then show ?thesis using assms(2) typed_account_p256_at by blast
  next
    case False
    then obtain l where same: "st' j = (st j)\<lparr>acc_lamports := l\<rparr>" using assms(3) by blast
    with own assms(1) have "blank_account st j \<or> (\<exists>d. typed_account st j d)" by (simp add: store_typed_def)
    then show ?thesis by (simp add: blank_account_def typed_account_def same)
  qed
qed

lemma frame_typed:
  assumes "store_typed st" and "p256_at rt st' k d" and "data_frame k st st'"
  shows "store_typed st'"
proof (rule update_typed [OF assms(1,2)], intro allI impI)
  fix j assume "j \<noteq> k"
  then have "st' j = (st j)\<lparr>acc_lamports := acc_lamports (st j)\<rparr>" using assms(3) by (simp add: data_frame_def)
  then show "\<exists>l. st' j = (st j)\<lparr>acc_lamports := l\<rparr>" by blast
qed

lemma invoke_instructions_typed:
  assumes "chain_laws rt" and "store_typed (w_store w)" and "to_signer_seeds ea = Ok seeds"
    and "invoke_instructions rt accounts (create_instruction_execution_account_metas st accounts ea scheme) ea cis [] [] w = Ok w'"
  shows "store_typed (w_store w')"
proof -
  have "cpi_respects_owner rt" using assms(1) by (simp add: chain_laws_def)
  from foreign_typed [OF invoke_instructions_foreign [OF this _ assms(3,4)] assms(2)] show ?thesis by simp
qed

lemma execute_typed:
  assumes laws: "chain_laws rt" and typed: "store_typed (w_store w)"
    and run: "process_execute_instructions rt accounts data w = Ok w'"
  shows "store_typed (w_store w')"
proof -
  have "borrow_faithful rt" using laws by (simp add: chain_laws_def)
  from execute_steps [OF this run] obtain args ea st d' external rest scheme seeds where
    at: "p256_at rt st external d'" and frame: "data_frame external (w_store w) st"
    and seeds: "to_signer_seeds ea = Ok seeds"
    and inv: "invoke_instructions rt rest (create_instruction_execution_account_metas (w_store w) rest ea scheme)
      ea (exec_instructions (args :: executable_instruction_args)) [] [] (w\<lparr>w_store := st\<rparr>) = Ok w'"
    by blast
  have "store_typed (w_store (w\<lparr>w_store := st\<rparr>))" using frame_typed [OF typed at frame] by simp
  then show ?thesis by (rule invoke_instructions_typed [OF laws _ seeds inv])
qed

lemma sessioned_typed:
  assumes laws: "chain_laws rt" and typed: "store_typed (w_store w)"
    and run: "process_execute_instructions_sessioned rt accounts data w = Ok w'"
  shows "store_typed (w_store w')"
proof -
  have bf: "borrow_faithful rt" using laws by (simp add: chain_laws_def)
  obtain external rest scheme ea and args :: executable_instruction_sessioned_args where
    ea: "get_execution_account rt (p256_trait rt) (w_store w) (account_of (w_store w) external) scheme = Ok ea"
    and inv: "invoke_instructions rt rest (create_instruction_execution_account_metas (w_store w) rest ea scheme)
      ea (sess_instructions args) [] [] w = Ok w'"
    using run unfolding process_sessioned_iff [OF bf] by blast
  obtain seeds where "to_signer_seeds ea = Ok seeds" using get_execution_account_seeds [OF ea] by blast
  from invoke_instructions_typed [OF laws typed this inv] show ?thesis .
qed

lemma refresh_typed:
  assumes laws: "chain_laws rt" and typed: "store_typed (w_store w)"
    and run: "process_refresh_session_key rt accounts data w = Ok w'"
  shows "store_typed (w_store w')"
proof -
  have "borrow_faithful rt" "borsh_format (rt_borsh rt)" using laws by (simp_all add: chain_laws_def)
  from refresh_steps [OF this run] obtain external d
    where "p256_at rt (w_store w') external d" "data_frame external (w_store w) (w_store w')"
    by blast
  then show ?thesis by (rule frame_typed [OF typed])
qed

lemma initialize_typed:
  assumes laws: "chain_laws rt" and typed: "store_typed (w_store w)"
    and run: "process_initialize_external_account rt accounts data w = Ok w'"
  shows "store_typed (w_store w')"
proof -
  have "borrow_faithful rt" "sha256_length rt" "borsh_format (rt_borsh rt)" "system_program_laws rt"
    using laws by (simp_all add: chain_laws_def)
  from initialize_steps [OF this run] obtain external d where "p256_at rt (w_store w') external d"
    "\<forall>k. k \<noteq> external \<longrightarrow> (\<exists>l. w_store w' k = (w_store w k)\<lparr>acc_lamports := l\<rparr>)"
    by blast
  then show ?thesis by (rule update_typed [OF typed])
qed

lemma step_typed:
  assumes "chain_laws rt" and "step rt w w'" and typed: "store_typed (w_store w)"
  shows "store_typed (w_store w')"
  using assms(2)
proof (rule step_cases)
  fix now h accounts data
  assume run: "process_instruction (rt_at rt now h) crate_ID accounts data w = Ok w'"
  have laws: "chain_laws (rt_at rt now h)" using assms(1) by (simp add: rt_at_laws)
  obtain b rest where "data = b # rest" using run by (cases data) (auto simp: process_instruction_def)
  then consider "process_initialize_external_account (rt_at rt now h) accounts rest w = Ok w'"
    | "process_execute_instructions (rt_at rt now h) accounts rest w = Ok w'"
    | "process_refresh_session_key (rt_at rt now h) accounts rest w = Ok w'"
    | "process_execute_instructions_sessioned (rt_at rt now h) accounts rest w = Ok w'"
    using run by (auto simp: process_instruction_def split: if_splits)
  then show ?thesis
    by cases (fact initialize_typed [OF laws typed] execute_typed [OF laws typed] refresh_typed [OF laws typed]
        sessioned_typed [OF laws typed])+
next
  fix st assume "w' = w\<lparr>w_store := st\<rparr>" and "foreign_change (w_store w) st"
  then show ?thesis using foreign_typed typed by simp
qed

lemma steps_typed:
  assumes "chain_laws rt" and "(step rt)\<^sup>*\<^sup>* w w'" and "store_typed (w_store w)"
  shows "store_typed (w_store w')"
  using assms(2,3) by (induction rule: rtranclp_induct) (simp_all add: step_typed [OF assms(1)])

section \<open>Blank accounts\<close>

lemma blank_not_p256_at:
  assumes "blank_account st k"
  shows "\<not> p256_at rt st k d"
proof
  assume "p256_at rt st k d"
  then have "acc_data (st k) ! 0 = 1" "0 < length (acc_data (st k))" by (auto simp: p256_at_iff)
  with assms nth_mem show False by (force simp: blank_account_def)
qed

text \<open>The handlers that act for an account read it through the wrapper first.\<close>

lemma handlers_need_account:
  assumes "chain_laws rt"
    and "process_execute_instructions rt accounts data w = Ok w' \<or>
      process_execute_instructions_sessioned rt accounts data w = Ok w' \<or>
      process_refresh_session_key rt accounts data w = Ok w'"
  shows "\<exists>d. p256_at rt (w_store w) (hd accounts) d"
proof -
  have bf: "borrow_faithful rt" and B: "borsh_format (rt_borsh rt)" using assms(1) by (simp_all add: chain_laws_def)
  from assms(2) consider "process_execute_instructions rt accounts data w = Ok w'"
    | "process_execute_instructions_sessioned rt accounts data w = Ok w'"
    | "process_refresh_session_key rt accounts data w = Ok w'" by blast
  then show ?thesis
  proof cases
    case 1
    from execute_evolves [OF assms(1) this] show ?thesis by blast
  next
    case 2
    then show ?thesis unfolding process_sessioned_iff [OF bf] by force
  next
    case 3
    from refresh_steps [OF bf B this] show ?thesis by blast
  qed
qed

section \<open>Properties\<close>

text \<open>
  C10. Accounts are typed.  Along every run from a program without accounts, every account the program
  owns either begins with the 152 bytes of a well-formed struct of the right version and scheme, and is
  then read as that struct by whatever loads it; or holds only zeros, because another program handed it
  over, and then no execution, sessioned execution or refresh for it succeeds.
\<close>

theorem reachable_accounts_typed:
  assumes "chain_laws rt" and "\<forall>k. acc_owner (w_store w k) \<noteq> crate_ID" and "(step rt)\<^sup>*\<^sup>* w w'"
    and "acc_owner (w_store w' k) = crate_ID"
  shows "(\<exists>d. typed_account (w_store w') k d \<and>
      (\<forall>a. esa_load rt (w_store w') k = Ok a \<longrightarrow> esa_data (p256_trait rt) (w_store w') a = Ok d)) \<or>
    (blank_account (w_store w') k \<and>
      (\<forall>now h accounts data x. hd accounts = k \<longrightarrow>
         process_execute_instructions (rt_at rt now h) accounts data w' \<noteq> Ok x \<and>
         process_execute_instructions_sessioned (rt_at rt now h) accounts data w' \<noteq> Ok x \<and>
         process_refresh_session_key (rt_at rt now h) accounts data w' \<noteq> Ok x))"
proof -
  have "store_typed (w_store w)" using assms(2) by (simp add: store_typed_def)
  from steps_typed [OF assms(1,3) this] assms(4)
  consider d where "typed_account (w_store w') k d" | "blank_account (w_store w') k"
    by (auto simp: store_typed_def)
  then show ?thesis
  proof cases
    case 1
    have bf: "borrow_faithful rt" using assms(1) by (simp add: chain_laws_def)
    have "p256_at rt (w_store w') k d" using 1 typed_account_p256_at by blast
    then have "esa_data (p256_trait rt) (w_store w') (account_of (w_store w') k) = Ok d" by (simp add: p256_at_def)
    with 1 load_account_of [OF bf] show ?thesis by fastforce
  next
    case 2
    have "chain_laws (rt_at rt now h)" for now h using assms(1) by (simp add: rt_at_laws)
    with 2 handlers_need_account blank_not_p256_at show ?thesis by metis
  qed
qed

end
