(* ===== verification/SampleBounds.thy ===== *)
theory SampleBounds
  imports SampleRuns Bounds AccountTyping
begin

text \<open>
  The theorems of \<open>Completeness\<close>, \<open>Bounds\<close> and \<open>AccountTyping\<close> about verification, the search loop, the
  inner calls and the accounts of a run, applied to the concrete runtime and the runs of
  \<open>SampleTransactions\<close>.
\<close>

theorem verify_payload_outcome_witness:
  "p256_verify_payload sample_runtime (sample_sysvar (sample_message [1, 2, 3])) sample_verification_data
     [1, 2, 3] sample_p256 = Ok (sample_p256\<lparr>counter := 7\<rparr>) \<and>
   p256_verify_payload sample_runtime (sample_sysvar (sample_message [1, 2, 3])) sample_verification_data
     [1, 2, 3] (sample_p256\<lparr>counter := 7\<rparr>) = Panic \<and>
   p256_verify_payload sample_runtime (sample_sysvar [9]) sample_verification_data [1, 2, 3] sample_p256 = Panic"
proof -
  have ix: "iix_program_id (sample_precompile_ix m) = SECP256R1_PRECOMPILE_ID" "iix_even (sample_precompile_ix m)"
    "iix_data (sample_precompile_ix m) ! 0 = 1" for m
    by (simp_all add: sample_precompile_ix_def) (simp add: sample_precompile_data_def)
  have v: "verified_payload sample_runtime (sample_sysvar (sample_message [1, 2, 3]))
      (iix_data (sample_precompile_ix (sample_message [1, 2, 3]))) 0 = Some (sample_payload (sample_message [1, 2, 3]))"
    "verified_payload sample_runtime (sample_sysvar [9]) (iix_data (sample_precompile_ix [9])) 0 = Some (sample_payload [9])"
    by (simp_all add: sample_precompile_ix_def sample_verified_payload)
  have d: "p256_account_wf (sample_p256\<lparr>counter := 7\<rparr>)" "rp_id_consistent sample_runtime (rp_id_info sample_p256)"
    "rp_id_consistent sample_runtime (rp_id_info (sample_p256\<lparr>counter := 7\<rparr>))"
    using sample_p256_wf sample_rp_consistent by (simp_all add: sample_p256_def p256_account_wf_def)
  let ?m = "sample_message [1, 2, 3]" and ?j = "sample_json (b64url [1, 2, 3])"
  have ad: "length sample_auth_data = 37" "take 32 sample_auth_data = rp_id_hash sample_rp"
    "sample_auth_data ! 32 AND 1 \<noteq> 0" "u32_from_be (take 4 (drop 33 sample_auth_data)) = 7"
    using u32_from_be_rev [of 7]
    by (simp_all add: sample_auth_data_def encode_auth_data_def sample_rp_def nth_append)
  have h: "length (hash sample_runtime ?j) = 32" by (rule length_hash [OF sample_sha256_length])
  have m: "?m = sample_auth_data @ hash sample_runtime ?j" "length ?m = 69"
    using ad(1) h by (simp_all add: sample_message_def)
  have split: "take 37 ?m = sample_auth_data" "drop 37 ?m = hash sample_runtime ?j"
    "take 32 ?m = rp_id_hash sample_rp" "?m ! 32 AND 1 \<noteq> 0"
    using ad by (simp_all add: m(1) nth_append)
  have json: "reconstruct_client_data_json sample_runtime (parsed_verif_params sample_verification_data)
      (stored_rp_id sample_rp) [1, 2, 3] = Ok ?j"
    by (simp add: sample_verification_data_def sample_stored_rp_id sample_reconstruct)
  have fields: "public_key sample_p256 = sample_public_key" "rp_id_info sample_p256 = sample_rp" "counter sample_p256 < 7"
    by (simp_all add: sample_p256_def)
  note good = verify_payload_outcome [OF sample_instruction_at ix v(1)]
  show ?thesis
    unfolding good [OF sample_p256_wf d(2)] good [OF d(1,3)]
      verify_payload_outcome [OF sample_instruction_at ix v(2) sample_p256_wf d(2)]
    using split m(2) json ad(4) fields by (simp add: sample_sec1 Let_def)
qed

theorem fallback_search_terminates_witness:
  "\<exists>s. while_option search_running (search_step sample_runtime sample_slot_hashes 1001)
      (search_start (min 1 (unat (get_slothashes_len sample_runtime sample_slot_hashes)))) = Some s \<and>
    reads s \<le> 149 \<and>
    find_slot_hash_with_fallback sample_runtime sample_slot_hashes 1001 1 = the (outcome s)"
  using fallback_search_terminates [of 1 sample_runtime sample_slot_hashes 1001]
  by (simp add: sample_slot_table sample_slots_def)

theorem inner_calls_bounded_witness:
  "\<exists>iv. process_instruction sample_runtime crate_ID sample_accounts (1 # sample_execute_data) sample_execute_world
       = Ok sample_executed_world \<and> w_invoked sample_executed_world = [iv] \<and>
     length (inv_account_infos iv) \<le> 64 \<and> length (inv_data iv) \<le> 65535"
proof -
  have run: "process_instruction sample_runtime crate_ID sample_accounts (1 # sample_execute_data) sample_execute_world
      = Ok sample_executed_world"
    by (simp add: process_instruction_def sample_execute_world_run)
  from inner_calls_bounded [OF sample_borsh_format [folded sample_borsh] sample_borrow_faithful sample_sha256_length
      sample_system_program_laws run] run
  show ?thesis by (auto simp: sample_world_def)
qed

theorem reachable_accounts_typed_witness:
  "\<exists>w' k d. (step sample_runtime)\<^sup>*\<^sup>* sample_init_world w' \<and> typed_account (w_store w') k d \<and>
     esa_data (p256_trait sample_runtime) (w_store w') (account_of (w_store w') k) = Ok d"
proof -
  obtain w' where run: "process_initialize_external_account sample_runtime sample_init_accounts
       sample_initialize_data sample_init_world = Ok w'"
    using sample_initialize_run [OF refl] by blast
  obtain k d where at: "p256_at sample_runtime (w_store w') k d"
    using initialize_steps [OF sample_borrow_faithful sample_sha256_length sample_borsh_format
      sample_system_program_laws run] by blast
  have step: "(step sample_runtime)\<^sup>*\<^sup>* sample_init_world w'"
    by (rule sample_step [of sample_init_accounts "0 # sample_initialize_data"])
       (simp add: process_instruction_def run)
  have own: "acc_owner (w_store w' k) = crate_ID" using at by (simp add: p256_at_def)
  have "\<not> blank_account (w_store w') k" using at blank_not_p256_at by blast
  with reachable_accounts_typed [OF sample_chain_laws sample_init_fresh step own]
  obtain d' where d': "typed_account (w_store w') k d'" by blast
  then have "p256_at sample_runtime (w_store w') k d'" using typed_account_p256_at by blast
  with d' step show ?thesis by (auto simp: p256_at_def)
qed

end
