(* ===== verification/SdkOutcomes.thy ===== *)
theory SdkOutcomes
  imports SdkRuns
begin

text \<open>
  Every outcome of the SDK's builders: when they build, which error they return otherwise, and when
  they abort, which the execution builders do exactly when the library's message compiler panics.
\<close>

section \<open>Pieces\<close>

lemma small_vec_or_cases: "small_vec_or L xs e = (if len_max L < length xs then Refused e else Built xs)"
  by (simp add: small_vec_or_def small_vec_try_from_def)

lemma params_written:
  assumes "borsh_format B"
  shows "\<exists>bs. client_data_json_params_serialize B p = Some bs \<and>
    length bs = (case port p of None \<Rightarrow> 2 | Some _ \<Rightarrow> 4)"
  using assms
  by (cases "port p") (simp_all add: client_data_json_params_serialize_def write_option_def borsh_format.w_tag
      borsh_format.w_u8 borsh_format.w_u16)

lemma verification_data_Built:
  assumes "borsh_format (lib_borsh lib)" and "length (wd_public_key wd) = 33"
  shows "\<exists>v. verification_data_of lib wd = Built v \<and>
    length v = (case port (wd_params wd) of None \<Rightarrow> 35 | Some _ \<Rightarrow> 37)"
proof -
  obtain bs where bs: "client_data_json_params_serialize (lib_borsh lib) (wd_params wd) = Some bs"
    "length bs = (case port (wd_params wd) of None \<Rightarrow> 2 | Some _ \<Rightarrow> 4)"
    using params_written [OF assms(1), of "wd_params wd"] by blast
  then show ?thesis
    using assms
    by (simp add: verification_data_of_def raw_verif_writer_def p256_raw_verification_data_serialize_def
        borsh_format.w_array small_vec_or_cases split: option.splits)
qed

lemma byte_vec_written: "borsh_format B \<Longrightarrow> length v \<le> len_max L \<Longrightarrow>
    byte_vec_writer B L v = Some (len_to_le_bytes L (length v) @ v)"
  by (simp add: small_vec_serialize_def serialize_slice_def borsh_format.w_slice)

section \<open>Compiling\<close>

definition instruction_fits :: "solana_instruction \<Rightarrow> bool" where
  "instruction_fits ix \<longleftrightarrow> length (six_accounts ix) \<le> 255 \<and> length (six_data ix) \<le> 65535"

text \<open>The error for an instruction that does not fit.\<close>

definition misfit :: "solana_instruction \<Rightarrow> sdk_error" where
  "misfit ix = SerializationError
     (if 255 < length (six_accounts ix) then ''Too many instruction accounts'' else ''Instruction data too large'')"

text \<open>
  \<open>message_shapes\<close>: what every message the library compiles is like, of however many keys: the header
  counts are subsets of the keys, and each instruction keeps its data and its number of accounts.
  (\<open>message_laws\<close> adds what the indices stand for, which needs at most 256 keys.)
\<close>

definition same_shape :: "sdk_compiled_instruction \<Rightarrow> solana_instruction \<Rightarrow> bool" where
  "same_shape c ix \<longleftrightarrow> length (sci_accounts c) = length (six_accounts ix) \<and> sci_data c = six_data ix"

definition message_shape :: "solana_instruction list \<Rightarrow> sdk_message \<Rightarrow> bool" where
  "message_shape ixs m \<longleftrightarrow>
     num_readonly_signed_accounts m \<le> num_required_signatures m \<and>
     unat (num_readonly_unsigned_accounts m) \<le> length (static_account_keys m) \<and>
     list_all2 same_shape (message_instructions m) ixs"

definition message_shapes :: "sdk_lib \<Rightarrow> bool" where
  "message_shapes lib \<longleftrightarrow> (\<forall>ixs payer m. lib_message_new lib ixs payer = Some m \<longrightarrow> message_shape ixs m)"

lemma message_sound_shape:
  assumes "message_sound ixs payer m"
  shows "message_shape ixs m"
proof -
  have "list_all2 (compiled_refers (static_account_keys m)) (message_instructions m) ixs"
    using assms by (simp add: message_sound_def Let_def)
  then have "list_all2 same_shape (message_instructions m) ixs"
    by (rule list_all2_mono) (auto simp: same_shape_def compiled_refers_def dest: map_eq_imp_length_eq)
  with assms show ?thesis by (simp add: message_shape_def message_sound_def Let_def word_le_nat_alt)
qed

lemma normalize_outcome:
  assumes "list_all2 same_shape cs ixs"
  shows "case find (\<lambda>ix. \<not> instruction_fits ix) ixs of
      Some ix \<Rightarrow> normalize_instructions cs = Refused (misfit ix)
    | None \<Rightarrow> \<exists>ns. normalize_instructions cs = Built ns \<and> length ns = length ixs \<and>
        (\<forall>n \<in> set ns. length (accounts_indices n) \<le> 255 \<and> length (ci_data n) \<le> 65535)"
  using assms
proof (induction cs ixs rule: list_all2_induct)
  case (Cons c cs ix ixs)
  then have len: "length (sci_accounts c) = length (six_accounts ix)" "sci_data c = six_data ix"
    by (auto simp: same_shape_def)
  from Cons.IH len show ?case
    by (auto simp: small_vec_or_cases instruction_fits_def misfit_def split: option.splits)
qed simp

lemma header_metas_total: "message_shape ixs m \<Longrightarrow> \<exists>metas. header_metas m = Built metas"
  by (auto simp: message_shape_def Let_def header_metas_def checked_sub_def)

definition compile_outcome :: "solana_instruction list \<Rightarrow> sdk_error option" where
  "compile_outcome ixs = (case find (\<lambda>ix. \<not> instruction_fits ix) ixs of
      Some ix \<Rightarrow> Some (misfit ix)
    | None \<Rightarrow> if 255 < length ixs then Some (SerializationError ''Too many instructions'') else None)"

lemma compile_cases:
  assumes "message_shape ixs m" and "lib_message_new lib ixs payer = Some m"
  shows "case compile_outcome ixs of
      Some e \<Rightarrow> compile_instructions_for_execution lib ixs payer = Refused e
    | None \<Rightarrow> \<exists>c. compile_instructions_for_execution lib ixs payer = Built c \<and>
        length (cep_instructions c) \<le> 255 \<and>
        (\<forall>n \<in> set (cep_instructions c). length (accounts_indices n) \<le> 255 \<and> length (ci_data n) \<le> 65535)"
proof -
  obtain metas where "header_metas m = Built metas" using header_metas_total [OF assms(1)] by blast
  moreover have "list_all2 same_shape (message_instructions m) ixs"
    using assms(1) by (simp add: message_shape_def)
  ultimately show ?thesis
    using normalize_outcome [of "message_instructions m" ixs] assms(2)
    by (auto simp: compile_instructions_for_execution_def compile_outcome_def small_vec_or_cases split: option.splits)
qed

lemma instructions_written:
  assumes "borsh_format B" and "\<forall>n \<in> set ns. length (accounts_indices n) \<le> 255 \<and> length (ci_data n) \<le> 65535"
    and "length ns \<le> 255"
  shows "\<exists>bs. instructions_writer B ns = Some bs"
proof -
  have "\<exists>bs. serialize_items (compiled_instruction_serialize B) ns = Some bs"
    using assms(2)
    by (induction ns) (auto simp: compiled_instruction_serialize_def byte_vec_written [OF assms(1)])
  then show ?thesis using assms(3) by (auto simp: small_vec_serialize_def serialize_slice_def no_u8_slice_def)
qed

section \<open>Initializing\<close>

lemma initialize_cases:
  assumes "borsh_format (lib_borsh lib)"
    and "lib_try_find_program_address lib [ascii ''passkey'', lib_hashv lib [wd_public_key wd]] crate_ID = Some (k, b)"
    and "lib_pubkey_from_str lib ''Sysvar1nstructions1111111111111111111111111'' = Some sysvar_id"
    and "length (wd_public_key wd) = 33" and "\<forall>x. sk = Some x \<longrightarrow> length (session_key_key x) = 32"
    and "n = length rp + (case port (wd_params wd) of None \<Rightarrow> 36 | Some _ \<Rightarrow> 38)"
  shows "if 255 < length rp then initialize_with lib wd rp payer slot sk = Refused (InvalidRpId ''RP ID too long'')
    else if 255 < n
      then initialize_with lib wd rp payer slot sk = Refused (SerializationError ''Initialization data too large'')
    else \<exists>ix. initialize_with lib wd rp payer slot sk = Built (k, ix) \<and> six_program_id ix = crate_ID \<and>
      map meta_pubkey (six_accounts ix) = [k, payer, sysvar_id, SLOT_HASHES_ID, lib_system_program_id lib] \<and>
      length (six_data ix) = n + (case sk of None \<Rightarrow> 6 | Some _ \<Rightarrow> 46)"
proof (cases "255 < length rp")
  case True
  then show ?thesis
    using assms(2) by (simp add: initialize_with_def derive_passkey_account_def small_vec_or_cases)
next
  case False
  obtain p where p: "client_data_json_params_serialize (lib_borsh lib) (wd_params wd) = Some p"
    "length p = (case port (wd_params wd) of None \<Rightarrow> 2 | Some _ \<Rightarrow> 4)"
    using params_written [OF assms(1)] by blast
  let ?raw = "len_to_le_bytes L_u8 (length rp) @ rp @ wd_public_key wd @ p"
  have raw: "raw_init_writer (lib_borsh lib) \<lparr>raw_rp_id = rp, raw_init_public_key = wd_public_key wd,
      raw_init_params = wd_params wd\<rparr> = Some ?raw"
    using False byte_vec_written [OF assms(1), of rp L_u8] assms(4)
    by (simp add: raw_init_writer_def p256_raw_initialization_data_serialize_def p(1) borsh_format.w_array [OF assms(1)])
  have n: "length ?raw = n" using assms(4,6) p(2) by (simp split: option.splits)
  have k: "\<exists>bs. write_option (lib_borsh lib) (session_key_writer (lib_borsh lib)) sk = Some bs \<and>
      length bs = (case sk of None \<Rightarrow> 1 | Some _ \<Rightarrow> 41)"
    using assms(5) borsh_format.w_u64 [OF assms(1)] borsh_format.w_array [OF assms(1)] borsh_format.w_tag [OF assms(1)]
    by (cases sk) (simp_all add: write_option_def session_key_writer_def session_key_serialize_def session_key_wf_def)
  show ?thesis
    using False assms(2,3) k n byte_vec_written [OF assms(1), of ?raw L_u8]
    by (auto simp: initialize_with_def derive_passkey_account_def raw small_vec_or_cases
        initialize_account_args_serialize_def truncated_slot_serialize_def instructions_sysvar_id_def Let_def borsh_format.w_u8 [OF assms(1)]
        borsh_format.w_u16 [OF assms(1)] split: option.splits)
qed

section \<open>Properties\<close>

text \<open>
  C36. The execution builders, every outcome, for instructions over any number of keys, when the
  library parses the name of the instructions sysvar.  Where the message compiler panics, both abort.
  Where it does not, neither aborts: both build exactly when every instruction has at most 255 accounts
  and 65535 bytes of data and there are at most 255 of them, and otherwise the first instruction that
  does not fit, or else their number, decides the error.
\<close>

theorem sdk_execution_outcome:
  assumes "message_shapes lib" and "borsh_format (lib_borsh lib)"
    and "lib_pubkey_from_str lib ''Sysvar1nstructions1111111111111111111111111'' = Some sysvar_id"
    and "length (wd_public_key wd) = 33"
  shows "case lib_message_new lib ixs signer of
      None \<Rightarrow> execute_instructions lib wd passkey signer slot ixs scheme = Aborted \<and>
        execute_instructions_sessioned lib passkey signer ixs scheme = Aborted
    | Some _ \<Rightarrow> (case compile_outcome ixs of
        Some e \<Rightarrow> execute_instructions lib wd passkey signer slot ixs scheme = Refused e \<and>
          execute_instructions_sessioned lib passkey signer ixs scheme = Refused e
      | None \<Rightarrow> (\<exists>ix. execute_instructions lib wd passkey signer slot ixs scheme = Built ix) \<and>
          (\<exists>ix. execute_instructions_sessioned lib passkey signer ixs scheme = Built ix))"
proof (cases "lib_message_new lib ixs signer")
  case None
  then show ?thesis
    by (simp add: execute_instructions_def execute_instructions_sessioned_def compile_instructions_for_execution_def
        or_abort_def)
next
  case (Some m)
  then have shape: "message_shape ixs m" using assms(1) by (simp add: message_shapes_def)
  obtain v where v: "verification_data_of lib wd = Built v" "length v \<le> 37"
    using verification_data_Built [OF assms(2,4)] by (auto split: option.splits)
  show ?thesis
  proof (cases "compile_outcome ixs")
    case None
    then obtain c where c: "compile_instructions_for_execution lib ixs signer = Built c"
      and fits: "length (cep_instructions c) \<le> 255"
        "\<forall>n \<in> set (cep_instructions c). length (accounts_indices n) \<le> 255 \<and> length (ci_data n) \<le> 65535"
      using compile_cases [OF shape Some] by auto
    obtain bs where bs: "instructions_writer (lib_borsh lib) (cep_instructions c) = Some bs"
      using instructions_written [OF assms(2) fits(2,1)] by blast
    show ?thesis
      using v(2) byte_vec_written [OF assms(2), of v L_u8]
      by (simp add: Some None execute_instructions_def execute_instructions_sessioned_def c v(1) bs assms(3)
          executable_instruction_args_serialize_def executable_instruction_sessioned_args_serialize_def
          truncated_slot_serialize_def instructions_sysvar_id_def)
  next
    case Misfit: (Some e)
    then show ?thesis
      using compile_cases [OF shape Some]
      by (simp add: Some execute_instructions_def execute_instructions_sessioned_def)
  qed
qed

text \<open>
  The initialization builder, every outcome: an RP id of more than 255 bytes, then initialization
  data of more than 255 bytes, are refused with their own errors; anything else is built, whatever
  the program will say to it.
\<close>

theorem sdk_initialization_outcome:
  assumes "borsh_format (lib_borsh lib)"
    and "lib_try_find_program_address lib [ascii ''passkey'', lib_hashv lib [wd_public_key wd]] crate_ID = Some (k, b)"
    and "lib_pubkey_from_str lib ''Sysvar1nstructions1111111111111111111111111'' = Some sysvar_id"
    and "length (wd_public_key wd) = 33" and "\<forall>x. sk = Some x \<longrightarrow> length (session_key_key x) = 32"
    and "n = length rp + (case port (wd_params wd) of None \<Rightarrow> 36 | Some _ \<Rightarrow> 38)"
  shows "if 255 < length rp then initialize_with lib wd rp payer slot sk = Refused (InvalidRpId ''RP ID too long'')
    else if 255 < n
      then initialize_with lib wd rp payer slot sk = Refused (SerializationError ''Initialization data too large'')
    else \<exists>ix. initialize_with lib wd rp payer slot sk = Built (k, ix) \<and> six_program_id ix = crate_ID \<and>
      map meta_pubkey (six_accounts ix) = [k, payer, sysvar_id, SLOT_HASHES_ID, lib_system_program_id lib] \<and>
      length (six_data ix) = n + (case sk of None \<Rightarrow> 6 | Some _ \<Rightarrow> 46)"
  using assms by (rule initialize_cases)

end
