(* ===== verification/SdkTests.thy ===== *)
theory SdkTests
  imports SdkOutcomes
begin

text \<open>
  The SDK's unit tests (\<open>pda.rs\<close> and the modules of \<open>instructions/\<close>) and its example program,
  \<open>examples/basic_usage.rs\<close>, which calls every builder once and prints the sizes of what they return.
  The keys of \<open>Pubkey::new_unique\<close> are arguments.
\<close>

section \<open>Unit tests\<close>

definition is_ok :: "'a sdk_result \<Rightarrow> bool" where
  "is_ok r \<longleftrightarrow> (case r of Built _ \<Rightarrow> True | _ \<Rightarrow> False)"

definition test_derive_passkey_account :: "sdk_lib \<Rightarrow> bool" where
  "test_derive_passkey_account lib \<longleftrightarrow> is_ok (derive_passkey_account lib (replicate 33 1))"

definition test_derive_execution_account :: "sdk_lib \<Rightarrow> pubkey \<Rightarrow> bool" where
  "test_derive_execution_account lib passkey_account \<longleftrightarrow> is_ok (derive_execution_account lib passkey_account)"

definition example_der :: bytes where
  "example_der = [0x30, 0x06, 0x02, 0x01, 0x01, 0x02, 0x01, 0x01]"

definition test_create_secp256r1_instruction_with_der_signature :: "sdk_lib \<Rightarrow> bool" where
  "test_create_secp256r1_instruction_with_der_signature lib \<longleftrightarrow>
     (case create_secp256r1_instruction lib example_der (ascii ''test message'') (replicate (lib_pubkey_size lib) 2) None of
        Built result \<Rightarrow> six_program_id result = lib_secp256r1_id lib \<and> six_data result ! 0 = 1 \<and> six_data result ! 1 = 0
      | _ \<Rightarrow> False)"

definition test_initialize_passkey_account :: "sdk_lib \<Rightarrow> pubkey \<Rightarrow> bool" where
  "test_initialize_passkey_account lib payer \<longleftrightarrow>
     (let webauthn_data = webauthn_data_new (replicate 33 1) (replicate 64 0) (replicate 37 0) [] Create
            False False False None
      in is_ok (initialize_passkey_account lib webauthn_data (ascii ''example.com'') payer (TruncatedSlot 0)))"

definition test_execute_instructions :: "sdk_lib \<Rightarrow> pubkey \<Rightarrow> pubkey \<Rightarrow> pubkey \<Rightarrow> bool" where
  "test_execute_instructions lib passkey_account nonce_signer program \<longleftrightarrow>
     (let webauthn_data = webauthn_data_new (replicate 33 1) example_der (replicate 37 0) [] Get
            False False False None;
          memo_ix = \<lparr>six_program_id = program, six_accounts = [], six_data = ascii ''test memo''\<rparr>
      in is_ok (execute_instructions lib webauthn_data passkey_account nonce_signer (TruncatedSlot 0) [memo_ix]
           ExecutionAccount))"

definition test_execute_instructions_sessioned :: "sdk_lib \<Rightarrow> pubkey \<Rightarrow> pubkey \<Rightarrow> pubkey \<Rightarrow> bool" where
  "test_execute_instructions_sessioned lib passkey_account session_signer program \<longleftrightarrow>
     (let memo_ix = \<lparr>six_program_id = program, six_accounts = [], six_data = ascii ''sessioned''\<rparr>
      in is_ok (execute_instructions_sessioned lib passkey_account session_signer [memo_ix] ExecutionAccount))"

definition test_refresh_session_key :: "sdk_lib \<Rightarrow> pubkey \<Rightarrow> pubkey \<Rightarrow> bool" where
  "test_refresh_session_key lib passkey_account payer \<longleftrightarrow>
     (let webauthn_data = webauthn_data_new (replicate 33 1) (replicate 64 0) (replicate 37 0) [] Get
            False False False None;
          session_key = \<lparr>session_key_key = replicate 32 0, expiration = 1000\<rparr>
      in is_ok (sdk_refresh_session_key lib webauthn_data passkey_account payer (TruncatedSlot 0) session_key))"

section \<open>The example program\<close>

text \<open>\<open>.unwrap()\<close>: an error panics.\<close>

fun unwrapped :: "'a sdk_result \<Rightarrow> ('a \<Rightarrow> 'b sdk_result) \<Rightarrow> 'b sdk_result" where
  "unwrapped (Built x) f = f x"
| "unwrapped (Refused e) f = Aborted"
| "unwrapped Aborted f = Aborted"

text \<open>What \<open>main\<close> prints, in the order of its seven examples.\<close>

record example_output =
  out_passkey_account :: "pubkey \<times> u8"
  out_execution_account :: "pubkey \<times> u8"
  out_account_to_initialize :: pubkey
  out_initialize_size :: "nat \<times> nat"      \<comment> \<open>bytes of data, number of accounts\<close>
  out_precompile_size :: nat
  out_execute_size :: "nat \<times> nat"
  out_refresh_size :: "nat \<times> nat"
  out_sessioned_size :: "nat \<times> nat"

definition sizes :: "solana_instruction \<Rightarrow> nat \<times> nat" where
  "sizes ix = (length (six_data ix), length (six_accounts ix))"

definition example_main :: "sdk_lib \<Rightarrow> pubkey \<Rightarrow> pubkey \<Rightarrow> pubkey \<Rightarrow> pubkey \<Rightarrow> example_output sdk_result" where
  "example_main lib payer memo_program session_pubkey session_program =
     (let compressed_public_key = replicate 33 0x02 in
      unwrapped (derive_passkey_account lib compressed_public_key) (\<lambda>(passkey_account, bump).
      unwrapped (derive_execution_account lib passkey_account) (\<lambda>(execution_account, bump').
      let webauthn_data = webauthn_data_new compressed_public_key example_der (replicate 37 0) [] Create
            False False False None in
      unwrapped (initialize_passkey_account lib webauthn_data (ascii ''example.com'') payer (TruncatedSlot 0))
        (\<lambda>(account_pubkey, init_ix).
      unwrapped (create_secp256r1_instruction lib example_der (ascii ''example message to verify'')
          compressed_public_key None) (\<lambda>precompile_ix.
      let memo_ix = \<lparr>six_program_id = memo_program, six_accounts = [], six_data = ascii ''Hello from passkey!''\<rparr> in
      unwrapped (execute_instructions lib webauthn_data passkey_account payer (TruncatedSlot 0) [memo_ix]
          ExecutionAccount) (\<lambda>execute_ix.
      let session_key = \<lparr>session_key_key = session_pubkey, expiration = 900\<rparr> in
      unwrapped (sdk_refresh_session_key lib webauthn_data passkey_account payer (TruncatedSlot 0) session_key)
        (\<lambda>refresh_ix.
      unwrapped (execute_instructions_sessioned lib passkey_account session_pubkey
          [\<lparr>six_program_id = session_program, six_accounts = [], six_data = ascii ''session call''\<rparr>]
          ExecutionAccount) (\<lambda>sessioned_ix.
      Built \<lparr>out_passkey_account = (passkey_account, bump), out_execution_account = (execution_account, bump'),
        out_account_to_initialize = account_pubkey, out_initialize_size = sizes init_ix,
        out_precompile_size = length (six_data precompile_ix), out_execute_size = sizes execute_ix,
        out_refresh_size = sizes refresh_ix, out_sessioned_size = sizes sessioned_ix\<rparr>))))))))"

section \<open>Libraries the tests run on\<close>

text \<open>
  What the tests need of the client crates beyond their laws: addresses can be found, the name of the
  instructions sysvar parses, and an instruction without accounts compiles to a message over the
  payer and the program.
\<close>

definition lib_available :: "sdk_lib \<Rightarrow> bool" where
  "lib_available lib \<longleftrightarrow>
     message_laws lib \<and> precompile_layout lib \<and> bignum_laws lib \<and> order_law lib \<and> borsh_format (lib_borsh lib) \<and>
     (\<forall>seeds. \<exists>k b. lib_try_find_program_address lib seeds crate_ID = Some (k, b)) \<and>
     (\<exists>k. lib_pubkey_from_str lib ''Sysvar1nstructions1111111111111111111111111'' = Some k) \<and>
     lib_ecdsa_from_der lib example_der = Some (1, 1) \<and>
     (\<forall>payer program d. \<exists>m. lib_message_new lib [\<lparr>six_program_id = program, six_accounts = [], six_data = d\<rparr>] payer
        = Some m \<and> static_account_keys m = (if program = payer then [payer] else [payer, program]))"

section \<open>What the builders return\<close>

lemma single_compiled:
  assumes "lib_available lib" and "length d \<le> 65535"
  shows "\<exists>c i. compile_instructions_for_execution lib
      [\<lparr>six_program_id = program, six_accounts = [], six_data = d\<rparr>] payer = Built c \<and>
    length (cep_account_metas c) = (if program = payer then 1 else 2) \<and>
    cep_instructions c = [\<lparr>program_id_index = i, accounts_indices = [], ci_data = d\<rparr>]"
proof -
  let ?ix = "\<lparr>six_program_id = program, six_accounts = [], six_data = d\<rparr>"
  obtain m where m: "lib_message_new lib [?ix] payer = Some m"
    and keys: "static_account_keys m = (if program = payer then [payer] else [payer, program])"
    using assms(1) unfolding lib_available_def by blast
  have sound: "message_sound [?ix] payer m" using assms(1) m keys by (simp add: lib_available_def message_laws_def)
  obtain metas where metas: "header_metas m = Built metas" using header_metas_total [OF message_sound_shape [OF sound]] by blast
  then have "length metas = length (static_account_keys m)"
    by (auto simp: header_metas_def Let_def sdk_simps split: if_splits)
  moreover obtain c where c: "message_instructions m = [c]" "sci_accounts c = []" "sci_data c = d"
    using sound by (auto simp: message_sound_def Let_def list_all2_Cons2 compiled_refers_def)
  ultimately show ?thesis
    using m metas keys assms(2) by (simp add: compile_instructions_for_execution_def small_vec_or_cases)
qed

lemma single_written:
  assumes "borsh_format B" and "length d \<le> 65535"
  shows "\<exists>bs. instructions_writer B [\<lparr>program_id_index = i, accounts_indices = [], ci_data = d\<rparr>] = Some bs \<and>
    length bs = 5 + length d"
  using assms byte_vec_written [OF assms(1), of d L_u16] byte_vec_written [OF assms(1), of "[]" L_u8]
  by (simp add: small_vec_serialize_def [of L_u8 no_u8_slice] serialize_slice_def no_u8_slice_def
      compiled_instruction_serialize_def borsh_format.w_u8)

lemma example_execute:
  assumes "lib_available lib" and "length (wd_public_key wd) = 33" and "port (wd_params wd) = None"
    and "length d \<le> 65535"
  shows "\<exists>ix. execute_instructions lib wd passkey payer slot
      [\<lparr>six_program_id = program, six_accounts = [], six_data = d\<rparr>] scheme = Built ix \<and>
    sizes ix = (46 + length d, 4 + (if program = payer then 1 else 2))"
proof -
  have B: "borsh_format (lib_borsh lib)" using assms(1) by (simp add: lib_available_def)
  obtain sid where "lib_pubkey_from_str lib ''Sysvar1nstructions1111111111111111111111111'' = Some sid"
    using assms(1) by (auto simp: lib_available_def)
  moreover obtain v where "verification_data_of lib wd = Built v" "length v = 35"
    using verification_data_Built [OF B assms(2)] assms(3) by auto
  moreover obtain c i bs where "compile_instructions_for_execution lib
      [\<lparr>six_program_id = program, six_accounts = [], six_data = d\<rparr>] payer = Built c"
    "length (cep_account_metas c) = (if program = payer then 1 else 2)"
    "instructions_writer (lib_borsh lib) (cep_instructions c) = Some bs" "length bs = 5 + length d"
    using single_compiled [OF assms(1,4)] single_written [OF B assms(4)] by metis
  ultimately show ?thesis
    using byte_vec_written [OF B, of v L_u8]
    by (simp add: execute_instructions_def instructions_sysvar_id_def sizes_def
        executable_instruction_args_serialize_def truncated_slot_serialize_def borsh_format.w_u8 [OF B]
        borsh_format.w_u16 [OF B])
qed

lemma example_sessioned:
  assumes "lib_available lib" and "length d \<le> 65535"
  shows "\<exists>ix. execute_instructions_sessioned lib passkey signer
      [\<lparr>six_program_id = program, six_accounts = [], six_data = d\<rparr>] scheme = Built ix \<and>
    sizes ix = (8 + length d, 2 + (if program = signer then 1 else 2))"
proof -
  have B: "borsh_format (lib_borsh lib)" using assms(1) by (simp add: lib_available_def)
  obtain c i bs where "compile_instructions_for_execution lib
      [\<lparr>six_program_id = program, six_accounts = [], six_data = d\<rparr>] signer = Built c"
    "length (cep_account_metas c) = (if program = signer then 1 else 2)"
    "instructions_writer (lib_borsh lib) (cep_instructions c) = Some bs" "length bs = 5 + length d"
    using single_compiled [OF assms] single_written [OF B assms(2)] by metis
  then show ?thesis
    by (simp add: execute_instructions_sessioned_def sizes_def executable_instruction_sessioned_args_serialize_def
        borsh_format.w_u8 [OF B])
qed

lemma example_refresh:
  assumes "lib_available lib" and "length (wd_public_key wd) = 33" and "port (wd_params wd) = None"
    and "length (session_key_key sk) = 32"
  shows "\<exists>ix. sdk_refresh_session_key lib wd passkey payer slot sk = Built ix \<and> sizes ix = (80, 4)"
proof -
  have B: "borsh_format (lib_borsh lib)" using assms(1) by (simp add: lib_available_def)
  obtain sid where "lib_pubkey_from_str lib ''Sysvar1nstructions1111111111111111111111111'' = Some sid"
    using assms(1) by (auto simp: lib_available_def)
  moreover obtain v where "verification_data_of lib wd = Built v" "length v = 35"
    using verification_data_Built [OF B assms(2)] assms(3) by auto
  ultimately show ?thesis
    using byte_vec_written [OF B, of v L_u8] assms(4)
    by (simp add: sdk_refresh_session_key_def instructions_sysvar_id_def sizes_def
        refresh_session_key_args_serialize_def truncated_slot_serialize_def session_key_writer_def
        session_key_wf_def session_key_serialize_def borsh_format.w_u8 [OF B] borsh_format.w_u16 [OF B]
        borsh_format.w_u64 [OF B] borsh_format.w_array [OF B])
qed

lemma example_initialize:
  assumes "lib_available lib" and "length (wd_public_key wd) = 33" and "port (wd_params wd) = None"
    and "length rp \<le> 219"
    and "lib_try_find_program_address lib [ascii ''passkey'', lib_hashv lib [wd_public_key wd]] crate_ID = Some (k, b)"
  shows "\<exists>ix. initialize_passkey_account lib wd rp payer slot = Built (k, ix) \<and> sizes ix = (42 + length rp, 5)"
proof -
  have B: "borsh_format (lib_borsh lib)" using assms(1) by (simp add: lib_available_def)
  obtain sid where sid: "lib_pubkey_from_str lib ''Sysvar1nstructions1111111111111111111111111'' = Some sid"
    using assms(1) by (auto simp: lib_available_def)
  from initialize_cases [OF B assms(5) sid assms(2), of None _ rp payer slot] assms(3,4) show ?thesis
    by (fastforce simp: initialize_passkey_account_def sizes_def dest: arg_cong [of "map _ _" _ length])
qed

lemma example_precompile:
  assumes "lib_available lib" and "length m \<le> 65535" and "length pk = 33"
  shows "\<exists>ix. create_secp256r1_instruction lib example_der m pk None = Built ix \<and>
    six_program_id ix = lib_secp256r1_id lib \<and> six_data ix ! 0 = 1 \<and> six_data ix ! 1 = 0 \<and>
    length (six_data ix) = 113 + length m"
proof -
  have laws: "bignum_laws lib" "order_law lib" "precompile_layout lib" "lib_ecdsa_from_der lib example_der = Some (1, 1)"
    using assms(1) by (simp_all add: lib_available_def)
  have "1 < int (be_nat (lib_secp256r1_order lib))"
    using laws(2) by (simp add: order_law_def SECP256R1_HALF_ORDER_def be_nat_def)
  then obtain sig where "parse_der_signature_to_compact lib example_der = Built sig" "length sig = 64"
    using der_signature_normalised [OF laws] by auto
  then show ?thesis
    using assms(2,3) by (simp add: create_secp256r1_instruction_def Let_def signature_offsets_to_bytes_def)
qed

text \<open>The data of the tests' ceremonies.\<close>

lemma plain_webauthn_data:
  "wd_public_key (webauthn_data_new pk sig ad json ty co http extra None) = pk"
  "port (wd_params (webauthn_data_new pk sig ad json ty co http extra None)) = None"
  by (simp_all add: webauthn_data_new_def client_data_json_params_new_def params_accessors [OF refl])

lemma derived:
  assumes "lib_available lib"
  shows "\<exists>k b. derive_passkey_account lib pk = Built (k, b) \<and>
      lib_try_find_program_address lib [ascii ''passkey'', lib_hashv lib [pk]] crate_ID = Some (k, b)"
    and "\<exists>k b. derive_execution_account lib passkey = Built (k, b)"
proof -
  have found: "\<exists>k b. lib_try_find_program_address lib seeds crate_ID = Some (k, b)" for seeds
    using assms by (simp add: lib_available_def)
  show "\<exists>k b. derive_passkey_account lib pk = Built (k, b) \<and>
      lib_try_find_program_address lib [ascii ''passkey'', lib_hashv lib [pk]] crate_ID = Some (k, b)"
    using found [of "[ascii ''passkey'', lib_hashv lib [pk]]"] by (auto simp: derive_passkey_account_def)
  show "\<exists>k b. derive_execution_account lib passkey = Built (k, b)"
    using found [of "[passkey, ascii ''execution_account'']"] by (auto simp: derive_execution_account_def)
qed

definition sdk_unit_tests :: "sdk_lib \<Rightarrow> pubkey \<Rightarrow> pubkey \<Rightarrow> pubkey \<Rightarrow> bool" where
  "sdk_unit_tests lib k1 k2 k3 \<longleftrightarrow>
     test_derive_passkey_account lib \<and> test_derive_execution_account lib k1 \<and>
     test_create_secp256r1_instruction_with_der_signature lib \<and> test_initialize_passkey_account lib k1 \<and>
     test_execute_instructions lib k1 k2 k3 \<and> test_execute_instructions_sessioned lib k1 k2 k3 \<and>
     test_refresh_session_key lib k1 k2"

lemma builder_tests_pass:
  assumes "lib_available lib"
  shows "test_derive_passkey_account lib" "test_derive_execution_account lib k1"
    "test_initialize_passkey_account lib k1"
proof -
  show "test_derive_passkey_account lib" "test_derive_execution_account lib k1"
    using derived(1) [OF assms, of "replicate 33 1"] derived(2) [OF assms, of k1]
    by (auto simp: test_derive_passkey_account_def test_derive_execution_account_def is_ok_def)
  obtain k b where "lib_try_find_program_address lib [ascii ''passkey'', lib_hashv lib [replicate 33 1]] crate_ID = Some (k, b)"
    using derived(1) [OF assms] by blast
  then show "test_initialize_passkey_account lib k1"
    using example_initialize [OF assms, of "webauthn_data_new (replicate 33 1) (replicate 64 0) (replicate 37 0) []
      Create False False False None" "ascii ''example.com''" k b k1 "TruncatedSlot 0"]
    by (auto simp: test_initialize_passkey_account_def plain_webauthn_data is_ok_def)
qed

lemma execution_tests_pass:
  assumes "lib_available lib"
  shows "test_execute_instructions lib k1 k2 k3" "test_execute_instructions_sessioned lib k1 k2 k3"
    "test_refresh_session_key lib k1 k2" "test_create_secp256r1_instruction_with_der_signature lib"
proof -
  have size: "lib_pubkey_size lib = 33" using assms by (simp add: lib_available_def precompile_layout_def)
  show "test_create_secp256r1_instruction_with_der_signature lib"
    using example_precompile [OF assms, of "ascii ''test message''" "replicate 33 2"]
    by (auto simp: test_create_secp256r1_instruction_with_der_signature_def size)
  show "test_execute_instructions lib k1 k2 k3"
    using example_execute [OF assms, of "webauthn_data_new (replicate 33 1) example_der (replicate 37 0) []
      Get False False False None" "ascii ''test memo''" k1 k2 "TruncatedSlot 0" k3 ExecutionAccount]
    by (auto simp: test_execute_instructions_def plain_webauthn_data is_ok_def)
  show "test_execute_instructions_sessioned lib k1 k2 k3"
    using example_sessioned [OF assms, of "ascii ''sessioned''" k1 k2 k3 ExecutionAccount]
    by (auto simp: test_execute_instructions_sessioned_def is_ok_def)
  show "test_refresh_session_key lib k1 k2"
    using example_refresh [OF assms, of "webauthn_data_new (replicate 33 1) (replicate 64 0) (replicate 37 0) []
      Get False False False None" "\<lparr>session_key_key = replicate 32 0, expiration = 1000\<rparr>" k1 k2 "TruncatedSlot 0"]
    by (auto simp: test_refresh_session_key_def plain_webauthn_data is_ok_def)
qed

lemma example_main_runs:
  assumes "lib_available lib" and "length k3 = 32"
  shows "\<exists>out. example_main lib k1 k2 k3 k4 = Built out \<and>
    out_account_to_initialize out = fst (out_passkey_account out) \<and>
    out_initialize_size out = (53, 5) \<and> out_precompile_size out = 138 \<and>
    out_execute_size out = (65, if k2 = k1 then 5 else 6) \<and> out_refresh_size out = (80, 4) \<and>
    out_sessioned_size out = (20, if k4 = k3 then 3 else 4)"
proof -
  let ?wd = "webauthn_data_new (replicate 33 2) example_der (replicate 37 0) [] Create False False False None"
  note av = assms(1)
  obtain k b where k: "derive_passkey_account lib (replicate 33 2) = Built (k, b)"
    "lib_try_find_program_address lib [ascii ''passkey'', lib_hashv lib [replicate 33 2]] crate_ID = Some (k, b)"
    using derived(1) [OF av] by blast
  obtain e eb where e: "derive_execution_account lib k = Built (e, eb)" using derived(2) [OF av] by blast
  obtain i where i: "initialize_passkey_account lib ?wd (ascii ''example.com'') k1 (TruncatedSlot 0) = Built (k, i)"
    "sizes i = (53, 5)"
    using example_initialize [OF av, of ?wd "ascii ''example.com''" k b] k(2) by (auto simp: plain_webauthn_data)
  obtain p where p: "create_secp256r1_instruction lib example_der (ascii ''example message to verify'')
      (replicate 33 2) None = Built p" "length (six_data p) = 138"
    using example_precompile [OF av, of "ascii ''example message to verify''" "replicate 33 2"] by auto
  obtain x where x: "execute_instructions lib ?wd k k1 (TruncatedSlot 0)
      [\<lparr>six_program_id = k2, six_accounts = [], six_data = ascii ''Hello from passkey!''\<rparr>] ExecutionAccount = Built x"
    "sizes x = (65, if k2 = k1 then 5 else 6)"
    using example_execute [OF av, of ?wd "ascii ''Hello from passkey!''" k k1 "TruncatedSlot 0" k2 ExecutionAccount]
    by (auto simp: plain_webauthn_data)
  obtain r where r: "sdk_refresh_session_key lib ?wd k k1 (TruncatedSlot 0)
      \<lparr>session_key_key = k3, expiration = 900\<rparr> = Built r" "sizes r = (80, 4)"
    using example_refresh [OF av, of ?wd "\<lparr>session_key_key = k3, expiration = 900\<rparr>" k k1] assms(2)
    by (auto simp: plain_webauthn_data)
  obtain s where s: "execute_instructions_sessioned lib k k3
      [\<lparr>six_program_id = k4, six_accounts = [], six_data = ascii ''session call''\<rparr>] ExecutionAccount = Built s"
    "sizes s = (20, if k4 = k3 then 3 else 4)"
    using example_sessioned [OF av, of "ascii ''session call''" k k3 k4 ExecutionAccount] by auto
  show ?thesis by (simp add: example_main_def Let_def k(1) e i p x r s)
qed

section \<open>Properties\<close>

text \<open>
  The SDK's unit tests pass and its example program reaches its end, with instructions of 53,
  65, 80 and 20 bytes for the program, one of 138 bytes for the precompile, and the number of
  accounts each of them lists.
\<close>

theorem sdk_tests_pass:
  assumes "lib_available lib" and "length k3 = 32"
  shows "sdk_unit_tests lib k1 k2 k3 \<and>
    (\<exists>out. example_main lib k1 k2 k3 k4 = Built out \<and>
       out_account_to_initialize out = fst (out_passkey_account out) \<and>
       out_initialize_size out = (53, 5) \<and> out_precompile_size out = 138 \<and>
       out_execute_size out = (65, if k2 = k1 then 5 else 6) \<and> out_refresh_size out = (80, 4) \<and>
       out_sessioned_size out = (20, if k4 = k3 then 3 else 4))"
  using example_main_runs [OF assms] builder_tests_pass [OF assms(1)] execution_tests_pass [OF assms(1)]
  by (simp add: sdk_unit_tests_def)

section \<open>Witnesses\<close>

text \<open>The concrete libraries of \<open>SdkSample\<close>, decoding the tests' signature as DER says.\<close>

definition sample_test_lib :: sdk_lib where
  "sample_test_lib = sample_lib\<lparr>lib_ecdsa_from_der := \<lambda>_. Some (1, 1)\<rparr>"

lemma sample_single_message:
  "\<exists>m. sample_message_new [\<lparr>six_program_id = program, six_accounts = [], six_data = d\<rparr>] payer = Some m \<and>
     static_account_keys m = (if program = payer then [payer] else [payer, program])"
  by (auto simp: sample_message_new_def message_keys_def key_signs_def key_writable_def Let_def)

lemma sample_lib_available: "lib_available sample_test_lib"
proof -
  have "message_laws sample_test_lib" "precompile_layout sample_test_lib" "bignum_laws sample_test_lib"
    "order_law sample_test_lib" "borsh_format (lib_borsh sample_test_lib)"
    using sample_message_laws sample_precompile_layout sample_bignum_laws sample_order_law ref.borsh_format_axioms
    by (simp_all add: sample_test_lib_def message_laws_def precompile_layout_def bignum_laws_def order_law_def)
       (simp_all add: sample_lib_def)
  moreover have "\<exists>k b. lib_try_find_program_address sample_test_lib seeds crate_ID = Some (k, b)" for seeds
    by (simp add: sample_test_lib_def sample_lib_def sample_runtime_def)
  moreover have "lib_ecdsa_from_der sample_test_lib example_der = Some (1, 1)" by (simp add: sample_test_lib_def)
  moreover have "\<exists>k. lib_pubkey_from_str sample_test_lib s = Some k" for s
    by (simp add: sample_test_lib_def sample_lib_def)
  moreover have "lib_message_new sample_test_lib = sample_message_new" by (simp add: sample_test_lib_def sample_lib_def)
  ultimately show ?thesis using sample_single_message by (simp add: lib_available_def)
qed

theorem sdk_tests_pass_witness:
  "\<exists>out. example_main sample_test_lib (replicate 32 1) (replicate 32 2) (replicate 32 3) (replicate 32 4) = Built out \<and>
     out_execute_size out = (65, 6)"
proof -
  have "replicate 32 (2 :: u8) \<noteq> replicate 32 1" by (simp add: replicate_eq_replicate)
  with sdk_tests_pass [OF sample_lib_available, of "replicate 32 3" "replicate 32 1" "replicate 32 2" "replicate 32 4"]
  show ?thesis by auto
qed

lemma sample_message_shapes: "message_shapes sample_test_lib"
  using message_sound_shape [OF sample_message_sound] by (simp add: message_shapes_def sample_test_lib_def sample_lib_def)

text \<open>An instruction that fits the encodings, over more keys than the sample compiler takes.\<close>

definition crowded_ix :: solana_instruction where
  "crowded_ix = \<lparr>six_program_id = replicate 32 2,
     six_accounts = map (\<lambda>i. meta_new_readonly (of_nat i # replicate 31 0) False) [0..<255], six_data = []\<rparr>"

lemma crowded_message: "lib_message_new sample_test_lib [crowded_ix] (replicate 32 1) = None"
proof -
  let ?others = "(\<lambda>i. (of_nat i :: u8) # replicate 31 0) ` {0..<255}" and ?payer = "replicate 32 (1 :: u8)"
  have "inj_on (\<lambda>i. (of_nat i :: u8) # replicate 31 0) {0..<255}"
  proof (rule inj_onI)
    fix i j assume "i \<in> {0..<255}" "j \<in> {0..<255}" "(of_nat i :: u8) # replicate 31 0 = of_nat j # replicate 31 0"
    then have "unat (of_nat i :: u8) = unat (of_nat j :: u8)" "i < 256" "j < 256" by simp_all
    then show "i = j" by (simp add: unat_of_nat_byte)
  qed
  then have "card ?others = 255" by (simp add: card_image)
  moreover have "?payer \<notin> ?others" by (auto simp: numeral_eq_Suc)
  ultimately have card: "card (insert ?payer ?others) = 256" by simp
  have "insert ?payer ?others \<subseteq> set (message_keys [crowded_ix] ?payer)"
    by (auto simp: message_keys_def Let_def crowded_ix_def)
  from card_mono [OF _ this] card_length [of "message_keys [crowded_ix] ?payer"] card
  have "256 \<le> length (message_keys [crowded_ix] ?payer)" by simp
  then show ?thesis by (simp add: sample_test_lib_def sample_lib_def sample_message_new_def Let_def)
qed

theorem sdk_execution_outcome_witness:
  "execute_instructions_sessioned sample_test_lib (replicate 32 1) (replicate 32 2)
     [\<lparr>six_program_id = replicate 32 3, six_accounts = [], six_data = replicate 65536 0\<rparr>] ExecutionAccount
   = Refused (SerializationError ''Instruction data too large'') \<and>
   instruction_fits crowded_ix \<and>
   execute_instructions_sessioned sample_test_lib (replicate 32 1) (replicate 32 1) [crowded_ix] ExecutionAccount
   = Aborted"
proof -
  let ?ix = "\<lparr>six_program_id = replicate 32 3, six_accounts = [], six_data = replicate 65536 0\<rparr> :: solana_instruction"
  obtain m where m: "lib_message_new sample_test_lib [?ix] (replicate 32 2) = Some m"
    using sample_single_message [of "replicate 32 3" "replicate 65536 0" "replicate 32 2"]
    by (auto simp: sample_test_lib_def sample_lib_def)
  have B: "borsh_format (lib_borsh sample_test_lib)" using sample_lib_available by (simp add: lib_available_def)
  obtain sid where sid: "lib_pubkey_from_str sample_test_lib ''Sysvar1nstructions1111111111111111111111111'' = Some sid"
    using sample_lib_available by (auto simp: lib_available_def)
  have misfit: "compile_outcome [?ix] = Some (SerializationError ''Instruction data too large'')"
    by (simp add: compile_outcome_def instruction_fits_def misfit_def)
  have fits: "instruction_fits crowded_ix" by (simp add: instruction_fits_def crowded_ix_def)
  note outcome = sdk_execution_outcome [OF sample_message_shapes B sid,
      where wd = "webauthn_data_new (replicate 33 1) [] [] [] Get False False False None"]
  from outcome [where ixs = "[?ix]" and signer = "replicate 32 2"] m misfit
    outcome [where ixs = "[crowded_ix]" and signer = "replicate 32 1"] crowded_message fits
  show ?thesis by (auto simp: plain_webauthn_data)
qed

theorem sdk_initialization_outcome_witness:
  "\<exists>k ix. initialize_with sample_test_lib (webauthn_data_new (replicate 33 1) [] [] [] Create False False False None)
       (replicate 33 0x61) (replicate 32 1) (TruncatedSlot 0) None = Built (k, ix) \<and>
     initialize_with sample_test_lib (webauthn_data_new (replicate 33 1) [] [] [] Create False False False None)
       (replicate 220 0x61) (replicate 32 1) (TruncatedSlot 0) None
       = Refused (SerializationError ''Initialization data too large'')"
proof -
  let ?wd = "webauthn_data_new (replicate 33 1) [] [] [] Create False False False None"
  have B: "borsh_format (lib_borsh sample_test_lib)" using sample_lib_available by (simp add: lib_available_def)
  obtain sid where sid: "lib_pubkey_from_str sample_test_lib ''Sysvar1nstructions1111111111111111111111111'' = Some sid"
    using sample_lib_available by (auto simp: lib_available_def)
  obtain k b where k: "lib_try_find_program_address sample_test_lib
      [ascii ''passkey'', lib_hashv sample_test_lib [wd_public_key ?wd]] crate_ID = Some (k, b)"
    using derived(1) [OF sample_lib_available] by blast
  note outcome = sdk_initialization_outcome [OF B k sid, of None]
  from outcome [of _ "replicate 33 0x61" "replicate 32 1" "TruncatedSlot 0"]
    outcome [of _ "replicate 220 0x61" "replicate 32 1" "TruncatedSlot 0"]
  show ?thesis by (auto simp: plain_webauthn_data)
qed

end
