(* ===== verification/NonceTests.thy ===== *)
theory NonceTests
  imports Nonce
begin

text \<open>
  The unit tests of \<open>src/utils/nonce.rs\<close>, one definition each: a test is the conjunction of its
  assertions, and an \<open>unwrap\<close> of anything but \<open>Ok\<close> fails it.  All of them pass on the model, so the
  model agrees with the compiled code wherever the authors checked it.
\<close>

section \<open>Harness\<close>

text \<open>\<open>r.unwrap()\<close> and then an assertion; \<open>r.is_err()\<close>.\<close>

fun unwraps :: "'a result \<Rightarrow> ('a \<Rightarrow> bool) \<Rightarrow> bool" where
  "unwraps (Ok x) P = P x"
| "unwraps (Err e) P = False"
| "unwraps Panic P = False"

fun is_err :: "'a result \<Rightarrow> bool" where
  "is_err (Err e) = True"
| "is_err r = False"

section \<open>Fixtures\<close>

fun push_heights :: "u64 list \<Rightarrow> u64 list \<Rightarrow> u64 list" where
  "push_heights data [] = data"
| "push_heights data (h # heights) = push_heights (data @ [h] @ replicate 4 0) heights"

definition populate_slot_hashes :: "u64 list \<Rightarrow> u64 list" where
  "populate_slot_hashes heights = push_heights [of_nat (length heights)] heights"

text \<open>The words as they lie in memory on a little-endian target.\<close>

definition slot_hashes_as_bytes :: "u64 list \<Rightarrow> bytes" where
  "slot_hashes_as_bytes data = concat (map u64_to_le data)"

section \<open>The tests\<close>

definition test_find_slot_hash_uses_direct_index_for_contiguous_slots :: "runtime \<Rightarrow> bool" where
  "test_find_slot_hash_uses_direct_index_for_contiguous_slots rt \<longleftrightarrow>
     (let contiguous_data = populate_slot_hashes [14, 13, 12, 11, 10];
          contiguous = slot_hashes_new_unchecked (slot_hashes_as_bytes contiguous_data)
      in unwraps (find_slot_hash_with_fallback rt contiguous 10 4) (\<lambda>c. height c = 10))"

definition test_find_slot_hash_falls_back_for_skipped_slots :: "runtime \<Rightarrow> bool" where
  "test_find_slot_hash_falls_back_for_skipped_slots rt \<longleftrightarrow>
     (let skipped_data = populate_slot_hashes [14, 10, 9];
          skipped = slot_hashes_new_unchecked (slot_hashes_as_bytes skipped_data)
      in unwraps (find_slot_hash_with_fallback rt skipped 10 4) (\<lambda>c. height c = 10))"

definition test_find_slot_hash_rejects_absent_target_and_len_index :: "runtime \<Rightarrow> bool" where
  "test_find_slot_hash_rejects_absent_target_and_len_index rt \<longleftrightarrow>
     (let data = populate_slot_hashes [14, 12, 9];
          slothashes = slot_hashes_new_unchecked (slot_hashes_as_bytes data)
      in is_err (find_slot_hash_with_fallback rt slothashes 10 4) \<and> is_err (get_slot_hash rt slothashes 3))"

definition truncates_to :: "u64 \<Rightarrow> u16 \<Rightarrow> bool" where
  "truncates_to slot n \<longleftrightarrow> unwraps (truncated_slot_new slot) (\<lambda>t. slot_number t = n)"

definition test_truncated_slot_new :: bool where
  "test_truncated_slot_new \<longleftrightarrow>
     truncates_to 1234567890 890 \<and> truncates_to 999 999 \<and> truncates_to 1000 0 \<and> truncates_to 1001 1 \<and>
     truncates_to 349863001 1 \<and> truncates_to 349862999 999"

text \<open>\<open>assert_eq!(current.get_index_difference(&submitted).unwrap(), n)\<close>.\<close>

definition difference_is :: "truncated_slot \<Rightarrow> truncated_slot \<Rightarrow> u16 \<Rightarrow> bool" where
  "difference_is current submitted n \<longleftrightarrow> unwraps (get_index_difference current submitted) (\<lambda>diff. diff = n)"

definition test_get_index_difference_normal_cases :: bool where
  "test_get_index_difference_normal_cases \<longleftrightarrow>
     difference_is (TruncatedSlot 100) (TruncatedSlot 95) 5 \<and>
     difference_is (TruncatedSlot 500) (TruncatedSlot 450) 50 \<and>
     difference_is (TruncatedSlot 100) (TruncatedSlot 100) 0"

definition test_get_index_difference_wraparound_cases :: bool where
  "test_get_index_difference_wraparound_cases \<longleftrightarrow>
     difference_is (TruncatedSlot 1) (TruncatedSlot 999) 2 \<and>
     difference_is (TruncatedSlot 0) (TruncatedSlot 999) 1 \<and>
     difference_is (TruncatedSlot 5) (TruncatedSlot 998) 7 \<and>
     difference_is (TruncatedSlot 10) (TruncatedSlot 990) 20"

definition test_get_index_difference_edge_cases :: bool where
  "test_get_index_difference_edge_cases \<longleftrightarrow>
     difference_is (TruncatedSlot 0) (TruncatedSlot 1) 999 \<and>
     difference_is (TruncatedSlot 149) (TruncatedSlot 0) 149 \<and>
     difference_is (TruncatedSlot 999) (TruncatedSlot 0) 999 \<and>
     difference_is (TruncatedSlot 999) (TruncatedSlot 999) 0"

definition test_get_index_difference_within_expiration_window :: bool where
  "test_get_index_difference_within_expiration_window \<longleftrightarrow>
     unwraps (get_index_difference (TruncatedSlot 149) (TruncatedSlot 0)) (\<lambda>diff. diff = 149 \<and> diff < 150) \<and>
     unwraps (get_index_difference (TruncatedSlot 148) (TruncatedSlot 999)) (\<lambda>diff. diff = 149 \<and> diff < 150) \<and>
     unwraps (get_index_difference (TruncatedSlot 149) (TruncatedSlot 999)) (\<lambda>diff. diff = 150 \<and> 150 \<le> diff)"

text \<open>\<open>.iter().map(|&slot| TruncatedSlot::new(slot).unwrap()).collect()\<close>: one failing element panics.\<close>

fun truncate_all :: "u64 list \<Rightarrow> truncated_slot list result" where
  "truncate_all [] = Ok []"
| "truncate_all (slot # slots) =
     (case truncated_slot_new slot of
        Ok t \<Rightarrow> and_then (truncate_all slots) (\<lambda>ts. Ok (t # ts))
      | _ \<Rightarrow> Panic)"

definition test_real_world_slot_scenarios :: bool where
  "test_real_world_slot_scenarios \<longleftrightarrow>
     (let slots = [349862995, 349862996, 349862997, 349862998, 349862999,
                   349863000, 349863001, 349863002, 349863003, 349863004]
      in unwraps (truncate_all slots) (\<lambda>truncated_slots.
           slot_number (truncated_slots ! 4) = 999 \<and> slot_number (truncated_slots ! 5) = 0 \<and>
           slot_number (truncated_slots ! 6) = 1 \<and>
           difference_is (truncated_slots ! 5) (truncated_slots ! 4) 1 \<and>
           difference_is (truncated_slots ! 6) (truncated_slots ! 4) 2 \<and>
           difference_is (truncated_slots ! 6) (truncated_slots ! 5) 1))"

definition test_multiple_wraparounds :: bool where
  "test_multiple_wraparounds \<longleftrightarrow> difference_is (TruncatedSlot 50) (TruncatedSlot 60) 990"

section \<open>They pass\<close>

text \<open>The fixture is the runtime's encoding of a table with those heights and zero hashes.\<close>

abbreviation zero_hash_entry :: "u64 \<Rightarrow> slot_hash" where
  "zero_hash_entry h \<equiv> \<lparr>height = h, slot_hash_hash = replicate 32 0\<rparr>"

lemma as_bytes_append [simp]:
  "slot_hashes_as_bytes (xs @ ys) = slot_hashes_as_bytes xs @ slot_hashes_as_bytes ys"
  by (simp add: slot_hashes_as_bytes_def)

lemma pushed_heights:
  "slot_hashes_as_bytes (push_heights data hs) =
     slot_hashes_as_bytes data @ encode_slot_entries (map zero_hash_entry hs)"
proof (induction hs arbitrary: data)
  case (Cons h hs)
  have "slot_hashes_as_bytes (replicate 4 0) = replicate 32 0"
    by code_simp
  with Cons.IH [of "data @ [h] @ replicate 4 0"] show ?case
    by (simp add: slot_hashes_as_bytes_def)
qed simp

lemma populated_table:
  assumes "length hs < 2 ^ 64"
  shows "slot_table rt (slot_hashes_new_unchecked (slot_hashes_as_bytes (populate_slot_hashes hs))) =
    map zero_hash_entry hs"
  using slot_table_encode [of "map zero_hash_entry hs" rt "[]"] assms
  by (simp add: slot_hashes_new_unchecked_def populate_slot_hashes_def pushed_heights encode_slot_hashes_def)
     (simp add: slot_hashes_as_bytes_def)

lemma populated_len:
  assumes "length hs < 2 ^ 64"
  shows "unat (get_slothashes_len rt (slot_hashes_new_unchecked (slot_hashes_as_bytes (populate_slot_hashes hs)))) =
    length hs"
  using arg_cong [OF populated_table [OF assms, of rt], of length] by (simp add: length_slot_table)

lemmas populated = populated_table populated_len find_slot_hash_with_fallback_def get_slot_hash_table Let_def

lemma find_tests_pass:
  "test_find_slot_hash_uses_direct_index_for_contiguous_slots rt"
  "test_find_slot_hash_falls_back_for_skipped_slots rt"
  "test_find_slot_hash_rejects_absent_target_and_len_index rt"
  by (simp_all add: test_find_slot_hash_uses_direct_index_for_contiguous_slots_def
      test_find_slot_hash_falls_back_for_skipped_slots_def
      test_find_slot_hash_rejects_absent_target_and_len_index_def populated numeral_3_eq_3)

lemmas difference_defs = difference_is_def get_index_difference_def checked_sub_def checked_add_def word_le_nat_alt

lemma truncation_tests_pass: test_truncated_slot_new test_real_world_slot_scenarios
  by (simp_all add: test_truncated_slot_new_def truncates_to_def truncated_slot_new_def
      test_real_world_slot_scenarios_def difference_defs)

lemma difference_tests_pass:
  test_get_index_difference_normal_cases test_get_index_difference_wraparound_cases
  test_get_index_difference_edge_cases test_get_index_difference_within_expiration_window
  test_multiple_wraparounds
  by (simp_all add: test_get_index_difference_normal_cases_def test_get_index_difference_wraparound_cases_def
      test_get_index_difference_edge_cases_def test_get_index_difference_within_expiration_window_def
      test_multiple_wraparounds_def difference_defs)

text \<open>The test module.\<close>

definition nonce_tests :: "runtime \<Rightarrow> bool" where
  "nonce_tests rt \<longleftrightarrow>
     test_find_slot_hash_uses_direct_index_for_contiguous_slots rt \<and>
     test_find_slot_hash_falls_back_for_skipped_slots rt \<and>
     test_find_slot_hash_rejects_absent_target_and_len_index rt \<and>
     test_truncated_slot_new \<and> test_get_index_difference_normal_cases \<and>
     test_get_index_difference_wraparound_cases \<and> test_get_index_difference_edge_cases \<and>
     test_get_index_difference_within_expiration_window \<and> test_real_world_slot_scenarios \<and>
     test_multiple_wraparounds"

lemma nonce_tests_pass: "nonce_tests rt"
  by (simp add: nonce_tests_def find_tests_pass truncation_tests_pass difference_tests_pass)

end
