(* ===== verification/UnitTests.thy ===== *)
theory UnitTests
  imports NonceTests P256Webauthn
begin

text \<open>
  The other unit tests of the program's crate: \<open>small_vec.rs\<close>, \<open>client_data_json.rs\<close>,
  \<open>authenticator_data.rs\<close> and \<open>initialization_args.rs\<close>, modelled and passed as those of \<open>nonce.rs\<close> are.
  What the tests take from other crates is an argument: the keys of \<open>Pubkey::new_unique\<close>, borsh's
  \<open>u32\<close>, the base64 decoder, SHA-256.
\<close>

section \<open>Small vectors\<close>

text \<open>\<open>deserialize(..).unwrap()\<close> gives \<open>v\<close>; \<open>try_from(v).unwrap()\<close> writes \<open>bs\<close>.\<close>

definition reads_as :: "'a reader \<Rightarrow> bytes \<Rightarrow> 'a \<Rightarrow> bool" where
  "reads_as rd input v \<longleftrightarrow> (case rd input of Some (x, _) \<Rightarrow> x = v | None \<Rightarrow> False)"

definition converts :: "len_type \<Rightarrow> 'a list \<Rightarrow> ('a small_vec \<Rightarrow> bool) \<Rightarrow> bool" where
  "converts L v P \<longleftrightarrow> (case small_vec_try_from L v of Inr small_vec \<Rightarrow> P small_vec | Inl _ \<Rightarrow> False)"

definition deserialize_test_length_u8_type_u8 :: "borsh \<Rightarrow> bool" where
  "deserialize_test_length_u8_type_u8 B \<longleftrightarrow>
     reads_as (byte_vec_reader B L_u8) [0x02, 0x05, 0x09] [5, 9]"

definition deserialize_test_length_u8_type_u32 :: "borsh \<Rightarrow> u32 reader \<Rightarrow> bool" where
  "deserialize_test_length_u8_type_u32 B read_u32 \<longleftrightarrow>
     reads_as (small_vec_deserialize B L_u8 no_vec_from_reader read_u32)
       [0x02, 0x05, 0x00, 0x00, 0x00, 0x09, 0x00, 0x00, 0x00] [5, 9]"

definition deserialize_test_length_u8_type_pubkey :: "borsh \<Rightarrow> pubkey \<Rightarrow> pubkey \<Rightarrow> bool" where
  "deserialize_test_length_u8_type_pubkey B pubkey1 pubkey2 \<longleftrightarrow>
     reads_as (small_vec_deserialize B L_u8 no_vec_from_reader (read_array B 32))
       (concat [[0x02], pubkey1, pubkey2]) [pubkey1, pubkey2]"

definition deserialize_test_length_u16_type_u8 :: "borsh \<Rightarrow> bool" where
  "deserialize_test_length_u16_type_u8 B \<longleftrightarrow>
     reads_as (byte_vec_reader B L_u16) [0x02, 0x00, 0x05, 0x09] [5, 9]"

definition deserialize_test_length_u16_type_pubkey :: "borsh \<Rightarrow> pubkey \<Rightarrow> pubkey \<Rightarrow> bool" where
  "deserialize_test_length_u16_type_pubkey B pubkey1 pubkey2 \<longleftrightarrow>
     reads_as (small_vec_deserialize B L_u16 no_vec_from_reader (read_array B 32))
       (concat [[0x02, 0x00], pubkey1, pubkey2]) [pubkey1, pubkey2]"

definition serialize_test_length_u8_type_u8 :: "borsh \<Rightarrow> bool" where
  "serialize_test_length_u8_type_u8 B \<longleftrightarrow>
     converts L_u8 [3, 5] (\<lambda>small_vec. byte_vec_writer B L_u8 small_vec = Some [0x02, 0x03, 0x05])"

definition serialize_test_length_u8_type_u32 :: "u32 writer \<Rightarrow> bool" where
  "serialize_test_length_u8_type_u32 write_u32 \<longleftrightarrow>
     converts L_u8 [3, 5] (\<lambda>small_vec. small_vec_serialize L_u8 no_u8_slice write_u32 small_vec =
       Some [0x02, 0x03, 0x00, 0x00, 0x00, 0x05, 0x00, 0x00, 0x00])"

definition serialize_test_length_u8_type_pubkey :: "borsh \<Rightarrow> pubkey \<Rightarrow> pubkey \<Rightarrow> bool" where
  "serialize_test_length_u8_type_pubkey B pubkey1 pubkey2 \<longleftrightarrow>
     converts L_u8 [pubkey1, pubkey2] (\<lambda>small_vec.
       small_vec_serialize L_u8 no_u8_slice (\<lambda>k. Some (write_array B k)) small_vec =
         Some (concat [[0x02], pubkey1, pubkey2]))"

definition serialize_test_length_u16_type_u8 :: "borsh \<Rightarrow> bool" where
  "serialize_test_length_u16_type_u8 B \<longleftrightarrow>
     converts L_u16 [3, 5] (\<lambda>small_vec. byte_vec_writer B L_u16 small_vec = Some [0x02, 0x00, 0x03, 0x05])"

definition serialize_test_length_u16_type_pubkey :: "borsh \<Rightarrow> pubkey \<Rightarrow> pubkey \<Rightarrow> bool" where
  "serialize_test_length_u16_type_pubkey B pubkey1 pubkey2 \<longleftrightarrow>
     converts L_u16 [pubkey1, pubkey2] (\<lambda>small_vec.
       small_vec_serialize L_u16 no_u8_slice (\<lambda>k. Some (write_array B k)) small_vec =
         Some (concat [[0x02, 0x00], pubkey1, pubkey2]))"

definition test_try_from_vec_success :: bool where
  "test_try_from_vec_success \<longleftrightarrow> converts L_u8 [1 :: u8, 2, 3] (\<lambda>small_vec. length small_vec = 3)"

definition test_try_from_vec_failure :: bool where
  "test_try_from_vec_failure \<longleftrightarrow>
     small_vec_try_from L_u8 (map of_nat [0 ..< 256] :: u8 list) = Inl ''Vector length exceeds SmallVec capacity''"

definition test_try_from_vec_u16_success :: bool where
  "test_try_from_vec_u16_success \<longleftrightarrow> converts L_u16 [1 :: u8, 2, 3] (\<lambda>small_vec. length small_vec = 3)"

definition test_try_from_vec_u16_failure :: bool where
  "test_try_from_vec_u16_failure \<longleftrightarrow>
     small_vec_try_from L_u16 (replicate 65536 (0 :: u8)) = Inl ''Vector length exceeds SmallVec capacity''"

definition test_u16_capacity_boundary :: bool where
  "test_u16_capacity_boundary \<longleftrightarrow>
     converts L_u16 (replicate 65535 (0 :: u8)) (\<lambda>small_vec. length small_vec = 65535)"

definition test_u8_capacity_boundary :: bool where
  "test_u8_capacity_boundary \<longleftrightarrow> converts L_u8 (replicate 255 (0 :: u8)) (\<lambda>small_vec. length small_vec = 255)"

text \<open>Borsh's \<open>u32\<close>: four bytes, little-endian.\<close>

definition borsh_u32 :: "u32 reader \<Rightarrow> u32 writer \<Rightarrow> bool" where
  "borsh_u32 rd wr \<longleftrightarrow>
     (\<forall>bs. rd bs = (if length bs < 4 then None else Some (of_nat (le_nat (take 4 bs)), drop 4 bs))) \<and>
     (\<forall>x. wr x = Some (le_bytes 4 (unat x)))"

lemma two_items:
  "deserialize_items rd 2 bs = do { (x, bs) \<leftarrow> rd bs; (y, bs) \<leftarrow> rd bs; Some ([x, y], bs) }"
proof (cases "rd bs")
  case (Some p)
  then show ?thesis by (cases p, cases "rd (snd p)") (auto simp: numeral_2_eq_2)
qed (simp add: numeral_2_eq_2)

lemma short_le_bytes:
  "le_bytes 2 (Suc (Suc 0)) = [2, 0]" "le_bytes 4 3 = [3, 0, 0, 0]" "le_bytes 4 5 = [5, 0, 0, 0]"
  "le_bytes 4 0 = [0, 0, 0, 0]"
  by code_simp+

lemma small_vec_deserialize_tests_pass:
  assumes "borsh_format B" and "borsh_u32 rd wr" and "length k1 = 32" and "length k2 = 32"
  shows "deserialize_test_length_u8_type_u8 B \<and> deserialize_test_length_u8_type_u32 B rd \<and>
    deserialize_test_length_u8_type_pubkey B k1 k2 \<and> deserialize_test_length_u16_type_u8 B \<and>
    deserialize_test_length_u16_type_pubkey B k1 k2"
  using assms
  by (simp add: deserialize_test_length_u8_type_u8_def deserialize_test_length_u8_type_u32_def
      deserialize_test_length_u8_type_pubkey_def deserialize_test_length_u16_type_u8_def
      deserialize_test_length_u16_type_pubkey_def reads_as_def small_vec_deserialize_def no_vec_from_reader_def
      borsh_u32_def borsh_format.r_u8 borsh_format.r_u16 borsh_format.r_vec borsh_format.r_array u16_from_le_def
      two_items)

lemma small_vec_serialize_tests_pass:
  assumes "borsh_format B" and "borsh_u32 rd wr"
  shows "serialize_test_length_u8_type_u8 B \<and> serialize_test_length_u8_type_u32 wr \<and>
    serialize_test_length_u8_type_pubkey B k1 k2 \<and> serialize_test_length_u16_type_u8 B \<and>
    serialize_test_length_u16_type_pubkey B k1 k2"
  using assms
  by (simp add: serialize_test_length_u8_type_u8_def serialize_test_length_u8_type_u32_def
      serialize_test_length_u8_type_pubkey_def serialize_test_length_u16_type_u8_def
      serialize_test_length_u16_type_pubkey_def converts_def small_vec_try_from_def small_vec_serialize_def
      serialize_slice_def no_u8_slice_def borsh_u32_def borsh_format.w_slice borsh_format.w_array short_le_bytes)

lemma small_vec_length_tests_pass:
  test_try_from_vec_success test_try_from_vec_failure test_try_from_vec_u16_success
  test_try_from_vec_u16_failure test_u16_capacity_boundary test_u8_capacity_boundary
  by (simp_all add: test_try_from_vec_success_def test_try_from_vec_failure_def test_try_from_vec_u16_success_def
      test_try_from_vec_u16_failure_def test_u16_capacity_boundary_def test_u8_capacity_boundary_def
      converts_def small_vec_try_from_def)

text \<open>The test module, with its submodules \<open>deserialize\<close>, \<open>serialize\<close> and \<open>length_validation\<close>.\<close>

definition small_vec_tests :: "borsh \<Rightarrow> u32 reader \<Rightarrow> u32 writer \<Rightarrow> pubkey \<Rightarrow> pubkey \<Rightarrow> bool" where
  "small_vec_tests B read_u32 write_u32 k1 k2 \<longleftrightarrow>
     (deserialize_test_length_u8_type_u8 B \<and> deserialize_test_length_u8_type_u32 B read_u32 \<and>
      deserialize_test_length_u8_type_pubkey B k1 k2 \<and> deserialize_test_length_u16_type_u8 B \<and>
      deserialize_test_length_u16_type_pubkey B k1 k2) \<and>
     (serialize_test_length_u8_type_u8 B \<and> serialize_test_length_u8_type_u32 write_u32 \<and>
      serialize_test_length_u8_type_pubkey B k1 k2 \<and> serialize_test_length_u16_type_u8 B \<and>
      serialize_test_length_u16_type_pubkey B k1 k2) \<and>
     (test_try_from_vec_success \<and> test_try_from_vec_failure \<and> test_try_from_vec_u16_success \<and>
      test_try_from_vec_u16_failure \<and> test_u16_capacity_boundary \<and> test_u8_capacity_boundary)"

lemma small_vec_tests_pass:
  assumes "borsh_format B" and "borsh_u32 rd wr" and "length k1 = 32" and "length k2 = 32"
  shows "small_vec_tests B rd wr k1 k2"
  using small_vec_deserialize_tests_pass [OF assms] small_vec_serialize_tests_pass [OF assms(1,2)]
  by (simp add: small_vec_tests_def small_vec_length_tests_pass)

section \<open>Reconstruction of clientDataJSON\<close>

text \<open>\<open>general_purpose::URL_SAFE_NO_PAD.decode(text).unwrap()\<close> and then the rest of the test.\<close>

definition decodes :: "(bytes \<Rightarrow> bytes option) \<Rightarrow> string \<Rightarrow> (bytes \<Rightarrow> bool) \<Rightarrow> bool" where
  "decodes decode txt P \<longleftrightarrow> (case decode (ascii txt) of Some bs \<Rightarrow> P bs | None \<Rightarrow> False)"

definition test_reconstruct_client_data_json :: "runtime \<Rightarrow> (bytes \<Rightarrow> bytes option) \<Rightarrow> bool" where
  "test_reconstruct_client_data_json rt decode \<longleftrightarrow>
     (let params = client_data_json_params_new Get False False False None;
          result = reconstruct_client_data_json rt params (ascii ''www.passkeys-debugger.io'') (ascii ''hello_world'')
      in decodes decode
           ''eyJ0eXBlIjoid2ViYXV0aG4uZ2V0IiwiY2hhbGxlbmdlIjoiYUdWc2JHOWZkMjl5YkdRIiwib3JpZ2luIjoiaHR0cHM6Ly93d3cucGFzc2tleXMtZGVidWdnZXIuaW8iLCJjcm9zc09yaWdpbiI6ZmFsc2V9''
           (\<lambda>expected_bytes. unwraps result (\<lambda>r. r = expected_bytes)))"

definition test_reconstruct_client_data_json_with_extra_field :: "runtime \<Rightarrow> (bytes \<Rightarrow> bytes option) \<Rightarrow> bool" where
  "test_reconstruct_client_data_json_with_extra_field rt decode \<longleftrightarrow>
     (let params = client_data_json_params_new Get False False True None;
          result = reconstruct_client_data_json rt params (ascii ''www.passkeys-debugger.io'') (ascii ''hello_world'')
      in decodes decode
           ''eyJ0eXBlIjoid2ViYXV0aG4uZ2V0IiwiY2hhbGxlbmdlIjoiYUdWc2JHOWZkMjl5YkdRIiwib3JpZ2luIjoiaHR0cHM6Ly93d3cucGFzc2tleXMtZGVidWdnZXIuaW8iLCJjcm9zc09yaWdpbiI6ZmFsc2UsIm90aGVyX2tleXNfY2FuX2JlX2FkZGVkX2hlcmUiOiJkbyBub3QgY29tcGFyZSBjbGllbnREYXRhSlNPTiBhZ2FpbnN0IGEgdGVtcGxhdGUuIFNlZSBodHRwczovL2dvby5nbC95YWJQZXgifQ''
           (\<lambda>expected_bytes. unwraps result (\<lambda>r. r = expected_bytes)))"

definition test_reconstruct_client_data_json_with_port :: "runtime \<Rightarrow> (bytes \<Rightarrow> bytes option) \<Rightarrow> bool" where
  "test_reconstruct_client_data_json_with_port rt decode \<longleftrightarrow>
     (let params = client_data_json_params_new Get False True False (Some 3000);
          result = reconstruct_client_data_json rt params (ascii ''localhost'') (ascii ''hello_world'')
      in decodes decode
           ''eyJ0eXBlIjoid2ViYXV0aG4uZ2V0IiwiY2hhbGxlbmdlIjoiYUdWc2JHOWZkMjl5YkdRIiwib3JpZ2luIjoiaHR0cDovL2xvY2FsaG9zdDozMDAwIiwiY3Jvc3NPcmlnaW4iOmZhbHNlfQ''
           (\<lambda>expected_bytes. unwraps result (\<lambda>r. r = expected_bytes)))"

definition test_reconstruct_client_data_json_without_cross_origin :: "runtime \<Rightarrow> (bytes \<Rightarrow> bytes option) \<Rightarrow> bool" where
  "test_reconstruct_client_data_json_without_cross_origin rt decode \<longleftrightarrow>
     (let params = new_with_optional_cross_origin Create False False False False None
      in decodes decode ''E7yasyYuzqwbUamcXXqz8PNJkZzJHYiZ8SWAkj37tco'' (\<lambda>challenge.
         let result = reconstruct_client_data_json rt params (ascii ''www.passkeys-debugger.io'') challenge
         in decodes decode
           ''eyJ0eXBlIjoid2ViYXV0aG4uY3JlYXRlIiwiY2hhbGxlbmdlIjoiRTd5YXN5WXV6cXdiVWFtY1hYcXo4UE5Ka1p6SkhZaVo4U1dBa2ozN3RjbyIsIm9yaWdpbiI6Imh0dHBzOi8vd3d3LnBhc3NrZXlzLWRlYnVnZ2VyLmlvIn0''
           (\<lambda>expected_bytes. unwraps result (\<lambda>r. r = expected_bytes))))"

text \<open>The base64 crate's engine: RFC 4648's base64url without padding, decoded by its inverse.\<close>

definition base64_crate :: "runtime \<Rightarrow> (bytes \<Rightarrow> bytes option) \<Rightarrow> bool" where
  "base64_crate rt decode \<longleftrightarrow> base64_url_no_pad rt = b64url \<and> (\<forall>bs. decode (b64url bs) = Some bs)"

lemma decodes_iff:
  assumes "base64_crate rt decode" and "b64url bs = ascii txt"
  shows "decodes decode txt P \<longleftrightarrow> P bs"
  using assms unfolding decodes_def by (metis base64_crate_def option.case(2))

text \<open>The four JSON texts.\<close>

abbreviation test_json :: "string \<Rightarrow> bytes \<Rightarrow> string \<Rightarrow> bytes \<Rightarrow> bytes" where
  "test_json ty challenge orig tail \<equiv>
     ascii ''{'' @ quoted ''type'' @ ascii '':'' @ quoted ty @
     ascii '','' @ quoted ''challenge'' @ ascii '':'' @ quote @ challenge @ quote @
     ascii '','' @ quoted ''origin'' @ ascii '':'' @ quoted orig @ tail"

definition test_challenge :: bytes where
  "test_challenge =
     [0x13, 0xBC, 0x9A, 0xB3, 0x26, 0x2E, 0xCE, 0xAC, 0x1B, 0x51, 0xA9, 0x9C, 0x5D, 0x7A, 0xB3,
      0xF0, 0xF3, 0x49, 0x91, 0x9C, 0xC9, 0x1D, 0x88, 0x99, 0xF1, 0x25, 0x80, 0x92, 0x3D, 0xFB,
      0xB5, 0xCA]"

lemma b64url_test_challenge: "b64url test_challenge = ascii ''E7yasyYuzqwbUamcXXqz8PNJkZzJHYiZ8SWAkj37tco''"
  by (simp add: test_challenge_def ascii_def b64_char_def b64_alphabet_def)

lemma utf8_test_rp: "utf8_valid (ascii ''www.passkeys-debugger.io'')"
  by (simp add: ascii_def)

abbreviation test_tail :: bytes where
  "test_tail \<equiv> ascii '','' @ quoted ''crossOrigin'' @ ascii '':false''"

lemmas b64_eval = ascii_def quoted_def quote_def b64_char_def b64_alphabet_def

lemma b64url_test_json:
  "b64url (test_json ''webauthn.get'' (ascii ''aGVsbG9fd29ybGQ'') ''https://www.passkeys-debugger.io''
     (test_tail @ ascii ''}'')) = ascii ''eyJ0eXBlIjoid2ViYXV0aG4uZ2V0IiwiY2hhbGxlbmdlIjoiYUdWc2JHOWZkMjl5YkdRIiwib3JpZ2luIjoiaHR0cHM6Ly93d3cucGFzc2tleXMtZGVidWdnZXIuaW8iLCJjcm9zc09yaWdpbiI6ZmFsc2V9''"
  by (simp add: b64_eval)

lemma b64url_test_json_extra:
  "b64url (test_json ''webauthn.get'' (ascii ''aGVsbG9fd29ybGQ'') ''https://www.passkeys-debugger.io''
     (test_tail @ json_google_extra @ ascii ''}'')) = ascii ''eyJ0eXBlIjoid2ViYXV0aG4uZ2V0IiwiY2hhbGxlbmdlIjoiYUdWc2JHOWZkMjl5YkdRIiwib3JpZ2luIjoiaHR0cHM6Ly93d3cucGFzc2tleXMtZGVidWdnZXIuaW8iLCJjcm9zc09yaWdpbiI6ZmFsc2UsIm90aGVyX2tleXNfY2FuX2JlX2FkZGVkX2hlcmUiOiJkbyBub3QgY29tcGFyZSBjbGllbnREYXRhSlNPTiBhZ2FpbnN0IGEgdGVtcGxhdGUuIFNlZSBodHRwczovL2dvby5nbC95YWJQZXgifQ''"
  by (simp add: b64_eval json_google_extra_def)

lemma b64url_test_json_port:
  "b64url (test_json ''webauthn.get'' (ascii ''aGVsbG9fd29ybGQ'') ''http://localhost:3000''
     (test_tail @ ascii ''}'')) = ascii ''eyJ0eXBlIjoid2ViYXV0aG4uZ2V0IiwiY2hhbGxlbmdlIjoiYUdWc2JHOWZkMjl5YkdRIiwib3JpZ2luIjoiaHR0cDovL2xvY2FsaG9zdDozMDAwIiwiY3Jvc3NPcmlnaW4iOmZhbHNlfQ''"
  by (simp add: b64_eval)

lemma b64url_test_json_create:
  "b64url (test_json ''webauthn.create'' (ascii ''E7yasyYuzqwbUamcXXqz8PNJkZzJHYiZ8SWAkj37tco'')
     ''https://www.passkeys-debugger.io'' (ascii ''}'')) = ascii ''eyJ0eXBlIjoid2ViYXV0aG4uY3JlYXRlIiwiY2hhbGxlbmdlIjoiRTd5YXN5WXV6cXdiVWFtY1hYcXo4UE5Ka1p6SkhZaVo4U1dBa2ozN3RjbyIsIm9yaWdpbiI6Imh0dHBzOi8vd3d3LnBhc3NrZXlzLWRlYnVnZ2VyLmlvIn0''"
  by (simp add: b64_eval)

text \<open>What the function computes from the tests' parameters.\<close>

lemma reconstruct_without_port:
  assumes "base64_url_no_pad rt = b64url" and "p = new_with_optional_cross_origin ty False has_co False extra None"
  shows "reconstruct_client_data_json rt p (ascii ''www.passkeys-debugger.io'') c =
    Ok (ascii ''{'' @ quoted ''type'' @ ascii '':'' @ quote @ type_str ty @ quote @
        ascii '','' @ quoted ''challenge'' @ ascii '':'' @ quote @ b64url c @ quote @
        ascii '','' @ quoted ''origin'' @ ascii '':'' @ quoted ''https://www.passkeys-debugger.io'' @
        (if has_co then test_tail else []) @ (if extra then json_google_extra else []) @ ascii ''}'')"
  by (simp add: reconstruct_client_data_json_def origin_of_def from_utf8_def utf8_test_rp assms(1)
      params_accessors [OF assms(2)] json_type_def json_challenge_def json_origin_def json_cross_origin_def)
     (simp add: ascii_def quoted_def quote_def)

lemma client_data_json_tests_pass:
  assumes "base64_crate rt decode"
  shows "test_reconstruct_client_data_json rt decode"
    "test_reconstruct_client_data_json_with_extra_field rt decode"
    "test_reconstruct_client_data_json_with_port rt decode"
    "test_reconstruct_client_data_json_without_cross_origin rt decode"
proof -
  note dec = decodes_iff [OF assms]
  have b64: "base64_url_no_pad rt = b64url" using assms by (simp add: base64_crate_def)
  note simps = client_data_json_params_new_def reconstruct_without_port [OF b64 refl] b64url_hello_world type_str_def
    b64url_test_challenge
  show "test_reconstruct_client_data_json rt decode"
    unfolding test_reconstruct_client_data_json_def Let_def dec [OF b64url_test_json] simps by (simp add: quoted_def)
  show "test_reconstruct_client_data_json_with_extra_field rt decode"
    unfolding test_reconstruct_client_data_json_with_extra_field_def Let_def dec [OF b64url_test_json_extra] simps
    by (simp add: quoted_def)
  show "test_reconstruct_client_data_json_without_cross_origin rt decode"
    unfolding test_reconstruct_client_data_json_without_cross_origin_def Let_def dec [OF b64url_test_challenge]
      dec [OF b64url_test_json_create] simps
    by (simp add: quoted_def)
  have "reconstruct_client_data_json rt sample_params (ascii ''localhost'') (ascii ''hello_world'') =
      reconstruct_client_data_json sample_runtime sample_params (ascii ''localhost'') (ascii ''hello_world'')"
    by (simp add: reconstruct_client_data_json_def b64) (simp add: sample_runtime_def)
  then show "test_reconstruct_client_data_json_with_port rt decode"
    unfolding test_reconstruct_client_data_json_with_port_def Let_def dec [OF b64url_test_json_port]
      sample_params_def [symmetric] reconstruct_test_with_port
    by (simp add: sample_json_def) (simp add: ascii_def)
qed

definition client_data_json_tests :: "runtime \<Rightarrow> (bytes \<Rightarrow> bytes option) \<Rightarrow> bool" where
  "client_data_json_tests rt decode \<longleftrightarrow>
     test_reconstruct_client_data_json rt decode \<and>
     test_reconstruct_client_data_json_with_extra_field rt decode \<and>
     test_reconstruct_client_data_json_with_port rt decode \<and>
     test_reconstruct_client_data_json_without_cross_origin rt decode"

section \<open>Authenticator data\<close>

text \<open>The two active tests have the same body.\<close>

definition test_auth_data_parsing_get :: "(bytes \<Rightarrow> bytes option) \<Rightarrow> (bytes \<Rightarrow> bytes) \<Rightarrow> bool" where
  "test_auth_data_parsing_get decode sha256 \<longleftrightarrow>
     decodes decode ''PpZrl-Wqt-OFfBpyy2SraN1m7LT0GZORwGA7-6ujYkMFAAAAAA'' (\<lambda>bs.
       let parser = auth_data_parser_new bs;
           expected_rp_id_hash = sha256 (ascii ''www.passkeys-debugger.io'')
       in unwraps (AuthenticatorData.get_counter parser) (\<lambda>c. c = 0) \<and>
          unwraps (auth_rp_id_hash parser) (\<lambda>h. h = expected_rp_id_hash) \<and>
          unwraps (is_user_present parser) (\<lambda>b. b) \<and> unwraps (is_user_verified parser) (\<lambda>b. b))"

definition test_auth_data_parsing_get_2 :: "(bytes \<Rightarrow> bytes option) \<Rightarrow> (bytes \<Rightarrow> bytes) \<Rightarrow> bool" where
  "test_auth_data_parsing_get_2 decode sha256 \<longleftrightarrow>
     decodes decode ''PpZrl-Wqt-OFfBpyy2SraN1m7LT0GZORwGA7-6ujYkMFAAAAAA'' (\<lambda>bs.
       let parser = auth_data_parser_new bs;
           expected_rp_id_hash = sha256 (ascii ''www.passkeys-debugger.io'')
       in unwraps (AuthenticatorData.get_counter parser) (\<lambda>c. c = 0) \<and>
          unwraps (auth_rp_id_hash parser) (\<lambda>h. h = expected_rp_id_hash) \<and>
          unwraps (is_user_present parser) (\<lambda>b. b) \<and> unwraps (is_user_verified parser) (\<lambda>b. b))"

text \<open>SHA-256 of the relying party's name, as FIPS 180-4 defines it.\<close>

definition debugger_hash :: bytes where
  "debugger_hash =
     [0x3e, 0x96, 0x6b, 0x97, 0xe5, 0xaa, 0xb7, 0xe3, 0x85, 0x7c, 0x1a, 0x72, 0xcb, 0x64, 0xab, 0x68,
      0xdd, 0x66, 0xec, 0xb4, 0xf4, 0x19, 0x93, 0x91, 0xc0, 0x60, 0x3b, 0xfb, 0xab, 0xa3, 0x62, 0x43]"

lemma b64url_test_auth_data:
  "b64url (encode_auth_data debugger_hash True True 0 []) =
     ascii ''PpZrl-Wqt-OFfBpyy2SraN1m7LT0GZORwGA7-6ujYkMFAAAAAA''"
  by (simp add: encode_auth_data_def debugger_hash_def b64_eval short_le_bytes)

definition authenticator_data_tests :: "(bytes \<Rightarrow> bytes option) \<Rightarrow> (bytes \<Rightarrow> bytes) \<Rightarrow> bool" where
  "authenticator_data_tests decode sha256 \<longleftrightarrow>
     test_auth_data_parsing_get decode sha256 \<and> test_auth_data_parsing_get_2 decode sha256"

lemma authenticator_data_tests_pass:
  assumes "base64_crate rt decode" and "sha256 (ascii ''www.passkeys-debugger.io'') = debugger_hash"
  shows "authenticator_data_tests decode sha256"
proof -
  have "length debugger_hash = 32" by (simp add: debugger_hash_def)
  from auth_data_parsed [OF this refl, of True True 0 "[]"] assms(2) show ?thesis
    unfolding authenticator_data_tests_def test_auth_data_parsing_get_def test_auth_data_parsing_get_2_def
      decodes_iff [OF assms(1) b64url_test_auth_data]
    by simp
qed

section \<open>Initialization arguments\<close>

definition test_try_from_p256_raw_initialization_data :: "runtime \<Rightarrow> bool" where
  "test_try_from_p256_raw_initialization_data rt \<longleftrightarrow>
     converts L_u8 (ascii ''example.com'') (\<lambda>rp.
       let data = \<lparr>raw_rp_id = rp, raw_init_public_key = replicate 33 0,
                   raw_init_params = client_data_json_params_new Create False False False None\<rparr>
       in unwraps (p256_parse_initialization_data rt data) (\<lambda>_. True))"

definition test_try_from_p256_raw_initialization_data_with_quotes :: "runtime \<Rightarrow> bool" where
  "test_try_from_p256_raw_initialization_data_with_quotes rt \<longleftrightarrow>
     converts L_u8 (ascii ''example.com'' @ quote) (\<lambda>rp.
       let data = \<lparr>raw_rp_id = rp, raw_init_public_key = replicate 33 0,
                   raw_init_params = client_data_json_params_new Create False False False None\<rparr>;
           expected_error_code = error_code P256RelyingPartIncludeQuotes
       in case p256_parse_initialization_data rt data of
            Err (Custom code) \<Rightarrow> code = expected_error_code
          | _ \<Rightarrow> False)"

definition initialization_args_tests :: "runtime \<Rightarrow> bool" where
  "initialization_args_tests rt \<longleftrightarrow>
     test_try_from_p256_raw_initialization_data rt \<and> test_try_from_p256_raw_initialization_data_with_quotes rt"

lemma initialization_args_tests_pass: "initialization_args_tests rt"
proof -
  have "length (ascii ''example.com'') = 11" "0x22 \<notin> set (ascii ''example.com'')" by (simp_all add: ascii_def)
  then show ?thesis
    unfolding initialization_args_tests_def test_try_from_p256_raw_initialization_data_def
      test_try_from_p256_raw_initialization_data_with_quotes_def
    by (simp add: converts_def small_vec_try_from_def p256_parse_initialization_data_def ensure_def quote_def
        prog_err_def rp_id_information_new_def compressed_p256_public_key_new_def
        Errors.slice_def index_def)
qed

section \<open>Properties\<close>

text \<open>
  The repository's unit tests hold of the model: all thirty-four tests of \<open>nonce.rs\<close>,
  \<open>small_vec.rs\<close>, \<open>client_data_json.rs\<close>, \<open>authenticator_data.rs\<close> and \<open>initialization_args.rs\<close> pass, with
  borsh's format, RFC 4648's base64url and the value of SHA-256 on the one name the tests hash.
\<close>

theorem unit_tests_pass:
  assumes "borsh_format B" and "borsh_u32 read_u32 write_u32" and "base64_crate rt decode"
    and "sha256 (ascii ''www.passkeys-debugger.io'') = debugger_hash"
    and "length k1 = 32" and "length k2 = 32"
  shows "nonce_tests rt \<and> small_vec_tests B read_u32 write_u32 k1 k2 \<and> client_data_json_tests rt decode \<and>
    authenticator_data_tests decode sha256 \<and> initialization_args_tests rt"
  using nonce_tests_pass small_vec_tests_pass [OF assms(1,2,5,6)] client_data_json_tests_pass [OF assms(3)]
    authenticator_data_tests_pass [of rt decode sha256, OF assms(3,4)] initialization_args_tests_pass
  by (simp add: client_data_json_tests_def)

text \<open>A decoder for the witness: RFC 4648's, from the positions of the characters in the alphabet.\<close>

definition b64_value :: "u8 \<Rightarrow> nat" where
  "b64_value c = length (takeWhile (\<lambda>x. x \<noteq> c) b64_alphabet)"

definition byte_1 :: "nat \<Rightarrow> nat \<Rightarrow> u8" where "byte_1 a b = of_nat (a * 4 + b div 16)"
definition byte_2 :: "nat \<Rightarrow> nat \<Rightarrow> u8" where "byte_2 b c = of_nat (b mod 16 * 16 + c div 4)"
definition byte_3 :: "nat \<Rightarrow> nat \<Rightarrow> u8" where "byte_3 c d = of_nat (c mod 4 * 64 + d)"

fun b64url_decode :: "bytes \<Rightarrow> bytes option" where
  "b64url_decode [] = Some []"
| "b64url_decode [a] = None"
| "b64url_decode [a, b] = Some [byte_1 (b64_value a) (b64_value b)]"
| "b64url_decode [a, b, c] = Some [byte_1 (b64_value a) (b64_value b), byte_2 (b64_value b) (b64_value c)]"
| "b64url_decode (a # b # c # d # r) =
     map_option ((@) [byte_1 (b64_value a) (b64_value b), byte_2 (b64_value b) (b64_value c),
       byte_3 (b64_value c) (b64_value d)]) (b64url_decode r)"

lemma b64_value_char: "n < 64 \<Longrightarrow> b64_value (b64_char n) = n"
proof -
  assume n: "n < 64"
  then have "takeWhile (\<lambda>x. x \<noteq> b64_alphabet ! n) b64_alphabet = take n b64_alphabet"
    using b64_alphabet_distinct b64_alphabet_length
    by (intro takeWhile_eq_take_P_nth) (simp_all add: nth_eq_iff_index_eq)
  with n show ?thesis by (simp add: b64_value_def b64_char_def b64_alphabet_length)
qed

lemma byte_parts:
  "byte_1 (unat a div 4) (unat a mod 4 * 16) = a" "byte_1 (unat a div 4) (unat a mod 4 * 16 + unat (b :: u8) div 16) = a"
  "byte_2 (unat a mod 4 * 16 + unat b div 16) (unat b mod 16 * 4) = b"
  "byte_2 (unat a mod 4 * 16 + unat b div 16) (unat b mod 16 * 4 + unat (c :: u8) div 64) = b"
  "byte_3 (unat b mod 16 * 4 + unat c div 64) (unat c mod 64) = c"
proof -
  have bounds: "unat b div 16 < 16" "unat c div 64 < 4"
    using unat_lt_256 [of b] unat_lt_256 [of c] by linarith+
  have "unat a div 4 * 4 + unat a mod 4 * 16 div 16 = unat a"
    "unat a div 4 * 4 + (unat a mod 4 * 16 + unat b div 16) div 16 = unat a"
    "(unat a mod 4 * 16 + unat b div 16) mod 16 * 16 + unat b mod 16 * 4 div 4 = unat b"
    "(unat a mod 4 * 16 + unat b div 16) mod 16 * 16 + (unat b mod 16 * 4 + unat c div 64) div 4 = unat b"
    "(unat b mod 16 * 4 + unat c div 64) mod 4 * 64 + unat c mod 64 = unat c"
    using bounds by simp_all
  then show "byte_1 (unat a div 4) (unat a mod 4 * 16) = a"
    "byte_1 (unat a div 4) (unat a mod 4 * 16 + unat b div 16) = a"
    "byte_2 (unat a mod 4 * 16 + unat b div 16) (unat b mod 16 * 4) = b"
    "byte_2 (unat a mod 4 * 16 + unat b div 16) (unat b mod 16 * 4 + unat c div 64) = b"
    "byte_3 (unat b mod 16 * 4 + unat c div 64) (unat c mod 64) = c"
    unfolding byte_1_def byte_2_def byte_3_def by simp_all
qed

lemma b64url_decode_inverse: "b64url_decode (b64url bs) = Some bs"
  by (induction bs rule: b64url.induct) (simp_all add: b64_value_char sextet_bounds byte_parts)

theorem unit_tests_pass_witness:
  "nonce_tests sample_runtime \<and> client_data_json_tests sample_runtime b64url_decode"
proof -
  have base64: "base64_crate sample_runtime b64url_decode"
    by (simp add: base64_crate_def b64url_decode_inverse) (simp add: sample_runtime_def)
  have u32: "borsh_u32 (\<lambda>bs. if length bs < 4 then None else Some (of_nat (le_nat (take 4 bs)), drop 4 bs))
      (\<lambda>x. Some (le_bytes 4 (unat x)))"
    by (simp add: borsh_u32_def)
  from unit_tests_pass [OF ref.borsh_format_axioms u32 base64, where ?sha256.0 = "\<lambda>_. debugger_hash" and
      ?k1.0 = "replicate 32 1" and ?k2.0 = "replicate 32 2"]
  show ?thesis by simp
qed

end
