(* ===== verification/ErrorCodes.thy ===== *)
theory ErrorCodes
  imports Errors
begin

text \<open>
  The error type of \<open>errors.rs\<close> as an enumeration: \<open>#[repr(u32)]\<close> numbers the variants in their order,
  and the derived \<open>TryFromPrimitive\<close> reads a number back.  The type is an instance of the library's
  classes \<open>enum\<close> and \<open>linorder\<close>.
\<close>

instantiation external_signature_program_error :: enum
begin

definition enum_external_signature_program_error :: "external_signature_program_error list" where
  "enum_external_signature_program_error =
     [InvalidSlothashIndex, InvalidTruncatedSlot, ExpiredSlothash, MissingNonceSignature,
      CPINotAllowed, InvalidInstructionSysvarAccount, InvalidPrecompileId,
      InvalidNumPrecompileSignatures, InvalidSignatureIndex, InvalidSignatureOffset,
      ErrorInitializingHeader, ErrorDeserializingHeader, ErrorInitializingAccountData,
      ErrorDeserializingAccountData, InvalidExtraVerificationDataArgs, InvalidExecutionArgs,
      SessionSignerNotASigner, InvalidSessionKey, SessionKeyExpired, InvalidSessionKeyExpiration,
      InvalidSignatureScheme, InvalidSignerExecutionScheme, SignerExecutionAccountNotASigner,
      P256RelyingPartTooLong, P256RelyingPartIncludeQuotes, P256RelyingPartyMismatch,
      P256ClientDataHashMismatch, P256AccountNotWritable, P256InvalidAlgorithm,
      P256InvalidPublicKeyEncoding, P256PublicKeyMismatch, P256UserNotVerified, P256UserNotPresent]"

definition enum_all_external_signature_program_error :: "(external_signature_program_error \<Rightarrow> bool) \<Rightarrow> bool" where
  "enum_all_external_signature_program_error P \<longleftrightarrow> (\<forall>e \<in> set enum_class.enum. P e)"

definition enum_ex_external_signature_program_error :: "(external_signature_program_error \<Rightarrow> bool) \<Rightarrow> bool" where
  "enum_ex_external_signature_program_error P \<longleftrightarrow> (\<exists>e \<in> set enum_class.enum. P e)"

instance
proof
  show univ: "(UNIV :: external_signature_program_error set) = set enum_class.enum"
  proof (intro set_eqI iffI)
    show "e \<in> set enum_class.enum" for e :: external_signature_program_error
      by (cases e) (simp_all add: enum_external_signature_program_error_def)
  qed simp
  show "distinct (enum_class.enum :: external_signature_program_error list)"
    by (simp add: enum_external_signature_program_error_def)
  show "enum_class.enum_all P \<longleftrightarrow> Ball UNIV P" "enum_class.enum_ex P \<longleftrightarrow> Bex UNIV P"
    for P :: "external_signature_program_error \<Rightarrow> bool"
    by (simp_all only: enum_all_external_signature_program_error_def enum_ex_external_signature_program_error_def univ)
qed

end

text \<open>The codes are the positions of the variants.\<close>

lemma map_error_code: "map error_code enum_class.enum = map of_nat [0 ..< 33]"
  by (simp add: enum_external_signature_program_error_def upt_rec)

instantiation external_signature_program_error :: linorder
begin

definition less_eq_external_signature_program_error ::
  "external_signature_program_error \<Rightarrow> external_signature_program_error \<Rightarrow> bool" where
  "less_eq_external_signature_program_error a b \<longleftrightarrow> error_code a \<le> error_code b"

definition less_external_signature_program_error ::
  "external_signature_program_error \<Rightarrow> external_signature_program_error \<Rightarrow> bool" where
  "less_external_signature_program_error a b \<longleftrightarrow> error_code a < error_code b"

instance
  by standard
     (auto simp: less_eq_external_signature_program_error_def less_external_signature_program_error_def
       intro: error_code_inj [THEN iffD1])

end

text \<open>The derived \<open>TryFromPrimitive\<close>: the variant with that number.\<close>

definition error_try_from :: "u32 \<Rightarrow> external_signature_program_error option" where
  "error_try_from n = find (\<lambda>e. error_code e = n) enum_class.enum"

text \<open>
  Error numbers and variants correspond: every variant is read back from its number, the numbers in
  use are 0 to 32, and the variants are sorted by them.
\<close>

theorem error_codes_round_trip:
  "error_try_from (error_code e) = Some e \<and> (error_try_from n = None \<longleftrightarrow> 33 \<le> n) \<and>
   sorted (enum_class.enum :: external_signature_program_error list)"
proof -
  have range: "error_code ` UNIV = set (map of_nat [0 ..< 33])"
    using arg_cong [OF map_error_code, of set] by (simp only: set_map enum_UNIV)
  have below: "(\<exists>e. error_code e = n) \<longleftrightarrow> n < 33" for n
  proof
    assume "\<exists>e. error_code e = n"
    then obtain k where "k < 33" "n = of_nat k" using range by fastforce
    then show "n < 33" by (simp add: word_less_nat_alt unat_of_nat)
  next
    assume "n < 33"
    then have "unat n \<in> set [0 ..< 33]" by (simp add: word_less_nat_alt)
    then have "n \<in> set (map of_nat [0 ..< 33])" unfolding set_map by (intro image_eqI [of _ _ "unat n"]) simp_all
    then show "\<exists>e. error_code e = n" unfolding range [symmetric] by auto
  qed
  have "error_try_from (error_code e) = Some e"
  proof (cases "error_try_from (error_code e)")
    case None
    then show ?thesis by (auto simp: error_try_from_def find_None_iff enum_UNIV)
  next
    case (Some e')
    then have "error_code e' = error_code e" by (auto simp: error_try_from_def find_Some_iff)
    with Some show ?thesis by (simp add: error_code_inj)
  qed
  moreover have "error_try_from n = None \<longleftrightarrow> 33 \<le> n"
    using below [of n] by (auto simp: error_try_from_def find_None_iff enum_UNIV not_less)
  moreover have "sorted (enum_class.enum :: external_signature_program_error list)"
    by (simp add: enum_external_signature_program_error_def less_eq_external_signature_program_error_def)
  ultimately show ?thesis by blast
qed

end
