(* ===== verification/Allocator.thy ===== *)
theory Allocator
  imports Prelude
begin

text \<open>
  \<open>src/allocator.rs\<close>: the global bump allocator.  Its whole state is the position it keeps in the
  first word of the heap, 0 before the first allocation; memory is handed out upwards and never
  freed.  Addresses and sizes are 64-bit words, in the wrapping arithmetic of a release build.
\<close>

definition HEAP_START_ADDRESS :: u64 where
  "HEAP_START_ADDRESS = 0x300000000"

definition HEAP_LENGTH :: u64 where
  "HEAP_LENGTH = 8 * 32 * 1024"

definition TOP_ADDRESS :: u64 where
  "TOP_ADDRESS = HEAP_START_ADDRESS + HEAP_LENGTH"

definition BOTTOM_ADDRESS :: u64 where
  "BOTTOM_ADDRESS = HEAP_START_ADDRESS + 8"

record layout =
  layout_size :: u64
  layout_align :: u64

definition align_up :: "u64 \<Rightarrow> u64 \<Rightarrow> u64" where
  "align_up pos al = (pos + al - 1) AND NOT (al - 1)"

text \<open>\<open>alloc\<close>: the pointer (0 is null) and the new position.\<close>

definition alloc :: "layout \<Rightarrow> u64 \<Rightarrow> u64 \<times> u64" where
  "alloc layout stored =
     (let pos = (if stored = 0 then BOTTOM_ADDRESS else stored);
          pos = align_up pos (layout_align layout);
          next_pos = saturating_add pos (layout_size layout)
      in if TOP_ADDRESS < next_pos then (0, stored) else (pos, next_pos))"

definition dealloc :: "u64 \<Rightarrow> layout \<Rightarrow> u64 \<Rightarrow> u64" where
  "dealloc p layout stored = stored"

section \<open>Rounding up\<close>

text \<open>A layout's alignment is a power of two (\<open>std::alloc::Layout\<close> guarantees it).\<close>

definition layout_wf :: "layout \<Rightarrow> bool" where
  "layout_wf l \<longleftrightarrow> (\<exists>k < 64. layout_align l = 2 ^ k)"

lemma and_not_mask: "(w :: u64) AND NOT (mask k) = w - take_bit k w"
proof -
  have "w - (w AND mask k) = w AND NOT (w AND mask k)"
    by (rule disjunctive_diff_eq_and_not) (rule bit_eqI, simp add: bit_simps)
  also have "\<dots> = w AND NOT (mask k)"
    by (rule bit_eqI) (auto simp: bit_simps)
  finally show ?thesis by (simp add: take_bit_eq_mask)
qed

lemma unat_power_u64:
  assumes "k < 64"
  shows "unat (2 ^ k :: u64) = 2 ^ k"
proof -
  have "(2 :: nat) ^ k < 2 ^ 64" by (rule power_strict_increasing) (use assms in simp_all)
  then have "unat (of_nat (2 ^ k) :: u64) = 2 ^ k" by (simp only: unat_of_nat) simp
  then show ?thesis by simp
qed

lemma align_up_unat:
  assumes k: "k < 64" and small: "unat pos + 2 ^ k \<le> 2 ^ 64"
  shows "unat (align_up pos (2 ^ k)) = (unat pos + 2 ^ k - 1) div 2 ^ k * 2 ^ k"
proof -
  have pk: "unat (2 ^ k :: u64) = 2 ^ k" using k by (rule unat_power_u64)
  let ?x = "pos + 2 ^ k - 1"
  have mask: "(2 ^ k :: u64) - 1 = mask k" by (simp add: mask_eq_exp_minus_1)
  have x: "unat ?x = unat pos + 2 ^ k - 1"
  proof -
    have e: "?x = pos + (2 ^ k - 1)" by simp
    have add: "unat (pos + m) = unat pos + unat m" if "unat pos + unat m < 2 ^ 64" for m :: u64
      using that by (simp add: unat_word_ariths)
    have one: "1 \<le> (2 :: nat) ^ k" by simp
    have m: "unat (2 ^ k - 1 :: u64) = 2 ^ k - 1"
      using pk by (subst unat_sub) (auto simp: word_le_nat_alt)
    then have sum: "unat pos + unat (2 ^ k - 1 :: u64) < 2 ^ 64"
      using small one by linarith
    have "unat ?x = unat pos + (2 ^ k - 1)" by (simp only: e add [OF sum] m)
    with one show ?thesis by linarith
  qed
  have tb: "unat (take_bit k ?x) = unat ?x mod 2 ^ k"
    unfolding unsigned_take_bit_eq by (rule take_bit_eq_mod)
  have le: "take_bit k ?x \<le> ?x" unfolding word_le_nat_alt tb by (rule mod_less_eq_dividend)
  have "unat (align_up pos (2 ^ k)) = unat (?x - take_bit k ?x)"
    by (simp only: align_up_def mask and_not_mask)
  also have "\<dots> = unat ?x - unat ?x mod 2 ^ k"
    by (simp only: unat_sub [OF le] tb)
  also have "\<dots> = unat ?x div 2 ^ k * 2 ^ k"
    by (simp add: minus_mod_eq_div_mult)
  finally show ?thesis using x by simp
qed

lemma round_up_bounds:
  fixes n a :: nat
  assumes "0 < a"
  shows "n \<le> (n + a - 1) div a * a" "(n + a - 1) div a * a < n + a" "a dvd (n + a - 1) div a * a"
proof -
  have "(n + a - 1) div a * a + (n + a - 1) mod a = n + a - 1" by (rule div_mult_mod_eq)
  moreover have "(n + a - 1) mod a < a" using assms by simp
  ultimately show "n \<le> (n + a - 1) div a * a" "(n + a - 1) div a * a < n + a" using assms by linarith+
qed simp

lemma saturating_add_unat:
  "unat (saturating_add a b :: u64) = min (unat a + unat b) (2 ^ 64 - 1)"
proof (cases "unat a + unat b < 2 ^ 64")
  case True
  then show ?thesis by (simp add: saturating_add_def unat_word_ariths)
next
  case False
  have "unat (- 1 :: u64) = 2 ^ 64 - 1" by (simp add: unsigned_minus_1_eq_mask mask_eq_exp_minus_1)
  with False show ?thesis by (simp add: saturating_add_def)
qed

section \<open>Allocation\<close>

definition heap_inv :: "u64 \<Rightarrow> bool" where
  "heap_inv stored \<longleftrightarrow> stored = 0 \<or> (BOTTOM_ADDRESS \<le> stored \<and> stored \<le> TOP_ADDRESS)"

definition heap_pos :: "u64 \<Rightarrow> u64" where
  "heap_pos stored = (if stored = 0 then BOTTOM_ADDRESS else stored)"

lemma address_values: "unat BOTTOM_ADDRESS = 12884901896" "unat TOP_ADDRESS = 12885164032"
  by (simp_all add: BOTTOM_ADDRESS_def TOP_ADDRESS_def HEAP_START_ADDRESS_def HEAP_LENGTH_def)

lemma heap_pos_bounds:
  "heap_inv stored \<Longrightarrow> 12884901896 \<le> unat (heap_pos stored) \<and> unat (heap_pos stored) \<le> 12885164032"
  by (auto simp: heap_inv_def heap_pos_def word_le_nat_alt address_values)

text \<open>Where the nxt block would start, as a natural number.\<close>

definition block_start :: "layout \<Rightarrow> u64 \<Rightarrow> nat" where
  "block_start l stored =
     (unat (heap_pos stored) + unat (layout_align l) - 1) div unat (layout_align l) * unat (layout_align l)"

lemma alloc_cases:
  assumes wf: "layout_wf l" and heap: "heap_inv stored"
  shows "unat (heap_pos stored) \<le> block_start l stored \<and> unat (layout_align l) dvd block_start l stored \<and>
    (if block_start l stored + unat (layout_size l) \<le> unat TOP_ADDRESS
     then \<exists>p nxt. alloc l stored = (p, nxt) \<and> unat p = block_start l stored \<and>
            unat nxt = block_start l stored + unat (layout_size l)
     else alloc l stored = (0, stored))"
proof -
  obtain k where k: "k < 64" and al: "layout_align l = 2 ^ k" using wf by (auto simp: layout_wf_def)
  have ua: "unat (layout_align l) = 2 ^ k" using unat_power_u64 [OF k] al by simp
  have "(2 :: nat) ^ k \<le> 2 ^ 63" using k by (intro power_increasing) auto
  then have small: "unat (heap_pos stored) + 2 ^ k \<le> 2 ^ 64" using heap_pos_bounds [OF heap] by simp
  have start: "unat (align_up (heap_pos stored) (layout_align l)) = block_start l stored"
    using align_up_unat [OF k small] ua by (simp add: block_start_def al)
  let ?p = "align_up (heap_pos stored) (layout_align l)"
  let ?n = "saturating_add ?p (layout_size l)"
  have alloc: "alloc l stored = (if TOP_ADDRESS < ?n then (0, stored) else (?p, ?n))"
    by (simp add: alloc_def Let_def heap_pos_def)
  have n: "unat ?n = min (block_start l stored + unat (layout_size l)) (2 ^ 64 - 1)"
    using saturating_add_unat [of ?p "layout_size l"] start by simp
  have cmp: "TOP_ADDRESS < ?n \<longleftrightarrow> \<not> block_start l stored + unat (layout_size l) \<le> unat TOP_ADDRESS"
    by (auto simp: word_less_nat_alt n address_values)
  have bounds: "unat (heap_pos stored) \<le> block_start l stored" "unat (layout_align l) dvd block_start l stored"
    using round_up_bounds [of "2 ^ k" "unat (heap_pos stored)"] by (simp_all add: block_start_def ua)
  show ?thesis
  proof (cases "block_start l stored + unat (layout_size l) \<le> unat TOP_ADDRESS")
    case True
    then have "unat ?n = block_start l stored + unat (layout_size l)" using n by (simp add: address_values)
    with True bounds alloc cmp start show ?thesis by simp
  qed (use bounds alloc cmp in simp)
qed

text \<open>A program's allocations, in order: the blocks handed out (the failed ones left out).\<close>

fun alloc_all :: "layout list \<Rightarrow> u64 \<Rightarrow> (u64 \<times> layout) list \<times> u64" where
  "alloc_all [] stored = ([], stored)"
| "alloc_all (l # ls) stored =
     (let (p, stored) = alloc l stored; (blocks, stored) = alloc_all ls stored
      in (if p = 0 then blocks else (p, l) # blocks, stored))"

definition block_ok :: "u64 \<times> layout \<Rightarrow> bool" where
  "block_ok b \<longleftrightarrow> unat BOTTOM_ADDRESS \<le> unat (fst b) \<and>
     unat (fst b) + unat (layout_size (snd b)) \<le> unat TOP_ADDRESS \<and>
     unat (layout_align (snd b)) dvd unat (fst b)"

lemma alloc_all_ok:
  assumes "\<forall>l \<in> set ls. layout_wf l" and "heap_inv stored" and "alloc_all ls stored = (blocks, stored')"
  shows "heap_inv stored' \<and> (\<forall>b \<in> set blocks. block_ok b \<and> unat (heap_pos stored) \<le> unat (fst b)) \<and>
    sorted_wrt (\<lambda>a b. unat (fst a) + unat (layout_size (snd a)) \<le> unat (fst b)) blocks"
  using assms
proof (induction ls arbitrary: stored blocks)
  case (Cons l ls)
  obtain p nxt rest where a: "alloc l stored = (p, nxt)" and r: "alloc_all ls nxt = (rest, stored')"
    and b: "blocks = (if p = 0 then rest else (p, l) # rest)"
    using Cons.prems(3) by (auto simp: Let_def split: prod.splits)
  note step = alloc_cases [of l stored]
  have wf: "layout_wf l" "\<forall>l \<in> set ls. layout_wf l" using Cons.prems(1) by simp_all
  note low = heap_pos_bounds [OF Cons.prems(2)]
  show ?case
  proof (cases "block_start l stored + unat (layout_size l) \<le> unat TOP_ADDRESS")
    case True
    then have p: "unat p = block_start l stored" "unat nxt = block_start l stored + unat (layout_size l)"
      "unat (heap_pos stored) \<le> block_start l stored" "unat (layout_align l) dvd block_start l stored"
      using step wf(1) Cons.prems(2) a by auto
    have nz: "p \<noteq> 0" "nxt \<noteq> 0" using p low by auto
    have inv: "heap_inv nxt" "heap_pos nxt = nxt"
      using p low True nz by (auto simp: heap_inv_def heap_pos_def word_le_nat_alt address_values)
    from Cons.IH [OF wf(2) inv(1) r] p inv(2) True low nz b show ?thesis
      by (auto simp: block_ok_def address_values)
  next
    case False
    then have "p = 0" "nxt = stored" using step wf(1) Cons.prems(2) a by auto
    with Cons.IH [OF wf(2) _ r] Cons.prems(2) b show ?thesis by simp
  qed
qed simp

text \<open>How much heap a list of layouts can take at most, and that it takes no more.\<close>

definition demand :: "layout list \<Rightarrow> nat" where
  "demand ls = (\<Sum>l\<leftarrow>ls. unat (layout_size l) + (unat (layout_align l) - 1))"

lemma alloc_all_fits:
  assumes "\<forall>l \<in> set ls. layout_wf l" and "heap_inv stored" and "alloc_all ls stored = (blocks, stored')"
    and "unat (heap_pos stored) + demand ls \<le> unat TOP_ADDRESS"
  shows "map snd blocks = ls \<and>
    (\<forall>b \<in> set blocks. unat (fst b) + unat (layout_size (snd b)) \<le> unat (heap_pos stored) + demand ls)"
  using assms
proof (induction ls arbitrary: stored blocks)
  case (Cons l ls)
  obtain p nxt rest where a: "alloc l stored = (p, nxt)" and r: "alloc_all ls nxt = (rest, stored')"
    and b: "blocks = (if p = 0 then rest else (p, l) # rest)"
    using Cons.prems(3) by (auto simp: Let_def split: prod.splits)
  have wf: "layout_wf l" "\<forall>l \<in> set ls. layout_wf l" using Cons.prems(1) by simp_all
  then obtain k where "k < 64" "layout_align l = 2 ^ k" by (auto simp: layout_wf_def)
  then have "0 < unat (layout_align l)" by (simp add: unat_power_u64)
  from round_up_bounds(2) [OF this, of "unat (heap_pos stored)"]
  have room: "block_start l stored + unat (layout_size l) + demand ls \<le> unat (heap_pos stored) + demand (l # ls)"
    unfolding block_start_def demand_def by simp
  note low = heap_pos_bounds [OF Cons.prems(2)]
  have p: "unat p = block_start l stored" "unat nxt = block_start l stored + unat (layout_size l)"
    "unat (heap_pos stored) \<le> block_start l stored"
    using alloc_cases [OF wf(1) Cons.prems(2)] a room Cons.prems(4) by auto
  have nz: "p \<noteq> 0" "nxt \<noteq> 0" using p low by auto
  have inv: "heap_inv nxt" "heap_pos nxt = nxt"
    using p low room Cons.prems(4) nz by (auto simp: heap_inv_def heap_pos_def word_le_nat_alt address_values)
  have "unat (heap_pos nxt) + demand ls \<le> unat TOP_ADDRESS" using inv(2) p(2) room Cons.prems(4) by simp
  from Cons.IH [OF wf(2) inv(1) r this] inv(2) p(1,2) room nz b show ?case by (fastforce intro: order_trans)
qed simp

text \<open>
  C37. Whatever the program allocates, every block it gets is aligned and inside the heap, above
  the word that holds the position, and no two blocks overlap.  As the file's head comment
  promises, a program that stays within the default heap needs no larger one: when the sizes with
  their paddings and the position's word take at most 32 KiB, nothing fails and every block ends in
  the first 32 KiB.
\<close>

theorem allocations_disjoint:
  assumes "\<forall>l \<in> set ls. layout_wf l" and "alloc_all ls 0 = (blocks, stored)"
  shows "(\<forall>b \<in> set blocks. unat HEAP_START_ADDRESS + 8 \<le> unat (fst b) \<and>
      unat (fst b) + unat (layout_size (snd b)) \<le> unat HEAP_START_ADDRESS + unat HEAP_LENGTH \<and>
      unat (layout_align (snd b)) dvd unat (fst b)) \<and>
    sorted_wrt (\<lambda>a b. unat (fst a) + unat (layout_size (snd a)) \<le> unat (fst b)) blocks \<and>
    (8 + demand ls \<le> 32768 \<longrightarrow> map snd blocks = ls \<and>
      (\<forall>b \<in> set blocks. unat (fst b) + unat (layout_size (snd b)) \<le> unat HEAP_START_ADDRESS + 32768))"
proof -
  have inv: "heap_inv 0" by (simp add: heap_inv_def)
  have pos: "unat (heap_pos 0) = 12884901896" by (simp add: heap_pos_def address_values)
  show ?thesis
    using alloc_all_ok [OF assms(1) inv assms(2)] alloc_all_fits [OF assms(1) inv assms(2)]
    by (fastforce simp: block_ok_def address_values HEAP_START_ADDRESS_def HEAP_LENGTH_def pos)
qed

theorem allocations_disjoint_witness:
  "alloc_all [\<lparr>layout_size = 5, layout_align = 1\<rparr>, \<lparr>layout_size = 16, layout_align = 8\<rparr>] 0 =
     ([(0x300000008 :: u64, \<lparr>layout_size = 5, layout_align = 1\<rparr>), (0x300000010, \<lparr>layout_size = 16, layout_align = 8\<rparr>)],
      0x300000020) \<and>
   sorted_wrt (\<lambda>a b. unat (fst a) + unat (layout_size (snd a)) \<le> unat (fst b))
     [(0x300000008 :: u64, \<lparr>layout_size = 5, layout_align = 1\<rparr>), (0x300000010, \<lparr>layout_size = 16, layout_align = 8\<rparr>)] \<and>
   unat (0x300000010 :: u64) + unat (layout_size \<lparr>layout_size = 16, layout_align = 8\<rparr>) \<le> unat HEAP_START_ADDRESS + 32768"
proof -
  have run: "alloc_all [\<lparr>layout_size = 5, layout_align = 1\<rparr>, \<lparr>layout_size = 16, layout_align = 8\<rparr>] 0 =
     ([(0x300000008 :: u64, \<lparr>layout_size = 5, layout_align = 1\<rparr>), (0x300000010, \<lparr>layout_size = 16, layout_align = 8\<rparr>)],
      0x300000020)"
    by (simp add: alloc_def Let_def align_up_def saturating_add_def BOTTOM_ADDRESS_def TOP_ADDRESS_def
        HEAP_START_ADDRESS_def HEAP_LENGTH_def)
  have "layout_wf \<lparr>layout_size = 5, layout_align = 1\<rparr>" "layout_wf \<lparr>layout_size = 16, layout_align = 8\<rparr>"
    unfolding layout_wf_def by (rule exI [of _ 0], simp, rule exI [of _ 3], simp)
  moreover have "8 + demand [\<lparr>layout_size = 5, layout_align = 1\<rparr>, \<lparr>layout_size = 16, layout_align = 8\<rparr>] \<le> 32768"
    by (simp add: demand_def)
  ultimately show ?thesis
    using run allocations_disjoint [OF _ run] by simp
qed

text \<open>
  An allocation fails only when the block does not fit between the rounded-up position and
  the end of the heap, and a failure leaves the heap as it was.
\<close>

theorem alloc_complete:
  assumes "layout_wf l" and "heap_inv stored"
  shows "(fst (alloc l stored) = 0 \<longleftrightarrow> unat TOP_ADDRESS < block_start l stored + unat (layout_size l)) \<and>
    (fst (alloc l stored) = 0 \<longrightarrow> snd (alloc l stored) = stored)"
proof -
  have "0 < block_start l stored"
    using alloc_cases [OF assms] heap_pos_bounds [OF assms(2)] by linarith
  then show ?thesis using alloc_cases [OF assms] by (auto simp: not_le split: if_splits)
qed

theorem alloc_complete_witness:
  "fst (alloc \<lparr>layout_size = 262136, layout_align = 1\<rparr> 0) \<noteq> 0 \<and>
   fst (alloc \<lparr>layout_size = 262137, layout_align = 1\<rparr> 0) = 0"
proof -
  have wf: "layout_wf \<lparr>layout_size = n, layout_align = 1\<rparr>" for n
    unfolding layout_wf_def by (rule exI [of _ 0]) simp
  have "heap_inv 0" by (simp add: heap_inv_def)
  note c = alloc_complete [OF wf this]
  have b: "block_start \<lparr>layout_size = n, layout_align = 1\<rparr> 0 = 12884901896" for n
    by (simp add: block_start_def heap_pos_def address_values)
  show ?thesis using c [of 262136] c [of 262137] by (simp add: b address_values)
qed

end
