(* ===== verification/Spec2Isabelle.thy ===== *)
theory Spec2Isabelle
  imports SampleWallet SampleCompleteness SampleBounds SdkTests UnitTests ErrorCodes Allocator
begin

text \<open>
  A model of the external signature program, a Solana program whose accounts are controlled by
  WebAuthn passkeys, and of the Rust SDK that builds its instructions, with the theorems that make
  them correct.  The sources are the Rust files below \<open>src/\<close> (the program) and
  \<open>sdks/rust-sdk/src/\<close> (the SDK).

  \<^bold>\<open>The program.\<close>  A passkey account lives at an address derived from a compressed P-256 key.  It
  stores the key, the relying party's id, a signature counter and a session key.  Four instructions
  act on it: \<open>initialize_external_account\<close> creates it, \<open>execute_instructions\<close> runs inner
  instructions with the account's authority under a passkey signature, \<open>refresh_session_key\<close>
  installs a session key under a passkey signature, and \<open>execute_instructions_sessioned\<close> runs
  inner instructions under the session key.  A passkey signature is checked by the secp256r1
  precompile of the same transaction; the program reads the precompile's instruction through the
  instructions sysvar, rebuilds the clientDataJSON from a few parameters and compares its hash with
  the signed one.  The challenge in it is the hash of a payload that names everything the
  instruction does and a nonce: a recent slot hash together with a transaction signer.

  \<^bold>\<open>Foundations.\<close>
  \<^item> \<open>Prelude\<close>: bytes, machine words, endian conversions, checked arithmetic, list lemmas, and the
    collections \<open>layout_simps\<close>, \<open>codec_simps\<close> and \<open>result_simps\<close>.
  \<^item> \<open>Errors\<close> (\<open>errors.rs\<close>): the error type and its codes; a computation is \<open>Ok\<close>, \<open>Err\<close> or
    \<open>Panic\<close>, with the combinators of the sources (\<open>?\<close>, \<open>ok_or\<close>, \<open>unwrap\<close>, \<open>assert!\<close>).
  \<^item> \<open>Borsh\<close>: the borsh crate as a parameter, the locale \<open>borsh_format\<close> (what the crate's format
    promises) and the locale \<open>codec\<close> (both directions of a round trip).
  \<^item> \<open>Runtime\<close> (\<open>lib.rs\<close>, \<open>utils/sha256.rs\<close>, \<open>stack_height.rs\<close>, \<open>checks.rs\<close>): accounts as a store
    from addresses to accounts, and everything outside the repository as the record \<open>runtime\<close>.
  \<^item> \<open>Pod\<close>: the locale \<open>pod\<close> of fixed-size structs that are views of bytes.
  \<^item> \<open>Simulation\<close>: runs in time, invariants and forward simulation, as locales.

  \<^bold>\<open>Components of the program.\<close>
  \<^item> \<open>SmallVec\<close> (\<open>utils/small_vec.rs\<close>), \<open>SlotHashes\<close> (\<open>utils/slothashes.rs\<close>),
    \<open>Nonce\<close> (\<open>utils/nonce.rs\<close>), \<open>Precompiles\<close> (\<open>utils/precompiles.rs\<close>),
    \<open>AuthenticatorData\<close> and \<open>ClientDataJson\<close> (\<open>utils/signatures/p256_webauthn/\<close>),
    \<open>Allocator\<close> (\<open>allocator.rs\<close>).
  \<^item> \<open>Schemes\<close> (\<open>schemes.rs\<close>, \<open>session_key.rs\<close>, \<open>execution_account.rs\<close>), \<open>AccountLayout\<close>
    (\<open>p256_webauthn/account_data.rs\<close> and the account header), \<open>ExternallySigned\<close>
    (\<open>externally_signed_account/account.rs\<close> and \<open>traits.rs\<close>; the trait is the record \<open>esa_trait\<close>,
    its contract the locale \<open>scheme_contract\<close>), \<open>P256Webauthn\<close> (\<open>state/p256_webauthn/\<close>; its
    implementation of the trait is \<open>p256_trait\<close>, which interprets the contract).
  \<^item> \<open>CompiledInstructions\<close> (\<open>utils/instructions.rs\<close> and the invocation loop), \<open>ExecuteInstructions\<close>,
    \<open>SessionedExecution\<close>, \<open>RefreshSessionKey\<close>, \<open>InitializeExternalAccount\<close>
    (\<open>instructions/\<close>, one theory per handler) and \<open>Entrypoint\<close> (\<open>entrypoint.rs\<close>).
  \<^item> \<open>Protocol\<close>: the program as a state machine over the store, next to other programs that keep
    to the runtime's ownership rule.
  \<^item> \<open>Wallet\<close>: the abstract specification, a registry of wallets and a log of calls, and the
    refinement of it by the state machine.
  \<^item> \<open>ErrorCodes\<close> (\<open>errors.rs\<close>): the error type as an enumeration, ordered by its codes, and the
    derived conversion from a code.
  \<^item> \<open>Completeness\<close>: the converse of the handlers' theorems, what makes each of them succeed, and
    every outcome of the verification.  \<open>AccountTyping\<close>: the account struct as a type of the
    store, an invariant of every step.
    \<open>Bounds\<close>: the search loop round by round, and the number and size of the inner calls.
  \<^item> \<open>NonceTests\<close> and \<open>UnitTests\<close>: the unit tests of the crate, one definition per test.

  \<^bold>\<open>The SDK.\<close>  \<open>Sdk\<close> (\<open>error.rs\<close>, \<open>types.rs\<close>, \<open>pda.rs\<close>; the client libraries are the record
  \<open>sdk_lib\<close>), \<open>SdkPrecompile\<close> (\<open>instructions/precompile.rs\<close>), \<open>SdkInstructions\<close> (the builders),
  \<open>SdkRuns\<close> and \<open>SdkCompleteness\<close>, the SDK and the program together (what an accepted
  transaction did, and which transactions are accepted), \<open>SdkOutcomes\<close> (every outcome of the
  builders) and \<open>SdkTests\<close> (the SDK's unit tests and \<open>examples/basic_usage.rs\<close>).

  \<^bold>\<open>Samples.\<close>  \<open>Sample\<close>, \<open>SampleTransactions\<close>, \<open>SampleRuns\<close>, \<open>SampleWallet\<close>, \<open>SampleBounds\<close>,
  \<open>SdkSample\<close>, \<open>SdkSampleRuns\<close> and \<open>SampleCompleteness\<close> give a concrete runtime, concrete client libraries and concrete transactions.
  Every theorem with hypotheses is applied there to a run where they hold.
\<close>

text \<open>
  \<^bold>\<open>How the code is translated.\<close>  A handler is a function from the accounts passed, the
  instruction data and the \<open>world\<close> (the store and the log of inner calls) to a result; an
  \<open>AccountInfo\<close> is an address.  Every early return is \<open>Err\<close>, every \<open>unwrap\<close>, \<open>assert!\<close> and
  out-of-range index is \<open>Panic\<close>; on both the transaction has no effect.  Loops are structural
  recursions over the list or the index they run through, so everything terminates and no fuel is
  needed.  Integers have the width of the source and wrap where a release build wraps
  (\<open>refreshed_session_key\<close>); checked operations return an option.  Reads through raw pointers
  (\<open>get_data_slice_raw\<close>) may leave the buffer and then return whatever \<open>memory_beyond\<close> says.
  Derived serialisers are written out field by field.  The containers that the invocation loop
  reuses are arguments of the recursion, so that clearing them is visible.

  \<^bold>\<open>What the lemmas show.\<close>
  \<^item> Parsing: the fixed layouts and all argument encodings round trip, and an encoding is canonical.
  \<^item> The nonce search, which guesses an index and falls back to the newer entries, accepts exactly
    the entries less than 150 slots old that the truncated slot names, also when slots were skipped.
  \<^item> The precompile parser returns what the runtime verified, in bounds, for either alignment.
  \<^item> The clientDataJSON binds its challenge, so that one signed message stands for one payload.
  \<^item> Verification is sound (an accepted payload was signed, for this relying party, with the user
    present, and a counter that is not zero grew) and complete (a correct assertion is accepted).
  \<^item> Each handler: what a successful call checked, what it changed and what it left alone; and the
    refusals that matter (a second initialization, expirations, malformed ids).
  \<^item> Over all runs: identity and counters, addresses, no replay of a counted signature, the origin
    of session keys, and the refinement of the wallet specification, from which it follows that
    every inner call was authorised.
  \<^item> SDK and program: the same addresses, precompile instructions that the program reads back,
    compiled instructions that expand to the caller's, and accounts with the caller's data; and the
    converse, that a transaction the SDK builds over a correct WebAuthn ceremony succeeds on the
    program, for each of the four instructions.
  \<^item> Types, termination and bounds: along every run each account the program owns holds a well-formed
    struct, or only zeros and is then of no use; the search for a slot hash ends after at most 149 reads (its loop is run by
    \<open>while_option\<close>, so that its end is a result and not an assumption); one instruction makes at
    most 255 inner calls of bounded size.
  \<^item> The model agrees with the code where the authors tested it: all unit tests of both crates pass.

  \<^bold>\<open>Hypotheses.\<close>  They state documented behaviour of code that is not in the repository, and each
  is a definition: \<open>sha256_length\<close> and \<open>borrow_faithful\<close> (system calls), \<open>borsh_format\<close>,
  \<open>base64_url_laws\<close>, \<open>system_program_laws\<close>, \<open>secp256r1_verified\<close> and \<open>precompiles_verified\<close> (a
  transaction runs only if its precompile instructions verify), \<open>cpi_respects_owner\<close> and
  \<open>foreign_change\<close> (only the owner changes an account's data); \<open>chain_laws\<close> collects those of the
  state machine.  For the SDK: \<open>lib_matches\<close>, \<open>message_laws\<close>, \<open>message_shapes\<close>, \<open>precompile_layout\<close>,
  \<open>bignum_laws\<close> and \<open>order_law\<close>; for the tests: \<open>lib_available\<close>, \<open>borsh_u32\<close> and
  \<open>base64_crate\<close>.  Collisions of the hash function are never excluded by
  hypothesis: where one matters, the conclusion names the two colliding texts.

  \<^bold>\<open>What is not modelled.\<close>  The TypeScript SDK, the web application and the interface descriptions
  are in other languages; the integration tests run against a simulator with recorded
  fixtures.  Of the Rust
  code, the \<open>entrypoint!\<close> and \<open>panic\<close> macros expand to library code, compute budgets and the heap's
  exhaustion inside a handler are the runtime's, and the precompile parser is modelled for the
  secp256r1 precompile, the one the program uses; the other layouts appear as the conversions
  \<open>legacy_into_signature_offsets\<close>.  That a call into another program cannot re-enter this one is
  the runtime's rule, part of \<open>cpi_respects_owner\<close>.  Integer overflow of the program is modelled as in a
  release build without overflow checks; a subtraction of the SDK's header counts that would go
  below zero is modelled as an abort.
\<close>

end
